(* ===== verification/FB_Prelude.thy ===== *)
theory FB_Prelude
  imports Main "HOL-Library.Word"
begin

text \<open>
  Shared vocabulary of the development: bytes and byte buffers (with the checked
  reads that replace C++ pointer dereferences), little-endian integers, C strings
  and the \<open>printf\<close> conversions the samples use, and the contract of a fixed-width
  integer field as the locale \<open>le_field\<close>, interpreted on the 16, 32 and 64 bit
  readers.  Everything here models the C++ language and its standard library as
  the samples use them; the samples' own functions are in the other theories.
\<close>

unbundle bit_operations_syntax

named_theorems buf_simps \<open>evaluation of checked buffer reads\<close>

type_synonym byte = "8 word"


section \<open>Bytes, characters and C strings\<close>

lemma byte_less [simp]: "unat (b :: byte) < 256"
  using unsigned_less [of b] by simp

definition chars :: "byte list \<Rightarrow> string" where
  "chars bs = map (\<lambda>b. char_of (unat b)) bs"

definition bytes_of :: "string \<Rightarrow> byte list" where
  "bytes_of s = map (\<lambda>c. of_nat (of_char c)) s"

lemma length_chars [simp]: "length (chars bs) = length bs"
  by (simp add: chars_def)

lemma length_bytes_of [simp]: "length (bytes_of s) = length s"
  by (simp add: bytes_of_def)

lemma chars_append [simp]: "chars (a @ b) = chars a @ chars b"
  by (simp add: chars_def)

lemma bytes_of_append [simp]: "bytes_of (a @ b) = bytes_of a @ bytes_of b"
  by (simp add: bytes_of_def)

lemma chars_Nil [simp]: "chars [] = []" and bytes_of_Nil [simp]: "bytes_of [] = []"
  by (simp_all add: chars_def bytes_of_def)

lemma chars_bytes_of [simp]: "chars (bytes_of s) = s"
  by (induction s) (simp_all add: chars_def bytes_of_def unat_of_nat)

lemma bytes_of_chars [simp]: "bytes_of (chars bs) = bs"
proof (induction bs)
  case (Cons b bs)
  show ?case using Cons by (simp add: chars_def bytes_of_def)
qed simp

text \<open>
  A \<open>std::string\<close> may hold zero bytes; passing its \<open>c_str()\<close> to \<open>%s\<close> prints up to the
  first of them.
\<close>

definition c_str :: "string \<Rightarrow> string" where
  "c_str s = takeWhile (\<lambda>c. c \<noteq> CHR 0x00) s"

lemma c_str_length: "length (c_str s) \<le> length s"
  unfolding c_str_def by (rule length_takeWhile_le)

lemma c_str_id: "CHR 0x00 \<notin> set s \<Longrightarrow> c_str s = s"
  unfolding c_str_def by (auto simp: takeWhile_eq_all_conv)

lemma c_str_no_nul: "CHR 0x00 \<notin> set (c_str s)"
  unfolding c_str_def by (auto dest: set_takeWhileD)

lemma c_str_idem [simp]: "c_str (c_str s) = c_str s"
  by (rule c_str_id) (rule c_str_no_nul)

definition nl :: string where
  "nl = [CHR 0x0A]"


section \<open>The printf conversions\<close>

text \<open>\<open>%-Ns\<close> pads on the right, \<open>%Ns\<close> on the left; neither truncates.\<close>

definition ljust :: "nat \<Rightarrow> string \<Rightarrow> string" where
  "ljust n s = s @ replicate (n - length s) (CHR '' '')"

definition rjust :: "nat \<Rightarrow> string \<Rightarrow> string" where
  "rjust n s = replicate (n - length s) (CHR '' '') @ s"

definition zjust :: "nat \<Rightarrow> string \<Rightarrow> string" where
  "zjust n s = replicate (n - length s) (CHR ''0'') @ s"

lemma length_ljust [simp]: "length (ljust n s) = max n (length s)"
  by (simp add: ljust_def)

lemma length_rjust [simp]: "length (rjust n s) = max n (length s)"
  by (simp add: rjust_def)

lemma ljust_prefix: "take (length s) (ljust n s) = s"
  by (simp add: ljust_def)

definition digit_char :: "nat \<Rightarrow> char" where
  "digit_char d = (if d < 10 then char_of (48 + d) else char_of (87 + d))"

definition digit_char_upper :: "nat \<Rightarrow> char" where
  "digit_char_upper d = (if d < 10 then char_of (48 + d) else char_of (55 + d))"

fun digits_base :: "(nat \<Rightarrow> char) \<Rightarrow> nat \<Rightarrow> nat \<Rightarrow> string" where
  "digits_base dig b n =
     (if b < 2 \<or> n < b then [dig n] else digits_base dig b (n div b) @ [dig (n mod b)])"

declare digits_base.simps [simp del]

definition show_nat :: "nat \<Rightarrow> string" where
  "show_nat n = digits_base digit_char 10 n"

definition show_int :: "int \<Rightarrow> string" where
  "show_int i = (if i < 0 then CHR ''-'' # show_nat (nat (- i)) else show_nat (nat i))"

definition show_hex :: "nat \<Rightarrow> string" where
  "show_hex n = digits_base digit_char 16 n"

definition show_HEX :: "nat \<Rightarrow> string" where
  "show_HEX n = digits_base digit_char_upper 16 n"

text \<open>Reading a decimal back: the value the characters denote, used to state that the
  decimal conversion loses nothing.\<close>

definition char_digit :: "char \<Rightarrow> nat" where
  "char_digit c = of_char c - 48"

definition read_dec :: "string \<Rightarrow> nat" where
  "read_dec s = foldl (\<lambda>v c. 10 * v + char_digit c) 0 s"

text \<open>\<open>atol\<close> and \<open>atoi\<close> as \<open>strtol\<close>: blanks, a sign, digits; saturated at 64 bits, and \<open>atoi\<close>
  keeps the low 32 of them.\<close>

definition atol :: "string \<Rightarrow> int" where
  "atol s =
     (let t = dropWhile (\<lambda>c. c \<in> {CHR '' '', CHR 0x09, CHR 0x0A, CHR 0x0B, CHR 0x0C, CHR 0x0D}) s;
          neg = (t \<noteq> [] \<and> hd t = CHR ''-'');
          u = (if t \<noteq> [] \<and> hd t \<in> {CHR ''-'', CHR ''+''} then tl t else t);
          v = int (read_dec (takeWhile (\<lambda>c. of_char c \<in> {48 :: nat..57}) u))
      in if neg then max (- v) (- (2 ^ 63)) else min v (2 ^ 63 - 1))"

definition atoi :: "string \<Rightarrow> int" where
  "atoi s = sint (word_of_int (atol s) :: 32 word)"

lemma char_digit_digit_char: "d < 10 \<Longrightarrow> char_digit (digit_char d) = d"
  by (simp add: char_digit_def digit_char_def)

lemma read_dec_show_nat [simp]: "read_dec (show_nat n) = n"
proof (induction n rule: less_induct)
  case (less n)
  show ?case
  proof (cases "n < 10")
    case True
    then show ?thesis
      by (simp add: show_nat_def read_dec_def digits_base.simps [of _ _ n] char_digit_digit_char)
  next
    case False
    then have "read_dec (show_nat (n div 10)) = n div 10" by (intro less) simp
    moreover have "show_nat n = show_nat (n div 10) @ [digit_char (n mod 10)]"
      using False by (simp add: show_nat_def digits_base.simps [of _ _ n])
    ultimately show ?thesis
      by (simp add: read_dec_def char_digit_digit_char)
  qed
qed

lemma show_nat_inject [simp]: "show_nat m = show_nat n \<longleftrightarrow> m = n"
  by (metis read_dec_show_nat)

lemma digits_base_nonempty: "digits_base dig b n \<noteq> []"
  by (subst digits_base.simps) simp

lemma show_nat_nonempty [simp]: "show_nat n \<noteq> []"
  by (simp add: show_nat_def digits_base_nonempty)


section \<open>Checked reads of byte buffers\<close>

text \<open>
  Dereferencing a pointer outside its buffer is undefined behaviour: the reads
  return \<open>None\<close> there, and the operations that use them pass the failure on.
\<close>

definition rd :: "byte list \<Rightarrow> nat \<Rightarrow> byte option" where
  "rd b i = (if i < length b then Some (b ! i) else None)"

definition slice :: "byte list \<Rightarrow> nat \<Rightarrow> nat \<Rightarrow> byte list option" where
  "slice b i n = (if i + n \<le> length b then Some (take n (drop i b)) else None)"

lemma rd_append_right [buf_simps]: "rd (pre @ b) (length pre + i) = rd b i"
  by (simp add: rd_def nth_append)

lemma rd_append_hd [buf_simps]: "rd (pre @ x # b) (length pre) = Some x"
  by (simp add: rd_def nth_append)

lemma rd_Some_iff: "rd b i = Some x \<longleftrightarrow> i < length b \<and> b ! i = x"
  by (auto simp: rd_def)

lemma slice_append_right [buf_simps]: "slice (pre @ b) (length pre + i) n = slice b i n"
  by (simp add: slice_def)

lemma slice_append_hd [buf_simps]: "slice (pre @ xs @ b) (length pre) (length xs) = Some xs"
  by (simp add: slice_def)

lemma slice_length: "slice b i n = Some xs \<Longrightarrow> length xs = n"
  by (auto simp: slice_def split: if_splits)

text \<open>
  \<open>printf("%.*s", prec, p)\<close>: at most \<open>prec\<close> bytes, up to a zero byte; a negative precision
  counts as none.  Without a zero byte in reach, reading past the buffer is undefined.
\<close>

definition prec_str :: "byte list \<Rightarrow> nat \<Rightarrow> int \<Rightarrow> string option" where
  "prec_str buf p prec =
     (let s = (if prec < 0 then drop p buf else take (nat prec) (drop p buf)) in
      if 0 \<in> set s \<or> 0 \<le> prec \<and> p + nat prec \<le> length buf then Some (c_str (chars s)) else None)"

lemma prec_str_at:
  assumes "CHR 0x00 \<notin> set s" and "length pre = p"
  shows "prec_str (pre @ bytes_of s @ rest) p (int (length s)) = Some s"
  using assms by (auto simp: prec_str_def Let_def c_str_id)


section \<open>Little-endian integers\<close>

fun le_nat :: "byte list \<Rightarrow> nat" where
  "le_nat [] = 0"
| "le_nat (x # xs) = unat x + 256 * le_nat xs"

fun enc_le :: "nat \<Rightarrow> nat \<Rightarrow> byte list" where
  "enc_le 0 v = []"
| "enc_le (Suc n) v = of_nat v # enc_le n (v div 256)"

lemma length_enc_le [simp]: "length (enc_le n v) = n"
  by (induction n arbitrary: v) auto

lemma le_nat_enc_le: "le_nat (enc_le n v) = v mod 256 ^ n"
proof (induction n arbitrary: v)
  case (Suc n)
  have "v mod (256 * 256 ^ n) = 256 * (v div 256 mod 256 ^ n) + v mod 256"
    by (rule mod_mult2_eq)
  then show ?case by (simp add: Suc unat_of_nat)
qed simp

lemma le_nat_less: "le_nat bs < 256 ^ length bs"
proof (induction bs)
  case (Cons x bs)
  have "unat x < 256" and "Suc (le_nat bs) \<le> 256 ^ length bs"
    using Cons by simp_all
  then have "unat x + 256 * le_nat bs < 256 * 256 ^ length bs" by linarith
  then show ?case by simp
qed simp

lemma enc_le_le_nat [simp]: "enc_le (length bs) (le_nat bs) = bs"
proof (induction bs)
  case (Cons x bs)
  have "(256 :: byte) = 0" by simp
  then have "of_nat (unat x + 256 * le_nat bs) = x"
    by (simp only: of_nat_add of_nat_mult of_nat_numeral) simp
  moreover have "(unat x + 256 * le_nat bs) div 256 = le_nat bs"
    using byte_less [of x] by simp
  ultimately show ?case using Cons by simp
qed simp

text \<open>A 64-bit value below \<open>2 ^ 63\<close> is the same number read signed or unsigned.\<close>

lemma sint_small:
  fixes x :: "64 word"
  assumes "unat x < 2 ^ 63"
  shows "sint x = int (unat x)"
proof -
  have "int (unat x) < int (2 ^ 63)" using assms by (simp only: of_nat_less_iff)
  then have "uint x < 2 ^ 63" by simp
  moreover have "- (2 ^ 63) \<le> (0 :: int)" by simp
  then have "- (2 ^ 63) \<le> uint x" using uint_ge_0 by (rule order_trans)
  ultimately have "signed_take_bit 63 (uint x) = uint x" by (intro signed_take_bit_int_eq_self)
  moreover have "LENGTH(64) - Suc 0 = 63" by simp
  ultimately show ?thesis by (simp only: sint_uint) simp
qed

definition le_read :: "nat \<Rightarrow> byte list \<Rightarrow> nat \<Rightarrow> nat option" where
  "le_read n b i = map_option le_nat (slice b i n)"

lemma le_read_append_right [buf_simps]: "le_read n (pre @ b) (length pre + i) = le_read n b i"
  by (simp add: le_read_def slice_append_right)

lemma le_read_bounds: "le_read n b i = None \<longleftrightarrow> length b < i + n"
  by (auto simp: le_read_def slice_def)

text \<open>
  The contract of a fixed-width integer field: a reader at a byte offset and the
  byte image it inverts.  A structure is a concatenation of such images, so the
  facts proved here are what the header and message decoders rest on.
\<close>

locale le_field =
  fixes width :: nat
    and enc :: "'v \<Rightarrow> byte list"
    and dec :: "byte list \<Rightarrow> nat \<Rightarrow> 'v option"
  assumes enc_width: "length (enc v) = width"
    and dec_enc: "dec (enc v @ post) 0 = Some v"
    and dec_shift: "dec (pre @ b) (length pre + i) = dec b i"
    and dec_bounds: "dec b i = None \<longleftrightarrow> length b < i + width"
begin

lemma dec_at: "length pre = i \<Longrightarrow> dec (pre @ enc v @ post) i = Some v"
  using dec_shift [of pre "enc v @ post" 0] by (simp add: dec_enc)

lemma dec_array:
  assumes "k < length vs" and "length pre = i"
  shows "dec (pre @ concat (map enc vs) @ post) (i + k * width) = Some (vs ! k)"
proof -
  let ?a = "concat (map enc (take k vs))"
  have len: "length ?a = k * width"
  proof -
    have "\<And>xs. length (concat (map enc xs)) = length xs * width"
      by (induct_tac xs) (simp_all add: enc_width)
    then show ?thesis using assms(1) by simp
  qed
  have "vs = take k vs @ vs ! k # drop (Suc k) vs"
    using assms(1) by (simp add: id_take_nth_drop)
  then have "concat (map enc vs) = ?a @ enc (vs ! k) @ concat (map enc (drop (Suc k) vs))"
    by (metis concat.simps(2) concat_append list.simps(9) map_append)
  then have "pre @ concat (map enc vs) @ post =
      (pre @ ?a) @ enc (vs ! k) @ (concat (map enc (drop (Suc k) vs)) @ post)"
    by simp
  then show ?thesis using len assms(2) by (metis dec_at length_append)
qed

lemma dec_defined: "i + width \<le> length b \<Longrightarrow> \<exists>v. dec b i = Some v"
  using dec_bounds [of b i] by (cases "dec b i") auto

end

end
