(* ===== verification/Client_Runtime.thy ===== *)
theory Client_Runtime
  imports FB_Prelude
begin

text \<open>
  The machine the samples run on.  A program is one thread of a C++ program that
  talks to the Firebird client library through interface calls, prints, and reads
  its arguments and environment.  Neither the client library nor the server is part
  of the repository: they are the parameter \<open>fb\<close> of the model, one function that
  answers every interface call from a hidden server state of an arbitrary type
  \<open>'s\<close>.  The numeric values of the header constants are the parameter \<open>hdr\<close>.

  A program of type \<open>('s, 'a) prog\<close> maps the environment and a world to an outcome
  and the next world; \<open>None\<close> is a program that does not return.  Every interface
  call is recorded in the world's \<open>log\<close>, so that claims about what a sample asks of
  the server, and about the interfaces it acquires and gives back, are claims about
  the log.
\<close>


section \<open>Interface calls and their answers\<close>

text \<open>
  The constants the samples take from the Firebird headers, by name and by the header
  they come from.  Their numeric values are not in the repository: where a sample
  compares bytes with them, the value is looked up in the parameter \<open>header_values\<close>,
  which also holds the one plain C function the samples call on bytes,
  \<open>isc_portable_integer\<close>.
\<close>

datatype xpb_kind = DPB | SPB_ATTACH | SPB_START

datatype xpb_tag =
    isc_dpb_version1 | isc_dpb_user_name | isc_dpb_password | isc_dpb_lc_ctype
  | isc_dpb_page_size | isc_dpb_set_db_charset | isc_dpb_sql_role_name | isc_dpb_parallel_workers
  | isc_spb_user_name | isc_spb_password | isc_action_svc_backup | isc_action_svc_restore
  | isc_spb_dbname | isc_spb_bkp_file | isc_spb_verbose | isc_spb_options | isc_spb_res_replace
  | isc_action_svc_trace_start | isc_action_svc_trace_stop | isc_spb_trc_name | isc_spb_trc_cfg
  | isc_spb_trc_id

datatype tpb_item =
    isc_tpb_version3 | isc_tpb_concurrency | isc_tpb_wait | isc_tpb_nowait
  | isc_tpb_read_committed | isc_tpb_rec_version | isc_tpb_no_auto_undo

datatype info_item =
    isc_info_end | isc_info_truncated | isc_info_data_not_ready
  | isc_info_svc_line | isc_info_svc_timeout | isc_info_svc_server_version
  | isc_info_blob_num_segments | isc_info_blob_max_segment
  | isc_info_blob_total_length | isc_info_blob_type
  | isc_info_sql_stmt_select | isc_info_sql_stmt_insert | isc_info_sql_stmt_update
  | isc_info_sql_stmt_ddl

datatype sql_type =
    SQL_TEXT | SQL_VARYING | SQL_SHORT | SQL_LONG | SQL_INT64 | SQL_INT128 | SQL_DOUBLE
  | SQL_DEC16 | SQL_DEC34 | SQL_TIMESTAMP | SQL_TIMESTAMP_TZ | SQL_BOOLEAN | SQL_BLOB

datatype blr_op =
    blr_version5 | blr_begin | blr_message | blr_eoc | blr_concatenate | blr_field
  | blr_literal | blr_text2 | blr_short

text \<open>The tags of a status vector, and the error code a sample compares with.\<close>

datatype isc_arg =
    isc_arg_end | isc_arg_gds | isc_arg_string | isc_arg_cstring | isc_arg_number | isc_arg_warning
  | isc_bad_par_workers

record header_values =
  xpb_val :: "xpb_tag \<Rightarrow> nat"
  info_val :: "info_item \<Rightarrow> nat"
  sql_val :: "sql_type \<Rightarrow> nat"
  blr_val :: "blr_op \<Rightarrow> nat"
  arg_val :: "isc_arg \<Rightarrow> int"
  enum_val :: "string \<Rightarrow> nat"
  isc_portable_integer :: "byte list \<Rightarrow> int"

type_synonym status = "int list"

text \<open>
  One constructor per interface method (and per operating-system call) the samples
  use, grouped by interface; \<open>call\<close> adds the handle of the object it is called on.
\<close>

datatype master_call =
    GetStatus | GetDispatcher | GetXpbBuilder xpb_kind
  | FormatStatus nat status | DecodeTimeStampTz "byte list"

datatype xpb_call =
    InsertString xpb_tag string | InsertInt xpb_tag int | InsertConst xpb_tag xpb_tag
  | InsertTag xpb_tag | GetBuffer | XpbDispose

datatype prov_call =
    AttachDatabase string "byte list" | CreateDatabase string "byte list"
  | AttachServiceManager string "byte list" | ProvRelease

datatype att_call =
    Detach | AttRelease | DropDatabase | StartTransaction "tpb_item list"
  | Execute nat string | ExecuteStart string | Prepare nat string bool | OpenCursorSql nat string
  | CreateBlob nat | OpenBlob nat "byte list" | QueEvents "byte list"

datatype tra_call = Commit | CommitRetaining | Rollback | TraRelease

datatype stmt_call =
    GetInputMetadata | GetOutputMetadata | GetPlan bool | StmtType
  | StmtExecute nat "byte list" "nat option" | OpenCursor nat "nat option"
  | StmtFree | StmtRelease

datatype meta_call =
    GetCount | GetField nat | GetType nat | GetLength nat | GetScale nat
  | GetOffset nat | GetNullOffset nat | GetMessageLength | GetBuilder | MetaRelease

datatype builder_call =
    SetType nat sql_type | SetLength nat nat | SetCharSet nat nat
  | BuilderGetMetadata | BuilderRelease

datatype curs_call = FetchNext nat | CursGetMetadata | CursClose | CursRelease

datatype blob_call = PutSegment "byte list" | GetSegment nat | GetInfo "info_item list" nat | BlobClose

datatype svc_call = SvcQuery "info_item list" nat | SvcStart "byte list" | SvcDetach

datatype events_call = EvRelease | EvCancel

text \<open>
  System calls and the plain C functions of the client library.  \<open>EventThread\<close> stands for what
  the library's event thread has done since the last look at it: an answer that is not null
  is one run of the callback, with its data.  A program is one thread; \<open>SpawnThread\<close> and
  \<open>JoinThread\<close> have the number of the other thread and what it captures, and an atomic variable
  or a \<open>std::string\<close> that two threads share is read and written by its name.
\<close>

datatype os_call =
    IscEventBlock string | IscEventCounts "byte list" "byte list" | IscFree | EventThread
  | SleepMs nat | Pause | Getpid | ClockNs | ReadFile string | FileSize string | Unlink string
  | WriteFile string string | Mkdir string | Symlink string string
  | Fork | ExecFile "string list" | Kill int | WaitPid int | WaitAny
  | Opendir string | Readdir nat | Closedir nat | Popen string | ScanLong nat | Pclose nat
  | SpawnThread nat "int list" "string list" | JoinThread nat
  | AtomicLoad string | AtomicStore string int
  | SharedRead string | SharedWrite string string | SharedAppend string string

text \<open>The functions of the legacy C API (\<open>ibase.h\<close>), with the handles they take.\<close>

datatype isc_call =
    IscAttachDatabase string "byte list" | IscStartTransaction nat | IscDsqlAllocate nat
  | IscDsqlPrepare nat nat string | IscDsqlExecute nat nat | IscDsqlFetch nat | IscDsqlFree nat
  | IscCommit nat | IscDetach nat | FbInterpret status nat

text \<open>
  The calls of the fb-cpp wrapper library (\<open>samples/fb-cpp\<close>): construction and destruction of its
  objects, their methods, and what a caught exception answers.  Options are the list of builder
  calls that made them.
\<close>

datatype fc_kind =
    FClient | FAttachment | FTransaction | FStatement | FBlob | FBackupManager | FServiceManager | FPool | FListener

datatype fc_opt =
    SetUserName string | SetPassword string | SetCreateDatabase bool | SetConnectionCharSet string
  | SetRole string | SetIsolationLevel string | SetReadCommittedMode string | SetWaitMode string
  | SetNoAutoUndo bool | SetPrefetchLegacyPlan bool | SetPrefetchPlan bool
  | SetBlobType string | SetServer string | SetDatabase string | SetBackupFile string | SetReplace bool
  | SetAttachmentOptions "fc_opt list" | SetMaxSize nat | SetAcquireTimeout nat
  | SetSessionResetOnRelease bool | SetDpb "byte list"

datatype fc_type =
    FString | FInt16 | FInt32 | FInt64 | FBool | FDouble | FInt128 | FDecFloat34 | FScaledInt64
  | FTimestampTz | FOpaqueTimestampTz | FBlobId

datatype fc_att_call =
    FcExecute nat string | FcQueryScalar fc_type nat string | FcDisconnect | FcDropDatabase
  | FcQueryFirst nat string "int list" | FcLeaseRelease | FcLeaseAssign nat

datatype fc_tra_call = FcCommit | FcCommitRetaining | FcRollback

datatype fc_stmt_call =
    FcStmtExecute nat | FcFetchNext | FcGet fc_type nat | FcIsNull nat
  | FcLegacyPlan | FcPlan | FcInputDescriptors | FcOutputDescriptors | FcStmtType
  | FcSetInt64 nat int | FcSetInt32 nat int | FcSetBlobId nat int

datatype fc_blob_call =
    FcWriteSegment "byte list" | FcWrite "byte list" | FcReadSegment nat | FcRead nat | FcGetLength
  | FcGetId | FcSeek string int | FcBlobInfo "info_item list" nat | FcBlobClose

text \<open>
  \<open>FcCallback\<close> stands for the next thing the library does inside a call that takes a callback: an
  answer that is not null is one run of the callback, with its text; a null answer is the return of
  the call, an error its exception.
\<close>

datatype fc_svc_call = FcBackup "fc_opt list" | FcRestore "fc_opt list" | FcCallback

datatype fc_pool_call =
    FcAcquire | FcTryAcquire | FcPoolSize | FcAvailableCount | FcInUseCount | FcPoolClose

text \<open>
  \<open>FcDispatch\<close> stands for what the dispatcher thread of the listener has done since the last look:
  the counts it handed to the callback, one number per event.  \<open>FcWait\<close> is a wait of the condition
  variable; an answer that is not 0 is a wake-up, 0 the timeout.
\<close>

datatype fc_listener_call = FcDispatch | FcWait nat | FcStop

datatype fc_call =
    FcClient string | FcAttachment nat string "fc_opt list" | FcTransaction nat "fc_opt list"
  | FcTransactionSql nat string
  | FcStatement nat nat string "fc_opt list" | FcDestroy fc_kind nat
  | FcBlobCreate nat nat "fc_opt list" | FcBlobOpen nat nat int "fc_opt list"
  | FcBackupManager nat "fc_opt list" | FcServiceManager nat "fc_opt list" | FcAttachmentPool nat string "fc_opt list"
  | FcEventListener nat "string list"
  | FcAtt nat fc_att_call | FcTra nat fc_tra_call | FcStmt nat fc_stmt_call
  | FcBlob nat fc_blob_call | FcSvc nat fc_svc_call | FcPool nat fc_pool_call
  | FcListener nat fc_listener_call
  | FcExceptionClass status | FcWhat status | FcErrorCode status | FcErrors status
  | FcDecShow string | FcDecEq string string

datatype call =
    Master master_call | StatusDispose nat | StatusWarnings nat | Xpb nat xpb_call | Prov nat prov_call
  | Att nat att_call | Tra nat tra_call | Stmt nat stmt_call | Meta nat meta_call
  | Builder nat builder_call | Curs nat curs_call | Blob nat blob_call | Svc nat svc_call
  | Events nat events_call | Isc isc_call | Fc fc_call
  | Os os_call

text \<open>
  A column or parameter as a \<open>Descriptor\<close> of fb-cpp describes it.
\<close>

record descriptor =
  d_name :: string
  d_alias :: string
  d_type :: nat
  d_length :: nat
  d_scale :: int

text \<open>
  An answer: the value the method returns is one of the fields (a handle, a number, a
  text, bytes, numbers stored through pointers); \<open>r_null\<close> is a null pointer result.  \<open>fetchNext\<close> and \<open>getSegment\<close>
  return a code.
\<close>

datatype rcode = RESULT_OK | RESULT_NO_DATA | RESULT_SEGMENT

record reply =
  r_h :: nat
  r_n :: int
  r_s :: string
  r_b :: "byte list"
  r_ns :: "nat list"
  r_descs :: "descriptor list"
  r_ints :: "int list"
  r_code :: rcode
  r_null :: bool

type_synonym event = "call \<times> status option \<times> reply"


section \<open>Worlds, outcomes and programs\<close>

text \<open>The kinds of interface a program acquires and has to give back.\<close>

datatype kind = KStatus | KProv | KXpb | KAtt | KSvc | KTra | KStmt | KMeta | KBuilder | KCurs | KBlob | KEvents

text \<open>
  \<open>cells\<close> are the pointer variables that outlive the statement that sets them (the
  \<open>att\<close> member of a \<open>Db\<close>, the pointers that a \<open>main\<close> releases after its handler);
  \<open>None\<close> is \<open>nullptr\<close>.
\<close>

record 's world =
  server :: 's
  log :: "event list"
  out :: string
  err :: string
  environ :: "string \<Rightarrow> string option"
  cells :: "kind \<Rightarrow> nat \<Rightarrow> nat option"
  fresh :: nat

record 's env =
  fb :: "call \<Rightarrow> 's \<Rightarrow> (status option \<times> reply) \<times> 's"
  hdr :: header_values
  argv :: "string list"

text \<open>
  How a program can end other than by a value: an \<open>FbException\<close>, \<open>std::terminate\<close> for
  a standard exception no handler accepts, \<open>exit\<close>, or undefined behaviour.
\<close>

datatype failure = FbException status | Terminate string | Exit int | UB string

datatype 'a outcome = Ok 'a | Fail failure

type_synonym ('s, 'a) prog = "'s env \<Rightarrow> 's world \<Rightarrow> ('a outcome \<times> 's world) option"

definition ret :: "'a \<Rightarrow> ('s, 'a) prog" where
  "ret a = (\<lambda>e w. Some (Ok a, w))"

definition fail :: "failure \<Rightarrow> ('s, 'a) prog" where
  "fail x = (\<lambda>e w. Some (Fail x, w))"

definition bindP :: "('s, 'a) prog \<Rightarrow> ('a \<Rightarrow> ('s, 'b) prog) \<Rightarrow> ('s, 'b) prog" where
  "bindP m f = (\<lambda>e w. case m e w of None \<Rightarrow> None
     | Some rw \<Rightarrow> (case rw of (r, w') \<Rightarrow>
         (case r of Ok a \<Rightarrow> f a e w' | Fail x \<Rightarrow> Some (Fail x, w'))))"

text \<open>A statement sequence, and a call whose result is not used.\<close>

primrec block :: "('s, unit) prog list \<Rightarrow> ('s, unit) prog" where
  "block [] = ret ()"
| "block (m # ms) = bindP m (\<lambda>_. block ms)"

definition ignore :: "('s, 'a) prog \<Rightarrow> ('s, unit) prog" where
  "ignore m = bindP m (\<lambda>_. ret ())"

text \<open>A statement sequence followed by the rest of the function.\<close>

definition seqP :: "('s, unit) prog list \<Rightarrow> ('s, 'a) prog \<Rightarrow> ('s, 'a) prog" where
  "seqP ms k = bindP (block ms) (\<lambda>_. k)"

text \<open>\<open>block ms; return r;\<close>\<close>

definition returning :: "('s, unit) prog list \<Rightarrow> 'a \<Rightarrow> ('s, 'a) prog" where
  "returning ms a = bindP (block ms) (\<lambda>_. ret a)"

text \<open>\<open>try { m } catch (const FbException& e) { h e }\<close>\<close>

definition try_fb :: "('s, 'a) prog \<Rightarrow> (status \<Rightarrow> ('s, 'a) prog) \<Rightarrow> ('s, 'a) prog" where
  "try_fb m h = (\<lambda>e w. case m e w of None \<Rightarrow> None
     | Some rw \<Rightarrow> (case rw of (r, w') \<Rightarrow>
         (case r of Ok a \<Rightarrow> Some (Ok a, w')
          | Fail x \<Rightarrow> (case x of FbException s \<Rightarrow> h s e w'
             | Terminate t \<Rightarrow> Some (Fail (Terminate t), w')
             | Exit n \<Rightarrow> Some (Fail (Exit n), w')
             | UB t \<Rightarrow> Some (Fail (UB t), w')))))"

text \<open>
  Scope exit: the destructor runs when the scope is left by a value or by an
  \<open>FbException\<close> on its way to a handler; not by \<open>exit\<close>, and not by an exception that
  has no handler (\<open>std::terminate\<close> without unwinding).
\<close>

definition scoped :: "('s, 'a) prog \<Rightarrow> ('s, unit) prog \<Rightarrow> ('s, 'a) prog" where
  "scoped m d = (\<lambda>e w. case m e w of None \<Rightarrow> None
     | Some rw \<Rightarrow> (case rw of (r, w') \<Rightarrow>
         (case r of Ok a \<Rightarrow> bindP d (\<lambda>_. ret a) e w'
          | Fail x \<Rightarrow> (case x of FbException s \<Rightarrow> bindP d (\<lambda>_. fail (FbException s)) e w'
             | Terminate t \<Rightarrow> Some (Fail (Terminate t), w')
             | Exit n \<Rightarrow> Some (Fail (Exit n), w')
             | UB t \<Rightarrow> Some (Fail (UB t), w')))))"

primrec for_each :: "'b list \<Rightarrow> ('b \<Rightarrow> ('s, unit) prog) \<Rightarrow> ('s, unit) prog" where
  "for_each [] f = ret ()"
| "for_each (x # xs) f = bindP (f x) (\<lambda>_. for_each xs f)"

text \<open>A loop whose iterations collect one value each, in order.\<close>

primrec collect :: "'b list \<Rightarrow> ('b \<Rightarrow> ('s, 'c) prog) \<Rightarrow> ('s, 'c list) prog" where
  "collect [] f = ret []"
| "collect (x # xs) f = bindP (f x) (\<lambda>y. bindP (collect xs f) (\<lambda>ys. ret (y # ys)))"

text \<open>
  The general loop: the body maps the loop state to the next one (\<open>Inl\<close>) or leaves
  the loop with a result (\<open>Inr\<close>).  A server that keeps a loop busy for ever makes
  the program not return.
\<close>

partial_function (option) loopP ::
  "('a \<Rightarrow> ('s, 'a + 'b) prog) \<Rightarrow> 'a \<Rightarrow> ('s, 'b) prog" where
  "loopP body a e w = (case body a e w of None \<Rightarrow> None
     | Some rw \<Rightarrow> (case rw of (r, w') \<Rightarrow>
         (case r of Fail x \<Rightarrow> Some (Fail x, w')
          | Ok x \<Rightarrow> (case x of Inl a' \<Rightarrow> loopP body a' e w' | Inr b \<Rightarrow> Some (Ok b, w')))))"


subsection \<open>Primitive operations\<close>

text \<open>A call that reports failure through \<open>ThrowStatusWrapper\<close> throws.\<close>

definition ask :: "call \<Rightarrow> ('s, reply) prog" where
  "ask c = (\<lambda>e w. case fb e c (server w) of ((st, r), s') \<Rightarrow>
     (let w' = w\<lparr>server := s', log := (c, st, r) # log w\<rparr>
      in case st of None \<Rightarrow> Some (Ok r, w') | Some x \<Rightarrow> Some (Fail (FbException x), w')))"

text \<open>A call through \<open>CheckStatusWrapper\<close> leaves the status for the caller to test.\<close>

definition ask_check :: "call \<Rightarrow> ('s, status option) prog" where
  "ask_check c = (\<lambda>e w. case fb e c (server w) of ((st, r), s') \<Rightarrow>
     Some (Ok st, w\<lparr>server := s', log := (c, st, r) # log w\<rparr>))"

text \<open>A call that takes no status (release, dispose, the operating system) cannot throw.\<close>

definition ask_void :: "call \<Rightarrow> ('s, reply) prog" where
  "ask_void c = (\<lambda>e w. case fb e c (server w) of ((st, r), s') \<Rightarrow>
     Some (Ok r, w\<lparr>server := s', log := (c, None, r) # log w\<rparr>))"

definition do_call :: "call \<Rightarrow> ('s, unit) prog" where
  "do_call c = ignore (ask c)"

definition do_void :: "call \<Rightarrow> ('s, unit) prog" where
  "do_void c = ignore (ask_void c)"

definition handle_of :: "call \<Rightarrow> ('s, nat) prog" where
  "handle_of c = bindP (ask c) (\<lambda>r. ret (r_h r))"

definition number_of :: "call \<Rightarrow> ('s, nat) prog" where
  "number_of c = bindP (ask c) (\<lambda>r. ret (nat (r_n r)))"

definition text_of :: "call \<Rightarrow> ('s, string) prog" where
  "text_of c = bindP (ask c) (\<lambda>r. ret (r_s r))"

definition say :: "string \<Rightarrow> ('s, unit) prog" where
  "say s = (\<lambda>e w. Some (Ok (), w\<lparr>out := out w @ s\<rparr>))"

definition say_err :: "string \<Rightarrow> ('s, unit) prog" where
  "say_err s = (\<lambda>e w. Some (Ok (), w\<lparr>err := err w @ s\<rparr>))"

definition headers :: "('s, header_values) prog" where
  "headers = (\<lambda>e w. Some (Ok (hdr e), w))"

definition arguments :: "('s, string list) prog" where
  "arguments = (\<lambda>e w. Some (Ok (argv e), w))"

definition getenv :: "string \<Rightarrow> ('s, string option) prog" where
  "getenv x = (\<lambda>e w. Some (Ok (environ w x), w))"

text \<open>\<open>setenv(name, value, overwrite)\<close>\<close>

definition setenv :: "string \<Rightarrow> string \<Rightarrow> bool \<Rightarrow> ('s, unit) prog" where
  "setenv x v ow = (\<lambda>e w. Some (Ok (),
     if ow \<or> environ w x = None then w\<lparr>environ := (environ w)(x := Some v)\<rparr> else w))"

definition new_cell :: "('s, nat) prog" where
  "new_cell = (\<lambda>e w. Some (Ok (fresh w), w\<lparr>fresh := Suc (fresh w)\<rparr>))"

definition get_cell :: "kind \<Rightarrow> nat \<Rightarrow> ('s, nat option) prog" where
  "get_cell k i = (\<lambda>e w. Some (Ok (cells w k i), w))"

definition set_cell :: "kind \<Rightarrow> nat \<Rightarrow> nat option \<Rightarrow> ('s, unit) prog" where
  "set_cell k i v = (\<lambda>e w. Some (Ok (),
     w\<lparr>cells := (cells w)(k := (cells w k)(i := v))\<rparr>))"

text \<open>A checked read of the pure part: outside the buffer the behaviour is undefined.\<close>

definition checked :: "string \<Rightarrow> 'a option \<Rightarrow> ('s, 'a) prog" where
  "checked what x = (case x of Some a \<Rightarrow> ret a | None \<Rightarrow> fail (UB what))"

end
