(* ===== verification/Client_Logic.thy ===== *)
theory Client_Logic
  imports Client_Runtime
begin

text \<open>
  Reasoning about programs.  \<open>hoare P m Q E\<close> is the triple with a postcondition for
  a value and one for an \<open>FbException\<close>; \<open>keeps I m\<close> says that \<open>m\<close> preserves \<open>I\<close>
  either way.  The interfaces a program holds are counted on its log: \<open>gain k ev\<close> is
  the change of the number of interfaces of kind \<open>k\<close> a call brings, \<open>bal\<close> the sum over
  the log, and \<open>okd k m n\<close> says that \<open>m\<close>, when it returns a value, has acquired \<open>n\<close>
  more interfaces of kind \<open>k\<close> than it gave back.  The locale \<open>ledger\<close> is the contract
  that makes the count meaningful on the error paths; it is interpreted on \<open>gain\<close>.
\<close>

named_theorems hoare_rules \<open>composition rules of the triples\<close>
named_theorems keeps_rules \<open>composition rules of preservation\<close>
named_theorems okd_rules \<open>composition rules of the interface count\<close>
named_theorems run_simps \<open>evaluation of programs\<close>


section \<open>Evaluation\<close>

lemma ret_run [run_simps]: "ret a e w = Some (Ok a, w)"
  by (simp add: ret_def)

lemma fail_run [run_simps]: "fail x e w = Some (Fail x, w)"
  by (simp add: fail_def)

lemma say_run [run_simps]: "say s e w = Some (Ok (), w\<lparr>out := out w @ s\<rparr>)"
  by (simp add: say_def)

lemma say_err_run [run_simps]: "say_err s e w = Some (Ok (), w\<lparr>err := err w @ s\<rparr>)"
  by (simp add: say_err_def)

lemma ask_void_run [run_simps]:
  "ask_void c e w = Some (Ok (snd (fst (fb e c (server w)))),
     w\<lparr>server := snd (fb e c (server w)), log := (c, None, snd (fst (fb e c (server w)))) # log w\<rparr>)"
  by (simp add: ask_void_def split: prod.split)

lemma ask_check_run [run_simps]:
  "ask_check c e w = Some (Ok (fst (fst (fb e c (server w)))),
     w\<lparr>server := snd (fb e c (server w)), log := (c, fst (fb e c (server w))) # log w\<rparr>)"
  by (simp add: ask_check_def split: prod.split)

lemma ask_run:
  "ask c e w = Some (case fst (fst (fb e c (server w))) of
       None \<Rightarrow> Ok (snd (fst (fb e c (server w)))) | Some x \<Rightarrow> Fail (FbException x),
     w\<lparr>server := snd (fb e c (server w)), log := (c, fst (fb e c (server w))) # log w\<rparr>)"
  by (simp add: ask_def Let_def split: prod.split option.split)

lemma cell_runs [run_simps]:
  "get_cell k i e w = Some (Ok (cells w k i), w)"
  "set_cell k i v e w = Some (Ok (), w\<lparr>cells := (cells w)(k := (cells w k)(i := v))\<rparr>)"
  "new_cell e w = Some (Ok (fresh w), w\<lparr>fresh := Suc (fresh w)\<rparr>)"
  by (simp_all add: get_cell_def set_cell_def new_cell_def)

lemma read_runs [run_simps]:
  "headers e w = Some (Ok (hdr e), w)" "arguments e w = Some (Ok (argv e), w)"
  "getenv x e w = Some (Ok (environ w x), w)"
  by (simp_all add: headers_def arguments_def getenv_def)

lemma bindP_Ok: "m e w = Some (Ok a, w') \<Longrightarrow> bindP m f e w = f a e w'"
  by (simp add: bindP_def)

lemma bindP_Fail: "m e w = Some (Fail x, w') \<Longrightarrow> bindP m f e w = Some (Fail x, w')"
  by (simp add: bindP_def)

lemma bindP_None: "m e w = None \<Longrightarrow> bindP m f e w = None"
  by (simp add: bindP_def)

lemmas bindP_steps = bindP_Ok bindP_Fail bindP_None

text \<open>The monad laws: composition is what the C++ statement order means.\<close>

lemma bindP_ret_left [simp]: "bindP (ret a) f = f a"
  by (rule ext)+ (simp add: bindP_def ret_def)

lemma bindP_ret_right [simp]: "bindP m ret = m"
  by (rule ext)+ (simp add: bindP_def ret_def split: option.split prod.split outcome.split)

lemma bindP_assoc: "bindP (bindP m f) g = bindP m (\<lambda>x. bindP (f x) g)"
  by (rule ext)+ (simp add: bindP_def split: option.split prod.split outcome.split)

lemma bindP_OkE:
  assumes "bindP m f e w = Some (Ok b, w'')"
  obtains a w' where "m e w = Some (Ok a, w')" "f a e w' = Some (Ok b, w'')"
  using assms by (auto simp: bindP_def split: option.splits prod.splits outcome.splits)

lemma bindP_SomeE:
  assumes "bindP m f e w = Some (r, w'')"
  obtains (step) a w' where "m e w = Some (Ok a, w')" "f a e w' = Some (r, w'')"
    | (fail) x where "m e w = Some (Fail x, w'')" "r = Fail x"
  using assms by (auto simp: bindP_def split: option.splits prod.splits outcome.splits)

lemma loopP_again: "body a e w = Some (Ok (Inl a'), w') \<Longrightarrow> loopP body a e w = loopP body a' e w'"
  by (subst loopP.simps) simp

lemma loopP_leave: "body a e w = Some (Ok (Inr b), w') \<Longrightarrow> loopP body a e w = Some (Ok b, w')"
  by (subst loopP.simps) simp

lemma block_append: "block (ms @ ns) = bindP (block ms) (\<lambda>_. block ns)"
  by (induction ms) (simp_all add: bindP_assoc)

lemma for_each_append: "for_each (xs @ ys) f = bindP (for_each xs f) (\<lambda>_. for_each ys f)"
  by (induction xs) (simp_all add: bindP_assoc)


section \<open>Triples\<close>

fun post :: "('a \<Rightarrow> 's world \<Rightarrow> bool) \<Rightarrow> (status \<Rightarrow> 's world \<Rightarrow> bool) \<Rightarrow> 'a outcome \<Rightarrow> 's world \<Rightarrow> bool" where
  "post Q E (Ok a) w = Q a w"
| "post Q E (Fail x) w = (\<forall>s. x = FbException s \<longrightarrow> E s w)"

definition hoare ::
  "('s world \<Rightarrow> bool) \<Rightarrow> ('s, 'a) prog \<Rightarrow> ('a \<Rightarrow> 's world \<Rightarrow> bool) \<Rightarrow> (status \<Rightarrow> 's world \<Rightarrow> bool) \<Rightarrow> bool"
where
  "hoare P m Q E \<longleftrightarrow> (\<forall>e w r w'. P w \<longrightarrow> m e w = Some (r, w') \<longrightarrow> post Q E r w')"

lemma hoareD: "hoare P m Q E \<Longrightarrow> P w \<Longrightarrow> m e w = Some (r, w') \<Longrightarrow> post Q E r w'"
  by (simp add: hoare_def)

lemma hoareI:
  assumes "\<And>e w r w'. P w \<Longrightarrow> m e w = Some (r, w') \<Longrightarrow> post Q E r w'"
  shows "hoare P m Q E"
  using assms by (simp add: hoare_def)

lemma hoareD_Ok: "hoare P m Q E \<Longrightarrow> P w \<Longrightarrow> m e w = Some (Ok a, w') \<Longrightarrow> Q a w'"
  by (drule hoareD, assumption+) simp

lemma hoareD_Fb: "hoare P m Q E \<Longrightarrow> P w \<Longrightarrow> m e w = Some (Fail (FbException s), w') \<Longrightarrow> E s w'"
  by (drule hoareD, assumption+) simp

lemma post_mono:
  assumes "post Q' E' r w" and "\<And>a. Q' a w \<Longrightarrow> Q a w" and "\<And>s. E' s w \<Longrightarrow> E s w"
  shows "post Q E r w"
  using assms by (cases r) auto

lemma hoare_weaken:
  assumes "hoare P' m Q' E'" and "\<And>w. P w \<Longrightarrow> P' w" and "\<And>a w. Q' a w \<Longrightarrow> Q a w"
    and "\<And>s w. E' s w \<Longrightarrow> E s w"
  shows "hoare P m Q E"
proof (rule hoareI)
  fix e w r w' assume "P w" and run: "m e w = Some (r, w')"
  then have "post Q' E' r w'" using assms(1,2) by (auto intro: hoareD)
  then show "post Q E r w'" using assms(3,4) by (rule post_mono)
qed

lemma hoare_ret [hoare_rules]: "(\<And>w. P w \<Longrightarrow> Q a w) \<Longrightarrow> hoare P (ret a) Q E"
  by (rule hoareI) (auto simp: ret_def)

lemma hoare_fail: "(\<And>w s. P w \<Longrightarrow> x = FbException s \<Longrightarrow> E s w) \<Longrightarrow> hoare P (fail x) Q E"
  by (rule hoareI) (auto simp: fail_def)

lemma hoare_bindP [hoare_rules]:
  assumes m: "hoare P m Q E" and f: "\<And>a. hoare (Q a) (f a) R E"
  shows "hoare P (bindP m f) R E"
proof (rule hoareI)
  fix e w r w'' assume P: "P w" and "bindP m f e w = Some (r, w'')"
  then show "post R E r w''"
    by (cases rule: bindP_SomeE [OF \<open>bindP m f e w = Some (r, w'')\<close>])
      (use P in \<open>auto dest: hoareD [OF m] hoareD_Ok [OF m] intro: hoareD [OF f]\<close>)
qed

lemma try_fb_SomeE:
  assumes "try_fb m h e w = Some (r, w'')"
  obtains (caught) s w' where "m e w = Some (Fail (FbException s), w')" "h s e w' = Some (r, w'')"
    | (through) "m e w = Some (r, w'')" "\<And>s. r \<noteq> Fail (FbException s)"
  using assms
  by (auto simp: try_fb_def split: option.splits prod.splits outcome.splits failure.splits)

lemma hoare_if: "hoare P m Q E \<Longrightarrow> hoare P n Q E \<Longrightarrow> hoare P (if b then m else n) Q E"
  by simp

lemma hoare_try_fb [hoare_rules]:
  assumes m: "hoare P m Q E'" and h: "\<And>s. hoare (E' s) (h s) Q E"
  shows "hoare P (try_fb m h) Q E"
proof (rule hoareI)
  fix e w r w'' assume P: "P w" and run: "try_fb m h e w = Some (r, w'')"
  from run show "post Q E r w''"
  proof (cases rule: try_fb_SomeE)
    case (caught s w')
    then show ?thesis using P by (blast dest: hoareD_Fb [OF m] intro: hoareD [OF h])
  next
    case through
    then show ?thesis using hoareD [OF m P through(1)] by (cases r) auto
  qed
qed

lemma scoped_SomeE:
  assumes "scoped m d e w = Some (r, w'')"
  obtains (val) a w' where "m e w = Some (Ok a, w')" "bindP d (\<lambda>_. ret a) e w' = Some (r, w'')"
    | (fbx) s w' where "m e w = Some (Fail (FbException s), w')"
        "bindP d (\<lambda>_. fail (FbException s)) e w' = Some (r, w'')"
    | (other) x where "m e w = Some (Fail x, w'')" "r = Fail x" "\<And>s. x \<noteq> FbException s"
  using assms
  by (auto simp: scoped_def split: option.splits prod.splits outcome.splits failure.splits)

lemma hoare_scoped [hoare_rules]:
  assumes m: "hoare P m Q' E'" and q: "\<And>a. hoare (Q' a) d (\<lambda>_. Q a) E"
    and x: "\<And>s. hoare (E' s) d (\<lambda>_. E s) E"
  shows "hoare P (scoped m d) Q E"
proof (rule hoareI)
  fix e w r w'' assume P: "P w" and run: "scoped m d e w = Some (r, w'')"
  from run show "post Q E r w''"
  proof (cases rule: scoped_SomeE)
    case (val a w')
    have "hoare (Q' a) (bindP d (\<lambda>_. ret a)) Q E"
      by (rule hoare_bindP [OF q]) (rule hoare_ret)
    then show ?thesis using hoareD_Ok [OF m P val(1)] val(2) by (rule hoareD)
  next
    case (fbx s w')
    have "hoare (E' s) (bindP d (\<lambda>_. fail (FbException s))) Q E"
      by (rule hoare_bindP [OF x]) (auto intro: hoare_fail)
    then show ?thesis using hoareD_Fb [OF m P fbx(1)] fbx(2) by (rule hoareD)
  next
    case other
    then show ?thesis by simp
  qed
qed

lemma loopP_run:
  fixes body :: "'a \<Rightarrow> ('s, 'a + 'b) prog"
  assumes body: "\<And>a w r w'. J a w \<Longrightarrow> body a e w = Some (r, w') \<Longrightarrow>
      (case r of Ok x \<Rightarrow> (case x of Inl a' \<Rightarrow> J a' w' | Inr b \<Rightarrow> P (Ok b) w') | Fail x \<Rightarrow> P (Fail x) w')"
    and J: "J a w" and run: "loopP body a e w = Some (r, w')"
  shows "P r w'"
proof -
  have "body = body \<longrightarrow> e = e \<longrightarrow> J a w \<longrightarrow> P (fst (r, w')) (snd (r, w'))"
  proof (rule loopP.raw_induct [where P = "\<lambda>bd a e' w y. bd = body \<longrightarrow> e' = e \<longrightarrow> J a w \<longrightarrow> P (fst y) (snd y)",
      OF _ run])
    fix f :: "('a \<Rightarrow> ('s, 'a + 'b) prog) \<Rightarrow> 'a \<Rightarrow> ('s, 'b) prog"
      and bd :: "'a \<Rightarrow> ('s, 'a + 'b) prog" and a e' w y
    assume IH: "\<And>bd a e' w y. f bd a e' w = Some y \<Longrightarrow> bd = body \<longrightarrow> e' = e \<longrightarrow> J a w \<longrightarrow> P (fst y) (snd y)"
      and eq: "(case bd a e' w of None \<Rightarrow> None
        | Some rw \<Rightarrow> (case rw of (r, w') \<Rightarrow>
          (case r of Fail x \<Rightarrow> Some (Fail x, w')
           | Ok x \<Rightarrow> (case x of Inl a' \<Rightarrow> f bd a' e' w' | Inr b \<Rightarrow> Some (Ok b, w'))))) = Some y"
    show "bd = body \<longrightarrow> e' = e \<longrightarrow> J a w \<longrightarrow> P (fst y) (snd y)"
    proof (intro impI)
      assume bd: "bd = body" "e' = e" and Ja: "J a w"
      obtain r1 w1 where b: "body a e w = Some (r1, w1)"
        using eq bd by (auto split: option.splits)
      show "P (fst y) (snd y)"
        using eq b bd body [OF Ja b] IH [of bd] by (auto split: outcome.splits sum.splits)
    qed
  qed
  then show ?thesis using J by simp
qed

lemma hoare_loopP:
  assumes body: "\<And>a. hoare (I a) (body a) (\<lambda>x w. case x of Inl a' \<Rightarrow> I a' w | Inr b \<Rightarrow> Q b w) E"
  shows "hoare (I a) (loopP body a) Q E"
proof (rule hoareI)
  fix e w r w' assume I: "I a w" and run: "loopP body a e w = Some (r, w')"
  show "post Q E r w'"
  proof (rule loopP_run [where J = I, OF _ I run])
    fix a w r w' assume "I a w" and "body a e w = Some (r, w')"
    from hoareD [OF body this]
    show "case r of Ok x \<Rightarrow> (case x of Inl a' \<Rightarrow> I a' w' | Inr b \<Rightarrow> post Q E (Ok b) w')
        | Fail x \<Rightarrow> post Q E (Fail x) w'"
      by (auto split: outcome.splits sum.splits)
  qed
qed


subsection \<open>Total correctness\<close>

text \<open>
  \<open>gives e P m Q\<close>: run in the environment \<open>e\<close> from a world with \<open>P\<close>, the program returns, with
  a value, in a world with \<open>Q\<close>.
\<close>

named_theorems gives_rules \<open>composition rules of total correctness\<close>

definition gives ::
  "'s env \<Rightarrow> ('s world \<Rightarrow> bool) \<Rightarrow> ('s, 'a) prog \<Rightarrow> ('a \<Rightarrow> 's world \<Rightarrow> bool) \<Rightarrow> bool"
where
  "gives e P m Q \<longleftrightarrow> (\<forall>w. P w \<longrightarrow> (\<exists>a w'. m e w = Some (Ok a, w') \<and> Q a w'))"

lemma givesI: "(\<And>w. P w \<Longrightarrow> \<exists>a w'. m e w = Some (Ok a, w') \<and> Q a w') \<Longrightarrow> gives e P m Q"
  by (simp add: gives_def)

lemma givesE:
  assumes "gives e P m Q" and "P w"
  obtains a w' where "m e w = Some (Ok a, w')" "Q a w'"
  using assms unfolding gives_def by blast

lemma gives_bindP [gives_rules]:
  assumes m: "gives e P m Q" and f: "\<And>a. gives e (Q a) (f a) R"
  shows "gives e P (bindP m f) R"
proof (rule givesI)
  fix w assume "P w"
  with m obtain a w' where a: "m e w = Some (Ok a, w')" "Q a w'" by (rule givesE)
  from f a(2) obtain b w'' where "f a e w' = Some (Ok b, w'')" "R b w''" by (rule givesE)
  then show "\<exists>b w''. bindP m f e w = Some (Ok b, w'') \<and> R b w''" using a by (simp add: bindP_def)
qed

lemma gives_ret: "(\<And>w. P w \<Longrightarrow> Q a w) \<Longrightarrow> gives e P (ret a) Q"
  by (rule givesI) (auto simp: ret_def)

lemma gives_weaken:
  assumes "gives e P' m Q'" and "\<And>w. P w \<Longrightarrow> P' w" and "\<And>a w. Q' a w \<Longrightarrow> Q a w"
  shows "gives e P m Q"
  using assms unfolding gives_def by meson

lemma gives_pure: "(b \<Longrightarrow> gives e P m Q) \<Longrightarrow> gives e (\<lambda>w. b \<and> P w) m Q"
  by (auto simp: gives_def)

lemma gives_block_Nil: "(\<And>w. P w \<Longrightarrow> Q () w) \<Longrightarrow> gives e P (block []) Q"
  by (simp add: gives_ret)

lemma gives_block_Cons:
  "gives e P m (\<lambda>_. R) \<Longrightarrow> gives e R (block ms) Q \<Longrightarrow> gives e P (block (m # ms)) Q"
  by (simp add: gives_bindP)

lemma gives_collect:
  assumes "\<And>x. x \<in> set xs \<Longrightarrow> gives e P (f x) (\<lambda>y w. y = g x \<and> P w)"
  shows "gives e P (collect xs f) (\<lambda>ys w. ys = map g xs \<and> P w)"
  using assms
proof (induction xs)
  case Nil
  show ?case by (simp add: gives_ret)
next
  case (Cons x xs)
  have "gives e P (bindP (collect xs f) (\<lambda>ys. ret (g x # ys))) (\<lambda>ys w. ys = map g (x # xs) \<and> P w)"
    by (rule gives_bindP [OF Cons.IH]) (auto intro: Cons.prems gives_ret)
  then have tail: "gives e (\<lambda>w. y = g x \<and> P w) (bindP (collect xs f) (\<lambda>ys. ret (y # ys)))
      (\<lambda>ys w. ys = map g (x # xs) \<and> P w)" for y
    by (intro gives_pure) simp
  have "gives e P (f x) (\<lambda>y w. y = g x \<and> P w)" by (rule Cons.prems) simp
  then show ?case unfolding collect.simps using tail by (rule gives_bindP)
qed


subsection \<open>Results\<close>

text \<open>\<open>yields m Q\<close>: every value that \<open>m\<close> returns satisfies \<open>Q\<close>.\<close>

definition yields :: "('s, 'a) prog \<Rightarrow> ('a \<Rightarrow> bool) \<Rightarrow> bool" where
  "yields m Q \<longleftrightarrow> (\<forall>e w a w'. m e w = Some (Ok a, w') \<longrightarrow> Q a)"

lemma yieldsI: "(\<And>e w a w'. m e w = Some (Ok a, w') \<Longrightarrow> Q a) \<Longrightarrow> yields m Q"
  unfolding yields_def by blast

lemma yieldsD: "yields m Q \<Longrightarrow> m e w = Some (Ok a, w') \<Longrightarrow> Q a"
  unfolding yields_def by blast

lemma yields_any: "yields m (\<lambda>_. True)"
  by (simp add: yields_def)

lemma yields_ret: "Q a \<Longrightarrow> yields (ret a) Q"
  by (simp add: yields_def ret_def)

lemma yields_bindP:
  assumes "yields m Q" and "\<And>a. Q a \<Longrightarrow> yields (f a) R"
  shows "yields (bindP m f) R"
  by (rule yieldsI, erule bindP_OkE) (blast dest: yieldsD assms(2) yieldsD [OF assms(1)])

lemma yields_if: "yields m Q \<Longrightarrow> yields n Q \<Longrightarrow> yields (if b then m else n) Q"
  by simp

lemma yields_returning: "Q a \<Longrightarrow> yields (returning ms a) Q"
  unfolding returning_def by (rule yields_bindP [OF yields_any yields_ret])

lemma yields_collect_length: "yields (collect xs f) (\<lambda>ys. length ys = length xs)"
proof (induction xs)
  case (Cons x xs)
  show ?case unfolding collect.simps
    by (rule yields_bindP [OF yields_any], rule yields_bindP [OF Cons.IH], rule yields_ret) simp
qed (simp add: yields_ret)

lemma yields_loopP:
  assumes "I a" and body: "\<And>a. I a \<Longrightarrow> yields (body a) (\<lambda>x. case x of Inl a' \<Rightarrow> I a' | Inr b \<Rightarrow> Q b)"
  shows "yields (loopP body a) Q"
proof -
  have "hoare (\<lambda>_. I a) (loopP body a) (\<lambda>b _. Q b) (\<lambda>_ _. True)"
  proof (rule hoare_loopP [where I = "\<lambda>a _. I a"], rule hoareI)
    fix a e w r w' assume "I a" "body a e w = Some (r, w')"
    then show "post (\<lambda>x w. case x of Inl a' \<Rightarrow> I a' | Inr b \<Rightarrow> Q b) (\<lambda>_ _. True) r w'"
      using yieldsD [OF body] by (cases r) auto
  qed
  then show ?thesis using assms(1) by (intro yieldsI) (auto dest: hoareD_Ok)
qed


subsection \<open>Preservation\<close>

text \<open>\<open>m\<close> preserves \<open>I\<close>, whether it returns a value or throws.\<close>

definition keeps :: "('s world \<Rightarrow> bool) \<Rightarrow> ('s, 'a) prog \<Rightarrow> bool" where
  "keeps I m \<longleftrightarrow> hoare I m (\<lambda>_. I) (\<lambda>_. I)"

lemma keepsI:
  assumes "\<And>e w r w'. I w \<Longrightarrow> m e w = Some (r, w') \<Longrightarrow> I w'"
  shows "keeps I m"
  unfolding keeps_def
proof (rule hoareI)
  fix e w r w' assume "I w" "m e w = Some (r, w')"
  then have "I w'" by (rule assms)
  then show "post (\<lambda>_. I) (\<lambda>_. I) r w'" by (cases r) auto
qed

lemma keeps_ret [keeps_rules]: "keeps I (ret a)"
  unfolding keeps_def by (rule hoare_ret)

lemma keeps_fail [keeps_rules]: "keeps I (fail x)"
  unfolding keeps_def by (rule hoare_fail)

lemma keeps_bindP [keeps_rules]: "keeps I m \<Longrightarrow> (\<And>a. keeps I (f a)) \<Longrightarrow> keeps I (bindP m f)"
  unfolding keeps_def by (rule hoare_bindP)

lemma keeps_try_fb [keeps_rules]: "keeps I m \<Longrightarrow> (\<And>s. keeps I (h s)) \<Longrightarrow> keeps I (try_fb m h)"
  unfolding keeps_def by (rule hoare_try_fb)

lemma keeps_scoped [keeps_rules]: "keeps I m \<Longrightarrow> keeps I d \<Longrightarrow> keeps I (scoped m d)"
  unfolding keeps_def by (rule hoare_scoped)

lemma keeps_loopP [keeps_rules]:
  assumes "\<And>a. keeps I (body a)"
  shows "keeps I (loopP body a)"
  unfolding keeps_def
proof (rule hoare_loopP [where I = "\<lambda>_. I"])
  fix a
  show "hoare I (body a) (\<lambda>x w. case x of Inl a' \<Rightarrow> I w | Inr b \<Rightarrow> I w) (\<lambda>_. I)"
    by (rule hoare_weaken [OF assms [unfolded keeps_def]]) (auto split: sum.split)
qed

lemma keeps_block_Nil [keeps_rules]: "keeps I (block [])"
  by (simp add: keeps_ret)

lemma keeps_block_Cons [keeps_rules]: "keeps I m \<Longrightarrow> keeps I (block ms) \<Longrightarrow> keeps I (block (m # ms))"
  by (simp add: keeps_bindP)

lemma keeps_ignore [keeps_rules]: "keeps I m \<Longrightarrow> keeps I (ignore m)"
  unfolding ignore_def by (intro keeps_rules)

lemma keeps_returning [keeps_rules]: "keeps I (block ms) \<Longrightarrow> keeps I (returning ms a)"
  unfolding returning_def by (intro keeps_bindP keeps_ret)

lemma keeps_seqP [keeps_rules]: "keeps I (block ms) \<Longrightarrow> keeps I k \<Longrightarrow> keeps I (seqP ms k)"
  unfolding seqP_def by (intro keeps_bindP)

lemma keeps_for_each [keeps_rules]: "(\<And>x. keeps I (f x)) \<Longrightarrow> keeps I (for_each xs f)"
  by (induction xs) (auto intro: keeps_rules)

lemma keeps_collect [keeps_rules]: "(\<And>x. keeps I (f x)) \<Longrightarrow> keeps I (collect xs f)"
  by (induction xs) (auto intro!: keeps_rules)

lemma keeps_if [keeps_rules]: "keeps I m \<Longrightarrow> keeps I n \<Longrightarrow> keeps I (if b then m else n)"
  by simp

lemma keeps_option [keeps_rules]:
  "keeps I m \<Longrightarrow> (\<And>x. keeps I (f x)) \<Longrightarrow> keeps I (case opt of None \<Rightarrow> m | Some x \<Rightarrow> f x)"
  by (simp split: option.split)

lemma keeps_prod [keeps_rules]: "(\<And>x y. keeps I (f x y)) \<Longrightarrow> keeps I (case p of (x, y) \<Rightarrow> f x y)"
  by (simp split: prod.split)

lemma keeps_list [keeps_rules]:
  "keeps I m \<Longrightarrow> (\<And>x y. keeps I (f x y)) \<Longrightarrow> keeps I (case xs of [] \<Rightarrow> m | x # y \<Rightarrow> f x y)"
  by (simp split: list.split)

lemma keeps_Let [keeps_rules]: "(\<And>x. keeps I (f x)) \<Longrightarrow> keeps I (let x = t in f x)"
  by simp

lemma keeps_checked [keeps_rules]: "keeps I (checked what x)"
  by (auto simp: checked_def intro: keeps_rules split: option.split)


subsection \<open>Programs that do not throw\<close>

named_theorems nothrow_rules \<open>programs that end in no exception of the library\<close>

definition nothrow :: "('s, 'a) prog \<Rightarrow> bool" where
  "nothrow m \<longleftrightarrow> (\<forall>e w s w'. m e w \<noteq> Some (Fail (FbException s), w'))"

lemma nothrow_leaves [nothrow_rules]:
  "nothrow (ret a)" "nothrow (say x)" "nothrow (say_err x)" "nothrow (ask_void c)"
  "nothrow (ask_check c)" "nothrow (get_cell k i)" "nothrow (set_cell k i v)" "nothrow new_cell"
  "nothrow headers" "nothrow arguments" "nothrow (getenv x)"
  by (simp_all add: nothrow_def run_simps)

lemma nothrow_bindP [nothrow_rules]: "nothrow m \<Longrightarrow> (\<And>a. nothrow (f a)) \<Longrightarrow> nothrow (bindP m f)"
  unfolding nothrow_def by (metis bindP_SomeE outcome.inject(2))

lemma nothrow_derived [nothrow_rules]:
  "nothrow (block [])" "nothrow m' \<Longrightarrow> nothrow (block ms) \<Longrightarrow> nothrow (block (m' # ms))"
  "nothrow (block ms) \<Longrightarrow> nothrow (returning ms a)" "nothrow m \<Longrightarrow> nothrow (ignore m)"
  "nothrow (block ms) \<Longrightarrow> nothrow k \<Longrightarrow> nothrow (seqP ms k)"
  "nothrow (do_void c)"
  unfolding returning_def ignore_def seqP_def do_void_def block.simps
  by (intro nothrow_bindP nothrow_leaves; assumption)+

lemma nothrow_try [nothrow_rules]: "(\<And>s. nothrow (h s)) \<Longrightarrow> nothrow (try_fb m h)"
  unfolding nothrow_def by (metis try_fb_SomeE)

lemma nothrow_option [nothrow_rules]:
  "nothrow m \<Longrightarrow> (\<And>x. nothrow (f x)) \<Longrightarrow> nothrow (case opt of None \<Rightarrow> m | Some x \<Rightarrow> f x)"
  by (simp split: option.split)

lemma nothrow_if [nothrow_rules]: "nothrow m \<Longrightarrow> nothrow n \<Longrightarrow> nothrow (if b then m else n)"
  by simp


section \<open>Counting interfaces on the log\<close>

text \<open>
  Which call acquires an interface and which gives one back.  A transaction is given
  back by \<open>commit\<close> and \<open>rollback\<close> (not by \<open>commitRetaining\<close>), a statement by \<open>free\<close>,
  a cursor, blob or attachment by \<open>close\<close>, \<open>detach\<close> or \<open>dropDatabase\<close>, an event
  registration by \<open>cancel\<close>, each only when the call succeeds; \<open>release\<close> and \<open>dispose\<close> always.
\<close>

definition acquires :: "call \<Rightarrow> kind option" where
  "acquires c = (case c of
     Master GetStatus \<Rightarrow> Some KStatus | Master GetDispatcher \<Rightarrow> Some KProv
   | Master (GetXpbBuilder k) \<Rightarrow> Some KXpb
   | Prov p (AttachDatabase d b) \<Rightarrow> Some KAtt | Prov p (CreateDatabase d b) \<Rightarrow> Some KAtt
   | Prov p (AttachServiceManager d b) \<Rightarrow> Some KSvc
   | Att a (StartTransaction t) \<Rightarrow> Some KTra | Att a (ExecuteStart s) \<Rightarrow> Some KTra
   | Att a (Prepare t s f) \<Rightarrow> Some KStmt
   | Att a (OpenCursorSql t s) \<Rightarrow> Some KCurs
   | Att a (CreateBlob t) \<Rightarrow> Some KBlob | Att a (OpenBlob t i) \<Rightarrow> Some KBlob
   | Att a (QueEvents b) \<Rightarrow> Some KEvents
   | Stmt s GetInputMetadata \<Rightarrow> Some KMeta | Stmt s GetOutputMetadata \<Rightarrow> Some KMeta
   | Stmt s (OpenCursor t m) \<Rightarrow> Some KCurs
   | Meta m GetBuilder \<Rightarrow> Some KBuilder | Builder b BuilderGetMetadata \<Rightarrow> Some KMeta
   | Curs c CursGetMetadata \<Rightarrow> Some KMeta
   | _ \<Rightarrow> None)"

definition releases :: "call \<Rightarrow> kind option" where
  "releases c = (case c of
     StatusDispose s \<Rightarrow> Some KStatus | Prov p ProvRelease \<Rightarrow> Some KProv
   | Xpb x XpbDispose \<Rightarrow> Some KXpb
   | Att a Detach \<Rightarrow> Some KAtt | Att a AttRelease \<Rightarrow> Some KAtt | Att a DropDatabase \<Rightarrow> Some KAtt
   | Svc s SvcDetach \<Rightarrow> Some KSvc
   | Tra t Commit \<Rightarrow> Some KTra | Tra t Rollback \<Rightarrow> Some KTra | Tra t TraRelease \<Rightarrow> Some KTra
   | Stmt s StmtFree \<Rightarrow> Some KStmt | Stmt s StmtRelease \<Rightarrow> Some KStmt
   | Meta m MetaRelease \<Rightarrow> Some KMeta | Builder b BuilderRelease \<Rightarrow> Some KBuilder
   | Curs c CursClose \<Rightarrow> Some KCurs | Curs c CursRelease \<Rightarrow> Some KCurs
   | Blob b BlobClose \<Rightarrow> Some KBlob
   | Events v EvRelease \<Rightarrow> Some KEvents | Events v EvCancel \<Rightarrow> Some KEvents
   | _ \<Rightarrow> None)"

definition delta :: "kind \<Rightarrow> call \<Rightarrow> int" where
  "delta k c = (if acquires c = Some k then 1 else 0) - (if releases c = Some k then 1 else 0)"

definition gain :: "kind \<Rightarrow> event \<Rightarrow> int" where
  "gain k ev = (case ev of (c, st, r) \<Rightarrow> if st = None then delta k c else 0)"

definition bal :: "(event \<Rightarrow> int) \<Rightarrow> 's world \<Rightarrow> int" where
  "bal g w = sum_list (map g (log w))"

text \<open>
  The contract of a count: a call that fails changes nothing, and a call that
  succeeds changes the count by an amount that depends on the call alone.
\<close>

locale ledger =
  fixes g :: "event \<Rightarrow> int" and d :: "call \<Rightarrow> int"
  assumes failed_call: "g (c, Some st, r) = 0"
    and good_call: "g (c, None, r) = d c"
begin

lemma ask_bal: "ask c e w = Some (Ok r, w') \<Longrightarrow> bal g w' = bal g w + d c"
  by (auto simp: ask_def bal_def Let_def good_call split: prod.splits option.splits)

lemma ask_bal_fail: "ask c e w = Some (Fail x, w') \<Longrightarrow> bal g w' = bal g w"
  by (auto simp: ask_def bal_def Let_def failed_call split: prod.splits option.splits)

lemma ask_void_bal: "ask_void c e w = Some (r, w') \<Longrightarrow> bal g w' = bal g w + d c"
  by (auto simp: ask_void_def bal_def good_call split: prod.splits)

lemma ask_check_bal:
  "ask_check c e w = Some (Ok st, w') \<Longrightarrow> bal g w' = bal g w + (if st = None then d c else 0)"
  by (cases st) (auto simp: ask_check_def bal_def good_call failed_call split: prod.splits)

end

interpretation gains: ledger "gain k" "delta k" for k
  by unfold_locales (simp_all add: gain_def)

text \<open>
  Each successful call moves the count of a kind by at most one, so a program that makes \<open>n\<close>
  calls holds at most \<open>n\<close> interfaces of it.
\<close>

lemma bal_bound: "\<bar>bal (gain k) w\<bar> \<le> int (length (log w))"
proof -
  have g: "\<bar>gain k ev\<bar> \<le> 1" for ev
    by (cases ev) (auto simp: gain_def delta_def)
  have "\<bar>sum_list (map (gain k) evs)\<bar> \<le> int (length evs)" for evs
  proof (induction evs)
    case (Cons ev evs)
    then show ?case using g [of ev] by simp
  qed simp
  then show ?thesis by (simp add: bal_def)
qed


subsection \<open>The count along a normal path\<close>

definition okd :: "kind \<Rightarrow> ('s, 'a) prog \<Rightarrow> int \<Rightarrow> bool" where
  "okd k m n \<longleftrightarrow> (\<forall>e w a w'. m e w = Some (Ok a, w') \<longrightarrow> bal (gain k) w' = bal (gain k) w + n)"

lemma okdI:
  "(\<And>e w a w'. m e w = Some (Ok a, w') \<Longrightarrow> bal (gain k) w' = bal (gain k) w + n) \<Longrightarrow> okd k m n"
  by (simp add: okd_def)

lemma okdD: "okd k m n \<Longrightarrow> m e w = Some (Ok a, w') \<Longrightarrow> bal (gain k) w' = bal (gain k) w + n"
  by (simp add: okd_def)

lemma okd_eq: "okd k m n \<Longrightarrow> n = n' \<Longrightarrow> okd k m n'"
  by simp

lemma okd_ret [okd_rules]: "okd k (ret a) 0"
  by (rule okdI) (simp add: ret_def)

lemma okd_fail: "okd k (fail x) n"
  by (rule okdI) (simp add: fail_def)

lemma okd_say [okd_rules]: "okd k (say s) 0"
  by (rule okdI) (auto simp: say_def bal_def)

lemma okd_say_err [okd_rules]: "okd k (say_err s) 0"
  by (rule okdI) (auto simp: say_err_def bal_def)

lemma okd_bindP [okd_rules]:
  "okd k m n \<Longrightarrow> (\<And>a. okd k (f a) n') \<Longrightarrow> okd k (bindP m f) (n + n')"
  by (rule okdI, erule bindP_OkE) (fastforce dest: okdD)

lemma okd_block_Nil [okd_rules]: "okd k (block []) 0"
  by (simp add: okd_ret)

lemma okd_block_Cons [okd_rules]:
  "okd k m n \<Longrightarrow> okd k (block ms) n' \<Longrightarrow> okd k (block (m # ms)) (n + n')"
  by (simp add: okd_bindP)

lemma okd_ignore [okd_rules]: "okd k m n \<Longrightarrow> okd k (ignore m) n"
  unfolding ignore_def using okd_bindP [OF _ okd_ret, of k m n] by simp

lemma okd_returning [okd_rules]: "okd k (block ms) n \<Longrightarrow> okd k (returning ms a) n"
  unfolding returning_def using okd_bindP [OF _ okd_ret, of k "block ms" n] by simp

lemma okd_seqP [okd_rules]: "okd k (block ms) n \<Longrightarrow> okd k r n' \<Longrightarrow> okd k (seqP ms r) (n + n')"
  unfolding seqP_def by (rule okd_bindP)

lemma okd_for_each: "(\<And>x. okd k (f x) 0) \<Longrightarrow> okd k (for_each xs f) 0"
proof (induction xs)
  case (Cons x xs)
  then show ?case using okd_bindP [of k "f x" 0 "\<lambda>_. for_each xs f" 0] by simp
qed (simp add: okd_ret)

lemma okd_collect: "(\<And>x. okd k (f x) 0) \<Longrightarrow> okd k (collect xs f) 0"
proof (induction xs)
  case (Cons x xs)
  have "okd k (bindP (collect xs f) (\<lambda>ys. ret (y # ys))) 0" for y
    using okd_bindP [OF Cons.IH [OF Cons.prems] okd_ret] by simp
  then show ?case using okd_bindP [OF Cons.prems [of x]] by fastforce
qed (simp add: okd_ret)

lemma okd_if [okd_rules]:
  "okd k m n \<Longrightarrow> okd k m' n' \<Longrightarrow> n' = n \<Longrightarrow> okd k (if b then m else m') n"
  by simp

lemma okd_option [okd_rules]:
  "okd k m n \<Longrightarrow> (\<And>x. okd k (f x) n') \<Longrightarrow> n' = n \<Longrightarrow> okd k (case opt of None \<Rightarrow> m | Some x \<Rightarrow> f x) n"
  by (simp split: option.split)

lemma okd_checked [okd_rules]: "okd k (checked what x) 0"
  by (auto simp: checked_def intro: okd_ret okd_fail split: option.split)

lemma okd_loopP:
  assumes "\<And>a. okd k (body a) 0"
  shows "okd k (loopP body a) 0"
proof -
  have "hoare (\<lambda>w. bal (gain k) w = b) (loopP body a) (\<lambda>_ w. bal (gain k) w = b) (\<lambda>_ _. True)" for b
  proof (rule hoare_loopP [where I = "\<lambda>_ w. bal (gain k) w = b"], rule hoareI)
    fix a e w r w' assume "bal (gain k) w = b" and run: "body a e w = Some (r, w')"
    then show "post (\<lambda>x w. case x of Inl a' \<Rightarrow> bal (gain k) w = b | Inr _ \<Rightarrow> bal (gain k) w = b)
        (\<lambda>_ _. True) r w'"
      using okdD [OF assms] by (cases r) (auto split: sum.split)
  qed
  then show ?thesis by (intro okdI) (auto dest: hoareD_Ok)
qed

lemma okd_iterations [okd_rules]:
  "(\<And>x. okd k (f x) n) \<Longrightarrow> n = 0 \<Longrightarrow> okd k (for_each xs f) 0"
  "(\<And>x. okd k (g x) n) \<Longrightarrow> n = 0 \<Longrightarrow> okd k (collect xs g) 0"
  "(\<And>a. okd k (h a) n) \<Longrightarrow> n = 0 \<Longrightarrow> okd k (loopP h a) 0"
  by (auto intro: okd_for_each okd_collect okd_loopP)

lemma okd_calls [okd_rules]:
  assumes "delta k c = n"
  shows "okd k (ask c) n" "okd k (ask_void c) n" "okd k (do_call c) n" "okd k (do_void c) n"
    "okd k (handle_of c) n" "okd k (number_of c) n" "okd k (text_of c) n"
proof -
  show a: "okd k (ask c) n"
    using assms by (intro okdI) (simp add: gains.ask_bal)
  show v: "okd k (ask_void c) n"
    using assms by (intro okdI) (simp add: gains.ask_void_bal)
  show "okd k (do_call c) n" "okd k (do_void c) n"
    unfolding do_call_def do_void_def using a v by (auto intro: okd_ignore)
  show "okd k (handle_of c) n" "okd k (number_of c) n" "okd k (text_of c) n"
    unfolding handle_of_def number_of_def text_of_def using okd_bindP [OF a okd_ret] by simp_all
qed

lemma okd_misc [okd_rules]:
  "okd k headers 0" "okd k arguments 0" "okd k (getenv x) 0" "okd k (setenv x v b) 0"
  "okd k new_cell 0" "okd k (get_cell kk i) 0" "okd k (set_cell kk i cv) 0"
  by (auto simp: okd_def headers_def arguments_def getenv_def setenv_def new_cell_def
      get_cell_def set_cell_def bal_def)

lemmas delta_simps = delta_def acquires_def releases_def

text \<open>A single call: the count moves when it succeeds and stays when it throws.\<close>

lemma count_ask:
  "hoare (\<lambda>w. bal (gain k) w = b) (ask c) (\<lambda>_ w. bal (gain k) w = b + delta k c)
    (\<lambda>_ w. bal (gain k) w = b)"
proof (rule hoareI)
  fix e r w w' assume "bal (gain k) w = b" and "ask c e w = Some (r, w')"
  then show "post (\<lambda>_ w. bal (gain k) w = b + delta k c) (\<lambda>_ w. bal (gain k) w = b) r w'"
    using gains.ask_bal [of c e w _ w' k] gains.ask_bal_fail [of c e w _ w' k] by (cases r) auto
qed

lemma count_handle_of:
  "hoare (\<lambda>w. bal (gain k) w = b) (handle_of c) (\<lambda>_ w. bal (gain k) w = b + delta k c)
    (\<lambda>_ w. bal (gain k) w = b)"
  unfolding handle_of_def by (rule hoare_bindP [OF count_ask], rule hoare_ret, assumption)

lemma count_do_call:
  "hoare (\<lambda>w. bal (gain k) w = b) (do_call c) (\<lambda>_ w. bal (gain k) w = b + delta k c)
    (\<lambda>_ w. bal (gain k) w = b)"
  unfolding do_call_def ignore_def by (rule hoare_bindP [OF count_ask], rule hoare_ret, assumption)

lemmas count_call = count_ask count_handle_of count_do_call

text \<open>
  The count on an exit with code 0 of a \<open>main\<close> that ends in
  \<open>catch (const FbException& e) { return report(e); }\<close>.
\<close>

definition okd0 :: "kind \<Rightarrow> ('s, int) prog \<Rightarrow> bool" where
  "okd0 k m \<longleftrightarrow> (\<forall>e w w'. m e w = Some (Ok 0, w') \<longrightarrow> bal (gain k) w' = bal (gain k) w)"

lemma okd0_bindP: "okd k m 0 \<Longrightarrow> (\<And>a. okd0 k (f a)) \<Longrightarrow> okd0 k (bindP m f)"
  unfolding okd0_def by (fastforce elim!: bindP_OkE dest: okdD)

lemma okd0_try_fb:
  assumes "okd k m n" "n = 0" and h: "\<And>s e w w'. h s e w \<noteq> Some (Ok 0, w')"
  shows "okd0 k (try_fb m h)"
  unfolding okd0_def
proof (intro allI impI)
  fix e w w' assume "try_fb m h e w = Some (Ok 0, w')"
  then show "bal (gain k) w' = bal (gain k) w"
    by (cases rule: try_fb_SomeE) (use assms in \<open>auto dest: okdD\<close>)
qed


section \<open>Views of the world that most operations leave alone\<close>

text \<open>
  A view is a part of the world; a call is quiet for it when recording the call does
  not change it.  Every operation that makes only quiet calls keeps the view.
\<close>

locale world_view =
  fixes view :: "'s world \<Rightarrow> 'v" and quiet :: "call \<Rightarrow> bool"
  assumes view_out: "view (w\<lparr>out := x\<rparr>) = view w"
    and view_err: "view (w\<lparr>err := x\<rparr>) = view w"
    and view_environ: "view (w\<lparr>environ := en\<rparr>) = view w"
    and view_call: "quiet c \<Longrightarrow> view (w\<lparr>server := sv, log := (c, st, r) # log w\<rparr>) = view w"
begin

lemma keeps_say: "keeps (\<lambda>w. view w = v) (say s)"
  by (rule keepsI) (auto simp: say_def view_out)

lemma keeps_say_err: "keeps (\<lambda>w. view w = v) (say_err s)"
  by (rule keepsI) (auto simp: say_err_def view_err)

lemma keeps_reads:
  "keeps (\<lambda>w. view w = v) headers" "keeps (\<lambda>w. view w = v) arguments"
  "keeps (\<lambda>w. view w = v) (getenv x)" "keeps (\<lambda>w. view w = v) (get_cell kk i)"
  by (rule keepsI, auto simp: headers_def arguments_def getenv_def get_cell_def)+

lemma keeps_setenv: "keeps (\<lambda>w. view w = v) (setenv x s ow)"
  by (rule keepsI) (auto simp: setenv_def view_environ split: if_splits)

lemma keeps_ask: "quiet c \<Longrightarrow> keeps (\<lambda>w. view w = v) (ask c)"
  by (rule keepsI) (auto simp: ask_def Let_def view_call split: prod.splits option.splits)

lemma keeps_ask_void: "quiet c \<Longrightarrow> keeps (\<lambda>w. view w = v) (ask_void c)"
  by (rule keepsI) (auto simp: ask_void_def view_call split: prod.splits)

lemma keeps_ask_check: "quiet c \<Longrightarrow> keeps (\<lambda>w. view w = v) (ask_check c)"
  by (rule keepsI) (auto simp: ask_check_def view_call split: prod.splits)

lemma keeps_do_call: "quiet c \<Longrightarrow> keeps (\<lambda>w. view w = v) (do_call c)"
  unfolding do_call_def by (intro keeps_rules keeps_ask)

lemma keeps_do_void: "quiet c \<Longrightarrow> keeps (\<lambda>w. view w = v) (do_void c)"
  unfolding do_void_def by (intro keeps_rules keeps_ask_void)

lemma keeps_results:
  assumes "quiet c"
  shows "keeps (\<lambda>w. view w = v) (handle_of c)" "keeps (\<lambda>w. view w = v) (number_of c)"
    "keeps (\<lambda>w. view w = v) (text_of c)"
  unfolding handle_of_def number_of_def text_of_def by (intro keeps_rules keeps_ask assms)+

lemmas leaf_rules = keeps_say keeps_say_err keeps_reads keeps_setenv keeps_ask keeps_ask_void
  keeps_ask_check keeps_do_call keeps_do_void keeps_results

end

text \<open>What holds of a view holds after every program that keeps the view.\<close>

lemma view_hoare:
  assumes "\<And>v. keeps (\<lambda>w. view w = v) m" and "\<And>w w'. view w' = view w \<Longrightarrow> P w \<Longrightarrow> P w'"
  shows "hoare P m (\<lambda>_. P) (\<lambda>_. P)"
proof (rule hoareI)
  fix e w r w' assume P: "P w" and run: "m e w = Some (r, w')"
  have "post (\<lambda>_ w'. view w' = view w) (\<lambda>_ w'. view w' = view w) r w'"
    using assms(1) [of "view w"] run unfolding keeps_def by (auto dest: hoareD)
  then show "post (\<lambda>_. P) (\<lambda>_. P) r w'"
    by (rule post_mono) (use P assms(2) in auto)
qed

text \<open>The count of a kind is a view; a call is quiet for it when it moves the count by 0.\<close>

interpretation count: world_view "bal (gain k)" "\<lambda>c. delta k c = 0" for k
  by unfold_locales (auto simp: bal_def gain_def)

text \<open>So is the count of attachments together with the cells that hold them.\<close>

definition att_view :: "'s world \<Rightarrow> int \<times> (nat \<Rightarrow> nat option) \<times> nat" where
  "att_view w = (bal (gain KAtt) w, cells w KAtt, fresh w)"

interpretation atts: world_view att_view "\<lambda>c. delta KAtt c = 0"
  by unfold_locales (auto simp: att_view_def bal_def gain_def)

lemma okd_keeps: "(\<And>b. keeps (\<lambda>w. bal (gain k) w = b) m) \<Longrightarrow> okd k m 0"
  by (rule okdI) (auto simp: keeps_def dest: hoareD_Ok)

end
