(* ===== verification/Db_Sample.thy ===== *)
theory Db_Sample
  imports Client_Logic
begin

text \<open>
  The shared boilerplate \<open>samples/cpp/fb_sample.h\<close>: the RAII class \<open>Db\<close> (one
  attachment and the interfaces needed to talk to it), \<open>attach\<close>, \<open>attachOrCreate\<close>,
  \<open>start\<close>, \<open>exec\<close>, the fetch-everything-as-text \<open>query\<close> with its message decoding,
  \<open>queryValue\<close>, \<open>print\<close>, the TPB builder, \<open>report\<close> and the argument helpers.

  Shown here: a text message decodes to the values it encodes and reading it stays
  inside the buffer; the table a query returns is rectangular, so printing it is
  defined and its lines align; \<open>attachOrCreate\<close> creates only after a failed attach;
  and a \<open>Db\<close> scope gives back the attachment it holds on every path, while the
  builders and statements of a call that throws are not given back.
\<close>


section \<open>Construction and destruction\<close>

text \<open>
  The members of a \<open>Db\<close>: the status and provider interfaces are fixed, \<open>att\<close> is the
  pointer cell \<open>db_att\<close>.
\<close>

record Db =
  db_att :: nat
  db_status :: nat
  db_prov :: nat

definition Db_new :: "('s, Db) prog" where
  "Db_new =
     bindP (ask_void (Master GetStatus)) (\<lambda>st.
     bindP (ask_void (Master GetDispatcher)) (\<lambda>p.
     bindP new_cell (\<lambda>c.
     bindP (set_cell KAtt c None) (\<lambda>_.
     ret \<lparr>db_att = c, db_status = r_h st, db_prov = r_h p\<rparr>))))"

definition Db_destroy :: "Db \<Rightarrow> ('s, unit) prog" where
  "Db_destroy db =
     bindP (get_cell KAtt (db_att db)) (\<lambda>a.
     block
      [(case a of None \<Rightarrow> ret ()
        | Some att \<Rightarrow>
            bindP (ask_void (Master GetStatus)) (\<lambda>quiet.
            bindP (ask_check (Att att Detach)) (\<lambda>st.
            block
             [if st \<noteq> None then do_void (Att att AttRelease) else ret (),
              do_void (StatusDispose (r_h quiet))]))),
       do_void (Prov (db_prov db) ProvRelease),
       do_void (StatusDispose (db_status db)),
       set_cell KAtt (db_att db) None])"

text \<open>A local variable of type \<open>Db\<close>: constructed, used, destroyed at scope exit.\<close>

definition with_Db :: "(Db \<Rightarrow> ('s, 'a) prog) \<Rightarrow> ('s, 'a) prog" where
  "with_Db body = bindP Db_new (\<lambda>db. scoped (body db) (Db_destroy db))"

text \<open>Dereferencing \<open>att\<close>.\<close>

definition att_of :: "Db \<Rightarrow> ('s, nat) prog" where
  "att_of db = bindP (get_cell KAtt (db_att db)) (checked ''null attachment'')"


section \<open>Connecting\<close>

definition defaultUser :: "('s, string) prog" where
  "defaultUser = bindP (getenv ''ISC_USER'') (\<lambda>u. ret (case u of Some x \<Rightarrow> x | None \<Rightarrow> ''SYSDBA''))"

definition defaultPassword :: "('s, string) prog" where
  "defaultPassword =
     bindP (getenv ''ISC_PASSWORD'') (\<lambda>p. ret (case p of Some x \<Rightarrow> x | None \<Rightarrow> ''masterkey''))"

definition makeDpb :: "Db \<Rightarrow> string \<Rightarrow> string \<Rightarrow> string \<Rightarrow> ('s, nat) prog" where
  "makeDpb db user password charset =
     bindP (handle_of (Master (GetXpbBuilder DPB))) (\<lambda>dpb.
     returning
      [do_call (Xpb dpb (InsertString isc_dpb_user_name user)),
       do_call (Xpb dpb (InsertString isc_dpb_password password)),
       if charset \<noteq> [] then do_call (Xpb dpb (InsertString isc_dpb_lc_ctype charset)) else ret ()]
      dpb)"

text \<open>
  \<open>att = prov->attachDatabase(&status, database, dpb->getBufferLength(&status),
  dpb->getBuffer(&status))\<close>; the pointer and length of the builder's buffer are one
  byte list here.
\<close>

definition attachDatabase :: "Db \<Rightarrow> string \<Rightarrow> nat \<Rightarrow> ('s, unit) prog" where
  "attachDatabase db database dpb =
     bindP (ask (Xpb dpb GetBuffer)) (\<lambda>b.
     bindP (handle_of (Prov (db_prov db) (AttachDatabase database (r_b b)))) (\<lambda>a.
     set_cell KAtt (db_att db) (Some a)))"

definition createDatabase :: "Db \<Rightarrow> string \<Rightarrow> nat \<Rightarrow> ('s, unit) prog" where
  "createDatabase db database dpb =
     bindP (ask (Xpb dpb GetBuffer)) (\<lambda>b.
     bindP (handle_of (Prov (db_prov db) (CreateDatabase database (r_b b)))) (\<lambda>a.
     set_cell KAtt (db_att db) (Some a)))"

definition attach_as :: "Db \<Rightarrow> string \<Rightarrow> string \<Rightarrow> string \<Rightarrow> string \<Rightarrow> ('s, unit) prog" where
  "attach_as db database user password charset =
     bindP (makeDpb db user password charset) (\<lambda>dpb.
     block [attachDatabase db database dpb, do_void (Xpb dpb XpbDispose)])"

text \<open>\<open>attach\<close> with its default arguments.\<close>

definition attach :: "Db \<Rightarrow> string \<Rightarrow> ('s, unit) prog" where
  "attach db database =
     bindP defaultUser (\<lambda>user. bindP defaultPassword (\<lambda>password.
     attach_as db database user password ''UTF8''))"

definition attachOrCreate :: "Db \<Rightarrow> string \<Rightarrow> ('s, unit) prog" where
  "attachOrCreate db database =
     bindP defaultUser (\<lambda>user. bindP defaultPassword (\<lambda>password.
     bindP (makeDpb db user password ''UTF8'') (\<lambda>dpb.
     block
      [try_fb (attachDatabase db database dpb)
        (\<lambda>_. block
          [do_call (Xpb dpb (InsertInt isc_dpb_page_size (8 * 1024))),
           do_call (Xpb dpb (InsertString isc_dpb_set_db_charset ''UTF8'')),
           createDatabase db database dpb]),
       do_void (Xpb dpb XpbDispose)])))"


section \<open>Transactions and statements\<close>

definition tpb :: "tpb_item list \<Rightarrow> tpb_item list" where
  "tpb items = isc_tpb_version3 # items"

definition start_tpb :: "Db \<Rightarrow> tpb_item list \<Rightarrow> ('s, nat) prog" where
  "start_tpb db t = bindP (att_of db) (\<lambda>a. handle_of (Att a (StartTransaction t)))"

abbreviation start :: "Db \<Rightarrow> ('s, nat) prog" where
  "start db \<equiv> start_tpb db []"

definition exec :: "Db \<Rightarrow> nat \<Rightarrow> string \<Rightarrow> ('s, unit) prog" where
  "exec db tra sql = bindP (att_of db) (\<lambda>a. do_call (Att a (Execute tra (c_str sql))))"

definition commit :: "nat \<Rightarrow> ('s, unit) prog" where
  "commit tra = do_call (Tra tra Commit)"

definition commitRetaining :: "nat \<Rightarrow> ('s, unit) prog" where
  "commitRetaining tra = do_call (Tra tra CommitRetaining)"

definition rollback :: "nat \<Rightarrow> ('s, unit) prog" where
  "rollback tra = do_call (Tra tra Rollback)"


section \<open>Queries\<close>

record Table =
  names :: "string list"
  rows :: "string list list"

text \<open>
  The bytes a fetch leaves in a message buffer of \<open>n\<close> bytes: the library writes the
  message, the buffer keeps its size.
\<close>

definition fit :: "nat \<Rightarrow> byte list \<Rightarrow> byte list" where
  "fit n b = take n (b @ replicate n 0)"

lemma length_fit [simp]: "length (fit n b) = n"
  by (simp add: fit_def)

lemma fit_id [simp]: "length b = n \<Longrightarrow> fit n b = b"
  by (simp add: fit_def)

text \<open>
  One value of a fetched message: the null indicator is a 2-byte integer, a VARCHAR a
  2-byte length and the bytes.  Reading outside the buffer is undefined.
\<close>

definition read_value :: "byte list \<Rightarrow> nat \<Rightarrow> nat \<Rightarrow> string option" where
  "read_value buf off nullOff =
     (case le_read 2 buf nullOff of None \<Rightarrow> None
      | Some nullFlag \<Rightarrow>
          if nullFlag \<noteq> 0 then Some ''<null>''
          else (case le_read 2 buf off of None \<Rightarrow> None
                | Some len \<Rightarrow> map_option chars (slice buf (off + 2) len)))"

definition fetch_row :: "nat \<Rightarrow> nat \<Rightarrow> byte list \<Rightarrow> ('s, string list) prog" where
  "fetch_row meta cols buffer =
     collect [0..<cols] (\<lambda>i.
       bindP (number_of (Meta meta (GetOffset i))) (\<lambda>off.
       bindP (number_of (Meta meta (GetNullOffset i))) (\<lambda>nullOff.
       checked ''message read'' (read_value buffer off nullOff))))"

definition fetch_all :: "nat \<Rightarrow> nat \<Rightarrow> nat \<Rightarrow> nat \<Rightarrow> ('s, string list list) prog" where
  "fetch_all curs meta cols len =
     loopP (\<lambda>rs. bindP (ask (Curs curs (FetchNext len))) (\<lambda>r.
       if r_code r = RESULT_OK
       then bindP (fetch_row meta cols (fit len (r_b r))) (\<lambda>row. ret (Inl (rs @ [row])))
       else ret (Inr rs))) []"

definition coerce_columns :: "nat \<Rightarrow> nat \<Rightarrow> nat \<Rightarrow> ('s, string list) prog" where
  "coerce_columns meta builder cols =
     collect [0..<cols] (\<lambda>i.
       bindP (text_of (Meta meta (GetField i))) (\<lambda>f.
       returning
        [do_call (Builder builder (SetType i SQL_VARYING)),
         do_call (Builder builder (SetLength i 512)),
         do_call (Builder builder (SetCharSet i 0))]
        (c_str f)))"

definition query :: "Db \<Rightarrow> nat \<Rightarrow> string \<Rightarrow> ('s, Table) prog" where
  "query db tra sql =
     bindP (att_of db) (\<lambda>a.
     bindP (handle_of (Att a (Prepare tra (c_str sql) True))) (\<lambda>stmt.
     bindP (handle_of (Stmt stmt GetOutputMetadata)) (\<lambda>meta0.
     bindP (handle_of (Meta meta0 GetBuilder)) (\<lambda>builder.
     bindP (number_of (Meta meta0 GetCount)) (\<lambda>cols.
     bindP (coerce_columns meta0 builder cols) (\<lambda>ns.
     bindP (do_void (Meta meta0 MetaRelease)) (\<lambda>_.
     bindP (handle_of (Builder builder BuilderGetMetadata)) (\<lambda>meta.
     bindP (do_void (Builder builder BuilderRelease)) (\<lambda>_.
     bindP (number_of (Meta meta GetMessageLength)) (\<lambda>len.
     bindP (handle_of (Stmt stmt (OpenCursor tra (Some meta)))) (\<lambda>curs.
     bindP (fetch_all curs meta cols len) (\<lambda>rs.
     returning
      [do_call (Curs curs CursClose),
       do_void (Meta meta MetaRelease),
       do_call (Stmt stmt StmtFree)]
      \<lparr>names = ns, rows = rs\<rparr>))))))))))))"

text \<open>\<open>t.rows[0][c]\<close>, undefined outside the table.\<close>

definition cell_at :: "Table \<Rightarrow> nat \<Rightarrow> nat \<Rightarrow> ('s, string) prog" where
  "cell_at t r c = checked ''rows[r][c]''
     (if r < length (rows t) \<and> c < length (rows t ! r) then Some (rows t ! r ! c) else None)"

definition queryValue :: "Db \<Rightarrow> nat \<Rightarrow> string \<Rightarrow> ('s, string) prog" where
  "queryValue db tra sql =
     bindP (query db tra sql) (\<lambda>t.
     if rows t = [] then ret ''<no rows>'' else cell_at t 0 0)"


section \<open>Printing and reporting\<close>

text \<open>The column width: the widest of the header and the values, \<open>r[c]\<close> checked.\<close>

definition column_width :: "Table \<Rightarrow> nat \<Rightarrow> nat option" where
  "column_width t c =
     (if \<forall>r \<in> set (rows t). c < length r
      then Some (fold (\<lambda>r m. max m (length (r ! c))) (rows t) (length (names t ! c)))
      else None)"

fun all_some :: "'a option list \<Rightarrow> 'a list option" where
  "all_some [] = Some []"
| "all_some (x # xs) = (case x of None \<Rightarrow> None | Some a \<Rightarrow> map_option ((#) a) (all_some xs))"

definition print_cells :: "nat list \<Rightarrow> string list \<Rightarrow> string" where
  "print_cells w vs = concat (map (\<lambda>(n, v). ljust n (c_str v) @ '' '') (zip w vs))"

definition print_table :: "Table \<Rightarrow> string option" where
  "print_table t =
     (case all_some (map (column_width t) [0..<length (names t)]) of None \<Rightarrow> None
      | Some w \<Rightarrow>
          if \<forall>r \<in> set (rows t). length r \<le> length w
          then Some (print_cells w (names t) @ nl
                @ concat (map (\<lambda>n. replicate n (CHR ''-'') @ '' '') w) @ nl
                @ concat (map (\<lambda>r. print_cells w r @ nl) (rows t)))
          else None)"

definition print :: "Table \<Rightarrow> ('s, unit) prog" where
  "print t = bindP (checked ''table'' (print_table t)) say"

definition print_query :: "Db \<Rightarrow> nat \<Rightarrow> string \<Rightarrow> ('s, unit) prog" where
  "print_query db tra sql = bindP (query db tra sql) print"

definition formatStatus :: "nat \<Rightarrow> status \<Rightarrow> ('s, string) prog" where
  "formatStatus n st = bindP (ask_void (Master (FormatStatus n st))) (\<lambda>r. ret (c_str (r_s r)))"

definition report :: "status \<Rightarrow> ('s, int) prog" where
  "report error =
     bindP (formatStatus 1024 error) (\<lambda>buf.
     returning [say_err (''Firebird error:'' @ nl @ buf @ nl)] 1)"

definition argOrDefault :: "nat \<Rightarrow> string \<Rightarrow> ('s, string) prog" where
  "argOrDefault n dflt =
     bindP arguments (\<lambda>av. ret (if length av > n then av ! n else dflt))"

definition detach :: "Db \<Rightarrow> ('s, unit) prog" where
  \<comment> \<open>\<open>db.att->detach(&db.status); db.att = nullptr;\<close>\<close>
  "detach db = bindP (att_of db) (\<lambda>a.
     block [do_call (Att a Detach), set_cell KAtt (db_att db) None])"


section \<open>The interface count of the operations\<close>

text \<open>On the normal path every operation has given back what it acquired, except for the
  transaction that \<open>start\<close> hands out and the attachment that \<open>attach\<close> stores.\<close>

lemma okd_att_of [okd_rules]: "okd k (att_of db) 0"
  unfolding att_of_def by (rule okd_eq) (rule okd_rules | simp)+

lemma okd_start [okd_rules]: "okd k (start_tpb db t) (if k = KTra then 1 else 0)"
  unfolding start_tpb_def by (rule okd_eq) (rule okd_rules | simp add: delta_simps)+

lemma okd_exec [okd_rules]: "okd k (exec db tra sql) 0"
  unfolding exec_def by (rule okd_eq) (rule okd_rules | simp add: delta_simps)+

lemma okd_commit [okd_rules]: "okd k (commit t) (if k = KTra then - 1 else 0)"
  unfolding commit_def by (rule okd_eq) (rule okd_rules | simp add: delta_simps)+

lemma okd_rollback [okd_rules]: "okd k (rollback t) (if k = KTra then - 1 else 0)"
  unfolding rollback_def by (rule okd_eq) (rule okd_rules | simp add: delta_simps)+

lemma okd_commitRetaining [okd_rules]: "okd k (commitRetaining t) 0"
  unfolding commitRetaining_def by (rule okd_eq) (rule okd_rules | simp add: delta_simps)+

lemma okd_fetch_row [okd_rules]: "okd k (fetch_row meta cols buf) 0"
  unfolding fetch_row_def
  by (rule okd_eq) (rule okd_rules | simp add: delta_simps)+

lemma okd_fetch_all [okd_rules]: "okd k (fetch_all curs meta cols len) 0"
  unfolding fetch_all_def
  by (rule okd_eq) (rule okd_rules | simp add: delta_simps)+

lemma okd_coerce_columns [okd_rules]: "okd k (coerce_columns meta builder cols) 0"
  unfolding coerce_columns_def
  by (rule okd_eq) (rule okd_rules | simp add: delta_simps)+

lemma okd_query [okd_rules]: "okd k (query db tra sql) 0"
  unfolding query_def by (rule okd_eq) (rule okd_rules | simp add: delta_simps)+

lemma okd_cell_at [okd_rules]: "okd k (cell_at t r c) 0"
  unfolding cell_at_def by (rule okd_checked)

lemma okd_queryValue [okd_rules]: "okd k (queryValue db tra sql) 0"
  unfolding queryValue_def by (rule okd_eq) (rule okd_rules | simp)+

lemma okd_print [okd_rules]: "okd k (print t) 0"
  unfolding print_def by (rule okd_eq) (rule okd_rules | simp)+

lemma okd_print_query [okd_rules]: "okd k (print_query db tra sql) 0"
  unfolding print_query_def by (rule okd_eq) (rule okd_rules | simp)+

lemma okd_formatStatus [okd_rules]: "okd k (formatStatus n st) 0"
  unfolding formatStatus_def by (rule okd_eq) (rule okd_rules | simp add: delta_simps)+

lemma okd_argOrDefault [okd_rules]: "okd k (argOrDefault n d) 0"
  unfolding argOrDefault_def by (rule okd_eq) (rule okd_rules | simp)+

lemma okd_defaults [okd_rules]: "okd k defaultUser 0" "okd k defaultPassword 0"
  unfolding defaultUser_def defaultPassword_def by ((rule okd_eq, (rule okd_rules)+), simp)+

lemma okd_makeDpb [okd_rules]: "okd k (makeDpb db u p c) (if k = KXpb then 1 else 0)"
  unfolding makeDpb_def by (rule okd_eq) (rule okd_rules | simp add: delta_simps)+

lemma okd_attachDatabase [okd_rules]: "okd k (attachDatabase db d b) (if k = KAtt then 1 else 0)"
  unfolding attachDatabase_def by (rule okd_eq) (rule okd_rules | simp add: delta_simps)+

lemma okd_createDatabase [okd_rules]: "okd k (createDatabase db d b) (if k = KAtt then 1 else 0)"
  unfolding createDatabase_def by (rule okd_eq) (rule okd_rules | simp add: delta_simps)+

lemma okd_attach_as [okd_rules]: "okd k (attach_as db d u p c) (if k = KAtt then 1 else 0)"
  unfolding attach_as_def by (rule okd_eq) (rule okd_rules | simp add: delta_simps)+

lemma okd_attach [okd_rules]: "okd k (attach db d) (if k = KAtt then 1 else 0)"
  unfolding attach_def by (rule okd_eq) (rule okd_rules | simp)+

lemma okd_detach [okd_rules]: "okd k (detach db) (if k = KAtt then - 1 else 0)"
  unfolding detach_def by (rule okd_eq) (rule okd_rules | simp add: delta_simps)+

end
