(* ===== verification/Db_Query.thy ===== *)
theory Db_Query
  imports Db_Sample
begin

text \<open>
  What \<open>Db::query\<close> promises.  The abstract view of a result set is a list of rows of optional
  texts (\<open>None\<close> is SQL NULL); \<open>carries\<close> says that a message buffer holds such a row in the
  documented layout (2-byte null indicator, 2-byte length, bytes) at the offsets the metadata
  gives.  Against any server that answers its calls (\<open>answers\<close>), \<open>query\<close> returns, and the
  table it returns is that list, in order, with \<open><null>\<close> for NULL.  Every table it ever
  returns is rectangular, so \<open>print\<close> is defined on it, and its printed lines align.
\<close>


section \<open>Messages\<close>

definition show_cell :: "string option \<Rightarrow> string" where
  "show_cell v = (case v of None \<Rightarrow> ''<null>'' | Some s \<Rightarrow> s)"

definition cell_image :: "byte list \<Rightarrow> nat \<Rightarrow> nat \<Rightarrow> string option \<Rightarrow> bool" where
  "cell_image m off nullOff v \<longleftrightarrow> (case v of
     None \<Rightarrow> (\<exists>f. le_read 2 m nullOff = Some f \<and> f \<noteq> 0)
   | Some s \<Rightarrow> le_read 2 m nullOff = Some 0 \<and> le_read 2 m off = Some (length s)
       \<and> slice m (off + 2) (length s) = Some (bytes_of s))"

definition carries :: "byte list \<Rightarrow> nat list \<Rightarrow> nat list \<Rightarrow> string option list \<Rightarrow> bool" where
  "carries m offs noffs row \<longleftrightarrow> (\<forall>i < length row. cell_image m (offs ! i) (noffs ! i) (row ! i))"

lemma read_value_image: "cell_image m off nullOff v \<Longrightarrow> read_value m off nullOff = Some (show_cell v)"
  by (auto simp: cell_image_def read_value_def show_cell_def split: option.splits)

text \<open>The layout of a VARCHAR(512) message: text image, padding, null indicator.\<close>

definition put_cell :: "string option \<Rightarrow> byte list" where
  "put_cell v = (case v of None \<Rightarrow> replicate 514 0 @ [255, 255]
     | Some s \<Rightarrow> fit 514 (enc_le 2 (length s) @ bytes_of s) @ [0, 0])"

definition put_row :: "string option list \<Rightarrow> byte list" where
  "put_row row = concat (map put_cell row)"

definition cell_fits :: "string option \<Rightarrow> bool" where
  "cell_fits v \<longleftrightarrow> (case v of None \<Rightarrow> True | Some s \<Rightarrow> length s \<le> 512)"

lemma length_put_cell [simp]: "length (put_cell v) = 516"
  by (simp add: put_cell_def split: option.split)

lemma length_put_row [simp]: "length (put_row row) = 516 * length row"
  by (induction row) (simp_all add: put_row_def)

lemma fit_append:
  assumes "length m \<le> n"
  shows "\<exists>pad. fit n m = m @ pad \<and> length m + length pad = n"
proof -
  have "fit n m = m @ take (n - length m) (replicate n 0)"
    using assms unfolding fit_def by (subst take_append) simp
  then show ?thesis using assms by auto
qed

lemma put_cell_image:
  assumes "cell_fits v"
  shows "cell_image (put_cell v @ rest) 0 514 v"
proof (cases v)
  case None
  then show ?thesis
    by (auto simp: cell_image_def put_cell_def le_read_def slice_def)
next
  case (Some s)
  have len: "length s \<le> 512" using assms Some by (simp add: cell_fits_def)
  let ?m = "enc_le 2 (length s) @ bytes_of s"
  obtain pad where pad: "fit 514 ?m = ?m @ pad" "length ?m + length pad = 514"
    using fit_append [of ?m 514] len by auto
  have "le_read 2 (put_cell v @ rest) 514 = Some 0"
    by (simp add: put_cell_def Some le_read_def slice_def)
  moreover have "le_read 2 (put_cell v @ rest) 0 = Some (length s)"
    using len by (simp add: put_cell_def Some pad(1) le_read_def slice_def le_nat_enc_le)
  moreover have "slice (put_cell v @ rest) 2 (length s) = Some (bytes_of s)"
    by (simp add: put_cell_def Some pad(1) slice_def)
  ultimately show ?thesis by (simp add: cell_image_def Some numeral_2_eq_2)
qed

lemma cell_image_shift:
  "cell_image (pre @ m) (length pre + off) (length pre + noff) v = cell_image m off noff v"
  by (cases v) (simp_all add: cell_image_def le_read_append_right slice_append_right add.assoc
      del: add_2_eq_Suc')

lemma put_row_carries:
  assumes "\<forall>v \<in> set row. cell_fits v"
  shows "carries (put_row row) (map (\<lambda>i. 516 * i) [0..<length row])
    (map (\<lambda>i. 516 * i + 514) [0..<length row]) row"
  unfolding carries_def
proof (intro allI impI)
  fix i assume i: "i < length row"
  have "put_row row = put_row (take i row) @ put_cell (row ! i) @ put_row (drop (Suc i) row)"
    using i by (metis Cons_nth_drop_Suc append_take_drop_id concat.simps(2) concat_append
        list.simps(9) map_append put_row_def)
  moreover have "cell_image (put_cell (row ! i) @ put_row (drop (Suc i) row)) 0 514 (row ! i)"
    using assms i by (intro put_cell_image) simp
  ultimately have "cell_image (put_row row) (516 * i + 0) (516 * i + 514) (row ! i)"
    using cell_image_shift [of "put_row (take i row)" _ 0 514] i by simp
  then show "cell_image (put_row row) (map (\<lambda>i. 516 * i) [0..<length row] ! i)
      (map (\<lambda>i. 516 * i + 514) [0..<length row] ! i) (row ! i)"
    using i by simp
qed


section \<open>A server that answers\<close>

text \<open>
  The documented behaviour of the interfaces during a query: every call succeeds; the metadata
  gives the names, offsets and message length; \<open>fetchNext\<close> delivers the messages that \<open>q\<close>
  reads off the server state one by one and then reports the end.
\<close>

definition answers ::
  "'s env \<Rightarrow> ('s \<Rightarrow> byte list list) \<Rightarrow> string list \<Rightarrow> nat list \<Rightarrow> nat list \<Rightarrow> nat \<Rightarrow> bool" where
  "answers e q ns offs noffs len \<longleftrightarrow> (\<forall>c s. \<exists>r s'. fb e c s = ((None, r), s') \<and>
     (case c of
        Curs h (FetchNext n) \<Rightarrow>
          (case q s of [] \<Rightarrow> r_code r \<noteq> RESULT_OK \<and> q s' = []
           | m # ms \<Rightarrow> r_code r = RESULT_OK \<and> r_b r = m \<and> q s' = ms)
      | Meta h mc \<Rightarrow> q s' = q s \<and>
          (case mc of GetCount \<Rightarrow> r_n r = int (length ns)
           | GetField i \<Rightarrow> i < length ns \<longrightarrow> r_s r = ns ! i
           | GetOffset i \<Rightarrow> i < length ns \<longrightarrow> r_n r = int (offs ! i)
           | GetNullOffset i \<Rightarrow> i < length ns \<longrightarrow> r_n r = int (noffs ! i)
           | GetMessageLength \<Rightarrow> r_n r = int len
           | _ \<Rightarrow> True)
      | _ \<Rightarrow> q s' = q s))"

definition plain_call :: "call \<Rightarrow> bool" where
  "plain_call c \<longleftrightarrow> (case c of Curs h (FetchNext n) \<Rightarrow> False | _ \<Rightarrow> True)"

abbreviation pending :: "('s \<Rightarrow> byte list list) \<Rightarrow> byte list list \<Rightarrow> 's world \<Rightarrow> bool" where
  "pending q ms w \<equiv> q (server w) = ms"

lemma answers_ask:
  assumes a: "answers e q ns offs noffs len" and c: "plain_call c"
  shows "gives e (pending q ms) (ask c) (\<lambda>r w. pending q ms w \<and>
     (case c of Meta h mc \<Rightarrow>
        (case mc of GetCount \<Rightarrow> r_n r = int (length ns)
         | GetField i \<Rightarrow> i < length ns \<longrightarrow> r_s r = ns ! i
         | GetOffset i \<Rightarrow> i < length ns \<longrightarrow> r_n r = int (offs ! i)
         | GetNullOffset i \<Rightarrow> i < length ns \<longrightarrow> r_n r = int (noffs ! i)
         | GetMessageLength \<Rightarrow> r_n r = int len
         | _ \<Rightarrow> True)
      | _ \<Rightarrow> True))"
proof (rule givesI)
  fix w assume "pending q ms w"
  moreover obtain r s' where "fb e c (server w) = ((None, r), s')"
    and "(case c of
        Curs h (FetchNext n) \<Rightarrow>
          (case q (server w) of [] \<Rightarrow> r_code r \<noteq> RESULT_OK \<and> q s' = []
           | m # ms \<Rightarrow> r_code r = RESULT_OK \<and> r_b r = m \<and> q s' = ms)
      | Meta h mc \<Rightarrow> q s' = q (server w) \<and>
          (case mc of GetCount \<Rightarrow> r_n r = int (length ns)
           | GetField i \<Rightarrow> i < length ns \<longrightarrow> r_s r = ns ! i
           | GetOffset i \<Rightarrow> i < length ns \<longrightarrow> r_n r = int (offs ! i)
           | GetNullOffset i \<Rightarrow> i < length ns \<longrightarrow> r_n r = int (noffs ! i)
           | GetMessageLength \<Rightarrow> r_n r = int len
           | _ \<Rightarrow> True)
      | _ \<Rightarrow> q s' = q (server w))"
    using a unfolding answers_def by meson
  ultimately show "\<exists>r w'. ask c e w = Some (Ok r, w') \<and> pending q ms w' \<and>
     (case c of Meta h mc \<Rightarrow>
        (case mc of GetCount \<Rightarrow> r_n r = int (length ns)
         | GetField i \<Rightarrow> i < length ns \<longrightarrow> r_s r = ns ! i
         | GetOffset i \<Rightarrow> i < length ns \<longrightarrow> r_n r = int (offs ! i)
         | GetNullOffset i \<Rightarrow> i < length ns \<longrightarrow> r_n r = int (noffs ! i)
         | GetMessageLength \<Rightarrow> r_n r = int len
         | _ \<Rightarrow> True)
      | _ \<Rightarrow> True)"
    using c by (auto simp: ask_run plain_call_def split: call.splits curs_call.splits)
qed


section \<open>The query\<close>

lemma answers_calls:
  assumes a: "answers e q ns offs noffs len"
  shows "plain_call c \<Longrightarrow> gives e (pending q ms) (handle_of c) (\<lambda>_. pending q ms)"
    and "plain_call c \<Longrightarrow> gives e (pending q ms) (do_call c) (\<lambda>_. pending q ms)"
    and "plain_call c \<Longrightarrow> gives e (pending q ms) (do_void c) (\<lambda>_. pending q ms)"
    and "gives e (pending q ms) (number_of (Meta h GetCount)) (\<lambda>n w. n = length ns \<and> pending q ms w)"
    and "gives e (pending q ms) (number_of (Meta h GetMessageLength)) (\<lambda>n w. n = len \<and> pending q ms w)"
    and "i < length ns \<Longrightarrow>
      gives e (pending q ms) (number_of (Meta h (GetOffset i))) (\<lambda>n w. n = offs ! i \<and> pending q ms w)"
    and "i < length ns \<Longrightarrow>
      gives e (pending q ms) (number_of (Meta h (GetNullOffset i))) (\<lambda>n w. n = noffs ! i \<and> pending q ms w)"
    and "i < length ns \<Longrightarrow>
      gives e (pending q ms) (text_of (Meta h (GetField i))) (\<lambda>x w. x = ns ! i \<and> pending q ms w)"
proof -
  note r = answers_ask [OF a]
  have void: "plain_call c \<Longrightarrow> gives e (pending q ms) (ask_void c) (\<lambda>_. pending q ms)"
    using r [of c] by (fastforce simp: gives_def ask_run ask_void_run)
  show "plain_call c \<Longrightarrow> gives e (pending q ms) (handle_of c) (\<lambda>_. pending q ms)"
    "plain_call c \<Longrightarrow> gives e (pending q ms) (do_call c) (\<lambda>_. pending q ms)"
    unfolding handle_of_def do_call_def ignore_def
    by (rule gives_bindP, erule r, rule gives_ret, simp)+
  show "plain_call c \<Longrightarrow> gives e (pending q ms) (do_void c) (\<lambda>_. pending q ms)"
    unfolding do_void_def ignore_def by (rule gives_bindP, erule void, rule gives_ret)
  show "gives e (pending q ms) (number_of (Meta h GetCount)) (\<lambda>n w. n = length ns \<and> pending q ms w)"
    "gives e (pending q ms) (number_of (Meta h GetMessageLength)) (\<lambda>n w. n = len \<and> pending q ms w)"
    unfolding number_of_def
    by (rule gives_bindP, rule r, simp add: plain_call_def, rule gives_ret, simp)+
  assume i: "i < length ns"
  show "gives e (pending q ms) (number_of (Meta h (GetOffset i))) (\<lambda>n w. n = offs ! i \<and> pending q ms w)"
    "gives e (pending q ms) (number_of (Meta h (GetNullOffset i))) (\<lambda>n w. n = noffs ! i \<and> pending q ms w)"
    "gives e (pending q ms) (text_of (Meta h (GetField i))) (\<lambda>x w. x = ns ! i \<and> pending q ms w)"
    unfolding number_of_def text_of_def
    by (rule gives_bindP, rule r, simp add: plain_call_def, rule gives_ret, simp add: i)+
qed

lemma gives_fetch_row:
  assumes a: "answers e q ns offs noffs len" and row: "carries m offs noffs row"
    and cols: "length row = length ns"
  shows "gives e (pending q ms) (fetch_row meta (length ns) m)
    (\<lambda>r w. r = map show_cell row \<and> pending q ms w)"
proof -
  have one: "gives e (pending q ms)
      (bindP (number_of (Meta meta (GetOffset i))) (\<lambda>off.
       bindP (number_of (Meta meta (GetNullOffset i))) (\<lambda>nullOff.
       checked ''message read'' (read_value m off nullOff))))
      (\<lambda>y w. y = show_cell (row ! i) \<and> pending q ms w)" if i: "i < length ns" for i
  proof (rule gives_bindP [OF answers_calls(6) [OF a i]], rule gives_pure,
      rule gives_bindP [OF answers_calls(7) [OF a i]], rule gives_pure)
    fix off nullOff assume "off = offs ! i" "nullOff = noffs ! i"
    then have "read_value m off nullOff = Some (show_cell (row ! i))"
      using row i cols by (simp add: carries_def read_value_image)
    then show "gives e (pending q ms) (checked ''message read'' (read_value m off nullOff))
        (\<lambda>y w. y = show_cell (row ! i) \<and> pending q ms w)"
      by (simp add: checked_def gives_ret)
  qed
  have "map (\<lambda>i. show_cell (row ! i)) [0..<length ns] = map show_cell row"
    by (rule nth_equalityI) (simp_all add: cols)
  moreover have "gives e (pending q ms) (fetch_row meta (length ns) m)
      (\<lambda>r w. r = map (\<lambda>i. show_cell (row ! i)) [0..<length ns] \<and> pending q ms w)"
    unfolding fetch_row_def by (rule gives_collect, rule one) simp
  ultimately show ?thesis by simp
qed

lemma answers_fetch:
  assumes "answers e q ns offs noffs len"
  shows "gives e (pending q (m # ms)) (ask (Curs h (FetchNext n)))
      (\<lambda>r w. (r_code r = RESULT_OK \<and> r_b r = m) \<and> pending q ms w)"
    and "gives e (pending q []) (ask (Curs h (FetchNext n)))
      (\<lambda>r w. r_code r \<noteq> RESULT_OK \<and> pending q [] w)"
proof -
  have ans: "\<exists>r s'. fb e (Curs h (FetchNext n)) s = ((None, r), s') \<and>
      (case q s of [] \<Rightarrow> r_code r \<noteq> RESULT_OK \<and> q s' = []
       | m # ms \<Rightarrow> r_code r = RESULT_OK \<and> r_b r = m \<and> q s' = ms)" for s
    using assms unfolding answers_def by (elim allE [of _ "Curs h (FetchNext n)"]) simp
  show "gives e (pending q (m # ms)) (ask (Curs h (FetchNext n)))
      (\<lambda>r w. (r_code r = RESULT_OK \<and> r_b r = m) \<and> pending q ms w)"
  proof (rule givesI)
    fix w assume "pending q (m # ms) w"
    with ans [of "server w"] show "\<exists>r w'. ask (Curs h (FetchNext n)) e w = Some (Ok r, w') \<and>
        (r_code r = RESULT_OK \<and> r_b r = m) \<and> pending q ms w'"
      by (auto simp: ask_run)
  qed
  show "gives e (pending q []) (ask (Curs h (FetchNext n)))
      (\<lambda>r w. r_code r \<noteq> RESULT_OK \<and> pending q [] w)"
  proof (rule givesI)
    fix w assume "pending q [] w"
    with ans [of "server w"] show "\<exists>r w'. ask (Curs h (FetchNext n)) e w = Some (Ok r, w') \<and>
        r_code r \<noteq> RESULT_OK \<and> pending q [] w'"
      by (auto simp: ask_run)
  qed
qed

abbreviation fetch_loop :: "nat \<Rightarrow> nat \<Rightarrow> nat \<Rightarrow> nat \<Rightarrow> string list list \<Rightarrow> ('s, string list list) prog" where
  "fetch_loop curs meta cols len \<equiv> loopP (\<lambda>rs. bindP (ask (Curs curs (FetchNext len))) (\<lambda>r.
       if r_code r = RESULT_OK
       then bindP (fetch_row meta cols (fit len (r_b r))) (\<lambda>row. ret (Inl (rs @ [row])))
       else ret (Inr rs)))"

lemma gives_fetch_loop:
  assumes a: "answers e q ns offs noffs len"
    and ms: "list_all2 (\<lambda>m row. length m = len \<and> carries m offs noffs row \<and> length row = length ns) ms rs"
  shows "gives e (pending q ms) (fetch_loop curs meta (length ns) len acc)
    (\<lambda>t w. t = acc @ map (map show_cell) rs \<and> pending q [] w)"
  using ms
proof (induction ms rs arbitrary: acc rule: list_all2_induct)
  case Nil
  show ?case
  proof (rule givesI)
    fix w assume "pending q [] w"
    then obtain r w' where "ask (Curs curs (FetchNext len)) e w = Some (Ok r, w')"
        "r_code r \<noteq> RESULT_OK" "pending q [] w'"
      by (rule givesE [OF answers_fetch(2) [OF a]]) auto
    then show "\<exists>t w'. fetch_loop curs meta (length ns) len acc e w = Some (Ok t, w') \<and>
        t = acc @ map (map show_cell) [] \<and> pending q [] w'"
      by (intro exI conjI) (rule loopP_leave, auto simp: bindP_def ret_def)
  qed
next
  case (Cons m ms row rs)
  show ?case
  proof (rule givesI)
    fix w assume p: "pending q (m # ms) w"
    obtain r w1 where r: "ask (Curs curs (FetchNext len)) e w = Some (Ok r, w1)"
        "r_code r = RESULT_OK" "r_b r = m" "pending q ms w1"
      by (rule givesE [OF answers_fetch(1) [OF a] p]) auto
    obtain w2 where row: "fetch_row meta (length ns) m e w1 = Some (Ok (map show_cell row), w2)"
        "pending q ms w2"
      by (rule givesE [OF gives_fetch_row [OF a, of m row ms meta] r(4)]) (use Cons.hyps in auto)
    have "fetch_loop curs meta (length ns) len acc e w =
        fetch_loop curs meta (length ns) len (acc @ [map show_cell row]) e w2"
      using r row Cons.hyps by (intro loopP_again) (simp add: bindP_def ret_def)
    moreover obtain w3 where "fetch_loop curs meta (length ns) len (acc @ [map show_cell row]) e w2 =
        Some (Ok (acc @ map (map show_cell) (row # rs)), w3)" "pending q [] w3"
      by (rule givesE [OF Cons.IH [of "acc @ [map show_cell row]"] row(2)]) simp
    ultimately show "\<exists>t w'. fetch_loop curs meta (length ns) len acc e w = Some (Ok t, w') \<and>
        t = acc @ map (map show_cell) (row # rs) \<and> pending q [] w'"
      by simp
  qed
qed

lemma gives_coerce:
  assumes a: "answers e q ns offs noffs len"
  shows "gives e (pending q ms) (coerce_columns meta builder (length ns))
    (\<lambda>xs w. xs = map c_str ns \<and> pending q ms w)"
proof -
  have set: "gives e (pending q ms) (do_call (Builder builder b)) (\<lambda>_. pending q ms)" for b
    by (rule answers_calls(2) [OF a]) (simp add: plain_call_def)
  have one: "gives e (pending q ms)
      (bindP (text_of (Meta meta (GetField i))) (\<lambda>f.
       returning
        [do_call (Builder builder (SetType i SQL_VARYING)),
         do_call (Builder builder (SetLength i 512)),
         do_call (Builder builder (SetCharSet i 0))]
        (c_str f)))
      (\<lambda>y w. y = c_str (ns ! i) \<and> pending q ms w)" if i: "i < length ns" for i
    unfolding returning_def block.simps
    by (rule gives_bindP [OF answers_calls(8) [OF a i]], rule gives_pure, rule gives_bindP)
      (rule gives_bindP [OF set gives_bindP [OF set gives_bindP [OF set]]], rule gives_ret, assumption,
        rule gives_ret, simp)
  have "map (\<lambda>i. c_str (ns ! i)) [0..<length ns] = map c_str ns"
    by (rule nth_equalityI) simp_all
  moreover have "gives e (pending q ms) (coerce_columns meta builder (length ns))
      (\<lambda>xs w. xs = map (\<lambda>i. c_str (ns ! i)) [0..<length ns] \<and> pending q ms w)"
    unfolding coerce_columns_def by (rule gives_collect, rule one) simp
  ultimately show ?thesis by simp
qed

lemma gives_query:
  assumes a: "answers e q ns offs noffs len"
    and ms: "list_all2 (\<lambda>m row. length m = len \<and> carries m offs noffs row \<and> length row = length ns) ms rs"
  shows "gives e (\<lambda>w. cells w KAtt (db_att db) \<noteq> None \<and> pending q ms w) (query db tra sql)
    (\<lambda>t w. t = \<lparr>names = map c_str ns, rows = map (map show_cell) rs\<rparr> \<and> pending q [] w)"
proof -
  have att: "gives e (\<lambda>w. cells w KAtt (db_att db) \<noteq> None \<and> pending q ms w) (att_of db)
      (\<lambda>_. pending q ms)"
    by (rule givesI) (auto simp: att_of_def bindP_def run_simps checked_def)
  note c = answers_calls [OF a]
  show ?thesis
    unfolding query_def returning_def block.simps
    apply (rule gives_bindP [OF att])
    apply (rule gives_bindP [OF c(1)], simp add: plain_call_def)
    apply (rule gives_bindP [OF c(1)], simp add: plain_call_def)
    apply (rule gives_bindP [OF c(1)], simp add: plain_call_def)
    apply (rule gives_bindP [OF c(4)], rule gives_pure, hypsubst)
    apply (rule gives_bindP [OF gives_coerce [OF a]], rule gives_pure, hypsubst)
    apply (rule gives_bindP [OF c(3)], simp add: plain_call_def)
    apply (rule gives_bindP [OF c(1)], simp add: plain_call_def)
    apply (rule gives_bindP [OF c(3)], simp add: plain_call_def)
    apply (rule gives_bindP [OF c(5)], rule gives_pure, hypsubst)
    apply (rule gives_bindP [OF c(1)], simp add: plain_call_def)
    apply (rule gives_bindP [OF gives_fetch_loop [OF a ms, of _ _ "[]", folded fetch_all_def]],
        rule gives_pure, hypsubst)
    apply (rule gives_bindP, rule gives_bindP [OF c(2)], simp add: plain_call_def)
    apply (rule gives_bindP [OF c(3)], simp add: plain_call_def)
    apply (rule gives_bindP [OF c(2)], simp add: plain_call_def, rule gives_ret, assumption)
    apply (rule gives_ret, simp)
    done
qed


section \<open>Tables\<close>

definition rectangular :: "Table \<Rightarrow> bool" where
  "rectangular t \<longleftrightarrow> (\<forall>r \<in> set (rows t). length r = length (names t))"

lemma fetch_all_width: "yields (fetch_all curs meta cols len) (\<lambda>rs. \<forall>r \<in> set rs. length r = cols)"
proof -
  have row: "yields (fetch_row meta cols b) (\<lambda>r. length r = cols)" for b
    unfolding fetch_row_def using yields_collect_length [of "[0..<cols]"] by simp
  show ?thesis
    unfolding fetch_all_def
  proof (rule yields_loopP [where I = "\<lambda>rs. \<forall>r \<in> set rs. length r = cols"])
    fix rs :: "string list list" assume "\<forall>r \<in> set rs. length r = cols"
    then have more_rows: "yields (bindP (fetch_row meta cols b) (\<lambda>row. ret (Inl (rs @ [row]))))
        (\<lambda>x. case x of Inl rs \<Rightarrow> \<forall>r \<in> set rs. length r = cols | Inr rs \<Rightarrow> \<forall>r \<in> set rs. length r = cols)" for b
      by (intro yields_bindP [OF row] yields_ret) auto
    have no_rows: "yields (ret (Inr rs)) (\<lambda>x. case x of Inl rs \<Rightarrow> \<forall>r \<in> set rs. length r = cols
        | Inr rs \<Rightarrow> \<forall>r \<in> set rs. length r = cols)"
      using \<open>\<forall>r \<in> set rs. length r = cols\<close> by (intro yields_ret) simp
    show "yields (bindP (ask (Curs curs (FetchNext len))) (\<lambda>r.
          if r_code r = RESULT_OK
          then bindP (fetch_row meta cols (fit len (r_b r))) (\<lambda>row. ret (Inl (rs @ [row])))
          else ret (Inr rs)))
        (\<lambda>x. case x of Inl rs \<Rightarrow> \<forall>r \<in> set rs. length r = cols | Inr rs \<Rightarrow> \<forall>r \<in> set rs. length r = cols)"
      by (rule yields_bindP [OF yields_any], rule yields_if, rule more_rows, rule no_rows)
  qed simp
qed

lemma query_rectangular: "yields (query db tra sql) rectangular"
proof -
  have cols: "yields (coerce_columns m b cols) (\<lambda>ns. length ns = cols)" for m b cols
    unfolding coerce_columns_def using yields_collect_length [of "[0..<cols]"] by simp
  show ?thesis
    unfolding query_def
    by (rule yields_bindP [OF cols] yields_bindP [OF fetch_all_width] yields_bindP [OF yields_any])+
      (rule yields_returning, simp add: rectangular_def)
qed

lemma column_width_defined: "rectangular t \<Longrightarrow> c < length (names t) \<Longrightarrow> \<exists>n. column_width t c = Some n"
  by (simp add: column_width_def rectangular_def)

lemma all_some_Some: "(\<And>x. x \<in> set xs \<Longrightarrow> x \<noteq> None) \<Longrightarrow> \<exists>ys. all_some xs = Some ys \<and> length ys = length xs"
proof (induction xs)
  case (Cons x xs)
  then obtain a ys where "x = Some a" "all_some xs = Some ys" "length ys = length xs"
    by fastforce
  then show ?case by simp
qed simp

lemma all_some_nth: "all_some xs = Some ys \<Longrightarrow> i < length xs \<Longrightarrow> xs ! i = Some (ys ! i)"
proof (induction xs arbitrary: ys i)
  case (Cons x xs)
  then show ?case by (cases i) (auto split: option.splits)
qed simp

text \<open>The widths \<open>print\<close> computes, and what they are good for: every cell fits its column.\<close>

definition widths :: "Table \<Rightarrow> nat list" where
  "widths t = map (\<lambda>c. fold (\<lambda>r m. max m (length (r ! c))) (rows t) (length (names t ! c)))
     [0..<length (names t)]"

lemma fold_max_ge: "m \<le> fold (\<lambda>r m. max m (f r)) rs (m :: nat)"
proof (induction rs arbitrary: m)
  case (Cons x rs)
  show ?case using order_trans [OF max.cobounded1 Cons.IH, of m "f x"] by simp
qed simp

lemma fold_max_mem: "r \<in> set rs \<Longrightarrow> f r \<le> fold (\<lambda>r m. max m (f r)) rs (m :: nat)"
proof (induction rs arbitrary: m)
  case (Cons x rs)
  then show ?case
    using order_trans [OF max.cobounded2 fold_max_ge [of _ f rs], of "f x" m] by auto
qed simp

lemma widths_all_some:
  assumes "rectangular t"
  shows "all_some (map (column_width t) [0..<length (names t)]) = Some (widths t)"
proof -
  have "all_some (map (\<lambda>c. Some (g c)) cs) = Some (map g cs)" for g :: "nat \<Rightarrow> nat" and cs
    by (induction cs) simp_all
  moreover have "map (column_width t) [0..<length (names t)] =
    map (\<lambda>c. Some (fold (\<lambda>r m. max m (length (r ! c))) (rows t) (length (names t ! c)))) [0..<length (names t)]"
    using assms by (intro map_cong) (simp_all add: column_width_def rectangular_def)
  ultimately show ?thesis by (simp only: widths_def)
qed

lemma print_table_rectangular:
  assumes "rectangular t"
  shows "print_table t = Some (print_cells (widths t) (names t) @ nl
      @ concat (map (\<lambda>n. replicate n (CHR ''-'') @ '' '') (widths t)) @ nl
      @ concat (map (\<lambda>r. print_cells (widths t) r @ nl) (rows t)))"
proof -
  have "length (widths t) = length (names t)" by (simp add: widths_def)
  then show ?thesis
    using assms by (simp add: print_table_def widths_all_some rectangular_def)
qed

lemma length_print_cells:
  assumes "length vs = length w" and "\<And>i. i < length w \<Longrightarrow> length (vs ! i) \<le> w ! i"
  shows "length (print_cells w vs) = sum_list w + length w"
  using assms
proof (induction w vs rule: list_induct2')
  case (4 n w v vs)
  have "length (c_str v) \<le> n" using 4(3) [of 0] c_str_length [of v] by simp
  moreover have "length (print_cells w vs) = sum_list w + length w"
    using 4(2) 4(3) [of "Suc _"] by (intro 4(1)) auto
  ultimately show ?case by (simp add: print_cells_def max_def)
qed (simp_all add: print_cells_def)

lemma widths_cover:
  assumes "rectangular t" and "c < length (names t)"
  shows "length (names t ! c) \<le> widths t ! c" and "r \<in> set (rows t) \<Longrightarrow> length (r ! c) \<le> widths t ! c"
  using assms fold_max_ge fold_max_mem by (simp_all add: widths_def)


section \<open>A concrete server\<close>

text \<open>
  A server that delivers a list of messages under given metadata: what the hypotheses about
  servers are tried on.
\<close>

definition blank_reply :: reply where
  "blank_reply = \<lparr>r_h = 7, r_n = 0, r_s = [], r_b = [], r_ns = [], r_descs = [], r_ints = [], r_code = RESULT_OK, r_null = False\<rparr>"

definition demo_headers :: header_values where
  "demo_headers = \<lparr>xpb_val = (\<lambda>_. 0), info_val = (\<lambda>i. case i of isc_info_end \<Rightarrow> 1 | isc_info_svc_line \<Rightarrow> 62
       | _ \<Rightarrow> 3), sql_val = (\<lambda>_. 0), blr_val = (\<lambda>_. 0), arg_val = (\<lambda>_. 0), enum_val = (\<lambda>_. 0), isc_portable_integer = (\<lambda>bs. int (le_nat bs))\<rparr>"

definition demo_fb ::
  "string list \<Rightarrow> nat list \<Rightarrow> nat list \<Rightarrow> nat \<Rightarrow> call \<Rightarrow> byte list list \<Rightarrow> (status option \<times> reply) \<times> byte list list"
where
  "demo_fb ns offs noffs len c s = (case c of
     Curs h (FetchNext n) \<Rightarrow> (case s of [] \<Rightarrow> ((None, blank_reply\<lparr>r_code := RESULT_NO_DATA\<rparr>), [])
        | m # ms \<Rightarrow> ((None, blank_reply\<lparr>r_b := m\<rparr>), ms))
   | Meta h mc \<Rightarrow> ((None, (case mc of
         GetCount \<Rightarrow> blank_reply\<lparr>r_n := int (length ns)\<rparr>
       | GetField i \<Rightarrow> blank_reply\<lparr>r_s := ns ! i\<rparr>
       | GetOffset i \<Rightarrow> blank_reply\<lparr>r_n := int (offs ! i)\<rparr>
       | GetNullOffset i \<Rightarrow> blank_reply\<lparr>r_n := int (noffs ! i)\<rparr>
       | GetMessageLength \<Rightarrow> blank_reply\<lparr>r_n := int len\<rparr>
       | _ \<Rightarrow> blank_reply)), s)
   | _ \<Rightarrow> ((None, blank_reply), s))"

definition demo_env :: "string list \<Rightarrow> nat list \<Rightarrow> nat list \<Rightarrow> nat \<Rightarrow> byte list list env" where
  "demo_env ns offs noffs len = \<lparr>fb = demo_fb ns offs noffs len, hdr = demo_headers, argv = []\<rparr>"

definition demo_world :: "'s \<Rightarrow> 's world" where
  "demo_world s = \<lparr>server = s, log = [], out = [], err = [], environ = (\<lambda>_. None),
     cells = (\<lambda>k i. if k = KAtt \<and> i = 0 then Some 5 else None), fresh = 1\<rparr>"

definition demo_db :: Db where
  "demo_db = \<lparr>db_att = 0, db_status = 1, db_prov = 2\<rparr>"

lemma demo_answers: "answers (demo_env ns offs noffs len) (\<lambda>s. s) ns offs noffs len"
  unfolding answers_def demo_env_def
proof (intro allI)
  fix c s
  show "\<exists>r s'. fb \<lparr>fb = demo_fb ns offs noffs len, hdr = demo_headers, argv = []\<rparr> c s = ((None, r), s') \<and>
     (case c of
        Curs h (FetchNext n) \<Rightarrow>
          (case s of [] \<Rightarrow> r_code r \<noteq> RESULT_OK \<and> s' = []
           | m # ms \<Rightarrow> r_code r = RESULT_OK \<and> r_b r = m \<and> s' = ms)
      | Meta h mc \<Rightarrow> s' = s \<and>
          (case mc of GetCount \<Rightarrow> r_n r = int (length ns)
           | GetField i \<Rightarrow> i < length ns \<longrightarrow> r_s r = ns ! i
           | GetOffset i \<Rightarrow> i < length ns \<longrightarrow> r_n r = int (offs ! i)
           | GetNullOffset i \<Rightarrow> i < length ns \<longrightarrow> r_n r = int (noffs ! i)
           | GetMessageLength \<Rightarrow> r_n r = int len
           | _ \<Rightarrow> True)
      | _ \<Rightarrow> s' = s)"
    by (cases c; cases s) (auto simp: demo_fb_def blank_reply_def split: curs_call.split meta_call.split)
qed

text \<open>Two columns, two rows, one of the values NULL.\<close>

definition demo_rows :: "string option list list" where
  "demo_rows = [[Some ''1'', Some ''Ada''], [Some ''2'', None]]"

abbreviation demo_run :: "byte list list env" where
  "demo_run \<equiv> demo_env [''ID'', ''NAME''] (map (\<lambda>i. 516 * i) [0..<2]) (map (\<lambda>i. 516 * i + 514) [0..<2]) 1032"

lemma demo_carries:
  "list_all2 (\<lambda>m row. length m = 1032
      \<and> carries m (map (\<lambda>i. 516 * i) [0..<2]) (map (\<lambda>i. 516 * i + 514) [0..<2]) row
      \<and> length row = length [''ID'', ''NAME'']) (map put_row demo_rows) demo_rows"
proof -
  have "carries (put_row row) (map (\<lambda>i. 516 * i) [0..<2]) (map (\<lambda>i. 516 * i + 514) [0..<2]) row"
    if "row \<in> set demo_rows" for row
  proof -
    have "\<forall>v \<in> set row. cell_fits v" "length row = 2"
      using that by (auto simp: demo_rows_def cell_fits_def)
    then show ?thesis using put_row_carries [of row] by simp
  qed
  then show ?thesis by (simp add: demo_rows_def)
qed

lemma demo_att: "cells (demo_world s) KAtt (db_att demo_db) = Some 5"
  by (simp add: demo_world_def demo_db_def)

lemma demo_server [simp]: "server (demo_world s) = s"
  by (simp add: demo_world_def)

lemma demo_query:
  obtains w' where "query demo_db 3 ''select id, name from t'' demo_run (demo_world (map put_row demo_rows)) =
    Some (Ok \<lparr>names = map c_str [''ID'', ''NAME''], rows = map (map show_cell) demo_rows\<rparr>, w')"
  by (rule givesE [OF gives_query [OF demo_answers demo_carries],
        of "demo_world (map put_row demo_rows)" demo_db 3 "''select id, name from t''"])
    (auto simp: demo_att)


section \<open>Properties\<close>



text \<open>
  C13.  A row written in the message layout that \<open>query\<close> asks for (every column a
  VARCHAR(512) with its length prefix and null indicator) is read back value by value: texts
  of up to 512 bytes unchanged, NULL as \<open><null>\<close>.
\<close>

theorem read_value_roundtrip:
  assumes "\<forall>v \<in> set row. cell_fits v" and "i < length row"
  shows "read_value (put_row row) (516 * i) (516 * i + 514) = Some (show_cell (row ! i))"
proof -
  have "cell_image (put_row row) (516 * i) (516 * i + 514) (row ! i)"
    using put_row_carries [OF assms(1)] assms(2) by (simp add: carries_def)
  then show ?thesis by (rule read_value_image)
qed

theorem read_value_roundtrip_witness:
  "read_value (put_row [Some ''x'', None]) (516 * 1) (516 * 1 + 514) = Some ''<null>''"
  using read_value_roundtrip [of "[Some ''x'', None]" 1] by (simp add: cell_fits_def show_cell_def)

text \<open>
  C10.  When \<open>Db::query\<close> returns a table it has given back every interface it acquired,
  of every kind: statement, cursor, metadata, builder.
\<close>

theorem query_gives_back:
  assumes "query db tra sql e w = Some (Ok t, w')"
  shows "bal (gain k) w' = bal (gain k) w"
  using okdD [OF okd_query assms] by simp

theorem query_gives_back_witness:
  "\<exists>t w'. query demo_db 3 ''select id, name from t'' demo_run (demo_world (map put_row demo_rows)) =
     Some (Ok t, w') \<and> bal (gain KCurs) w' = 0"
proof -
  obtain t w' where run: "query demo_db 3 ''select id, name from t'' demo_run
      (demo_world (map put_row demo_rows)) = Some (Ok t, w')"
    by (rule demo_query)
  then show ?thesis
    using query_gives_back [OF run, of KCurs] by (auto simp: bal_def demo_world_def)
qed


text \<open>
  C14.  Printing the table a query returned is always defined: the rows have as many
  values as there are columns, so no index leaves its vector.
\<close>

theorem print_after_query:
  assumes "query db tra sql e w = Some (Ok t, w')"
  shows "\<exists>s. print t e w' = Some (Ok (), w'\<lparr>out := out w' @ s\<rparr>)"
proof -
  have "rectangular t" using query_rectangular assms by (rule yieldsD)
  then show ?thesis
    by (simp add: print_def print_table_rectangular checked_def say_def) (rule exI, rule refl)
qed

theorem print_after_query_witness:
  "\<exists>t w' s. query demo_db 3 ''select id, name from t'' demo_run (demo_world (map put_row demo_rows)) =
     Some (Ok t, w') \<and> print t demo_run w' = Some (Ok (), w'\<lparr>out := out w' @ s\<rparr>)"
proof -
  obtain t w' where run: "query demo_db 3 ''select id, name from t'' demo_run
      (demo_world (map put_row demo_rows)) = Some (Ok t, w')"
    by (rule demo_query)
  then show ?thesis using print_after_query [OF run] by auto
qed

text \<open>
  C15.  The printed table is aligned: the header line, the rule below it and every row
  line have the same length, and there is one line per row.
\<close>

theorem print_aligned:
  assumes "\<forall>r \<in> set (rows t). length r = length (names t)"
  shows "\<exists>hd rule ls. print_table t = Some (hd @ nl @ rule @ nl @ concat (map (\<lambda>l. l @ nl) ls))
    \<and> length rule = length hd \<and> length ls = length (rows t) \<and> (\<forall>l \<in> set ls. length l = length hd)"
proof -
  have rect: "rectangular t" using assms by (simp add: rectangular_def)
  let ?w = "widths t"
  let ?hd = "print_cells ?w (names t)" and ?ls = "map (print_cells ?w) (rows t)"
  let ?rule = "concat (map (\<lambda>n. replicate n (CHR ''-'') @ '' '') ?w)"
  have lw: "length ?w = length (names t)" by (simp add: widths_def)
  have "length ?hd = sum_list ?w + length ?w"
    by (rule length_print_cells) (use lw widths_cover [OF rect] in auto)
  moreover have "length (print_cells ?w r) = sum_list ?w + length ?w" if "r \<in> set (rows t)" for r
    by (rule length_print_cells) (use lw assms that widths_cover [OF rect] in auto)
  moreover have "length (concat (map (\<lambda>n. replicate n (CHR ''-'') @ '' '') ns)) = sum_list ns + length ns" for ns
    by (induction ns) simp_all
  moreover have "print_table t = Some (?hd @ nl @ ?rule @ nl @ concat (map (\<lambda>l. l @ nl) ?ls))"
    using print_table_rectangular [OF rect] by (simp add: comp_def)
  ultimately show ?thesis by (intro exI [of _ ?hd] exI [of _ ?rule] exI [of _ ?ls]) auto
qed

theorem print_aligned_witness:
  "\<exists>hd rule ls. print_table \<lparr>names = [''A''], rows = [[''xyz'']]\<rparr> =
     Some (hd @ nl @ rule @ nl @ concat (map (\<lambda>l. l @ nl) ls)) \<and> length rule = length hd
     \<and> length ls = 1 \<and> (\<forall>l \<in> set ls. length l = length hd)"
  using print_aligned [of "\<lparr>names = [''A''], rows = [[''xyz'']]\<rparr>"] by simp

end
