(* ===== verification/Db_Lifetime.thy ===== *)
theory Db_Lifetime
  imports Db_Sample
begin

text \<open>
  Who holds the attachments of a program.  The invariant \<open>att_inv b S N\<close> ties the count of
  attachments on the log to the \<open>Db\<close> objects: beyond \<open>b\<close>, one attachment per non-null \<open>att\<close>
  member; only the members in \<open>S\<close> (the objects in scope) may be non-null, and those in \<open>N\<close>
  are null.  \<open>attach\<close> needs its object in \<open>N\<close>; leaving a \<open>Db\<close> scope removes the object from
  \<open>S\<close>.  A program whose \<open>Db\<close>s are all local therefore ends with \<open>b\<close> attachments.
\<close>

named_theorems att_rules \<open>operations that leave the attachments alone\<close>


section \<open>Operations that do not touch attachments\<close>

lemmas quiet_rules = keeps_rules atts.leaf_rules

lemma att_quiet_att_of [att_rules]: "keeps (\<lambda>w. att_view w = v) (att_of db)"
  unfolding att_of_def by (intro quiet_rules)

lemma att_quiet_start [att_rules]: "keeps (\<lambda>w. att_view w = v) (start_tpb db t)"
  unfolding start_tpb_def by (intro quiet_rules att_rules; simp add: delta_simps)

lemma att_quiet_exec [att_rules]: "keeps (\<lambda>w. att_view w = v) (exec db t s)"
  unfolding exec_def by (intro quiet_rules att_rules; simp add: delta_simps)

lemma att_quiet_tra [att_rules]:
  "keeps (\<lambda>w. att_view w = v) (commit t)" "keeps (\<lambda>w. att_view w = v) (rollback t)"
  "keeps (\<lambda>w. att_view w = v) (commitRetaining t)"
  unfolding commit_def rollback_def commitRetaining_def
  by (intro quiet_rules; simp add: delta_simps)+

lemma att_quiet_query [att_rules]: "keeps (\<lambda>w. att_view w = v) (query db t s)"
  unfolding query_def fetch_all_def fetch_row_def coerce_columns_def
  by (intro quiet_rules att_rules; simp add: delta_simps)

lemma att_quiet_cell_at [att_rules]: "keeps (\<lambda>w. att_view w = v) (cell_at t r c)"
  unfolding cell_at_def by (intro quiet_rules)

lemma att_quiet_queryValue [att_rules]: "keeps (\<lambda>w. att_view w = v) (queryValue db t s)"
  unfolding queryValue_def by (intro quiet_rules att_rules)

lemma att_quiet_print [att_rules]:
  "keeps (\<lambda>w. att_view w = v) (print t)" "keeps (\<lambda>w. att_view w = v) (print_query db tr s)"
  unfolding print_query_def print_def by (intro quiet_rules att_rules)+

lemma att_quiet_formatStatus [att_rules]: "keeps (\<lambda>w. att_view w = v) (formatStatus n st)"
  unfolding formatStatus_def by (intro quiet_rules; simp add: delta_simps)

lemma att_quiet_report [att_rules]: "keeps (\<lambda>w. att_view w = v) (report st)"
  unfolding report_def by (intro quiet_rules att_rules)

lemma att_quiet_args [att_rules]:
  "keeps (\<lambda>w. att_view w = v) (argOrDefault n d)" "keeps (\<lambda>w. att_view w = v) defaultUser"
  "keeps (\<lambda>w. att_view w = v) defaultPassword"
  unfolding argOrDefault_def defaultUser_def defaultPassword_def by (intro quiet_rules)+

lemma att_quiet_makeDpb [att_rules]: "keeps (\<lambda>w. att_view w = v) (makeDpb db u p c)"
  unfolding makeDpb_def by (intro quiet_rules; simp add: delta_simps)


section \<open>The ownership invariant\<close>

definition att_inv :: "int \<Rightarrow> nat set \<Rightarrow> nat set \<Rightarrow> 's world \<Rightarrow> bool" where
  "att_inv b S N w \<longleftrightarrow>
     finite S \<and> (\<forall>d\<in>S. d < fresh w) \<and> dom (cells w KAtt) \<subseteq> S \<and> N \<subseteq> S
     \<and> (\<forall>d\<in>N. cells w KAtt d = None)
     \<and> bal (gain KAtt) w = b + int (card (dom (cells w KAtt)))"

lemma att_inv_view:
  "att_inv b S N w \<longleftrightarrow> (case att_view w of (n, c, f) \<Rightarrow>
     finite S \<and> (\<forall>d\<in>S. d < f) \<and> dom c \<subseteq> S \<and> N \<subseteq> S \<and> (\<forall>d\<in>N. c d = None)
     \<and> n = b + int (card (dom c)))"
  by (simp add: att_inv_def att_view_def)

lemma att_inv_weaken: "att_inv b S N w \<Longrightarrow> N' \<subseteq> N \<Longrightarrow> att_inv b S N' w"
  by (auto simp: att_inv_def)

abbreviation att_triple :: "int \<Rightarrow> nat set \<Rightarrow> nat set \<Rightarrow> ('s, 'a) prog \<Rightarrow> nat set \<Rightarrow> bool" where
  "att_triple b S N m N' \<equiv> hoare (att_inv b S N) m (\<lambda>_. att_inv b S N') (\<lambda>_. att_inv b S {})"

lemma att_bind:
  "att_triple b S N m N' \<Longrightarrow> (\<And>a. att_triple b S N' (f a) N'') \<Longrightarrow> att_triple b S N (bindP m f) N''"
  by (rule hoare_bindP)

lemma att_block_Nil: "N' \<subseteq> N \<Longrightarrow> att_triple b S N (block []) N'"
  by (auto intro!: hoare_ret elim: att_inv_weaken)

lemma att_block_Cons:
  "att_triple b S N m N' \<Longrightarrow> att_triple b S N' (block ms) N'' \<Longrightarrow> att_triple b S N (block (m # ms)) N''"
  by (simp add: hoare_bindP)

lemma att_weaken: "att_triple b S N m N' \<Longrightarrow> N \<subseteq> N0 \<Longrightarrow> N1 \<subseteq> N' \<Longrightarrow> att_triple b S N0 m N1"
  by (erule hoare_weaken) (auto elim: att_inv_weaken)

text \<open>The two ways the invariant moves: an attachment is stored in a null member, and the
  attachment of a non-null member is given back and the member cleared.\<close>

lemma att_inv_acquire:
  assumes "att_inv b S N w" and "d \<in> N"
    and "att_view w' = (bal (gain KAtt) w + 1, (cells w KAtt)(d \<mapsto> a), fresh w)"
  shows "att_inv b S (N - {d}) w'"
proof -
  have "finite (dom (cells w KAtt))" and "d \<notin> dom (cells w KAtt)" and "d \<in> S"
    using assms(1,2) by (auto simp: att_inv_def intro: finite_subset)
  then show ?thesis
    using assms unfolding att_inv_view by (auto simp: att_view_def card_insert_if)
qed

lemma att_inv_release:
  assumes "att_inv b S N w" and "cells w KAtt d = Some a"
    and "att_view w' = (bal (gain KAtt) w - 1, (cells w KAtt)(d := None), fresh w)"
  shows "att_inv b S N w'"
proof -
  have fin: "finite (dom (cells w KAtt))" and mem: "d \<in> dom (cells w KAtt)"
    using assms(1,2) by (auto simp: att_inv_def intro: finite_subset)
  from card.remove [OF this]
  have "int (card (dom (cells w KAtt) - {d})) = int (card (dom (cells w KAtt))) - 1" by simp
  then show ?thesis
    using assms unfolding att_inv_view by (auto simp: att_view_def)
qed

lemma att_inv_same: "att_inv b S N w \<Longrightarrow> att_view w' = att_view w \<Longrightarrow> att_inv b S N w'"
  by (simp add: att_inv_view)

lemmas call_defs = bindP_def handle_of_def ask_def ask_void_def ask_check_def do_call_def do_void_def
  ignore_def ret_def set_cell_def get_cell_def checked_def fail_def att_of_def Let_def

lemma att_acquire:
  assumes acq: "delta KAtt c = 1" and d: "d \<in> N"
  shows "hoare (att_inv b S N) (bindP (handle_of c) (\<lambda>a. set_cell KAtt d (Some a)))
    (\<lambda>_. att_inv b S (N - {d})) (\<lambda>_. att_inv b S N)"
proof (rule hoareI)
  fix e w r w' assume inv: "att_inv b S N w"
    and run: "bindP (handle_of c) (\<lambda>a. set_cell KAtt d (Some a)) e w = Some (r, w')"
  obtain st rp sv where ans: "fb e c (server w) = ((st, rp), sv)"
    by (metis surj_pair)
  show "post (\<lambda>_. att_inv b S (N - {d})) (\<lambda>_. att_inv b S N) r w'"
  proof (cases st)
    case None
    then have "r = Ok ()"
      and "att_view w' = (bal (gain KAtt) w + 1, (cells w KAtt)(d \<mapsto> r_h rp), fresh w)"
      using run ans acq by (auto simp: call_defs att_view_def bal_def gain_def)
    then show ?thesis using att_inv_acquire [OF inv d] by simp
  next
    case (Some x)
    then have "r = Fail (FbException x)" and "att_view w' = att_view w"
      using run ans by (auto simp: call_defs att_view_def bal_def gain_def)
    then show ?thesis using att_inv_same [OF inv] by simp
  qed
qed

lemma att_quiet_strong:
  assumes "\<And>v. keeps (\<lambda>w. att_view w = v) m"
  shows "hoare (att_inv b S N) m (\<lambda>_. att_inv b S N) (\<lambda>_. att_inv b S N)"
  by (rule view_hoare [OF assms]) (rule att_inv_same)

lemma att_quiet:
  assumes "\<And>v. keeps (\<lambda>w. att_view w = v) m"
  shows "att_triple b S N m N"
  by (rule hoare_weaken [OF att_quiet_strong [OF assms, where b = b and S = S and N = N]])
    (auto elim: att_inv_weaken)

lemma att_attachDatabase_strong:
  assumes "db_att db \<in> N"
  shows "hoare (att_inv b S N) (attachDatabase db d x) (\<lambda>_. att_inv b S (N - {db_att db}))
    (\<lambda>_. att_inv b S N)"
  unfolding attachDatabase_def
  by (rule hoare_bindP, rule att_quiet_strong, rule atts.keeps_ask)
    (simp_all add: att_acquire assms delta_simps)

lemma att_createDatabase_strong:
  assumes "db_att db \<in> N"
  shows "hoare (att_inv b S N) (createDatabase db d x) (\<lambda>_. att_inv b S (N - {db_att db}))
    (\<lambda>_. att_inv b S N)"
  unfolding createDatabase_def
  by (rule hoare_bindP, rule att_quiet_strong, rule atts.keeps_ask)
    (simp_all add: att_acquire assms delta_simps)

lemma att_attachDatabase:
  "db_att db \<in> N \<Longrightarrow> att_triple b S N (attachDatabase db d x) (N - {db_att db})"
  by (rule hoare_weaken [OF att_attachDatabase_strong [where b = b and S = S and N = N]])
    (auto elim: att_inv_weaken)

lemma att_createDatabase:
  "db_att db \<in> N \<Longrightarrow> att_triple b S N (createDatabase db d x) (N - {db_att db})"
  by (rule hoare_weaken [OF att_createDatabase_strong [where b = b and S = S and N = N]])
    (auto elim: att_inv_weaken)

lemma att_attach_as:
  assumes "db_att db \<in> N"
  shows "att_triple b S N (attach_as db d u p c) (N - {db_att db})"
  unfolding attach_as_def
  by (rule att_bind, rule att_quiet, rule att_rules, rule att_block_Cons,
      rule att_attachDatabase [OF assms], rule att_block_Cons [OF att_quiet],
      rule atts.keeps_do_void, simp add: delta_simps)
    (rule att_block_Nil, simp)

lemma att_attach:
  assumes "db_att db \<in> N"
  shows "att_triple b S N (attach db d) (N - {db_att db})"
  unfolding attach_def
  by (rule att_bind [OF att_quiet], rule att_rules, rule att_bind [OF att_quiet], rule att_rules,
      rule att_attach_as [OF assms])

lemma att_attachOrCreate:
  assumes "db_att db \<in> N"
  shows "att_triple b S N (attachOrCreate db d) (N - {db_att db})"
proof -
  have handler: "att_triple b S N (block
      [do_call (Xpb x (InsertInt isc_dpb_page_size (8 * 1024))),
       do_call (Xpb x (InsertString isc_dpb_set_db_charset ''UTF8'')),
       createDatabase db d x]) (N - {db_att db})" for x
    by (rule att_block_Cons [OF att_quiet], rule atts.keeps_do_call, simp add: delta_simps)
      (rule att_block_Cons [OF att_quiet], rule atts.keeps_do_call, simp add: delta_simps,
       rule att_block_Cons [OF att_createDatabase [OF assms]], rule att_block_Nil, simp)
  have "att_triple b S N (block
      [try_fb (attachDatabase db d x) (\<lambda>_. block
        [do_call (Xpb x (InsertInt isc_dpb_page_size (8 * 1024))),
         do_call (Xpb x (InsertString isc_dpb_set_db_charset ''UTF8'')),
         createDatabase db d x]),
       do_void (Xpb x XpbDispose)]) (N - {db_att db})" for x
    by (rule att_block_Cons [OF hoare_try_fb [OF att_attachDatabase_strong [OF assms] handler]],
        rule att_block_Cons [OF att_quiet], rule atts.keeps_do_void, simp add: delta_simps)
      (rule att_block_Nil, simp)
  then show ?thesis
    unfolding attachOrCreate_def
    by (intro att_bind [OF att_quiet] att_rules)
qed

text \<open>\<open>db.att->detach(&db.status); db.att = nullptr;\<close>\<close>

lemma att_give_back:
  assumes rel: "\<And>a. delta KAtt (Att a c) = - 1"
  shows "att_triple b S N (bindP (att_of db) (\<lambda>a.
     block [do_call (Att a c), set_cell KAtt (db_att db) None])) N"
    (is "att_triple b S N ?m N")
proof (rule hoareI)
  fix e w r w' assume inv: "att_inv b S N w" and run: "?m e w = Some (r, w')"
  show "post (\<lambda>_. att_inv b S N) (\<lambda>_. att_inv b S {}) r w'"
  proof (cases "cells w KAtt (db_att db)")
    case None
    then show ?thesis using run
      by (auto simp: att_of_def bindP_def get_cell_def checked_def fail_def)
  next
    case (Some a)
    obtain st rp sv where ans: "fb e (Att a c) (server w) = ((st, rp), sv)"
      by (metis surj_pair)
    show ?thesis
    proof (cases st)
      case None
      then have "r = Ok ()"
        and "att_view w' = (bal (gain KAtt) w - 1, (cells w KAtt)(db_att db := None), fresh w)"
        using run ans Some by (auto simp: call_defs att_view_def bal_def gain_def rel)
      then show ?thesis using att_inv_release [OF inv Some] by simp
    next
      case (Some x)
      then have "r = Fail (FbException x)" and "att_view w' = att_view w"
        using run ans \<open>cells w KAtt (db_att db) = Some a\<close>
        by (auto simp: call_defs att_view_def bal_def gain_def)
      then show ?thesis using att_inv_same [OF inv] att_inv_weaken by fastforce
    qed
  qed
qed

lemma att_detach: "att_triple b S N (detach db) N"
  unfolding detach_def by (rule att_give_back) (simp add: delta_simps)


section \<open>Scopes\<close>

text \<open>The destructor: whatever the member holds is given back, by \<open>detach\<close> or, if that fails, by
  \<open>release\<close>; it throws nothing.\<close>

lemma view_calls:
  "hoare (\<lambda>w. att_view w = (n, c, f)) (ask_void cl) (\<lambda>_ w. att_view w = (n + delta KAtt cl, c, f)) E"
  "hoare (\<lambda>w. att_view w = (n, c, f)) (do_void cl) (\<lambda>_ w. att_view w = (n + delta KAtt cl, c, f)) E"
  "hoare (\<lambda>w. att_view w = (n, c, f)) (ask_check cl)
     (\<lambda>st w. att_view w = (n + (if st = None then delta KAtt cl else 0), c, f)) E"
  "hoare (\<lambda>w. att_view w = (n, c, f)) (set_cell KAtt i v) (\<lambda>_ w. att_view w = (n, c(i := v), f)) E"
  "hoare (\<lambda>w. att_view w = (n, c, f)) (get_cell KAtt i) (\<lambda>x w. x = c i \<and> att_view w = (n, c, f)) E"
  "hoare (\<lambda>w. att_view w = (n, c, f)) new_cell (\<lambda>x w. x = f \<and> att_view w = (n, c, Suc f)) E"
  by (rule hoareI, auto simp: run_simps do_void_def ignore_def bindP_def att_view_def bal_def gain_def
      split: prod.splits)+

lemma view_Db_destroy:
  fixes E :: "status \<Rightarrow> 's world \<Rightarrow> bool"
  shows "hoare (\<lambda>w. att_view w = (n, c, f)) (Db_destroy db)
     (\<lambda>_ w. att_view w = (n - (if c (db_att db) = None then 0 else 1), c(db_att db := None), f)) E"
proof -
  have tail: "hoare (\<lambda>w. att_view w = (n, c, f)) (block [do_void (Prov (db_prov db) ProvRelease),
       do_void (StatusDispose (db_status db)), set_cell KAtt (db_att db) None])
     (\<lambda>_ w. att_view w = (n, c(db_att db := None), f)) E" for n
    by simp (rule hoare_bindP [OF view_calls(2)], rule hoare_bindP [OF view_calls(2)],
      rule hoare_weaken [OF view_calls(4)], simp_all add: delta_simps)
  have give: "hoare (\<lambda>w. att_view w = (n, c, f))
      (bindP (ask_void (Master GetStatus)) (\<lambda>quiet. bindP (ask_check (Att a Detach)) (\<lambda>st. block
        [if st \<noteq> None then do_void (Att a AttRelease) else ret (),
         do_void (StatusDispose (r_h quiet))])))
      (\<lambda>_ w. att_view w = (n - 1, c, f)) E" for a
  proof (rule hoare_bindP [OF view_calls(1)], rule hoare_bindP [OF view_calls(3)])
    fix q :: reply and st :: "status option"
    show "hoare (\<lambda>w. att_view w = (n + delta KAtt (Master GetStatus)
        + (if st = None then delta KAtt (Att a Detach) else 0), c, f))
      (block [if st \<noteq> None then do_void (Att a AttRelease) else ret (),
        do_void (StatusDispose (r_h q))]) (\<lambda>_ w. att_view w = (n - 1, c, f)) E"
    proof (cases st)
      case None
      then show ?thesis
        by simp (rule hoare_weaken [OF view_calls(2)], simp_all add: delta_simps)
    next
      case (Some x)
      then show ?thesis
        by simp (rule hoare_bindP [OF view_calls(2)], rule hoare_weaken [OF view_calls(2)],
          simp_all add: delta_simps)
    qed
  qed
  have "hoare (\<lambda>w. a = c (db_att db) \<and> att_view w = (n, c, f))
      (block [(case a of None \<Rightarrow> ret () | Some att \<Rightarrow>
            bindP (ask_void (Master GetStatus)) (\<lambda>quiet. bindP (ask_check (Att att Detach)) (\<lambda>st. block
             [if st \<noteq> None then do_void (Att att AttRelease) else ret (),
              do_void (StatusDispose (r_h quiet))]))),
       do_void (Prov (db_prov db) ProvRelease), do_void (StatusDispose (db_status db)),
       set_cell KAtt (db_att db) None])
      (\<lambda>_ w. att_view w = (n - (if c (db_att db) = None then 0 else 1), c(db_att db := None), f)) E" for a
  proof (cases "a = c (db_att db)")
    case eq: True
    show ?thesis
    proof (cases a)
      case None
      have skip: "block (ret () # ms) = block ms" for ms :: "('s, unit) prog list" by simp
      show ?thesis unfolding None option.case skip
        by (rule hoare_weaken [OF tail [of n]]) (use eq [symmetric] None in auto)
    next
      case (Some att)
      show ?thesis
        unfolding Some option.case block.simps(2) [of "bindP (ask_void _) _"]
        by (rule hoare_weaken [OF hoare_bindP [OF give tail]]) (use eq [symmetric] Some in auto)
    qed
  qed (simp add: hoare_def)
  then show ?thesis unfolding Db_destroy_def by (rule hoare_bindP [OF view_calls(5)])
qed

lemma att_Db_destroy:
  fixes E :: "status \<Rightarrow> 's world \<Rightarrow> bool"
  assumes new: "db_att db \<notin> S"
  shows "hoare (att_inv b (insert (db_att db) S) N) (Db_destroy db)
    (\<lambda>_. att_inv b S (N - {db_att db})) E"
proof (rule hoareI)
  fix e r and w w' :: "'s world"
  assume inv: "att_inv b (insert (db_att db) S) N w" and run: "Db_destroy db e w = Some (r, w')"
  let ?v = "(bal (gain KAtt) w - (if cells w KAtt (db_att db) = None then 0 else 1),
      (cells w KAtt)(db_att db := None), fresh w)"
  have main: "att_inv b S (N - {db_att db}) w'" if v: "att_view w' = ?v"
  proof -
    have "att_inv b (insert (db_att db) S) (N - {db_att db}) w'"
    proof (cases "cells w KAtt (db_att db)")
      case None
      then have "(cells w KAtt)(db_att db := None) = cells w KAtt" by auto
      with None v have "att_view w' = att_view w" by (simp add: att_view_def)
      then show ?thesis using att_inv_weaken [OF att_inv_same [OF inv]] by blast
    next
      case (Some a)
      then have "att_inv b (insert (db_att db) S) N w'"
        using v by (intro att_inv_release [OF inv Some]) simp
      then show ?thesis by (rule att_inv_weaken) auto
    qed
    moreover have "cells w' KAtt (db_att db) = None" using v by (simp add: att_view_def)
    ultimately show ?thesis using new by (auto simp: att_inv_def)
  qed
  have "post (\<lambda>_ u. att_view u = ?v) E r w'"
    by (rule hoareD [OF view_Db_destroy _ run]) (simp add: att_view_def)
  then show "post (\<lambda>_. att_inv b S (N - {db_att db})) E r w'"
    by (rule post_mono) (auto dest: main)
qed

lemma view_Db_new:
  "hoare (\<lambda>w. att_view w = (n, c, f)) Db_new
     (\<lambda>db w. db_att db = f \<and> att_view w = (n, c(f := None), Suc f)) E"
  unfolding Db_new_def
  by (rule hoare_bindP [OF view_calls(1)], rule hoare_bindP [OF view_calls(1)],
      rule hoare_bindP [OF view_calls(6)])
    (rule hoareI, auto simp: run_simps bindP_def att_view_def bal_def gain_def delta_simps)

lemma att_Db_new:
  fixes E :: "status \<Rightarrow> 's world \<Rightarrow> bool"
  shows "hoare (att_inv b S N) Db_new
     (\<lambda>db w. db_att db \<notin> S \<and> att_inv b (insert (db_att db) S) (insert (db_att db) N) w) E"
proof (rule hoareI)
  fix e r and w w' :: "'s world"
  assume inv: "att_inv b S N w" and run: "Db_new e w = Some (r, w')"
  have n: "cells w KAtt (fresh w) = None" "fresh w \<notin> S" using inv by (auto simp: att_inv_def)
  then have c: "(cells w KAtt)(fresh w := None) = cells w KAtt" by auto
  have "post (\<lambda>db u. db_att db = fresh w \<and>
      att_view u = (bal (gain KAtt) w, (cells w KAtt)(fresh w := None), Suc (fresh w))) E r w'"
    by (rule hoareD [OF view_Db_new _ run]) (simp add: att_view_def)
  then show "post (\<lambda>db w. db_att db \<notin> S \<and> att_inv b (insert (db_att db) S) (insert (db_att db) N) w) E r w'"
    by (rule post_mono) (use inv n c in \<open>auto simp: att_inv_view att_view_def\<close>)
qed

lemma att_with_Db_nested:
  assumes body: "\<And>db. db_att db \<notin> S \<Longrightarrow>
    att_triple b (insert (db_att db) S) (insert (db_att db) N) (body db) N'"
    and N: "N' \<subseteq> S"
  shows "att_triple b S N (with_Db body) N'"
  unfolding with_Db_def
proof (rule hoare_bindP [OF att_Db_new])
  fix db
  show "hoare (\<lambda>w. db_att db \<notin> S \<and> att_inv b (insert (db_att db) S) (insert (db_att db) N) w)
      (scoped (body db) (Db_destroy db)) (\<lambda>_. att_inv b S N') (\<lambda>_. att_inv b S {})"
  proof (cases "db_att db \<in> S")
    case False
    have "N' - {db_att db} = N'" using False N by auto
    have "hoare (att_inv b (insert (db_att db) S) (insert (db_att db) N))
        (scoped (body db) (Db_destroy db)) (\<lambda>_. att_inv b S N') (\<lambda>_. att_inv b S {})"
      using att_Db_destroy [OF False, of b "{}"] att_Db_destroy [OF False, of b N']
        \<open>N' - {db_att db} = N'\<close>
      by (intro hoare_scoped [OF body [OF False]]) auto
    then show ?thesis by (rule hoare_weaken) auto
  qed (simp add: hoare_def)
qed

lemma att_with_Db:
  assumes "\<And>db. db_att db \<notin> S \<Longrightarrow>
    att_triple b (insert (db_att db) S) (insert (db_att db) N) (body db) N"
    and "N \<subseteq> S"
  shows "att_triple b S N (with_Db body) N"
  by (rule att_with_Db_nested [OF assms])


section \<open>Whole programs\<close>

text \<open>Rules that follow the shape of a \<open>main\<close>: scopes, statements, the final handler.\<close>

named_theorems att_flow \<open>attachment ownership along the statements of a main\<close>

lemma att_ret [att_flow]: "N' \<subseteq> N \<Longrightarrow> att_triple b S N (ret a) N'"
  by (auto intro!: hoare_ret elim: att_inv_weaken)

lemma att_returning [att_flow]: "att_triple b S N (block ms) N' \<Longrightarrow> att_triple b S N (returning ms a) N'"
  unfolding returning_def by (rule att_bind) (auto intro: att_ret)

lemma att_seqP [att_flow]:
  "att_triple b S N (block ms) N' \<Longrightarrow> att_triple b S N' k N'' \<Longrightarrow> att_triple b S N (seqP ms k) N''"
  unfolding seqP_def by (rule att_bind)

lemma att_try [att_flow]:
  assumes "att_triple b S N m {}" and "\<And>s. att_triple b S {} (h s) {}"
  shows "att_triple b S N (try_fb m h) {}"
  by (rule hoare_try_fb [OF assms])

lemma att_leaf:
  assumes "\<And>v. keeps (\<lambda>w. att_view w = v) m" and "N' \<subseteq> N"
  shows "att_triple b S N m N'"
  by (rule att_weaken [OF att_quiet [OF assms(1)]]) (use assms(2) in auto)

declare att_with_Db [att_flow] att_attach [att_flow] att_attach_as [att_flow]
  att_attachOrCreate [att_flow] att_detach [att_flow] att_block_Cons [att_flow]
  att_block_Nil [att_flow] att_bind [att_flow]

text \<open>A program that starts with no attachment held ends with none held, whether it returns a
  value or throws.\<close>

lemma att_balanced:
  assumes m: "\<And>b. att_triple b {} {} m {}" and none: "cells w KAtt = Map.empty"
    and run: "m e w = Some (r, w')" and r: "r = Ok a \<or> r = Fail (FbException s)"
  shows "bal (gain KAtt) w' = bal (gain KAtt) w" and "cells w' KAtt = Map.empty"
proof -
  have "att_inv (bal (gain KAtt) w) {} {} w"
    using none by (simp add: att_inv_def)
  from hoareD [OF m this run] have "att_inv (bal (gain KAtt) w) {} {} w'"
    using r by auto
  then show "bal (gain KAtt) w' = bal (gain KAtt) w" "cells w' KAtt = Map.empty"
    by (auto simp: att_inv_def)
qed

end
