(* ===== verification/Sample_Kit.thy ===== *)
theory Sample_Kit
  imports Db_Lifetime
begin

text \<open>
  What the samples' functions have in common beyond \<open>fb_sample.h\<close>: the calls they make on
  the attachment directly (\<open>db.att->prepare\<close>, \<open>stmt->getPlan\<close>), the
  \<open>try { ... } catch (const FbException&) {}\<close> idiom, loops bounded by a call, raw reads of a
  message buffer, and the operating-system calls.  Each comes with its interface count and
  its effect on the attachments, and the last section has the rules for a whole \<open>main\<close>:
  no \<open>FbException\<close> leaves it, its exit code is 0 or 1, and code 1 comes with a report.
\<close>


section \<open>Statements on the attachment\<close>

definition prepare :: "Db \<Rightarrow> nat \<Rightarrow> string \<Rightarrow> bool \<Rightarrow> ('s, nat) prog" where
  "prepare db tra sql prefetch =
     bindP (att_of db) (\<lambda>a. handle_of (Att a (Prepare tra (c_str sql) prefetch)))"

text \<open>\<open>stmt->getPlan\<close> may return a null pointer.\<close>

definition getPlan :: "nat \<Rightarrow> bool \<Rightarrow> ('s, string option) prog" where
  "getPlan stmt detailed =
     bindP (ask (Stmt stmt (GetPlan detailed))) (\<lambda>r.
     ret (if r_null r then None else Some (c_str (r_s r))))"

text \<open>\<open>memcpy\<close> of \<open>n\<close> bytes out of a message buffer, as a little-endian number.\<close>

definition message_nat :: "byte list \<Rightarrow> nat \<Rightarrow> nat \<Rightarrow> ('s, nat) prog" where
  "message_nat buf off n = checked ''message read'' (le_read n buf off)"

text \<open>The same four bytes read as a signed \<open>ISC_LONG\<close>.\<close>

definition signed32 :: "nat \<Rightarrow> int" where
  "signed32 n = sint (of_nat n :: 32 word)"

text \<open>A fetch into a buffer of \<open>len\<close> bytes, and a number stored through a pointer argument.\<close>

definition fetch_into :: "nat \<Rightarrow> nat \<Rightarrow> ('s, byte list) prog" where
  "fetch_into curs len = bindP (ask (Curs curs (FetchNext len))) (\<lambda>r. ret (fit len (r_b r)))"

definition out_nat :: "reply \<Rightarrow> nat \<Rightarrow> nat" where
  "out_nat r i = (if i < length (r_ns r) then r_ns r ! i else 0)"

text \<open>\<open>t & ~1u\<close>: a type code without its nullable bit.\<close>

definition strip_nullable :: "nat \<Rightarrow> nat" where
  "strip_nullable t = unat ((of_nat t :: 32 word) AND NOT 1)"

text \<open>\<open>argv[n]\<close>, undefined past \<open>argc\<close>.\<close>

definition arg_at :: "nat \<Rightarrow> ('s, string) prog" where
  "arg_at n = bindP arguments (\<lambda>av. checked ''argv'' (if n < length av then Some (av ! n) else None))"

text \<open>\<open>t.rows[r]\<close>'s cells, in one go for a \<open>printf\<close> with several of them.\<close>

definition cells_at :: "Table \<Rightarrow> nat \<Rightarrow> nat \<Rightarrow> ('s, string list) prog" where
  "cells_at t r n = collect [0..<n] (\<lambda>c. bindP (cell_at t r c) (\<lambda>v. ret (c_str v)))"

text \<open>\<open>r[c]\<close> of a row visited by a range \<open>for\<close>.\<close>

definition col :: "string list \<Rightarrow> nat \<Rightarrow> ('s, string) prog" where
  "col r c = checked ''row[c]'' (if c < length r then Some (c_str (r ! c)) else None)"

abbreviation quietly :: "('s, unit) prog \<Rightarrow> ('s, unit) prog" where
  "quietly m \<equiv> try_fb m (\<lambda>_. ret ())"

text \<open>\<open>for (unsigned i = 0; i < meta->getCount(&status); ++i)\<close>: the bound is asked for again
  before every iteration.\<close>

definition for_count :: "call \<Rightarrow> (nat \<Rightarrow> ('s, unit) prog) \<Rightarrow> ('s, unit) prog" where
  "for_count bound f =
     loopP (\<lambda>i. bindP (number_of bound) (\<lambda>n.
       if i < n then bindP (f i) (\<lambda>_. ret (Inl (Suc i))) else ret (Inr ()))) 0"


text \<open>\<open>*strchrnul(buf, '\n') = 0\<close>, or \<open>s.substr(0, s.find('\n'))\<close>: the first line only.\<close>

definition first_line :: "string \<Rightarrow> string" where
  "first_line s = takeWhile (\<lambda>c. c \<noteq> CHR 0x0A) s"


section \<open>The operating system\<close>

definition os_int :: "os_call \<Rightarrow> ('s, int) prog" where
  "os_int c = bindP (ask_void (Os c)) (\<lambda>r. ret (r_n r))"

definition os_do :: "os_call \<Rightarrow> ('s, unit) prog" where
  "os_do c = do_void (Os c)"

text \<open>\<open>duration_cast<milliseconds>\<close> of the time between two readings of \<open>steady_clock\<close>, in
  nanoseconds: truncated towards zero.\<close>

definition millis_between :: "int \<Rightarrow> int \<Rightarrow> int" where
  "millis_between t0 t1 = sgn (t1 - t0) * (\<bar>t1 - t0\<bar> div 1000000)"

definition getpid :: "('s, int) prog" where
  "getpid = os_int Getpid"


section \<open>Interface counts\<close>

lemma delta_Os [simp]: "delta k (Os c) = 0"
  by (simp add: delta_simps)

lemma okd_Let [okd_rules]: "okd k (f t) n \<Longrightarrow> okd k (let x = t in f x) n"
  by simp

lemma okd_prod [okd_rules]: "(\<And>x y. okd k (f x y) n) \<Longrightarrow> okd k (case p of (x, y) \<Rightarrow> f x y) n"
  by (simp split: prod.split)

lemma okd_prepare [okd_rules]: "okd k (prepare db tra sql p) (if k = KStmt then 1 else 0)"
  unfolding prepare_def by (rule okd_eq) (rule okd_rules | simp add: delta_simps)+

lemma okd_getPlan [okd_rules]: "okd k (getPlan stmt d) 0"
  unfolding getPlan_def by (rule okd_eq) (rule okd_rules | simp add: delta_simps)+

lemma okd_message_nat [okd_rules]: "okd k (message_nat b off n) 0"
  unfolding message_nat_def by (rule okd_checked)

lemma okd_reads [okd_rules]:
  "okd k (fetch_into c n) 0" "okd k (arg_at i) 0" "okd k (cells_at t r n) 0" "okd k (col row j) 0"
  unfolding fetch_into_def arg_at_def cells_at_def col_def
  by ((rule okd_eq, (rule okd_rules | simp add: delta_simps)+)[1])+

lemma okd_fail_exit [okd_rules]: "okd k (fail x) 0"
  by (rule okd_fail)

lemma okd_for_count [okd_rules]:
  assumes "delta k c = 0" and "\<And>i. okd k (f i) n" and "n = 0"
  shows "okd k (for_count c f) 0"
  unfolding for_count_def using assms(1) assms(2) [unfolded assms(3)]
  by (intro okd_loopP) (rule okd_eq, (rule okd_rules | assumption | simp)+)

lemma okd_os [okd_rules]: "okd k (os_int c) 0" "okd k (os_do c) 0" "okd k getpid 0"
  unfolding getpid_def os_int_def os_do_def
  by ((rule okd_eq, (rule okd_rules | simp)+))+

text \<open>
  A \<open>try\<close> block whose calls move no count leaves the count alone on its exceptional exit too.
\<close>

lemma count_exec: "keeps (\<lambda>w. bal (gain k) w = b) (exec db tra sql)"
  unfolding exec_def att_of_def
  by (intro keeps_rules count.leaf_rules; simp add: delta_simps)

lemma count_formatStatus: "keeps (\<lambda>w. bal (gain k) w = b) (formatStatus n st)"
  unfolding formatStatus_def by (intro keeps_rules count.leaf_rules; simp add: delta_simps)

text \<open>An exception inside a query may strand the statement, metadata, builder or cursor of the
  query, and nothing else.\<close>

lemma count_query:
  assumes "k \<notin> {KStmt, KMeta, KBuilder, KCurs}"
  shows "keeps (\<lambda>w. bal (gain k) w = b) (query db tra sql)"
    and "keeps (\<lambda>w. bal (gain k) w = b) (queryValue db tra sql)"
    and "keeps (\<lambda>w. bal (gain k) w = b) (prepare db tra sql p)"
proof -
  show q: "keeps (\<lambda>w. bal (gain k) w = b) (query db tra sql)"
    unfolding query_def fetch_all_def fetch_row_def coerce_columns_def att_of_def
    by (intro keeps_rules count.leaf_rules; use assms in \<open>auto simp: delta_simps\<close>)
  show "keeps (\<lambda>w. bal (gain k) w = b) (queryValue db tra sql)"
    unfolding queryValue_def cell_at_def by (intro keeps_rules q)
  show "keeps (\<lambda>w. bal (gain k) w = b) (prepare db tra sql p)"
    unfolding prepare_def att_of_def
    by (intro keeps_rules count.leaf_rules; use assms in \<open>auto simp: delta_simps\<close>)
qed

lemmas count_rules = keeps_rules count.leaf_rules count_exec count_formatStatus

lemma okd_quietly_exec [okd_rules]: "okd k (quietly (exec db tra sql)) 0"
  by (rule okd_keeps) (intro count_rules)


section \<open>Attachments\<close>

lemma att_quiet_kit [att_rules]:
  "keeps (\<lambda>w. att_view w = v) (prepare db tra sql p)"
  "keeps (\<lambda>w. att_view w = v) (getPlan stmt d)"
  "keeps (\<lambda>w. att_view w = v) (message_nat b off n)"
  "keeps (\<lambda>w. att_view w = v) (os_int c)" "keeps (\<lambda>w. att_view w = v) (os_do c)"
  "keeps (\<lambda>w. att_view w = v) getpid" "keeps (\<lambda>w. att_view w = v) (fetch_into cu ln)"
  "keeps (\<lambda>w. att_view w = v) (arg_at i)" "keeps (\<lambda>w. att_view w = v) (cells_at t r m)"
  "keeps (\<lambda>w. att_view w = v) (col row j)"
  unfolding prepare_def getPlan_def message_nat_def os_int_def os_do_def getpid_def
    fetch_into_def arg_at_def cells_at_def col_def
  by (intro quiet_rules att_rules; simp add: delta_simps)+

lemma att_quiet_for_count [att_rules]:
  assumes "\<And>i. keeps (\<lambda>w. att_view w = v) (f i)" and "delta KAtt c = 0"
  shows "keeps (\<lambda>w. att_view w = v) (for_count c f)"
  unfolding for_count_def by (intro quiet_rules assms)


lemma att_if [att_flow]:
  "att_triple b S N m N' \<Longrightarrow> att_triple b S N n N' \<Longrightarrow> att_triple b S N (if c then m else n) N'"
  by simp

lemma att_Let [att_flow]: "(\<And>x. att_triple b S N (f x) N') \<Longrightarrow> att_triple b S N (let x = t in f x) N'"
  by simp

lemma att_fail [att_flow]: "(\<And>s. x \<noteq> FbException s) \<Longrightarrow> att_triple b S N (fail x) N'"
  by (rule hoare_fail) auto

lemma att_quietly_attach:
  assumes "db_att db \<in> N"
  shows "att_triple b S N (quietly (attach db d)) {}"
  by (rule att_try [OF att_weaken [OF att_attach [OF assms]] att_ret]) auto

text \<open>\<open>db.att->dropDatabase(&db.status); db.att = nullptr;\<close>\<close>

definition dropDatabase :: "Db \<Rightarrow> ('s, unit) prog" where
  "dropDatabase db = bindP (att_of db) (\<lambda>a.
     block [do_call (Att a DropDatabase), set_cell KAtt (db_att db) None])"

lemma att_dropDatabase [att_flow]: "att_triple b S N (dropDatabase db) N"
  unfolding dropDatabase_def by (rule att_give_back) (simp add: delta_simps)

lemma okd_dropDatabase [okd_rules]: "okd k (dropDatabase db) (if k = KAtt then - 1 else 0)"
  unfolding dropDatabase_def by (rule okd_eq) (rule okd_rules | simp add: delta_simps)+


section \<open>Whole mains\<close>

text \<open>
  What every \<open>main\<close> promises to its caller: it never ends by an \<open>FbException\<close>, and when it
  returns, the exit code is 0, or 1 with a text on the standard error stream.
\<close>

definition reports :: "('s, int) prog \<Rightarrow> bool" where
  "reports m \<longleftrightarrow> (\<forall>e w r w'. m e w = Some (r, w') \<longrightarrow>
     (\<forall>s. r \<noteq> Fail (FbException s)) \<and>
     (\<forall>n. r = Ok n \<longrightarrow> n = 0 \<or> n = 1 \<and> err w' \<noteq> []))"

definition returns_ok :: "('s, int) prog \<Rightarrow> bool" where
  "returns_ok m \<longleftrightarrow> (\<forall>e w n w'. m e w = Some (Ok n, w') \<longrightarrow> n = 0 \<or> n = 1 \<and> err w' \<noteq> [])"

lemma returns_okD: "returns_ok m \<Longrightarrow> m e w = Some (Ok n, w') \<Longrightarrow> n = 0 \<or> n = 1 \<and> err w' \<noteq> []"
  unfolding returns_ok_def by blast

lemma report_run:
  "report s e w = Some (Ok 1, (let c = Master (FormatStatus 1024 s) in
     w\<lparr>server := snd (fb e c (server w)), log := (c, None, snd (fst (fb e c (server w)))) # log w,
       err := err w @ ''Firebird error:'' @ nl @ c_str (r_s (snd (fst (fb e c (server w))))) @ nl\<rparr>))"
  by (simp add: report_def formatStatus_def returning_def bindP_def run_simps Let_def)

lemma reports_try:
  assumes "returns_ok m"
  shows "reports (try_fb m report)"
  unfolding reports_def
proof (intro allI impI)
  fix e w r w' assume "try_fb m report e w = Some (r, w')"
  then show "(\<forall>s. r \<noteq> Fail (FbException s)) \<and> (\<forall>n. r = Ok n \<longrightarrow> n = 0 \<or> n = 1 \<and> err w' \<noteq> [])"
    by (cases rule: try_fb_SomeE)
      (use assms in \<open>auto simp: report_run Let_def dest: returns_okD\<close>)
qed

lemma reports_bind_nothrow:
  assumes "nothrow m" and "\<And>a. reports (f a)"
  shows "reports (bindP m f)"
  unfolding reports_def
proof (intro allI impI)
  fix e w r w' assume "bindP m f e w = Some (r, w')"
  then show "(\<forall>s. r \<noteq> Fail (FbException s)) \<and> (\<forall>n. r = Ok n \<longrightarrow> n = 0 \<or> n = 1 \<and> err w' \<noteq> [])"
    by (cases rule: bindP_SomeE) (use assms in \<open>auto simp: nothrow_def reports_def\<close>)
qed

lemma reports_bind_total:
  assumes "\<And>e w. \<exists>a w'. m e w = Some (Ok a, w')" and "\<And>a. reports (f a)"
  shows "reports (bindP m f)"
  unfolding reports_def
proof (intro allI impI)
  fix e w r w'' assume run: "bindP m f e w = Some (r, w'')"
  obtain a w' where "m e w = Some (Ok a, w')" using assms(1) by blast
  then have "f a e w' = Some (r, w'')" using run by (simp add: bindP_def)
  then show "(\<forall>s. r \<noteq> Fail (FbException s)) \<and> (\<forall>n. r = Ok n \<longrightarrow> n = 0 \<or> n = 1 \<and> err w'' \<noteq> [])"
    using assms(2) [of a] unfolding reports_def by blast
qed

lemma argOrDefault_total: "\<exists>a w'. argOrDefault n d e w = Some (Ok a, w')"
  by (simp add: argOrDefault_def bindP_def run_simps)

lemma arguments_total: "\<exists>a w'. arguments e w = Some (Ok a, w')"
  by (simp add: run_simps)

lemma reports_arg: "(\<And>a. reports (f a)) \<Longrightarrow> reports (bindP (argOrDefault n d) f)"
  by (rule reports_bind_total [OF argOrDefault_total])

lemma reports_Let: "(\<And>x. reports (f x)) \<Longrightarrow> reports (let x = t in f x)"
  by simp

named_theorems returns_rules \<open>the value a main's body returns\<close>

lemma returns_ok_ret [returns_rules]: "returns_ok (ret 0)"
  by (simp add: returns_ok_def ret_def)

lemma returns_ok_fail [returns_rules]: "returns_ok (fail x)"
  by (simp add: returns_ok_def fail_def)

lemma returns_ok_bind [returns_rules]: "(\<And>a. returns_ok (f a)) \<Longrightarrow> returns_ok (bindP m f)"
  unfolding returns_ok_def by (fastforce elim!: bindP_OkE)

lemma returns_ok_seqP [returns_rules]: "returns_ok k \<Longrightarrow> returns_ok (seqP ms k)"
  unfolding seqP_def by (rule returns_ok_bind)

lemma returns_ok_returning [returns_rules]: "returns_ok (returning ms 0)"
  unfolding returning_def by (rule returns_ok_bind) (rule returns_ok_ret)

text \<open>\<open>fprintf(stderr, ...); return 1;\<close>\<close>

lemma returns_ok_error [returns_rules]: "s \<noteq> [] \<Longrightarrow> returns_ok (returning [say_err s] 1)"
  by (auto simp: returns_ok_def returning_def bindP_def run_simps)

lemma returns_ok_Let [returns_rules]: "(\<And>x. returns_ok (f x)) \<Longrightarrow> returns_ok (let x = t in f x)"
  by simp

lemma returns_ok_if [returns_rules]: "returns_ok m \<Longrightarrow> returns_ok n \<Longrightarrow> returns_ok (if b then m else n)"
  by simp

lemma returns_ok_scoped:
  assumes m: "returns_ok m" and d: "keeps (\<lambda>w. err w \<noteq> []) d"
  shows "returns_ok (scoped m d)"
  unfolding returns_ok_def
proof (intro allI impI)
  fix e w n w'' assume "scoped m d e w = Some (Ok n, w'')"
  then show "n = 0 \<or> n = 1 \<and> err w'' \<noteq> []"
  proof (cases rule: scoped_SomeE)
    case (val a w')
    then have "n = a" and "d e w' = Some (Ok (), w'')"
      by (auto simp: ret_def elim!: bindP_OkE)
    then show ?thesis
      using returns_okD [OF m val(1)] d by (auto simp: keeps_def dest: hoareD_Ok)
  qed (auto simp: fail_def elim!: bindP_OkE)
qed

lemma err_Db_destroy: "keeps (\<lambda>w. err w \<noteq> []) (Db_destroy db)"
proof -
  have "keeps (\<lambda>w. err w \<noteq> []) (ask_void c)" "keeps (\<lambda>w. err w \<noteq> []) (ask_check c)"
    "keeps (\<lambda>w. err w \<noteq> []) (get_cell k i)" "keeps (\<lambda>w. err w \<noteq> []) (set_cell k i v)" for c k i v
    by (rule keepsI, auto simp: run_simps)+
  then show ?thesis unfolding Db_destroy_def do_void_def by (intro keeps_rules)
qed

lemma returns_ok_with_Db [returns_rules]: "(\<And>db. returns_ok (b db)) \<Longrightarrow> returns_ok (with_Db b)"
  unfolding with_Db_def by (intro returns_ok_bind returns_ok_scoped err_Db_destroy)

lemma okd0_arg: "(\<And>a. okd0 k (f a)) \<Longrightarrow> okd0 k (bindP (argOrDefault n d) f)"
  by (rule okd0_bindP [OF okd_argOrDefault])

lemma report_not_0: "report s e w \<noteq> Some (Ok 0, w')"
  by (simp add: report_run Let_def)

text \<open>The count of a \<open>Db\<close> scope: the destructor moves only status, provider and attachment.\<close>

lemma count_Db_destroy:
  assumes "k \<notin> {KStatus, KProv, KAtt}"
  shows "okd k (Db_destroy db) 0"
proof (rule okd_keeps)
  show "keeps (\<lambda>w. bal (gain k) w = b) (Db_destroy db)" for b
  proof -
    have "keeps (\<lambda>w. bal (gain k) w = b) (set_cell kk i v)" for kk i v
      by (rule keepsI) (auto simp: set_cell_def bal_def)
    then show ?thesis
      unfolding Db_destroy_def
      by (intro count_rules; use assms in \<open>auto simp: delta_simps\<close>)
  qed
qed

lemma okd_scoped:
  assumes m: "okd k m n" and d: "okd k d n'"
  shows "okd k (scoped m d) (n + n')"
proof (rule okdI)
  fix e w a w'' assume run: "scoped m d e w = Some (Ok a, w'')"
  then show "bal (gain k) w'' = bal (gain k) w + (n + n')"
    by (cases rule: scoped_SomeE)
      (auto simp: ret_def fail_def okdD [OF d] dest!: okdD [OF m] elim!: bindP_OkE)
qed

lemma okd_Db_new: "k \<notin> {KStatus, KProv, KAtt} \<Longrightarrow> okd k Db_new 0"
  unfolding Db_new_def by (rule okd_eq) (rule okd_rules | (auto simp: delta_simps)[1])+

lemma okd_attachOrCreate:
  assumes "k \<notin> {KStatus, KProv, KAtt}"
  shows "okd k (attachOrCreate db d) 0"
proof -
  have c: "keeps (\<lambda>w. bal (gain k) w = b) (set_cell kk i v)" for b kk i v
    by (rule keepsI) (auto simp: set_cell_def bal_def)
  have "okd k (try_fb (attachDatabase db d x) (\<lambda>_. block
          [do_call (Xpb x (InsertInt isc_dpb_page_size (8 * 1024))),
           do_call (Xpb x (InsertString isc_dpb_set_db_charset ''UTF8'')),
           createDatabase db d x])) 0" for x
    unfolding attachDatabase_def createDatabase_def
    by (rule okd_keeps) (intro count_rules c; use assms in \<open>auto simp: delta_simps\<close>)
  then show ?thesis
    unfolding attachOrCreate_def
    by - (rule okd_eq, (rule okd_rules | assumption | (use assms in \<open>simp add: delta_simps\<close>)[1])+)
qed

lemma okd_with_Db:
  assumes "k \<notin> {KStatus, KProv, KAtt}" and "\<And>db. okd k (body db) n"
  shows "okd k (with_Db body) n"
  unfolding with_Db_def
  using okd_bindP [OF okd_Db_new [OF assms(1)] okd_scoped [OF assms(2) count_Db_destroy [OF assms(1)]]]
  by simp

lemma okd0_main:
  assumes "okd k m n" and "n = 0"
  shows "okd0 k (try_fb m report)"
  by (rule okd0_try_fb [OF assms report_not_0])

end
