(* ===== verification/Samples_Tour.thy ===== *)
theory Samples_Tour
  imports Sample_Kit
begin

text \<open>
  Seven samples that walk through one topic each with a single attachment:
  \<open>architecture_comparison.cpp\<close>, \<open>deployment.cpp\<close>, \<open>extensibility.cpp\<close>, \<open>ha.cpp\<close>,
  \<open>indexes.cpp\<close>, \<open>replication.cpp\<close> and \<open>windows.cpp\<close>, statement by statement.  For each the
  attachments balance on every path, transactions and statements on exit code 0, and no
  \<open>FbException\<close> leaves \<open>main\<close>.
\<close>


section \<open>architecture_comparison.cpp\<close>

definition inspect :: "string \<Rightarrow> string \<Rightarrow> bool \<Rightarrow> ('s, unit) prog" where
  \<open>inspect label database create =
    with_Db (\<lambda>db. seqP
       [if create then attachOrCreate db database else attach db database] (
      bindP (start db) (\<lambda>tra.
      bindP (query db tra
        (''select rdb$get_context('SYSTEM', 'ENGINE_VERSION'), '' @
        ''       rdb$get_context('SYSTEM', 'NETWORK_PROTOCOL'), '' @
        ''       a.mon$server_pid '' @
        ''from mon$attachments a '' @
        ''where a.mon$attachment_id = current_connection'')) (\<lambda>t.
      bindP (cell_at t 0 0) (\<lambda>version.
      bindP (cell_at t 0 1) (\<lambda>protocol.
      bindP (cell_at t 0 2) (\<lambda>serverPid.
      seqP
       [say (label @ nl),
        say (''    connection string : '' @ database @ nl),
        say (''    ENGINE_VERSION    : '' @ (c_str version) @ nl),
        say (''    NETWORK_PROTOCOL  : '' @ (c_str protocol) @ nl)] (
      bindP (getpid) (\<lambda>pid.
      block
       [say (''    MON$SERVER_PID    : '' @ (c_str serverPid) @ ''   (this process is pid '' @
            show_int pid @
            (if serverPid = show_int pid then '' -- the engine runs IN this process'' else []) @
            '')'' @ nl),
        commit tra])))))))))\<close>

definition architecture_comparison_main :: "('s, int) prog" where
  \<open>architecture_comparison_main = bindP (argOrDefault 1 ''inet://localhost/employee'') (\<lambda>remoteDb.
      bindP (argOrDefault 2 ''/tmp/fbhandson/arch_embedded.fdb'') (\<lambda>embeddedDb.
      try_fb (returning
       [say (''One libfbclient, two providers behind the Y-valve.'' @ nl @ nl),
        inspect ''[1] Remote provider (client-server):'' remoteDb False,
        say nl,
        inspect ''[2] Engine provider (embedded, no server):'' embeddedDb True,
        say (nl @ ''done.'' @ nl)]
       0) report))\<close>


section \<open>deployment.cpp\<close>

definition deployment_DB :: string where
  \<open>deployment_DB = ''inet://localhost/employee''\<close>

definition deployment_line :: "Db \<Rightarrow> nat \<Rightarrow> string \<Rightarrow> string \<Rightarrow> ('s, unit) prog" where
  \<open>deployment_line db tra label sql = bindP (queryValue db tra sql) (\<lambda>v.
      block
       [say (''  '' @ ljust 22 label @ '' '' @ (c_str v) @ nl)])\<close>

definition deployment_main :: "('s, int) prog" where
  \<open>deployment_main =
    try_fb (with_Db (\<lambda>db. bindP (argOrDefault 1 deployment_DB) (\<lambda>dsn.
      seqP
       [attach db dsn] (
      bindP (start db) (\<lambda>tra.
      seqP
       [say (''== MON$DATABASE: the database as deployed =='' @ nl),
        deployment_line db tra (''database file'') ''SELECT MON$DATABASE_NAME FROM MON$DATABASE'',
        deployment_line db tra (''ODS version'')
        ''SELECT MON$ODS_MAJOR || '.' || MON$ODS_MINOR FROM MON$DATABASE'',
        deployment_line db tra (''page size'') ''SELECT MON$PAGE_SIZE FROM MON$DATABASE'',
        deployment_line db tra (''page buffers'') ''SELECT MON$PAGE_BUFFERS FROM MON$DATABASE'',
        deployment_line db tra (''sweep interval'') ''SELECT MON$SWEEP_INTERVAL FROM MON$DATABASE'',
        deployment_line db tra (''forced writes'') ''SELECT MON$FORCED_WRITES FROM MON$DATABASE'',
        deployment_line db tra (''SQL dialect'') ''SELECT MON$SQL_DIALECT FROM MON$DATABASE'',
        deployment_line db tra (''crypt state'') ''SELECT MON$CRYPT_STATE FROM MON$DATABASE''] (
      bindP (queryValue db tra ''SELECT COUNT(*) FROM RDB$CONFIG'') (\<lambda>n.
      returning
       [say (nl @ ''== RDB$CONFIG: effective configuration (selected of '' @ (c_str n) @
            '' settings) =='' @ nl),
        print_query db tra
        (''SELECT RDB$CONFIG_NAME, RDB$CONFIG_VALUE, RDB$CONFIG_IS_SET '' @
        ''FROM RDB$CONFIG '' @
        ''WHERE RDB$CONFIG_NAME IN ('ServerMode', 'DefaultDbCachePages', '' @
        ''  'DatabaseAccess', 'WireCrypt', 'MaxParallelWorkers', 'SecurityDatabase') '' @
        ''ORDER BY RDB$CONFIG_NAME''),
        say (nl @ ''== settings explicitly set in config files =='' @ nl),
        print_query db tra
        (''SELECT RDB$CONFIG_NAME, RDB$CONFIG_VALUE, RDB$CONFIG_SOURCE '' @
        ''FROM RDB$CONFIG WHERE RDB$CONFIG_IS_SET ORDER BY RDB$CONFIG_ID''),
        say (nl @ ''== SYSTEM context: this engine, this session =='' @ nl),
        deployment_line db tra (''ENGINE_VERSION'')
        ''SELECT RDB$GET_CONTEXT('SYSTEM','ENGINE_VERSION') FROM RDB$DATABASE'',
        deployment_line db tra (''DB_NAME'')
        ''SELECT RDB$GET_CONTEXT('SYSTEM','DB_NAME') FROM RDB$DATABASE'',
        deployment_line db tra (''NETWORK_PROTOCOL'')
        ''SELECT RDB$GET_CONTEXT('SYSTEM','NETWORK_PROTOCOL') FROM RDB$DATABASE'',
        deployment_line db tra (''WIRE_CRYPT_PLUGIN'')
        ''SELECT RDB$GET_CONTEXT('SYSTEM','WIRE_CRYPT_PLUGIN') FROM RDB$DATABASE'',
        deployment_line db tra (''CLIENT_ADDRESS'')
        ''SELECT RDB$GET_CONTEXT('SYSTEM','CLIENT_ADDRESS') FROM RDB$DATABASE'',
        commit tra,
        say (nl @ ''done.'' @ nl)]
       0))))))) report\<close>


section \<open>extensibility.cpp\<close>

definition extensibility_main :: "('s, int) prog" where
  \<open>extensibility_main = bindP (argOrDefault 1 ''inet://localhost//tmp/fbhandson/extensibility.fdb'') (\<lambda>database.
      try_fb (with_Db (\<lambda>db. seqP
       [attachOrCreate db database] (
      bindP (start db) (\<lambda>tra.
      seqP
       [exec db tra
        (''recreate procedure gen_rows (start_n integer not null, '' @
        ''                             end_n integer not null) '' @
        ''  returns (n integer not null) '' @
        ''  external name 'udrcpp_example!gen_rows' engine udr''),
        exec db tra
        (''recreate function sum_args (n1 integer, n2 integer, n3 integer) '' @
        ''  returns integer '' @
        ''  external name 'udrcpp_example!sum_args' engine udr''),
        commitRetaining tra,
        say (''select n from gen_rows(1, 5):'' @ nl),
        print_query db tra ''select n from gen_rows(1, 5)''] (
      bindP (queryValue db tra ''select sum_args(19, 20, 3) from rdb$database'') (\<lambda>s.
      returning
       [say (nl @ ''select sum_args(19, 20, 3):  '' @ (c_str s) @ nl),
        say (nl @ ''external routines recorded in the system tables:'' @ nl),
        print_query db tra
        (''select trim(rdb$procedure_name) || '  ->  ' || '' @
        ''       trim(rdb$entrypoint) || '  (engine ' || '' @
        ''       trim(rdb$engine_name) || ')' '' @
        ''from rdb$procedures where rdb$engine_name = 'UDR' '' @
        ''union all '' @
        ''select trim(rdb$function_name) || '  ->  ' || '' @
        ''       trim(rdb$entrypoint) || '  (engine ' || '' @
        ''       trim(rdb$engine_name) || ')' '' @
        ''from rdb$functions where rdb$engine_name = 'UDR'' @ [CHR 0x27]),
        say (nl @ ''plugins filling each role (rdb$config):'' @ nl),
        print_query db tra
        (''select rdb$config_name role, rdb$config_value plugin '' @
        ''from rdb$config '' @
        ''where rdb$config_name in ('Providers', 'AuthServer', '' @
        ''      'UserManager', 'WireCryptPlugin', 'TracePlugin', '' @
        ''      'DefaultProfilerPlugin') '' @
        ''order by rdb$config_id''),
        commit tra,
        say (nl @ ''done.'' @ nl)]
       0)))))) report)\<close>


section \<open>ha.cpp\<close>

definition ha_DB :: string where
  \<open>ha_DB = ''inet://localhost//tmp/fbhandson/ha.fdb''\<close>

definition MAIN :: string where
  \<open>MAIN = ''/tmp/fbhandson/ha.fdb''\<close>

definition SHAD :: string where
  \<open>SHAD = ''/tmp/fbhandson/ha.shd''\<close>

text \<open>\<open>stat\<close> answers with a null result when it fails.\<close>

definition fileSize :: "string \<Rightarrow> ('s, int) prog" where
  \<open>fileSize path = bindP (ask_void (Os (FileSize path))) (\<lambda>st.
      ret (if r_null st then - 1 else r_n st))\<close>

definition showFiles :: "string \<Rightarrow> ('s, unit) prog" where
  \<open>showFiles when = bindP (fileSize MAIN) (\<lambda>m.
      bindP (fileSize SHAD) (\<lambda>s.
      block
       [say (ljust 28 when @ '' main = '' @ rjust 8 (show_int m) @ '' bytes, shadow = '' @
            rjust 8 (show_int s) @ '' bytes'' @ nl)]))\<close>

definition ha_filesLeft :: "Db \<Rightarrow> ('s, string) prog" where
  \<open>ha_filesLeft db = bindP (start db) (\<lambda>t2.
      bindP (queryValue db t2 ''SELECT COUNT(*) FROM RDB$FILES'') (\<lambda>n.
      returning
       [commit t2]
       n))\<close>

definition ha_main :: "('s, int) prog" where
  \<open>ha_main =
    try_fb (with_Db (\<lambda>db. bindP (argOrDefault 1 ha_DB) (\<lambda>dsn.
      seqP
       [attachOrCreate db dsn] (
      bindP (start db) (\<lambda>tra.
      seqP
       [quietly (exec db tra ''DROP SHADOW 1 DELETE FILE''),
        quietly (exec db tra ''DROP TABLE HA_LOG''),
        exec db tra ''CREATE TABLE HA_LOG (ID INT NOT NULL PRIMARY KEY, PAYLOAD VARCHAR(200))'',
        commitRetaining tra,
        exec db tra (''CREATE SHADOW 1 '/tmp/fbhandson/ha.shd'' @ [CHR 0x27]),
        commitRetaining tra,
        say (''CREATE SHADOW 1 done '' @ [CHR 0xE2, CHR 0x80, CHR 0x94] @
            '' the engine dumped every page to the mirror'' @ nl @ nl),
        print_query db tra
        (''SELECT RDB$FILE_NAME, RDB$SHADOW_NUMBER, RDB$FILE_FLAGS '' @
        ''FROM RDB$FILES ORDER BY RDB$SHADOW_NUMBER''),
        say nl,
        showFiles ''after CREATE SHADOW:'',
        exec db tra
        (''EXECUTE BLOCK AS DECLARE I INT = 0; BEGIN '' @
        ''  WHILE (I < 5000) DO BEGIN '' @
        ''    INSERT INTO HA_LOG VALUES (:I, LPAD('' @ [CHR 0x27, CHR 0x27] @ '', 200, 'x')); I = I + 1; '' @
        ''  END '' @
        ''END''),
        commitRetaining tra,
        showFiles ''after 5000 inserts:'',
        exec db tra ''DROP SHADOW 1 DELETE FILE'',
        commit tra,
        say (nl @ ''DROP SHADOW 1 DELETE FILE done'' @ nl),
        showFiles ''after DROP SHADOW:''] (
      bindP (ha_filesLeft db) (\<lambda>n.
      returning
       [say (nl @ ''RDB$FILES rows left: '' @ (c_str n) @ nl),
        say (''done.'' @ nl)]
       0))))))) report\<close>


section \<open>indexes.cpp\<close>

text \<open>\<open>p ? p + (*p == newline) : "(no plan)"\<close>\<close>

definition skip_newline :: "string option \<Rightarrow> string" where
  \<open>skip_newline p = (case p of None \<Rightarrow> ''(no plan)''
     | Some s \<Rightarrow> (case s of [] \<Rightarrow> [] | c # cs \<Rightarrow> if c = CHR 0x0A then cs else s))\<close>

definition indexes_plan :: "Db \<Rightarrow> nat \<Rightarrow> string \<Rightarrow> ('s, unit) prog" where
  \<open>indexes_plan db tra sql = bindP (prepare db tra sql False) (\<lambda>stmt.
      bindP (getPlan stmt False) (\<lambda>p.
      block
       [say (sql @ nl @ (skip_newline p) @ nl @ nl),
        do_call (Stmt stmt StmtFree)]))\<close>

definition indexes_main :: "('s, int) prog" where
  \<open>indexes_main = bindP (argOrDefault 1 ''inet://localhost//tmp/fbhandson/indexes.fdb'') (\<lambda>database.
      try_fb (with_Db (\<lambda>db. seqP
       [attachOrCreate db database] (
      bindP (start db) (\<lambda>tra.
      seqP
       [exec db tra (''recreate table doc ('' @
        '' id integer, title varchar(60), status varchar(10), num integer)''),
        commit tra] (
      bindP (start db) (\<lambda>tra.
      seqP
       [exec db tra
        (''execute block as declare i integer = 0; begin'' @
        ''  while (i < 3000) do begin'' @
        ''    insert into doc values (:i, 'Title ' || :i,'' @
        ''      iif(mod(:i, 3) = 0, 'active', 'done'), mod(:i, 100));'' @
        ''    i = i + 1;'' @
        ''  end '' @
        ''end''),
        commit tra] (
      bindP (start db) (\<lambda>tra.
      seqP
       [exec db tra ''create descending index doc_id_desc on doc (id)'',
        exec db tra ''create index doc_upper_title on doc computed by (upper(title))'',
        exec db tra (''create index doc_active on doc (status) where status = 'active'' @ [CHR 0x27]),
        exec db tra ''create index doc_num on doc (num)'',
        commit tra,
        say (''3000 rows; indexes: descending, expression, partial, plain'' @ nl @ nl)] (
      bindP (start db) (\<lambda>tra.
      seqP
       [indexes_plan db tra (''select id from doc where upper(title) = 'TITLE 5'' @ [CHR 0x27]),
        indexes_plan db tra (''select id from doc where status = 'active'' @ [CHR 0x27]),
        indexes_plan db tra ''select first 1 id from doc order by id desc'',
        indexes_plan db tra ''select id from doc where num = 42 or id = 7'',
        indexes_plan db tra (''select id from doc where title containing 'itle 12'' @ [CHR 0x27])] (
      bindP (queryValue db tra (''select count(*) from doc where title containing 'itle 12'' @ [CHR 0x27])) (\<lambda>n.
      returning
       [say (''CONTAINING is correct but unindexed: matched '' @ (c_str n) @
            '' rows by scanning all 3000'' @ nl),
        commit tra,
        detach db,
        say (''done.'' @ nl)]
       0)))))))))))) report)\<close>


section \<open>replication.cpp\<close>

definition replication_DB :: string where
  \<open>replication_DB = ''inet://localhost//tmp/fbhandson/replication.fdb''\<close>

definition pubState :: "Db \<Rightarrow> nat \<Rightarrow> string \<Rightarrow> ('s, unit) prog" where
  \<open>pubState db tra when = block
       [say (''-- '' @ when @ nl),
        print_query db tra
      (''SELECT RDB$PUBLICATION_NAME, RDB$ACTIVE_FLAG, RDB$AUTO_ENABLE '' @
      ''FROM RDB$PUBLICATIONS''),
        print_query db tra
      (''SELECT RDB$TABLE_SCHEMA_NAME, RDB$TABLE_NAME '' @
      ''FROM RDB$PUBLICATION_TABLES ORDER BY RDB$TABLE_NAME''),
        say nl]\<close>

definition replication_main :: "('s, int) prog" where
  \<open>replication_main =
    try_fb (with_Db (\<lambda>db. bindP (argOrDefault 1 replication_DB) (\<lambda>dsn.
      seqP
       [attachOrCreate db dsn] (
      bindP (start db) (\<lambda>tra.
      returning
       [quietly (exec db tra ''ALTER DATABASE EXCLUDE ALL FROM PUBLICATION''),
        quietly (exec db tra ''ALTER DATABASE DISABLE PUBLICATION''),
        quietly (exec db tra ''DROP TABLE REPL_ORDERS''),
        quietly (exec db tra ''DROP TABLE REPL_SCRATCH''),
        exec db tra ''CREATE TABLE REPL_ORDERS (ID INT NOT NULL PRIMARY KEY, ITEM VARCHAR(30))'',
        exec db tra ''CREATE TABLE REPL_SCRATCH (N INT)'',
        commitRetaining tra,
        pubState db tra ''initial state (publication exists but is inactive)'',
        exec db tra ''ALTER DATABASE ENABLE PUBLICATION'',
        commitRetaining tra,
        pubState db tra ''after ENABLE PUBLICATION'',
        exec db tra ''ALTER DATABASE INCLUDE TABLE REPL_ORDERS TO PUBLICATION'',
        commitRetaining tra,
        pubState db tra ''after INCLUDE TABLE REPL_ORDERS'',
        exec db tra ''ALTER DATABASE INCLUDE ALL TO PUBLICATION'',
        commitRetaining tra,
        pubState db tra ''after INCLUDE ALL (auto-enable: future tables join automatically)'',
        print_query db tra ''SELECT MON$REPLICA_MODE FROM MON$DATABASE'',
        commit tra,
        say (nl @ ''done.'' @ nl)]
       0))))) report\<close>


section \<open>windows.cpp\<close>

definition windows_rows :: "string list" where
  \<open>windows_rows =
    [''(1,'East',100)'', ''(2,'East',200)'', ''(3,'East',150)'',
     ''(4,'West',300)'', ''(5,'West',250)'', ''(6,'West',400)'']\<close>

definition windows_winSql :: string where
  \<open>windows_winSql =
    (''SELECT region, amount,'' @
    '' ROW_NUMBER() OVER (PARTITION BY region ORDER BY amount) AS rn,'' @
    '' RANK() OVER (ORDER BY amount DESC) AS overall_rank,'' @
    '' SUM(amount) OVER (PARTITION BY region ORDER BY id'' @
    ''   ROWS BETWEEN UNBOUNDED PRECEDING AND CURRENT ROW) AS running_total,'' @
    '' LAG(amount) OVER (PARTITION BY region ORDER BY id) AS prev_amount'' @
    '' FROM sales'')\<close>

definition windows_main :: "('s, int) prog" where
  \<open>windows_main = bindP (argOrDefault 1 ''inet://localhost//tmp/fbhandson/windows.fdb'') (\<lambda>database.
      try_fb (with_Db (\<lambda>db. seqP
       [attachOrCreate db database] (
      bindP (start db) (\<lambda>ddl.
      seqP
       [quietly (exec db ddl ''DROP TABLE sales''),
        exec db ddl (''CREATE TABLE sales (id INT PRIMARY KEY, region VARCHAR(10),'' @
        '' amount NUMERIC(10,2))''),
        commit ddl] (
      bindP (start db) (\<lambda>tra.
      seqP
       [for_each windows_rows (\<lambda>r. exec db tra (''INSERT INTO sales VALUES '' @ r)),
        say (''== window functions =='' @ nl),
        print_query db tra windows_winSql] (
      bindP (prepare db tra windows_winSql False) (\<lambda>stmt.
      bindP (getPlan stmt False) (\<lambda>p.
      bindP (checked ''null plan'' p) (\<lambda>plan.
      returning
       [say (nl @ ''plan:'' @ plan @ nl),
        do_call (Stmt stmt StmtFree),
        say (nl @ ''== aggregates: FILTER / LISTAGG / STDDEV_POP =='' @ nl),
        print_query db tra
        (''SELECT region, COUNT(*) AS n,'' @
        '' COUNT(*) FILTER (WHERE amount > 150) AS big_sales,'' @
        '' CAST(LISTAGG(amount, ',') WITHIN GROUP (ORDER BY amount)'' @
        ''   AS VARCHAR(60)) AS amounts,'' @
        '' CAST(STDDEV_POP(amount) AS NUMERIC(10,2)) AS stddev'' @
        '' FROM sales GROUP BY region''),
        say (nl @ ''== PERCENTILE_CONT median / hypothetical RANK(175) =='' @ nl),
        print_query db tra
        (''SELECT region,'' @
        '' PERCENTILE_CONT(0.5) WITHIN GROUP (ORDER BY amount) AS median,'' @
        '' RANK(175) WITHIN GROUP (ORDER BY amount) AS rank_of_175'' @
        '' FROM sales GROUP BY region''),
        say (nl @ ''== FB6 frame EXCLUDE CURRENT ROW (neighbours' average) =='' @ nl),
        print_query db tra
        (''SELECT id, amount,'' @
        '' CAST(AVG(amount) OVER (ORDER BY id'' @
        ''   ROWS BETWEEN 1 PRECEDING AND 1 FOLLOWING'' @
        ''   EXCLUDE CURRENT ROW) AS NUMERIC(10,2)) AS neighbour_avg'' @
        '' FROM sales''),
        commit tra,
        say (nl @ ''done.'' @ nl)]
       0)))))))))) report)\<close>


section \<open>Interfaces\<close>

lemma okd_tour [okd_rules]:
  "okd k (deployment_line db tra l s) 0" "okd k (fileSize p) 0" "okd k (showFiles x) 0"
  "okd k (ha_filesLeft db) 0" "okd k (indexes_plan db tra s) 0" "okd k (pubState db tra s) 0"
  unfolding deployment_line_def showFiles_def fileSize_def ha_filesLeft_def indexes_plan_def
    pubState_def
  by ((rule okd_eq, (rule okd_rules | simp add: delta_simps)+)[1])+

lemma att_tour [att_rules]:
  "keeps (\<lambda>w. att_view w = v) (deployment_line db tra l s)"
  "keeps (\<lambda>w. att_view w = v) (fileSize p)"
  "keeps (\<lambda>w. att_view w = v) (showFiles x)"
  "keeps (\<lambda>w. att_view w = v) (ha_filesLeft db)"
  "keeps (\<lambda>w. att_view w = v) (indexes_plan db tra s)"
  "keeps (\<lambda>w. att_view w = v) (pubState db tra s)"
  unfolding deployment_line_def showFiles_def fileSize_def ha_filesLeft_def indexes_plan_def
    pubState_def
  by (intro quiet_rules att_rules; simp add: delta_simps)+

lemma inspect_att: "att_triple b {} {} (inspect l d c) {}"
  unfolding inspect_def
  by (cases c) (rule att_flow | rule att_leaf, (intro quiet_rules att_rules; simp add: delta_simps), simp | simp)+

lemma okd_inspect [okd_rules]:
  assumes "k \<notin> {KStatus, KProv, KAtt}"
  shows "okd k (inspect l d c) 0"
  unfolding inspect_def using assms
  by - (rule okd_eq, (rule okd_with_Db okd_attachOrCreate okd_rules | assumption | simp add: delta_simps)+)

text \<open>The samples of this theory.\<close>

definition tour_mains :: "('s, int) prog list" where
  "tour_mains = [architecture_comparison_main, deployment_main, extensibility_main, ha_main,
     indexes_main, replication_main, windows_main]"

lemmas tour_defs = architecture_comparison_main_def deployment_main_def extensibility_main_def
  ha_main_def indexes_main_def replication_main_def windows_main_def

lemma tour_reports: "\<forall>m \<in> set tour_mains. reports m"
  unfolding tour_mains_def tour_defs list.set ball_simps
  by (intro conjI reports_arg reports_try returns_rules TrueI)

lemma tour_okd: "k \<notin> {KStatus, KProv, KAtt} \<Longrightarrow> \<forall>m \<in> set tour_mains. okd0 k m"
  unfolding tour_mains_def tour_defs list.set ball_simps
  by (rule conjI TrueI okd0_arg okd0_main okd_with_Db okd_attachOrCreate okd_rules
    | assumption | simp add: delta_simps)+

lemma tour_att: "\<forall>m \<in> set tour_mains. att_triple b {} {} m {}"
  unfolding tour_mains_def tour_defs list.set ball_simps
  by (rule conjI TrueI inspect_att att_flow
    | (rule att_quiet, (intro quiet_rules att_rules; simp add: delta_simps))
    | (rule att_leaf, (intro quiet_rules att_rules; simp add: delta_simps), simp) | simp)+

end
