(* ===== verification/Samples_Sql.thy ===== *)
theory Samples_Sql
  imports Sample_Kit
begin

text \<open>
  The samples about compiling and running SQL: \<open>plans.cpp\<close>, \<open>profiler.cpp\<close>,
  \<open>monitoring.cpp\<close>, \<open>pooling.cpp\<close>, \<open>psql.cpp\<close>, \<open>schemas.cpp\<close> and \<open>parser_errors.cpp\<close>.
  \<open>psql.cpp\<close> never frees the statement and metadata of its last step, so the interface
  counts of statements and metadata are claimed for the others only, and
  \<open>tryPrepare\<close> of \<open>parser_errors.cpp\<close> gives them back only when every call succeeds.
\<close>


section \<open>plans.cpp\<close>

definition showPlan :: "Db \<Rightarrow> nat \<Rightarrow> string \<Rightarrow> ('s, unit) prog" where
  \<open>showPlan db tra sql = seqP
       [say (''== '' @ sql @ nl)] (
      bindP (prepare db tra sql False) (\<lambda>stmt.
      bindP (getPlan stmt False) (\<lambda>p1.
      bindP (getPlan stmt True) (\<lambda>p2.
      bindP (checked ''null plan'' p1) (\<lambda>legacy.
      let legacy = dropWhile (\<lambda>c. c = CHR 0x0A) legacy in
      bindP (checked ''null plan'' p2) (\<lambda>detailed.
      block
       [say (''legacy:  '' @ legacy @ nl @ ''detailed:'' @ detailed @ nl @ nl),
        do_call (Stmt stmt StmtFree)]))))))\<close>

definition plans_main :: "('s, int) prog" where
  \<open>plans_main = bindP (argOrDefault 1 ''inet://localhost//tmp/fbhandson/plans.fdb'') (\<lambda>database.
      try_fb (with_Db (\<lambda>db. seqP
       [attachOrCreate db database] (
      bindP (start db) (\<lambda>tra.
      seqP
       [exec db tra (''RECREATE TABLE dept (id INT NOT NULL PRIMARY KEY,'' @
        '' name VARCHAR(20))''),
        exec db tra (''RECREATE TABLE emp (id INT NOT NULL PRIMARY KEY,'' @
        '' dept_id INT, salary INT, name VARCHAR(20))''),
        commitRetaining tra,
        exec db tra
        (''EXECUTE BLOCK AS DECLARE i INT = 1; BEGIN'' @ nl @
        ''  WHILE (i <= 20) DO BEGIN'' @ nl @
        ''    INSERT INTO dept VALUES (:i, 'dept ' || :i); i = i + 1;'' @ nl @
        ''  END'' @ nl @
        ''  i = 1;'' @ nl @
        ''  WHILE (i <= 2000) DO BEGIN'' @ nl @
        ''    INSERT INTO emp VALUES (:i, MOD(:i, 20) + 1,'' @ nl @
        ''        1000 + MOD(:i * 37, 500), 'emp ' || :i); i = i + 1;'' @ nl @
        ''  END'' @ nl @
        ''END''),
        commit tra] (
      bindP (start db) (\<lambda>tra.
      seqP
       [showPlan db tra ''SELECT name FROM emp WHERE dept_id = 5'',
        exec db tra ''CREATE INDEX emp_dept ON emp (dept_id)'',
        commit tra] (
      bindP (start db) (\<lambda>tra.
      returning
       [say (''-- CREATE INDEX emp_dept ON emp (dept_id) --'' @ nl @ nl),
        showPlan db tra ''SELECT name FROM emp WHERE dept_id = 5'',
        showPlan db tra ''SELECT name FROM emp WHERE id = 42'',
        showPlan db tra
        (''SELECT e.name, d.name FROM emp e'' @
        '' JOIN dept d ON e.dept_id = d.id ORDER BY e.salary''),
        showPlan db tra
        ''SELECT COUNT(*) FROM emp a JOIN emp b ON a.salary = b.salary'',
        commit tra,
        say (''done.'' @ nl)]
       0)))))))) report)\<close>


section \<open>profiler.cpp\<close>

definition profiler_main :: "('s, int) prog" where
  \<open>profiler_main = bindP (argOrDefault 1 ''inet://localhost//tmp/fbhandson/profiler.fdb'') (\<lambda>database.
      try_fb (with_Db (\<lambda>db. seqP
       [attachOrCreate db database] (
      bindP (start db) (\<lambda>tra.
      seqP
       [quietly (exec db tra ''drop procedure hotspot''),
        quietly (exec db tra ''drop table nums''),
        exec db tra ''create table nums (id int primary key, val int)'',
        commitRetaining tra,
        exec db tra
        (''execute block as declare n int = 0; begin '' @
        ''  while (n < 5000) do begin '' @
        ''    insert into nums values (:n, mod(:n, 97)); n = n + 1; end end''),
        exec db tra
        (''create procedure hotspot returns (total bigint) as'' @ nl @
        ''  declare i int = 0;'' @ nl @
        ''  declare x int;'' @ nl @
        ''begin'' @ nl @
        ''  total = 0;'' @ nl @
        ''  while (i < 20000) do'' @ nl @
        ''  begin'' @ nl @
        ''    select val from nums where id = mod(:i, 5000) into :x;'' @ nl @
        ''    total = total + coalesce(:x, 0);'' @ nl @
        ''    i = i + 1;'' @ nl @
        ''  end'' @ nl @
        ''  suspend;'' @ nl @
        ''end''),
        commitRetaining tra] (
      bindP (queryValue db tra
        ''select rdb$profiler.start_session('cpp hands-on') from rdb$database'') (\<lambda>profileId.
      seqP
       [ignore (queryValue db tra
        ''select count(*) from nums a join nums b on b.id = a.val''),
        ignore (queryValue db tra ''select total from hotspot''),
        exec db tra ''execute procedure rdb$profiler.finish_session(true)'',
        commit tra] (
      bindP (start db) (\<lambda>tra.
      returning
       [say (''profile session '' @ (c_str profileId) @ '' finished and flushed'' @ nl @ nl),
        say (''record sources of the join (PLG$PROF_RECORD_SOURCE_STATS_VIEW):'' @ nl),
        print_query db tra
        ((''select cast(lpad('' @ [CHR 0x27, CHR 0x27] @ '', level * 2) || cast(access_path as varchar(120)) '' @
        ''           as varchar(140)) as access_path, '' @
        ''       open_counter as opens, fetch_counter as fetches, '' @
        ''       open_fetch_total_elapsed_time as total_ns '' @
        ''from plg$profiler.plg$prof_record_source_stats_view '' @
        ''where profile_id = '') @ profileId @ ('' '' @
        ''  and sql_text containing 'join nums' '' @
        ''order by cursor_id, record_source_id'')),
        say (nl @ ''hotspot procedure, per PSQL line (PLG$PROF_PSQL_STATS_VIEW):'' @ nl),
        print_query db tra
        ((''select line_num, column_num, counter, '' @
        ''       total_elapsed_time as total_ns, avg_elapsed_time as avg_ns '' @
        ''from plg$profiler.plg$prof_psql_stats_view '' @
        ''where profile_id = '') @ profileId @ ('' '' @
        ''  and routine_name = 'HOTSPOT' '' @
        ''order by total_elapsed_time desc'')),
        commit tra,
        say (nl @ ''done.'' @ nl)]
       0)))))))) report)\<close>


section \<open>monitoring.cpp\<close>

definition monitoring_DB :: string where
  \<open>monitoring_DB = ''inet://localhost//tmp/fbhandson/monitoring.fdb''\<close>

definition COUNTERS :: string where
  \<open>COUNTERS =
    (''SELECT R.MON$RECORD_SEQ_READS, R.MON$RECORD_IDX_READS, R.MON$RECORD_INSERTS, '' @
    ''       I.MON$PAGE_FETCHES, I.MON$PAGE_READS '' @
    ''FROM MON$ATTACHMENTS A '' @
    ''JOIN MON$RECORD_STATS R ON R.MON$STAT_ID = A.MON$STAT_ID '' @
    ''JOIN MON$IO_STATS I     ON I.MON$STAT_ID = A.MON$STAT_ID '' @
    ''WHERE A.MON$ATTACHMENT_ID = CURRENT_CONNECTION'')\<close>

definition monitoring_main :: "('s, int) prog" where
  \<open>monitoring_main =
    try_fb (with_Db (\<lambda>db. bindP (argOrDefault 1 monitoring_DB) (\<lambda>dsn.
      seqP
       [attachOrCreate db dsn] (
      bindP (start db) (\<lambda>tra.
      seqP
       [quietly (exec db tra ''DROP TABLE MON_WORK''),
        exec db tra ''CREATE TABLE MON_WORK (ID INT NOT NULL PRIMARY KEY, VAL INT)'',
        commitRetaining tra,
        exec db tra
        (''EXECUTE BLOCK AS DECLARE I INT = 0; BEGIN '' @
        ''  WHILE (I < 10000) DO BEGIN INSERT INTO MON_WORK VALUES (:I, :I); I = I + 1; END '' @
        ''END''),
        commit tra] (
      bindP (start db) (\<lambda>tra.
      seqP
       [say (''== MON$DATABASE: transaction markers =='' @ nl),
        print_query db tra
        (''SELECT MON$OLDEST_TRANSACTION, MON$OLDEST_ACTIVE, MON$NEXT_TRANSACTION, '' @
        ''       MON$PAGE_BUFFERS FROM MON$DATABASE''),
        say (nl @ ''== MON$ATTACHMENTS -> MON$TRANSACTIONS -> MON$STATEMENTS (me) =='' @ nl),
        print_query db tra
        (''SELECT A.MON$ATTACHMENT_ID, A.MON$USER, T.MON$TRANSACTION_ID, '' @
        ''       S.MON$STATE, CAST(SUBSTRING(S.MON$SQL_TEXT FROM 1 FOR 40) AS VARCHAR(40)) AS SQL_HEAD '' @
        ''FROM MON$ATTACHMENTS A '' @
        ''JOIN MON$TRANSACTIONS T ON T.MON$ATTACHMENT_ID = A.MON$ATTACHMENT_ID '' @
        ''JOIN MON$STATEMENTS S   ON S.MON$TRANSACTION_ID = T.MON$TRANSACTION_ID '' @
        ''WHERE A.MON$ATTACHMENT_ID = CURRENT_CONNECTION''),
        say (nl @ ''== my counters (snapshot 1) =='' @ nl),
        print_query db tra COUNTERS,
        say (nl @ ''... running workload: SELECT COUNT(*) full scan + indexed lookup ...'' @ nl)] (
      bindP (queryValue db tra ''SELECT COUNT(*) FROM MON_WORK'') (\<lambda>count.
      bindP (queryValue db tra ''SELECT VAL FROM MON_WORK WHERE ID = 4242'') (\<lambda>point.
      seqP
       [say (''count = '' @ (c_str count) @ '', point = '' @ (c_str point) @ nl),
        say (nl @ ''== same transaction, re-queried: STILL snapshot 1 =='' @ nl),
        print_query db tra COUNTERS,
        commit tra] (
      bindP (start db) (\<lambda>tra.
      returning
       [say (nl @ ''== new transaction: fresh snapshot, workload now visible =='' @ nl),
        print_query db tra COUNTERS,
        commit tra,
        say (nl @ ''done.'' @ nl)]
       0)))))))))))) report\<close>


section \<open>pooling.cpp\<close>

definition poolState :: "Db \<Rightarrow> nat \<Rightarrow> string \<Rightarrow> ('s, unit) prog" where
  \<open>poolState db tra moment = bindP (query db tra
      (''select rdb$get_context('SYSTEM', 'EXT_CONN_POOL_SIZE'),'' @
      ''       rdb$get_context('SYSTEM', 'EXT_CONN_POOL_LIFETIME'),'' @
      ''       rdb$get_context('SYSTEM', 'EXT_CONN_POOL_IDLE_COUNT'),'' @
      ''       rdb$get_context('SYSTEM', 'EXT_CONN_POOL_ACTIVE_COUNT')'' @
      '' from rdb$database'')) (\<lambda>t.
      bindP (cells_at t 0 4) (\<lambda>v.
      block
       [say (ljust 18 moment @ '' size='' @ (v ! 0) @ '' lifetime='' @ (v ! 1) @ ''s idle='' @
            (v ! 2) @ '' active='' @ (v ! 3) @ nl)]))\<close>

definition pooling_block :: "string \<Rightarrow> string \<Rightarrow> string \<Rightarrow> string" where
  \<open>pooling_block external user password =
    (''execute block returns (idle varchar(10), active varchar(10)) as'' @ nl @
    ''  declare i int = 0;'' @ nl @
    ''  declare v int;'' @ nl @
    ''begin'' @ nl @
    ''  while (i < 3) do'' @ nl @
    ''  begin'' @ nl @
    ''    execute statement 'select 1 from rdb$database'' @ [CHR 0x27] @ nl @
    ''      on external '' @ [CHR 0x27]) @ external @ ([CHR 0x27] @ nl @
    ''      as user '' @ [CHR 0x27]) @ user @ ([CHR 0x27] @
    '' password '' @ [CHR 0x27]) @ password @ ([CHR 0x27] @ nl @
    ''      into :v;'' @ nl @
    ''    i = i + 1;'' @ nl @
    ''  end'' @ nl @
    ''  idle   = rdb$get_context('SYSTEM', 'EXT_CONN_POOL_IDLE_COUNT');'' @ nl @
    ''  active = rdb$get_context('SYSTEM', 'EXT_CONN_POOL_ACTIVE_COUNT');'' @ nl @
    ''  suspend;'' @ nl @
    ''end'')\<close>

definition pooling_main :: "('s, int) prog" where
  \<open>pooling_main = bindP (argOrDefault 1 ''inet://localhost/employee'') (\<lambda>database.
      bindP (argOrDefault 2 ''inet://localhost/employee'') (\<lambda>external.
      try_fb (with_Db (\<lambda>db. seqP
       [attach db database] (
      bindP (start db) (\<lambda>tra.
      seqP
       [exec db tra ''alter external connections pool set size 5'',
        exec db tra ''alter external connections pool set lifetime 30 second'',
        commitRetaining tra,
        poolState db tra ''before:''] (
      bindP (defaultUser) (\<lambda>user.
      bindP (defaultPassword) (\<lambda>password.
      bindP (query db tra (pooling_block external user password)) (\<lambda>t.
      bindP (cells_at t 0 2) (\<lambda>v.
      seqP
       [say (ljust 18 (''inside the block:'') @ '' idle='' @ (v ! 0) @ '' active='' @ (v ! 1) @
            ''   (3 calls, 1 outbound connection)'' @ nl),
        commit tra] (
      bindP (start db) (\<lambda>tra.
      returning
       [poolState db tra ''after commit:'',
        exec db tra ''alter external connections pool clear all'',
        poolState db tra ''after CLEAR ALL:'',
        commit tra,
        say (''done.'' @ nl)]
       0))))))))))) report))\<close>


section \<open>psql.cpp\<close>

definition psql_setup :: "Db \<Rightarrow> nat \<Rightarrow> ('s, unit) prog" where
  \<open>psql_setup db tra = block
       [exec db tra (''CREATE OR ALTER PROCEDURE hire (p_name VARCHAR(30),'' @
      '' p_salary NUMERIC(10,2)) RETURNS (new_id INTEGER) AS BEGIN END''),
        exec db tra (''CREATE OR ALTER PROCEDURE raises (pct NUMERIC(5,2))'' @
      '' RETURNS (id INTEGER, name VARCHAR(30), new_salary NUMERIC(10,2))'' @
      '' AS BEGIN END''),
        commitRetaining tra,
        exec db tra (''RECREATE TABLE emp (id INT GENERATED BY DEFAULT AS'' @
      '' IDENTITY PRIMARY KEY, name VARCHAR(30), salary NUMERIC(10,2))''),
        exec db tra ''RECREATE TABLE audit_log (logged_at TIMESTAMP, what VARCHAR(60))'',
        exec db tra (''CREATE OR ALTER EXCEPTION low_salary 'salary below minimum'' @ [CHR 0x27]),
        commitRetaining tra,
        exec db tra
      (''CREATE OR ALTER PROCEDURE hire (p_name VARCHAR(30), p_salary NUMERIC(10,2))'' @ nl @
      ''RETURNS (new_id INTEGER) AS'' @ nl @
      ''BEGIN'' @ nl @
      ''  IF (p_salary < 1000) THEN EXCEPTION low_salary;'' @ nl @
      ''  INSERT INTO emp (name, salary) VALUES (:p_name, :p_salary)'' @ nl @
      ''    RETURNING id INTO :new_id;'' @ nl @
      ''END''),
        exec db tra
      (''CREATE OR ALTER TRIGGER emp_bi BEFORE INSERT ON emp AS'' @ nl @
      ''BEGIN'' @ nl @
      ''  INSERT INTO audit_log VALUES (CURRENT_TIMESTAMP,'' @ nl @
      ''    'insert emp ' || COALESCE(NEW.name, '?'));'' @ nl @
      ''END''),
        exec db tra
      (''CREATE OR ALTER PROCEDURE raises (pct NUMERIC(5,2))'' @ nl @
      ''RETURNS (id INTEGER, name VARCHAR(30), new_salary NUMERIC(10,2)) AS'' @ nl @
      ''BEGIN'' @ nl @
      ''  FOR SELECT id, name, salary FROM emp INTO :id, :name, :new_salary DO'' @ nl @
      ''  BEGIN'' @ nl @
      ''    new_salary = new_salary * (1 + pct / 100);'' @ nl @
      ''    SUSPEND;'' @ nl @
      ''  END'' @ nl @
      ''END''),
        commitRetaining tra]\<close>

definition psql_call :: "Db \<Rightarrow> nat \<Rightarrow> string \<Rightarrow> ('s, unit) prog" where
  \<open>psql_call db tra call = bindP (prepare db tra call True) (\<lambda>stmt.
      bindP (handle_of (Stmt stmt GetOutputMetadata)) (\<lambda>outm.
      bindP (number_of (Meta outm GetMessageLength)) (\<lambda>len.
      bindP (ask (Stmt stmt (StmtExecute tra [] (Some outm)))) (\<lambda>r.
      bindP (number_of (Meta outm (GetOffset 0))) (\<lambda>off.
      bindP (message_nat (fit len (r_b r)) off 4) (\<lambda>newId.
      block
       [say (ljust 42 call @ '' -> NEW_ID = '' @ show_int (signed32 newId) @ nl),
        do_void (Meta outm MetaRelease),
        do_call (Stmt stmt StmtFree)]))))))\<close>

definition psql_fail :: "Db \<Rightarrow> nat \<Rightarrow> ('s, unit) prog" where
  \<open>psql_fail db tra =
    try_fb (bindP (prepare db tra ''EXECUTE PROCEDURE hire('Poorpay', 500)'' True) (\<lambda>stmt.
      bindP (handle_of (Stmt stmt GetOutputMetadata)) (\<lambda>outm.
      bindP (number_of (Meta outm GetMessageLength)) (\<lambda>len.
      block
       [do_call (Stmt stmt (StmtExecute tra [] (Some outm)))]))))
    (\<lambda>e. bindP (formatStatus 1024 e) (\<lambda>buf.
      block
       [say (buf @ nl)]))\<close>

definition psql_main :: "('s, int) prog" where
  \<open>psql_main = bindP (argOrDefault 1 ''inet://localhost//tmp/fbhandson/psql.fdb'') (\<lambda>database.
      try_fb (with_Db (\<lambda>db. seqP
       [attachOrCreate db database] (
      bindP (start db) (\<lambda>tra.
      seqP
       [psql_setup db tra,
        for_each [''EXECUTE PROCEDURE hire('Ada', 5000)'', ''EXECUTE PROCEDURE hire('Grace', 6000)'']
        (psql_call db tra)] (
      bindP (queryValue db tra ''SELECT COUNT(*) FROM audit_log'') (\<lambda>n.
      returning
       [say (''audit_log rows (trigger emp_bi):              '' @ (c_str n) @ nl),
        say (nl @ ''SELECT * FROM raises(10):'' @ nl),
        print_query db tra
        ''SELECT id, name, new_salary FROM raises(10) ORDER BY id'',
        say (nl @ ''EXECUTE PROCEDURE hire('Poorpay', 500) ->'' @ nl),
        psql_fail db tra,
        commit tra,
        say (''done.'' @ nl)]
       0)))))) report)\<close>


section \<open>schemas.cpp\<close>

definition ctxPath :: "Db \<Rightarrow> nat \<Rightarrow> ('s, string) prog" where
  \<open>ctxPath db t = queryValue db t
    ''SELECT RDB$GET_CONTEXT('SYSTEM','SEARCH_PATH') FROM RDB$DATABASE''\<close>

definition schemas_main :: "('s, int) prog" where
  \<open>schemas_main = bindP (argOrDefault 1 ''inet://localhost//tmp/fbhandson/schemas.fdb'') (\<lambda>database.
      try_fb (with_Db (\<lambda>db. seqP
       [attachOrCreate db database] (
      bindP (start db) (\<lambda>ddl.
      seqP
       [for_each [''DROP PROCEDURE APP.WHICH_ONE'',
          ''DROP TABLE PUBLIC.CUSTOMERS'', ''DROP TABLE APP.CUSTOMERS'',
          ''DROP SCHEMA APP'']
        (\<lambda>s. quietly (exec db ddl s)),
        exec db ddl ''CREATE SCHEMA APP'',
        exec db ddl ''CREATE TABLE PUBLIC.CUSTOMERS (ID INT, ORIGIN VARCHAR(20))'',
        exec db ddl ''CREATE TABLE APP.CUSTOMERS    (ID INT, ORIGIN VARCHAR(20))'',
        commit ddl] (
      bindP (start db) (\<lambda>tra.
      seqP
       [exec db tra ''INSERT INTO PUBLIC.CUSTOMERS VALUES (1, 'from PUBLIC')'',
        exec db tra ''INSERT INTO APP.CUSTOMERS    VALUES (2, 'from APP')'',
        say ''schemas in RDB$SCHEMAS      : ''] (
      bindP (query db tra
        ''SELECT TRIM(RDB$SCHEMA_NAME) FROM RDB$SCHEMAS ORDER BY 1'') (\<lambda>t.
      seqP
       [for_each (rows t) (\<lambda>r. bindP (col r 0) (\<lambda>v.
      block
       [say (v @ ''  '')]))] (
      bindP (ctxPath db tra) (\<lambda>path.
      seqP
       [say (nl @ ''default search path         : '' @ (c_str path) @ nl),
        say (nl @ ''SELECT ORIGIN FROM CUSTOMERS, as the path changes:'' @ nl)] (
      bindP (queryValue db tra ''SELECT ORIGIN FROM CUSTOMERS'') (\<lambda>v1.
      seqP
       [say (''  path PUBLIC,SYSTEM        -> '' @ (c_str v1) @ nl),
        exec db tra ''SET SEARCH_PATH TO APP, PUBLIC''] (
      bindP (queryValue db tra ''SELECT ORIGIN FROM CUSTOMERS'') (\<lambda>v2.
      seqP
       [say (''  path APP,PUBLIC           -> '' @ (c_str v2) @ nl),
        exec db tra ''SET SEARCH_PATH TO APP''] (
      bindP (ctxPath db tra) (\<lambda>p2.
      seqP
       [say (nl @ ''SET SEARCH_PATH TO APP      -> '' @ (c_str p2) @ ''   (SYSTEM auto-appended)'' @ nl),
        exec db tra ''SET SEARCH_PATH TO APP, PUBLIC'',
        exec db tra
        (''CREATE PROCEDURE WHICH_ONE RETURNS (SRC VARCHAR(20)) AS '' @
        ''BEGIN SELECT ORIGIN FROM CUSTOMERS INTO :SRC; SUSPEND; END''),
        commit tra] (
      bindP (start db) (\<lambda>tra.
      seqP
       [say (nl @ ''procedure created with path APP,PUBLIC (lands in APP, binds APP.CUSTOMERS)'' @ nl),
        exec db tra ''SET SEARCH_PATH TO PUBLIC'',
        say (''  after SET SEARCH_PATH TO PUBLIC:'' @ nl)] (
      bindP (queryValue db tra ''SELECT ORIGIN FROM CUSTOMERS'') (\<lambda>v3.
      seqP
       [say (''    direct SELECT ... FROM CUSTOMERS -> '' @ (c_str v3) @ nl)] (
      bindP (queryValue db tra ''SELECT SRC FROM APP.WHICH_ONE'') (\<lambda>v4.
      seqP
       [say (''    SELECT SRC FROM APP.WHICH_ONE    -> '' @ (c_str v4) @ ''   <- unmoved'' @ nl)] (
      bindP (queryValue db tra
        (''SELECT TRIM(RDB$DEPENDED_ON_SCHEMA_NAME) || '.' || TRIM(RDB$DEPENDED_ON_NAME)'' @
        '' FROM RDB$DEPENDENCIES WHERE RDB$DEPENDENT_NAME = 'WHICH_ONE'' @ [CHR 0x27])) (\<lambda>v5.
      seqP
       [say (''    RDB$DEPENDENCIES records         -> '' @ (c_str v5) @ nl)] (
      bindP (prepare db tra ''SELECT COUNT(*) FROM CUSTOMERS'' False) (\<lambda>stmt.
      bindP (getPlan stmt False) (\<lambda>p.
      bindP (checked ''null plan'' p) (\<lambda>plan.
      returning
       [say (nl @ ''plan for unqualified SELECT :'' @ plan @ nl),
        do_call (Stmt stmt StmtFree),
        commit tra,
        say (nl @ ''done.'' @ nl)]
       0)))))))))))))))))))))))))))) report)\<close>


section \<open>parser_errors.cpp\<close>

definition parser_typeName :: "header_values \<Rightarrow> nat \<Rightarrow> string" where
  \<open>parser_typeName h t =
    (if t = info_val h isc_info_sql_stmt_select then ''SELECT''
     else if t = info_val h isc_info_sql_stmt_insert then ''INSERT''
     else if t = info_val h isc_info_sql_stmt_update then ''UPDATE''
     else if t = info_val h isc_info_sql_stmt_ddl then ''DDL''
     else ''other'')\<close>

definition tryPrepare :: "Db \<Rightarrow> nat \<Rightarrow> string \<Rightarrow> ('s, unit) prog" where
  \<open>tryPrepare db tra sql = block
       [say (''---- '' @ sql @ nl),
        try_fb (bindP (prepare db tra sql True) (\<lambda>stmt.
      bindP (handle_of (Stmt stmt GetInputMetadata)) (\<lambda>inm.
      bindP (handle_of (Stmt stmt GetOutputMetadata)) (\<lambda>outm.
      bindP (headers) (\<lambda>h.
      bindP (number_of (Stmt stmt StmtType)) (\<lambda>ty.
      bindP (number_of (Meta inm GetCount)) (\<lambda>ins.
      bindP (number_of (Meta outm GetCount)) (\<lambda>outs.
      block
       [say (''  parsed OK: type='' @ (parser_typeName h ty) @ '', input params='' @
            show_nat ins @ '', output columns='' @ show_nat outs @ nl),
        for_count (Meta inm GetCount) (\<lambda>i. bindP (number_of (Meta inm (GetType i))) (\<lambda>st.
      bindP (number_of (Meta inm (GetLength i))) (\<lambda>ln.
      block
       [say (''    param '' @ show_nat i @ '': sqltype='' @ show_nat st @ '', length='' @
            show_nat ln @ nl)]))),
        do_void (Meta inm MetaRelease),
        do_void (Meta outm MetaRelease),
        do_call (Stmt stmt StmtFree)]))))))))
    (\<lambda>e. bindP (formatStatus 1024 e) (\<lambda>buf.
      block
       [say (''  prepare failed:'' @ nl @ buf @ nl)]))]\<close>

definition parser_errors_main :: "('s, int) prog" where
  \<open>parser_errors_main = bindP (argOrDefault 1 ''inet://localhost/employee'') (\<lambda>database.
      try_fb (with_Db (\<lambda>db. bindP (defaultUser) (\<lambda>user.
      bindP (defaultPassword) (\<lambda>password.
      seqP
       [attach_as db database user password ''NONE''] (
      bindP (start db) (\<lambda>tra.
      returning
       [tryPrepare db tra
        ''SELECT first_name FROM employee WHERE emp_no = ?'',
        tryPrepare db tra ''SELECT FIRST 1 emp_no FROM employee'',
        tryPrepare db tra
        ''SELECT first FROM (SELECT 1 AS first FROM rdb$database)'',
        tryPrepare db tra ''SELEC 1 FROM rdb$database'',
        tryPrepare db tra
        (''SELECT emp_no'' @ nl @ ''FROM employee'' @ nl @ ''WHERE ORDER BY 1''),
        tryPrepare db tra (''SELECT frst_name'' @ nl @ ''FROM employee''),
        commit tra,
        say (''done.'' @ nl)]
       0)))))) report)\<close>


section \<open>Interfaces\<close>

lemma okd_sql [okd_rules]:
  "okd k (showPlan db tra s) 0" "okd k (poolState db tra s) 0" "okd k (psql_setup db tra) 0"
  "okd k (psql_call db tra s) 0" "okd k (ctxPath db tra) 0"
  unfolding showPlan_def poolState_def psql_setup_def psql_call_def ctxPath_def
  by ((rule okd_eq, (rule okd_rules | simp add: delta_simps)+)[1])+

lemma att_sql [att_rules]:
  "keeps (\<lambda>w. att_view w = v) (showPlan db tra s)"
  "keeps (\<lambda>w. att_view w = v) (poolState db tra s)"
  "keeps (\<lambda>w. att_view w = v) (psql_setup db tra)"
  "keeps (\<lambda>w. att_view w = v) (psql_call db tra s)"
  "keeps (\<lambda>w. att_view w = v) (psql_fail db tra)"
  "keeps (\<lambda>w. att_view w = v) (ctxPath db tra)"
  "keeps (\<lambda>w. att_view w = v) (tryPrepare db tra s)"
  unfolding showPlan_def poolState_def psql_setup_def psql_call_def psql_fail_def ctxPath_def
    tryPrepare_def
  by (intro quiet_rules att_rules; simp add: delta_simps)+

definition sql_mains :: "('s, int) prog list" where
  "sql_mains = [plans_main, profiler_main, monitoring_main, pooling_main, schemas_main]"

definition sql_leaking_mains :: "('s, int) prog list" where
  "sql_leaking_mains = [psql_main, parser_errors_main]"

lemmas sql_defs = plans_main_def profiler_main_def monitoring_main_def pooling_main_def
  psql_main_def schemas_main_def parser_errors_main_def

lemma sql_reports: "\<forall>m \<in> set (sql_mains @ sql_leaking_mains). reports m"
  unfolding sql_mains_def sql_leaking_mains_def append.simps sql_defs list.set ball_simps
  by (intro conjI reports_arg reports_try returns_rules TrueI)

lemma sql_okd: "k \<notin> {KStatus, KProv, KAtt} \<Longrightarrow> \<forall>m \<in> set sql_mains. okd0 k m"
  unfolding sql_mains_def sql_defs list.set ball_simps
  by (rule conjI TrueI okd0_arg okd0_main okd_with_Db okd_attachOrCreate okd_rules
    | assumption | simp add: delta_simps)+

lemma sql_att: "\<forall>m \<in> set (sql_mains @ sql_leaking_mains). att_triple b {} {} m {}"
  unfolding sql_mains_def sql_leaking_mains_def append.simps sql_defs list.set ball_simps
  by (rule conjI TrueI att_flow
    | (rule att_quiet, (intro quiet_rules att_rules; simp add: delta_simps))
    | (rule att_leaf, (intro quiet_rules att_rules; simp add: delta_simps), simp) | simp)+

end
