(* ===== verification/Samples_Types.thy ===== *)
theory Samples_Types
  imports Sample_Kit
begin

text \<open>
  The samples about data and its wire representation: \<open>catalog.cpp\<close>, \<open>intl.cpp\<close>,
  \<open>migration.cpp\<close>, \<open>types.cpp\<close> and \<open>temporal.cpp\<close>.  Their type-name tables translate the
  codes of the Firebird headers, which are parameters here: the tables are shown to name
  each code they list, with or without its nullable bit where the code strips it.
\<close>


section \<open>catalog.cpp\<close>

definition catalog_dropOld :: "string \<Rightarrow> ('s, unit) prog" where
  \<open>catalog_dropOld database =
    with_Db (\<lambda>old. seqP
       [quietly (attach old database)] (
      bindP (get_cell KAtt (db_att old)) (\<lambda>att.
      block
       [if att \<noteq> None then dropDatabase old else ret ()])))\<close>

text \<open>
  \<open>hdr_PAGES\<close>, the four bytes at offset 28 of the file; 0 when the file is too short.
\<close>

definition catalog_hdrPages :: "byte list \<Rightarrow> nat" where
  \<open>catalog_hdrPages f = (case le_read 4 f 28 of Some n \<Rightarrow> n | None \<Rightarrow> 0)\<close>

definition catalog_main :: "('s, int) prog" where
  \<open>catalog_main = bindP (argOrDefault 1 ''inet://localhost//tmp/fbhandson/catalog.fdb'') (\<lambda>database.
      bindP (argOrDefault 2 ''/tmp/fbhandson/catalog.fdb'') (\<lambda>localFile.
      try_fb (seqP
       [catalog_dropOld database] (
      with_Db (\<lambda>db. seqP
       [attachOrCreate db database] (
      bindP (start db) (\<lambda>tra.
      seqP
       [say (''-- 1. fixed relation ids (relations.h declaration order) --'' @ nl)] (
      bindP (query db tra
          (''select rdb$relation_id, trim(rdb$relation_name) '' @
          ''from rdb$relations where rdb$relation_id in (0, 1, 2, 6) order by 1'')) (\<lambda>ids.
      seqP
       [print (ids\<lparr>names := [''ID'', ''NAME'']\<rparr>),
        say (nl @
            ''-- 2. RDB$PAGES describing relation 0 (itself) and relation 6 (RDB$RELATIONS) --'' @
            nl),
        print_query db tra
          (''select rdb$page_number, rdb$relation_id, rdb$page_sequence, rdb$page_type '' @
          ''from rdb$pages where rdb$relation_id in (0, 6) '' @
          ''order by rdb$relation_id, rdb$page_type, rdb$page_number'')] (
      bindP (ask_void (Os (ReadFile localFile))) (\<lambda>f.
      seqP
       [if r_null f then ret ()
        else say (nl @ ''hdr_PAGES (page 0, offset 28) = '' @ show_nat (catalog_hdrPages (r_b f)) @
            ''  <- matches the (relation 0, type 4) row above'' @ nl),
        say (nl @ ''-- 3. formats as code: zero stored formats, yet a full catalog --'' @ nl)] (
      bindP (query db tra
          (''select (select count(*) from rdb$formats), '' @
          ''       (select count(*) from rdb$relations where rdb$system_flag = 1), '' @
          ''       (select count(*) from rdb$relation_fields r join rdb$relations rel '' @
          ''          on r.rdb$relation_name = rel.rdb$relation_name '' @
          ''          and r.rdb$schema_name = rel.rdb$schema_name '' @
          ''        where rel.rdb$system_flag = 1) '' @
          ''from rdb$database'')) (\<lambda>counts.
      seqP
       [print (counts\<lparr>names := [''FORMATS_ROWS'', ''SYS_RELATIONS'', ''SYS_FIELDS'']\<rparr>),
        commit tra,
        say (nl @ ''-- 4. user DDL writes formats into the catalog --'' @ nl)] (
      bindP (start db) (\<lambda>tra.
      seqP
       [exec db tra ''create table t1 (a integer)'',
        commit tra] (
      bindP (start db) (\<lambda>tra.
      seqP
       [exec db tra ''alter table t1 add b varchar(10)'',
        commit tra] (
      bindP (start db) (\<lambda>tra.
      bindP (query db tra
          (''select rdb$relation_id, rdb$format, octet_length(rdb$descriptor) '' @
          ''from rdb$formats order by rdb$relation_id, rdb$format'')) (\<lambda>formats.
      seqP
       [print (formats\<lparr>names := [''RDB$RELATION_ID'', ''RDB$FORMAT'', ''DESCRIPTOR_BYTES'']\<rparr>)] (
      bindP (queryValue db tra (''select rdb$relation_id from rdb$relations '' @
          ''where rdb$relation_name = 'T1'' @ [CHR 0x27])) (\<lambda>n.
      returning
       [say (nl @ ''(relation id of T1: '' @ (c_str n) @ '' '' @
            [CHR 0xE2, CHR 0x80, CHR 0x94] @
            '' the first user id; system tables still contribute no rows)'' @ nl),
        commit tra,
        detach db,
        say (''done.'' @ nl)]
       0)))))))))))))))))))) report))\<close>


section \<open>intl.cpp\<close>

definition intl_hexdump :: "string \<Rightarrow> string \<Rightarrow> string" where
  \<open>intl_hexdump label v =
    (''  '' @ ljust 16 label @ '' len='' @ rjust 2 (show_nat (length v)) @ ''  '') @
    concat (map (\<lambda>c. (zjust 2 (show_HEX (of_char c)) @ '' '')) v) @
    (''  "'' @ (c_str v) @ ''"'' @ nl)\<close>

definition rawFetch :: "Db \<Rightarrow> nat \<Rightarrow> string \<Rightarrow> ('s, string) prog" where
  \<open>rawFetch db tra sql = bindP (prepare db tra sql True) (\<lambda>stmt.
      bindP (handle_of (Stmt stmt GetOutputMetadata)) (\<lambda>meta.
      bindP (number_of (Meta meta GetMessageLength)) (\<lambda>n.
      bindP (handle_of (Stmt stmt (OpenCursor tra None))) (\<lambda>curs.
      bindP (fetch_into curs n) (\<lambda>buf.
      bindP (number_of (Meta meta (GetOffset 0))) (\<lambda>off.
      bindP (message_nat buf off 2) (\<lambda>len.
      bindP (checked ''message read'' (slice buf (off + 2) len)) (\<lambda>bytes.
      returning
       [do_call (Curs curs CursClose),
        do_void (Meta meta MetaRelease),
        do_call (Stmt stmt StmtFree)]
       (chars bytes)))))))))\<close>

definition intl_main :: "('s, int) prog" where
  \<open>intl_main = bindP (argOrDefault 1 ''inet://localhost//tmp/fbhandson/intl.fdb'') (\<lambda>database.
      try_fb (with_Db (\<lambda>db. seqP
       [attachOrCreate db database] (
      bindP (start db) (\<lambda>ddl.
      seqP
       [quietly (exec db ddl ''DROP TABLE t''),
        exec db ddl
        (''CREATE TABLE t ('' @
        ''  name_ci_ai VARCHAR(30) CHARACTER SET UTF8 COLLATE UNICODE_CI_AI,'' @
        ''  name_bin   VARCHAR(30) CHARACTER SET UTF8 COLLATE UCS_BASIC,'' @
        ''  name_win   VARCHAR(30) CHARACTER SET WIN1252)''),
        commit ddl] (
      bindP (start db) (\<lambda>tra.
      seqP
       [for_each [(''Caf'' @ [CHR 0xC3, CHR 0xA9]), ''CAFE'', ''cafe'']
        (\<lambda>v. exec db tra ((''INSERT INTO t VALUES ('' @ [CHR 0x27]) @ v @ ([CHR 0x27] @ '','' @ [CHR 0x27]) @ v @ ([CHR 0x27] @ '','' @ [CHR 0x27]) @ v @ ([CHR 0x27] @ '')'')))] (
      bindP (queryValue db tra (''SELECT COUNT(*) FROM t WHERE name_ci_ai = 'cafe'' @ [CHR 0x27])) (\<lambda>n1.
      seqP
       [say (''rows matching 'cafe' with UNICODE_CI_AI : '' @ (c_str n1) @ nl)] (
      bindP (queryValue db tra (''SELECT COUNT(*) FROM t WHERE name_bin = 'cafe'' @ [CHR 0x27])) (\<lambda>n2.
      seqP
       [say (''rows matching 'cafe' with UCS_BASIC     : '' @ (c_str n2) @ nl)] (
      bindP (queryValue db tra (''SELECT UPPER('caf'' @ [CHR 0xC3, CHR 0xA9] @ '' '' @ [CHR 0xC3, CHR 0xA8] @ [CHR 0xC3, CHR 0xB1] @ '' '' @ [CHR 0xC3, CHR 0x9F] @ [CHR 0x27] @ '') FROM RDB$DATABASE'')) (\<lambda>up.
      seqP
       [say (''UPPER('caf'' @ [CHR 0xC3, CHR 0xA9] @ '' '' @ [CHR 0xC3, CHR 0xA8] @
            [CHR 0xC3, CHR 0xB1] @ '' '' @ [CHR 0xC3, CHR 0x9F] @ [CHR 0x27] @
            '')                      : '' @ (c_str up) @ nl @ nl),
        say ''ORDER BY name_ci_ai: ''] (
      bindP (query db tra ''SELECT name_ci_ai FROM t ORDER BY name_ci_ai'') (\<lambda>t1.
      seqP
       [for_each (rows t1) (\<lambda>r. bindP (col r 0) (\<lambda>v.
      block
       [say (v @ ''  '')])),
        say (nl @ ''ORDER BY name_bin  : '')] (
      bindP (query db tra ''SELECT name_bin FROM t ORDER BY name_bin'') (\<lambda>t2.
      seqP
       [for_each (rows t2) (\<lambda>r. bindP (col r 0) (\<lambda>v.
      block
       [say (v @ ''  '')])),
        say (''   (binary: uppercase codepoints first)'' @ nl @ nl),
        commit tra] (
      with_Db (\<lambda>none. bindP (defaultUser) (\<lambda>user.
      bindP (defaultPassword) (\<lambda>password.
      seqP
       [attach_as none database user password ''NONE'',
        say (''SELECT name_win FROM t WHERE name_bin = 'Caf'' @ [CHR 0xC3, CHR 0xA9] @
            [CHR 0x27] @ '' '' @ [CHR 0xE2, CHR 0x80, CHR 0x94] @
            '' same row, two connections:'' @ nl)] (
      bindP (start db) (\<lambda>t1.
      bindP (rawFetch db t1 (''SELECT name_win FROM t WHERE name_bin = 'Caf'' @ [CHR 0xC3, CHR 0xA9] @ [CHR 0x27])) (\<lambda>v1.
      seqP
       [say (intl_hexdump ''lc_ctype=UTF8:'' v1),
        commit t1] (
      bindP (start none) (\<lambda>t2.
      bindP (rawFetch none t2 (''SELECT name_win FROM t WHERE name_bin = 'Caf'' @ [CHR 0xC3, CHR 0xA9] @ [CHR 0x27])) (\<lambda>v2.
      returning
       [say (intl_hexdump ''lc_ctype=NONE:'' v2),
        commit t2,
        say (''  -> the column stores E9 (WIN1252); the UTF8 connection receives the'' @ nl @
            ''     transliterated C3 A9, the NONE connection the raw stored byte.'' @ nl),
        say (nl @ ''done.'' @ nl)]
       0)))))))))))))))))))))))))) report)\<close>


section \<open>migration.cpp\<close>

definition migration_DB :: string where
  \<open>migration_DB = ''inet://localhost//tmp/fbhandson/migration.fdb''\<close>

definition migration_typeNames :: "(sql_type \<times> string) list" where
  \<open>migration_typeNames =
    [(SQL_TEXT, ''SQL_TEXT (CHAR)''), (SQL_VARYING, ''SQL_VARYING (VARCHAR)''),
     (SQL_SHORT, ''SQL_SHORT''), (SQL_LONG, ''SQL_LONG''), (SQL_INT64, ''SQL_INT64''),
     (SQL_INT128, ''SQL_INT128''), (SQL_DOUBLE, ''SQL_DOUBLE''),
     (SQL_DEC16, ''SQL_DEC16 (DECFLOAT 16)''), (SQL_DEC34, ''SQL_DEC34 (DECFLOAT 34)''),
     (SQL_TIMESTAMP, ''SQL_TIMESTAMP''), (SQL_TIMESTAMP_TZ, ''SQL_TIMESTAMP_TZ''),
     (SQL_BOOLEAN, ''SQL_BOOLEAN''), (SQL_BLOB, ''SQL_BLOB'')]\<close>

text \<open>A \<open>switch\<close> over case labels: the first (in C++ the only) label equal to the value.\<close>

fun switch :: "('c \<Rightarrow> nat) \<Rightarrow> ('c \<times> 'r) list \<Rightarrow> 'r \<Rightarrow> nat \<Rightarrow> 'r" where
  \<open>switch val [] d t = d\<close>
| \<open>switch val ((c, r) # cs) d t = (if t = val c then r else switch val cs d t)\<close>

definition migration_typeName :: "header_values \<Rightarrow> nat \<Rightarrow> string" where
  \<open>migration_typeName h t = switch (sql_val h) migration_typeNames ''?'' (strip_nullable t)\<close>

definition migration_main :: "('s, int) prog" where
  \<open>migration_main =
    try_fb (with_Db (\<lambda>db. bindP (argOrDefault 1 migration_DB) (\<lambda>dsn.
      seqP
       [attachOrCreate db dsn] (
      bindP (start db) (\<lambda>tra.
      seqP
       [quietly (exec db tra ''DROP TABLE TYPE_PROBE''),
        exec db tra
        (''CREATE TABLE TYPE_PROBE ('' @
        ''  C_INT128 INT128,'' @
        ''  C_NUM    NUMERIC(38,8),'' @
        ''  C_DEC    DECFLOAT(34),'' @
        ''  C_TSTZ   TIMESTAMP WITH TIME ZONE,'' @
        ''  C_BOOL   BOOLEAN,'' @
        ''  C_UUID   CHAR(16) CHARACTER SET OCTETS,'' @
        ''  C_VC     VARCHAR(20))''),
        commitRetaining tra,
        exec db tra
        (''INSERT INTO TYPE_PROBE VALUES ('' @
        ''  170141183460469231731687303715884105727,'' @
        ''  123456789012345678901234567890.12345678,'' @
        ''  1.234567890123456789012345678901234E+10,'' @
        ''  TIMESTAMP '2026-07-21 12:00:00 Europe/Bucharest','' @
        ''  TRUE, GEN_UUID(), 'na'' @ [CHR 0xC3, CHR 0xAF] @ ''ve '' @ [CHR 0xC3, CHR 0xBC] @ ''tf8 text')''),
        commitRetaining tra,
        say (''described output metadata of SELECT * FROM TYPE_PROBE:'' @ nl @ nl),
        say (ljust 8 (''column'') @ '' '' @ rjust 6 (''code'') @ '' '' @
            ljust 24 (''wire type'') @ '' '' @ rjust 6 (''length'') @ '' '' @
            rjust 5 (''scale'') @ nl)] (
      bindP (prepare db tra ''SELECT * FROM TYPE_PROBE'' True) (\<lambda>stmt.
      bindP (handle_of (Stmt stmt GetOutputMetadata)) (\<lambda>meta.
      bindP (headers) (\<lambda>h.
      seqP
       [for_count (Meta meta GetCount) (\<lambda>i. bindP (number_of (Meta meta (GetType i))) (\<lambda>t.
      bindP (text_of (Meta meta (GetField i))) (\<lambda>field.
      bindP (number_of (Meta meta (GetLength i))) (\<lambda>len.
      bindP (ask (Meta meta (GetScale i))) (\<lambda>sc.
      block
       [say (ljust 8 (c_str field) @ '' '' @ rjust 6 (show_nat t) @ '' '' @
            ljust 24 (migration_typeName h t) @ '' '' @ rjust 6 (show_nat len) @ '' '' @
            rjust 5 (show_int (r_n sc)) @ nl)]))))),
        do_void (Meta meta MetaRelease),
        do_call (Stmt stmt StmtFree),
        say (nl @ ''same row fetched with every column coerced to VARCHAR:'' @ nl @ nl)] (
      bindP (query db tra
        ''SELECT C_INT128, C_NUM, C_DEC, C_TSTZ, C_BOOL, C_VC FROM TYPE_PROBE'') (\<lambda>t.
      seqP
       [for_each [0..<length (names t)] (\<lambda>c. bindP (cell_at t 0 c) (\<lambda>v.
      block
       [say (''  '' @ ljust 8 (c_str (names t ! c)) @ '' = '' @ (c_str v) @ nl)]))] (
      bindP (queryValue db tra ''SELECT UUID_TO_CHAR(C_UUID) FROM TYPE_PROBE'') (\<lambda>u.
      returning
       [say (''  '' @ ljust 8 (''C_UUID'') @ '' = '' @ (c_str u) @
            ''   (rendered via UUID_TO_CHAR)'' @ nl),
        commit tra,
        say (nl @ ''done.'' @ nl)]
       0))))))))))))) report\<close>


section \<open>types.cpp\<close>

definition types_typeNames :: "(sql_type \<times> string) list" where
  \<open>types_typeNames =
    [(SQL_VARYING, ''SQL_VARYING (VARCHAR)''), (SQL_TEXT, ''SQL_TEXT (CHAR)''),
     (SQL_BOOLEAN, ''SQL_BOOLEAN''), (SQL_INT128, ''SQL_INT128''),
     (SQL_DEC34, ''SQL_DEC34 (DECFLOAT(34))''), (SQL_TIMESTAMP_TZ, ''SQL_TIMESTAMP_TZ''),
     (SQL_INT64, ''SQL_INT64 (BIGINT/NUMERIC)'')]\<close>

definition types_typeName :: "header_values \<Rightarrow> nat \<Rightarrow> string" where
  \<open>types_typeName h t = switch (sql_val h) types_typeNames ''(other)'' t\<close>

definition types_dropQuietly :: "Db \<Rightarrow> string \<Rightarrow> ('s, unit) prog" where
  \<open>types_dropQuietly db sql = bindP (start db) (\<lambda>t.
      try_fb (block
       [exec db t sql,
        commit t])
    (\<lambda>_. bindP (ask_void (Master GetStatus)) (\<lambda>quiet.
      block
       [ignore (ask_check (Tra t Rollback)),
        do_void (StatusDispose (r_h quiet))])))\<close>

definition types_main :: "('s, int) prog" where
  \<open>types_main = bindP (argOrDefault 1 ''inet://localhost//tmp/fbhandson/types.fdb'') (\<lambda>database.
      try_fb (with_Db (\<lambda>db. seqP
       [attachOrCreate db database,
        for_each [''DROP TABLE showcase'', ''DROP DOMAIN d_email''] (types_dropQuietly db)] (
      bindP (start db) (\<lambda>ddl.
      seqP
       [exec db ddl
        ''CREATE DOMAIN d_email AS VARCHAR(60) CHECK (VALUE LIKE '%@%')'',
        exec db ddl
        (''CREATE TABLE showcase ('' @
        ''  flag  BOOLEAN,'' @
        ''  big   INT128,'' @
        ''  money DECFLOAT(34),'' @
        ''  born  TIMESTAMP WITH TIME ZONE,'' @
        ''  mail  d_email)''),
        commit ddl] (
      bindP (start db) (\<lambda>tra.
      seqP
       [exec db tra
        (''INSERT INTO showcase VALUES ('' @
        ''  TRUE,'' @
        ''  170141183460469231731687303715884105727,'' @
        ''  0.1,'' @
        ''  TIMESTAMP '2026-07-21 12:00:00 Europe/Bucharest','' @
        ''  'user@example.com')''),
        try_fb (block
       [exec db tra ''INSERT INTO showcase (mail) VALUES ('not-an-address')'',
        say (''BUG: domain CHECK did not fire'' @ nl)])
      (\<lambda>e. bindP (formatStatus 256 e) (\<lambda>buf.
      block
       [say (''domain CHECK rejected 'not-an-address':'' @ nl @ ''    '' @ (take 120 buf) @ nl @ nl)]))] (
      bindP (prepare db tra ''SELECT * FROM showcase'' True) (\<lambda>stmt.
      bindP (handle_of (Stmt stmt GetOutputMetadata)) (\<lambda>meta.
      seqP
       [say (''column  wire type (IMessageMetadata::getType)'' @ nl),
        say (''------  --------------------------------------'' @ nl)] (
      bindP (headers) (\<lambda>h.
      returning
       [for_count (Meta meta GetCount) (\<lambda>i. bindP (text_of (Meta meta (GetField i))) (\<lambda>field.
      bindP (number_of (Meta meta (GetType i))) (\<lambda>t1.
      bindP (number_of (Meta meta (GetType i))) (\<lambda>t2.
      block
       [say (ljust 7 (c_str field) @ '' '' @ show_nat (strip_nullable t1) @ '' = '' @
            (types_typeName h (strip_nullable t2)) @ nl)])))),
        do_void (Meta meta MetaRelease),
        do_call (Stmt stmt StmtFree),
        say nl,
        print_query db tra ''SELECT * FROM showcase'',
        commit tra,
        say (nl @ ''done.'' @ nl)]
       0))))))))))) report)\<close>


section \<open>temporal.cpp\<close>

text \<open>
  \<open>ISC_TIMESTAMP_TZ\<close> as the message carries it: a signed day number, an unsigned time and a
  16-bit zone id, twelve bytes with the padding.
\<close>

definition temporal_literal :: "nat \<Rightarrow> byte list \<Rightarrow> nat \<Rightarrow> ('s, unit) prog" where
  \<open>temporal_literal i buf off = bindP (checked ''message read'' (slice buf off 12)) (\<lambda>tz.
      bindP (ask (Master (DecodeTimeStampTz tz))) (\<lambda>r.
      bindP (message_nat tz 0 4) (\<lambda>date.
      bindP (message_nat tz 4 4) (\<lambda>time.
      bindP (message_nat tz 8 2) (\<lambda>zone.
      block
       [say ((if i = 0 then ''named-zone'' else ''offset'') @ '' literal:'' @ nl),
        say (''  on the wire : UTC days='' @ show_int (signed32 date) @ '' time='' @
            show_nat time @ ''  zone id='' @ show_nat zone @ nl),
        say (''  decoded     : '' @ zjust 4 (show_nat (out_nat r 0)) @ ''-'' @
            zjust 2 (show_nat (out_nat r 1)) @ ''-'' @ zjust 2 (show_nat (out_nat r 2)) @
            '' '' @ zjust 2 (show_nat (out_nat r 3)) @ '':'' @
            zjust 2 (show_nat (out_nat r 4)) @ '':'' @ zjust 2 (show_nat (out_nat r 5)) @
            '' '' @ (c_str (r_s r)) @ nl)])))))\<close>

definition temporal_main :: "('s, int) prog" where
  \<open>temporal_main = bindP (argOrDefault 1 ''inet://localhost//tmp/fbhandson/temporal.fdb'') (\<lambda>database.
      try_fb (with_Db (\<lambda>db. seqP
       [attachOrCreate db database] (
      bindP (start db) (\<lambda>tra.
      bindP (prepare db tra
        ((''SELECT TIMESTAMP '2026-07-18 12:00:00 America/New_York','' @
        ''       TIMESTAMP '2026-07-18 12:00:00 -05:00' FROM RDB$DATABASE'')) True) (\<lambda>stmt.
      bindP (handle_of (Stmt stmt GetOutputMetadata)) (\<lambda>meta.
      bindP (number_of (Meta meta GetMessageLength)) (\<lambda>len.
      bindP (handle_of (Stmt stmt (OpenCursor tra (Some meta)))) (\<lambda>curs.
      bindP (fetch_into curs len) (\<lambda>buf.
      seqP
       [for_each [0, 1] (\<lambda>i. bindP (number_of (Meta meta (GetOffset i))) (\<lambda>off.
      block
       [temporal_literal i buf off])),
        do_call (Curs curs CursClose),
        do_void (Meta meta MetaRelease),
        do_call (Stmt stmt StmtFree)] (
      bindP (queryValue db tra
        (''SELECT TIMESTAMP '2026-01-18 12:00:00 America/New_York'' @ [CHR 0x27] @
        '' AT TIME ZONE 'Etc/UTC' FROM RDB$DATABASE'')) (\<lambda>winter.
      seqP
       [say (nl @ ''NY 12:00 in UTC, winter: '' @ (c_str winter) @ nl)] (
      bindP (queryValue db tra
        (''SELECT TIMESTAMP '2026-07-18 12:00:00 America/New_York'' @ [CHR 0x27] @
        '' AT TIME ZONE 'Etc/UTC' FROM RDB$DATABASE'')) (\<lambda>summer.
      seqP
       [say (''NY 12:00 in UTC, summer: '' @ (c_str summer) @ nl)] (
      bindP (queryValue db tra
        (''SELECT IIF(TIME '10:00:00 -02:00' = TIME '09:00:00 -03:00','' @
        '' 'EQUAL', 'different') FROM RDB$DATABASE'')) (\<lambda>eq.
      seqP
       [say (''10:00 -02:00 = 09:00 -03:00 ? '' @ (c_str eq) @ nl)] (
      bindP (queryValue db tra
        ''SELECT RDB$GET_CONTEXT('SYSTEM','SESSION_TIMEZONE') FROM RDB$DATABASE'') (\<lambda>z1.
      bindP (queryValue db tra
        ''SELECT CAST(CURRENT_TIMESTAMP AS VARCHAR(50)) FROM RDB$DATABASE'') (\<lambda>c1.
      seqP
       [say (nl @ ''session zone: '' @ (c_str z1) @ ''   CURRENT_TIMESTAMP: '' @ (c_str c1) @ nl),
        exec db tra (''SET TIME ZONE 'Asia/Tokyo'' @ [CHR 0x27])] (
      bindP (queryValue db tra
        ''SELECT RDB$GET_CONTEXT('SYSTEM','SESSION_TIMEZONE') FROM RDB$DATABASE'') (\<lambda>z2.
      bindP (queryValue db tra
        ''SELECT CAST(CURRENT_TIMESTAMP AS VARCHAR(50)) FROM RDB$DATABASE'') (\<lambda>c2.
      returning
       [say (''session zone: '' @ (c_str z2) @ ''     CURRENT_TIMESTAMP: '' @ (c_str c2) @ nl),
        commit tra,
        say (nl @ ''done.'' @ nl)]
       0))))))))))))))))))))) report)\<close>


section \<open>Interfaces\<close>

lemma okd_types [okd_rules]:
  "okd k (rawFetch db tra s) 0" "okd k (temporal_literal i buf off) 0"
  unfolding rawFetch_def temporal_literal_def
  by ((rule okd_eq, (rule okd_rules | simp add: delta_simps)+)[1])+

lemma att_types [att_rules]:
  "keeps (\<lambda>w. att_view w = v) (rawFetch db tra s)"
  "keeps (\<lambda>w. att_view w = v) (temporal_literal i buf off)"
  "keeps (\<lambda>w. att_view w = v) (types_dropQuietly db s)"
  unfolding rawFetch_def temporal_literal_def types_dropQuietly_def
  by (intro quiet_rules att_rules; simp add: delta_simps)+

lemma catalog_dropOld_att: "att_triple b {} {} (catalog_dropOld d) {}"
  unfolding catalog_dropOld_def
  by (rule att_quietly_attach att_flow
    | (rule att_quiet, (intro quiet_rules att_rules; simp add: delta_simps))
    | (rule att_leaf, (intro quiet_rules att_rules; simp add: delta_simps), simp) | simp)+

definition types_mains :: "('s, int) prog list" where
  "types_mains = [intl_main, migration_main, temporal_main]"

definition types_leaking_mains :: "('s, int) prog list" where
  "types_leaking_mains = [catalog_main, types_main]"

lemmas types_defs = catalog_main_def intl_main_def migration_main_def types_main_def temporal_main_def

lemma types_reports: "\<forall>m \<in> set (types_mains @ types_leaking_mains). reports m"
  unfolding types_mains_def types_leaking_mains_def append.simps types_defs list.set ball_simps
  by (intro conjI reports_arg reports_try returns_rules TrueI)

lemma types_okd: "k \<notin> {KStatus, KProv, KAtt} \<Longrightarrow> \<forall>m \<in> set types_mains. okd0 k m"
  unfolding types_mains_def types_defs list.set ball_simps
  by (rule conjI TrueI okd0_arg okd0_main okd_with_Db okd_attachOrCreate okd_rules
    | assumption | simp add: delta_simps)+

lemma types_att: "\<forall>m \<in> set (types_mains @ types_leaking_mains). att_triple b {} {} m {}"
  unfolding types_mains_def types_leaking_mains_def append.simps types_defs list.set ball_simps
  by (rule conjI TrueI catalog_dropOld_att att_flow
    | (rule att_quiet, (intro quiet_rules att_rules; simp add: delta_simps))
    | (rule att_leaf, (intro quiet_rules att_rules; simp add: delta_simps), simp) | simp)+

end
