(* ===== verification/Samples_Sessions.thy ===== *)
theory Samples_Sessions
  imports Sample_Kit
begin

text \<open>
  The samples with several attachments, transactions or processes:
  \<open>transactions_demo.cpp\<close>, \<open>gc_sweep.cpp\<close>, \<open>memory_pools.cpp\<close>, \<open>metadata_cache.cpp\<close>,
  \<open>security.cpp\<close>, \<open>careful_writes.cpp\<close> and \<open>page_cache.cpp\<close>.  Every process they start is
  the same program run with other arguments, so the model of \<open>main\<close> covers the child modes
  too; \<open>fork\<close> and \<open>exec\<close> are operating-system calls whose answers decide the branch.
\<close>


section \<open>transactions_demo.cpp\<close>

definition transactions_demo_main :: "('s, int) prog" where
  \<open>transactions_demo_main = bindP (argOrDefault 1 ''inet://localhost//tmp/fbhandson/tx.fdb'') (\<lambda>database.
      try_fb (with_Db (\<lambda>a. with_Db (\<lambda>b. seqP
       [attachOrCreate a database,
        attach b database] (
      bindP (start a) (\<lambda>t.
      seqP
       [exec a t ''recreate table balance (id integer primary key, amount integer)'',
        commit t] (
      bindP (start a) (\<lambda>t.
      seqP
       [exec a t ''insert into balance values (1, 100)'',
        commit t] (
      bindP (start_tpb a (tpb [isc_tpb_concurrency, isc_tpb_wait])) (\<lambda>snapA.
      bindP (queryValue a snapA ''select amount from balance where id = 1'') (\<lambda>v1.
      seqP
       [say (''A (SNAPSHOT)       sees amount = '' @ (c_str v1) @ nl)] (
      bindP (start b) (\<lambda>txB.
      seqP
       [exec b txB ''update balance set amount = 999 where id = 1'',
        commit txB,
        say (''B                  committed amount = 999'' @ nl)] (
      bindP (queryValue a snapA ''select amount from balance where id = 1'') (\<lambda>v2.
      seqP
       [say (''A (same SNAPSHOT)  sees amount = '' @ (c_str v2) @
            ''   <- still the start-of-tx version'' @ nl)] (
      bindP (start_tpb a (tpb [isc_tpb_read_committed, isc_tpb_rec_version, isc_tpb_wait])) (\<lambda>rcA.
      bindP (queryValue a rcA ''select amount from balance where id = 1'') (\<lambda>v3.
      seqP
       [say (''A (READ COMMITTED) sees amount = '' @ (c_str v3) @ ''   <- the committed version'' @ nl),
        commit rcA] (
      bindP (start_tpb b (tpb [isc_tpb_concurrency, isc_tpb_wait])) (\<lambda>holdB.
      seqP
       [exec b holdB ''update balance set amount = amount + 1 where id = 1''] (
      bindP (start_tpb a (tpb [isc_tpb_concurrency, isc_tpb_nowait])) (\<lambda>loserA.
      returning
       [try_fb (block
       [exec a loserA ''update balance set amount = amount + 10 where id = 1'',
        say (''unexpected: conflicting update succeeded'' @ nl)])
      (\<lambda>e. bindP (formatStatus 512 e) (\<lambda>buf.
      block
       [say (''A conflicting update failed as designed:'' @ nl @ ''    '' @ buf @ nl)])),
        rollback loserA,
        commit holdB,
        commit snapA,
        say (''done.'' @ nl)]
       0))))))))))))))))))))) report)\<close>


section \<open>gc_sweep.cpp\<close>

definition gc_sweep_DEFAULT_DB :: string where
  \<open>gc_sweep_DEFAULT_DB = ''inet://localhost//tmp/fbhandson/gc_sweep.fdb''\<close>

definition showStats :: "Db \<Rightarrow> string \<Rightarrow> ('s, unit) prog" where
  \<open>showStats db label = bindP (start db) (\<lambda>t.
      bindP (query db t
      (''select r.MON$RECORD_UPDATES upd, r.MON$RECORD_IMGC imgc, '' @
      ''       r.MON$RECORD_PURGES purges, r.MON$RECORD_EXPUNGES expunges, '' @
      ''       r.MON$BACKVERSION_READS backreads '' @
      ''from MON$RECORD_STATS r join MON$DATABASE d using (MON$STAT_ID)'')) (\<lambda>s.
      bindP (cells_at s 0 5) (\<lambda>v.
      block
       [say (ljust 34 label @ '' upd='' @ ljust 4 (v ! 0) @ '' imgc='' @ ljust 3 (v ! 1) @
            '' purges='' @ ljust 3 (v ! 2) @ '' expunges='' @ ljust 3 (v ! 3) @
            '' backreads='' @ (v ! 4) @ nl),
        commit t])))\<close>

definition showCounters :: "Db \<Rightarrow> string \<Rightarrow> ('s, unit) prog" where
  \<open>showCounters db label = bindP (start db) (\<lambda>t.
      bindP (query db t
      (''select MON$OLDEST_TRANSACTION, MON$OLDEST_ACTIVE, MON$OLDEST_SNAPSHOT, '' @
      ''       MON$NEXT_TRANSACTION, MON$SWEEP_INTERVAL from MON$DATABASE'')) (\<lambda>c.
      bindP (cells_at c 0 5) (\<lambda>v.
      block
       [say (ljust 34 label @ '' OIT='' @ (v ! 0) @ '' OAT='' @ (v ! 1) @ '' OST='' @ (v ! 2) @
            '' Next='' @ (v ! 3) @ '' (sweep interval '' @ (v ! 4) @ '')'' @ nl),
        commit t])))\<close>

definition gc_sweep_updates :: "Db \<Rightarrow> ('s, unit) prog" where
  \<open>gc_sweep_updates writer = for_each [1..<13] (\<lambda>i. bindP (start writer) (\<lambda>t.
      block
       [exec writer t (''update gctest set val = '' @ show_nat i @ '' where id = 1''),
        commit t]))\<close>

definition gc_sweep_main :: "('s, int) prog" where
  \<open>gc_sweep_main = bindP (argOrDefault 1 gc_sweep_DEFAULT_DB) (\<lambda>dbName.
      try_fb (with_Db (\<lambda>writer. with_Db (\<lambda>pinner. seqP
       [attachOrCreate writer dbName,
        attach pinner dbName] (
      bindP (start writer) (\<lambda>ddl.
      seqP
       [quietly (exec writer ddl ''drop table gctest''),
        commit ddl] (
      bindP (start writer) (\<lambda>ddl.
      seqP
       [exec writer ddl ''create table gctest (id int primary key, val int)'',
        commit ddl] (
      bindP (start writer) (\<lambda>ddl.
      seqP
       [exec writer ddl ''insert into gctest values (1, 0)'',
        commit ddl] (
      bindP (start_tpb pinner (tpb [isc_tpb_concurrency])) (\<lambda>snap.
      bindP (queryValue pinner snap ''select val from gctest where id = 1'') (\<lambda>v1.
      seqP
       [say (''pinned SNAPSHOT reads val = '' @ (c_str v1) @ nl),
        showStats writer ''before updates:'',
        gc_sweep_updates writer,
        showStats writer ''after 12 updates (snapshot open):''] (
      bindP (queryValue pinner snap ''select val from gctest where id = 1'') (\<lambda>v2.
      seqP
       [say (''pinned SNAPSHOT still reads val = '' @ (c_str v2) @ nl),
        commit snap] (
      bindP (start writer) (\<lambda>t.
      bindP (queryValue writer t ''select val from gctest where id = 1'') (\<lambda>v3.
      seqP
       [say (''snapshot released; new reader sees val = '' @ (c_str v3) @ nl),
        commit t,
        os_do (SleepMs 1500),
        showStats writer ''after release + scan + 1.5s:''] (
      bindP (start writer) (\<lambda>t.
      seqP
       [exec writer t ''delete from gctest where id = 1'',
        commit t] (
      bindP (start writer) (\<lambda>t.
      seqP
       [ignore (queryValue writer t ''select count(*) from gctest''),
        commit t,
        os_do (SleepMs 1500),
        showStats writer ''after DELETE + scan + 1.5s:'',
        showCounters writer ''header counters before rollback:''] (
      bindP (start_tpb writer (tpb [isc_tpb_concurrency, isc_tpb_no_auto_undo])) (\<lambda>t.
      returning
       [exec writer t ''insert into gctest values (2, 0)'',
        rollback t,
        showCounters writer ''after no_auto_undo rollback:'',
        say (''run 'gfix -sweep' (or wait for OAT-OIT > interval) to move the OIT past the stump.'' @
            nl)]
       0))))))))))))))))))))))) report)\<close>


section \<open>memory_pools.cpp\<close>

definition memory_pools_DEFAULT_DB :: string where
  \<open>memory_pools_DEFAULT_DB = ''inet://localhost//tmp/fbhandson/memory_pools.fdb''\<close>

definition levelSummary :: "Db \<Rightarrow> ('s, unit) prog" where
  \<open>levelSummary db = bindP (start db) (\<lambda>t.
      bindP (query db t
      (''select MON$STAT_GROUP, count(*), sum(MON$MEMORY_USED), '' @
      ''       sum(MON$MEMORY_ALLOCATED), '' @
      ''       count(nullif(MON$MEMORY_ALLOCATED, 0)) '' @
      ''from MON$MEMORY_USAGE group by 1 order by 1'')) (\<lambda>s.
      block
       [say (''stat_group (0=db 1=att 2=tra 3=stmt 5=cmp)  pools  used  allocated  with_own_extents'' @
            nl),
        print s,
        commit t]))\<close>

definition poolRow :: "Db \<Rightarrow> string \<Rightarrow> string \<Rightarrow> ('s, unit) prog" where
  \<open>poolRow db label join = bindP (start db) (\<lambda>t.
      bindP (query db t
      (''select MON$MEMORY_USED, MON$MEMORY_ALLOCATED from MON$MEMORY_USAGE '' @ join)) (\<lambda>r.
      block
       [if rows r \<noteq> []
    then (bindP (cells_at r 0 2) (\<lambda>v.
      block
       [say (''  '' @ ljust 24 label @ '' used='' @ ljust 10 (v ! 0) @ '' allocated='' @ (v ! 1) @ nl)]))
    else ret (),
        commit t]))\<close>

definition memory_pools_main :: "('s, int) prog" where
  \<open>memory_pools_main = bindP (argOrDefault 1 memory_pools_DEFAULT_DB) (\<lambda>dbName.
      try_fb (with_Db (\<lambda>worker. with_Db (\<lambda>monitor. seqP
       [attachOrCreate worker dbName,
        attach monitor dbName] (
      bindP (start worker) (\<lambda>t.
      seqP
       [quietly (exec worker t ''recreate table t (id int, pad varchar(200))''),
        commit t] (
      bindP (start worker) (\<lambda>t.
      seqP
       [exec worker t
        (''execute block as declare i int = 0; begin'' @
        ''  while (i < 3000) do begin'' @
        ''    insert into t values (:i, rpad('x', 200, 'x')); i = i + 1;'' @
        ''  end '' @
        ''end''),
        commit t,
        say (''-- per-level summary (note used > 0 with allocated = 0: parent redirection)'' @ nl),
        levelSummary monitor] (
      bindP (start worker) (\<lambda>t.
      bindP (queryValue worker t ''select current_connection from rdb$database'') (\<lambda>att.
      bindP (queryValue worker t ''select current_transaction from rdb$database'') (\<lambda>tra.
      returning
       [say (nl @ ''-- worker's pool chain (before the update)'' @ nl),
        poolRow monitor (''database pool:'') ''join MON$DATABASE using (MON$STAT_ID)'',
        poolRow monitor (''worker attachment pool:'')
        (''join MON$ATTACHMENTS using (MON$STAT_ID) where MON$ATTACHMENT_ID = '' @ att),
        poolRow monitor (''worker transaction pool:'')
        (''join MON$TRANSACTIONS using (MON$STAT_ID) where MON$TRANSACTION_ID = '' @ tra),
        exec worker t ''update t set pad = rpad('y', 200, 'y')'',
        say (nl @ ''-- after an uncommitted 3000-row UPDATE in that transaction'' @ nl),
        poolRow monitor (''worker attachment pool:'')
        (''join MON$ATTACHMENTS using (MON$STAT_ID) where MON$ATTACHMENT_ID = '' @ att),
        poolRow monitor (''worker transaction pool:'')
        (''join MON$TRANSACTIONS using (MON$STAT_ID) where MON$TRANSACTION_ID = '' @ tra),
        rollback t,
        say (nl @ ''-- after rollback (transaction pool destroyed with its undo log)'' @ nl),
        poolRow monitor (''worker attachment pool:'')
        (''join MON$ATTACHMENTS using (MON$STAT_ID) where MON$ATTACHMENT_ID = '' @ att)]
       0))))))))))) report)\<close>


section \<open>metadata_cache.cpp\<close>

definition one_line :: "string \<Rightarrow> string" where
  \<open>one_line buf = map (\<lambda>c. if c = CHR 0x0A then CHR '' '' else c) buf\<close>

definition tryQuery :: "string \<Rightarrow> Db \<Rightarrow> nat \<Rightarrow> string \<Rightarrow> ('s, unit) prog" where
  \<open>tryQuery who db tra sql =
    try_fb (bindP (queryValue db tra sql) (\<lambda>v.
      block
       [say (who @ '': '' @ sql @ '' -> '' @ (c_str v) @ nl)]))
    (\<lambda>e. bindP (formatStatus 512 e) (\<lambda>buf.
      block
       [say (who @ '': '' @ sql @ '' -> ERROR: '' @ (one_line buf) @ nl)]))\<close>

definition metadata_cache_main :: "('s, int) prog" where
  \<open>metadata_cache_main = bindP (argOrDefault 1 ''inet://localhost//tmp/fbhandson/mdc.fdb'') (\<lambda>database.
      try_fb (with_Db (\<lambda>A. with_Db (\<lambda>B. seqP
       [attachOrCreate A database,
        attach B database] (
      bindP (start A) (\<lambda>t.
      seqP
       [exec A t ''recreate table t (a integer)'',
        commit t] (
      bindP (start A) (\<lambda>t.
      seqP
       [exec A t ''insert into t values (1)'',
        commit t,
        say (''== 1. uncommitted ALTER: visible to creator only =='' @ nl)] (
      bindP (start A) (\<lambda>aDdl.
      seqP
       [exec A aDdl ''alter table t add e integer'',
        tryQuery (''A (same tx)  '') A aDdl ''select e from t''] (
      bindP (start B) (\<lambda>bTra.
      seqP
       [tryQuery (''B            '') B bTra ''select e from t'',
        commit bTra,
        say (nl @ ''== 2. committed ALTER: seen even inside B's open SNAPSHOT tx =='' @ nl)] (
      bindP (start_tpb B (tpb [isc_tpb_concurrency])) (\<lambda>bTra.
      seqP
       [tryQuery (''B (snapshot) '') B bTra ''select count(*) from t'',
        commit aDdl] (
      bindP (start A) (\<lambda>t.
      seqP
       [exec A t ''alter table t add d integer'',
        commit t,
        tryQuery (''B (same  tx) '') B bTra ''select d from t'',
        say (''   (records are snapshot-isolated; metadata is read-committed '' @
            [CHR 0xE2, CHR 0x80, CHR 0x94] @ nl @
            ''    the new statement was prepared against the chain's current head)'' @ nl),
        commit bTra,
        say (nl @ ''== 3. two uncommitted DDLs on one object =='' @ nl)] (
      bindP (start A) (\<lambda>aDdl.
      seqP
       [exec A aDdl ''alter table t add f integer''] (
      bindP (start B) (\<lambda>bTra.
      seqP
       [try_fb (block
       [exec B bTra ''alter table t add g integer'',
        say (''B: ALTER unexpectedly succeeded'' @ nl)])
      (\<lambda>e. bindP (formatStatus 512 e) (\<lambda>buf.
      block
       [say (''B: ALTER failed:'' @ nl @ buf @ nl)])),
        rollback bTra,
        rollback aDdl,
        say (nl @ ''== 4. RDB$FORMATS after the committed DDL =='' @ nl)] (
      bindP (start A) (\<lambda>t.
      bindP (queryValue A t (''select count(*) from rdb$formats f '' @
        ''join rdb$relations r on f.rdb$relation_id = r.rdb$relation_id '' @
        ''where r.rdb$relation_name = 'T'' @ [CHR 0x27])) (\<lambda>n.
      returning
       [say (''formats stored for T: '' @ (c_str n) @ '' (T has lived through that many shapes)'' @ nl),
        print_query A t ''select a, e, d from t'',
        commit t,
        detach A,
        detach B,
        say (''done.'' @ nl)]
       0)))))))))))))))))))))) report)\<close>


section \<open>security.cpp\<close>

definition DSN :: string where
  \<open>DSN = ''inet://localhost//tmp/fbhandson/security.fdb''\<close>

definition TMP_USER :: string where
  \<open>TMP_USER = ''HANDSON_USER''\<close>

definition TMP_PASS :: string where
  \<open>TMP_PASS = ''Hands0nPw''\<close>

text \<open>
  The local pointer \<open>t\<close> is null until \<open>start\<close> has returned: an exception before that
  leaves nothing to roll back, one after it rolls back through the quiet status.
\<close>

definition execIgnore :: "Db \<Rightarrow> string \<Rightarrow> ('s, unit) prog" where
  \<open>execIgnore db sql = bindP (try_fb (bindP (start db) (\<lambda>t.
      ret (Some t))) (\<lambda>_. ret None)) (\<lambda>t.
      (case t of None \<Rightarrow> ret ()
      | Some t \<Rightarrow>
          try_fb (block
       [exec db t sql,
        commit t])
          (\<lambda>_. bindP (ask_void (Master GetStatus)) (\<lambda>quiet.
      block
       [ignore (ask_check (Tra t Rollback)),
        do_void (StatusDispose (r_h quiet))]))))\<close>

definition whoAmI :: "Db \<Rightarrow> nat \<Rightarrow> string \<Rightarrow> ('s, unit) prog" where
  \<open>whoAmI db tra label = bindP (query db tra
      (''select trim(mon$user), mon$auth_method, mon$wire_crypt_plugin, mon$remote_protocol,'' @
      ''       trim(coalesce(current_role, 'NONE'))'' @
      ''  from mon$attachments where mon$attachment_id = current_connection'')) (\<lambda>t.
      bindP (cells_at t 0 5) (\<lambda>v.
      block
       [say (ljust 22 label @ '' user='' @ (v ! 0) @ '' auth='' @ (v ! 1) @ '' wirecrypt='' @
            (v ! 2) @ '' protocol='' @ (v ! 3) @ '' role='' @ (v ! 4) @ nl)]))\<close>

definition visibleAttachments :: "Db \<Rightarrow> nat \<Rightarrow> ('s, string) prog" where
  \<open>visibleAttachments db tra = queryValue db tra
    ''select count(*) from mon$attachments where mon$system_flag = 0''\<close>

text \<open>The block that attaches as the plain user, and the one that attaches with the role.\<close>

definition security_plain :: "('s, unit) prog" where
  \<open>security_plain = with_Db (\<lambda>plain. seqP
       [attach_as plain DSN TMP_USER TMP_PASS ''UTF8''] (
      bindP (start plain) (\<lambda>t2.
      seqP
       [whoAmI plain t2 ''user, no role:''] (
      bindP (visibleAttachments plain t2) (\<lambda>n.
      block
       [say (''  -> sees '' @ (c_str n) @ '' attachment(s): only its own'' @ nl),
        commit t2])))))\<close>

definition security_monitor :: "('s, unit) prog" where
  \<open>security_monitor = with_Db (\<lambda>monitor. bindP (makeDpb monitor TMP_USER TMP_PASS ''UTF8'') (\<lambda>dpb.
      seqP
       [do_call (Xpb dpb (InsertString isc_dpb_sql_role_name ''HANDSON_MONITOR'')),
        attachDatabase monitor DSN dpb,
        do_void (Xpb dpb XpbDispose)] (
      bindP (start monitor) (\<lambda>t3.
      seqP
       [whoAmI monitor t3 ''user + role:''] (
      bindP (visibleAttachments monitor t3) (\<lambda>n.
      block
       [say (''  -> sees '' @ (c_str n) @ '' attachments: MONITOR_ANY_ATTACHMENT at work'' @ nl),
        commit t3]))))))\<close>

definition security_bad :: "('s, unit) prog" where
  \<open>security_bad =
    try_fb (with_Db (\<lambda>bad. block
       [attach_as bad DSN TMP_USER ''wrong-password'' ''UTF8'']))
    (\<lambda>e. bindP (formatStatus 1024 e) (\<lambda>buf.
      block
       [say (''    '' @ buf @ nl)]))\<close>

definition security_main :: "('s, int) prog" where
  \<open>security_main =
    try_fb (with_Db (\<lambda>admin. seqP
       [attachOrCreate admin DSN] (
      bindP (start admin) (\<lambda>t.
      seqP
       [whoAmI admin t ''admin attachment:'',
        commit t,
        execIgnore admin ''drop user HANDSON_USER using plugin Srp'',
        execIgnore admin ''drop role HANDSON_MONITOR''] (
      bindP (start admin) (\<lambda>t.
      seqP
       [exec admin t ''create user HANDSON_USER password 'Hands0nPw' using plugin Srp'',
        commit t] (
      bindP (start admin) (\<lambda>t.
      seqP
       [exec admin t
        ''create role HANDSON_MONITOR set system privileges to MONITOR_ANY_ATTACHMENT'',
        exec admin t ''grant HANDSON_MONITOR to user HANDSON_USER'',
        commit t] (
      bindP (start admin) (\<lambda>tra.
      seqP
       [say (nl @ ''SEC$USERS (the security database, through the virtual view):'' @ nl)] (
      bindP (query admin tra
        (''select trim(sec$user_name), trim(sec$plugin), sec$admin'' @
        ''  from sec$users order by 1'')) (\<lambda>users.
      seqP
       [say (''    '' @ ljust 16 (''USER'') @ '' '' @ ljust 8 (''PLUGIN'') @ '' '' @ (''ADMIN'') @ nl),
        for_each (rows users) (\<lambda>r. bindP (col r 0) (\<lambda>u.
      bindP (col r 1) (\<lambda>p.
      bindP (col r 2) (\<lambda>a.
      block
       [say (''    '' @ ljust 16 u @ '' '' @ ljust 8 p @ '' '' @ a @ nl)]))))] (
      bindP (visibleAttachments admin tra) (\<lambda>n.
      seqP
       [say (nl @ ''admin sees '' @ (c_str n) @ '' user attachments in MON$ATTACHMENTS'' @ nl),
        security_plain,
        security_monitor,
        say (nl @ ''failed login (wrong password) produces:'' @ nl),
        security_bad,
        commit tra] (
      bindP (start admin) (\<lambda>t.
      returning
       [exec admin t ''drop user HANDSON_USER using plugin Srp'',
        exec admin t ''drop role HANDSON_MONITOR'',
        commit t,
        say (nl @ ''temporary user and role dropped. done.'' @ nl)]
       0)))))))))))))))) report\<close>


section \<open>careful_writes.cpp\<close>

definition careful_writes_DEFAULT_DB :: string where
  \<open>careful_writes_DEFAULT_DB = ''/tmp/fbhandson/careful_writes.fdb''\<close>

definition careful_writes_fileSize :: "string \<Rightarrow> ('s, int) prog" where
  \<open>careful_writes_fileSize path = bindP (ask_void (Os (FileSize path))) (\<lambda>st.
      ret (if r_null st then - 1 else r_n st))\<close>

definition writer :: "string \<Rightarrow> ('s, int) prog" where
  \<open>writer dbFile = with_Db (\<lambda>db. seqP
       [attachOrCreate db dbFile] (
      bindP (start db) (\<lambda>t.
      seqP
       [exec db t ''create table cw (id int, tag varchar(30))'',
        commit t] (
      bindP (start db) (\<lambda>t.
      seqP
       [exec db t ''insert into cw values (1, 'committed-marker')'',
        commit t] (
      bindP (getpid) (\<lambda>pid.
      seqP
       [say (''[writer '' @ show_int pid @ ''] marker row committed (forced writes on)'' @ nl)] (
      bindP (start db) (\<lambda>t.
      returning
       [exec db t
      (''execute block as declare i int = 0; begin'' @
      ''  while (i < 500000) do begin'' @
      ''    insert into cw values (:i + 1000, 'uncommitted'); i = i + 1;'' @
      ''  end '' @
      ''end''),
        say (''[writer] bulk insert finished uncommitted; waiting for SIGKILL'' @ nl),
        os_do Pause]
       0)))))))))\<close>

text \<open>
  The wait for the file to grow: at most \<open>n\<close> more polls of 50 ms; \<open>base\<close> is the first
  positive size seen.
\<close>

primrec careful_writes_watch :: "string \<Rightarrow> int \<Rightarrow> nat \<Rightarrow> int \<Rightarrow> ('s, unit) prog" where
  \<open>careful_writes_watch dbFile pid 0 base = ret ()\<close>
| \<open>careful_writes_watch dbFile pid (Suc n) base =
    bindP (os_do (SleepMs 50)) (\<lambda>_.
    bindP (careful_writes_fileSize dbFile) (\<lambda>sz.
    let base = (if base < 0 \<and> sz > 0 then sz else base) in
    if base > 0 \<and> sz > base + 2 * 1024 * 1024
    then say (''file grew '' @ show_int base @ '' -> '' @ show_int sz @
      '' bytes; SIGKILL to engine pid '' @ show_int pid @ nl)
    else careful_writes_watch dbFile pid n base))\<close>

text \<open>\<open>execl\<close> returns only when it fails; otherwise the process goes on as the new image.\<close>

definition careful_writes_spawn :: "string \<Rightarrow> ('s, int) prog" where
  \<open>careful_writes_spawn dbFile = bindP (os_int Fork) (\<lambda>pid.
      returning
       [if pid = 0
    then (bindP (arg_at 0) (\<lambda>self.
      bindP (ask_void (Os (ExecFile [self, ''--writer'', dbFile]))) (\<lambda>r.
      (if r_null r then fail (Exit 127) else fail (Exit (r_n r))))))
    else ret ()]
       pid)\<close>

definition careful_writes_reattach :: "string \<Rightarrow> ('s, int) prog" where
  \<open>careful_writes_reattach dbFile = bindP (os_int ClockNs) (\<lambda>t0.
      with_Db (\<lambda>db. seqP
       [attach db dbFile] (
      bindP (start db) (\<lambda>t.
      bindP (queryValue db t
        (''select count(*) from cw where tag = 'committed-marker'' @ [CHR 0x27])) (\<lambda>committed.
      bindP (queryValue db t
        (''select count(*) from cw where tag = 'uncommitted'' @ [CHR 0x27])) (\<lambda>uncommitted.
      bindP (os_int ClockNs) (\<lambda>t1.
      returning
       [commit t,
        say (''re-attach + both counts took '' @ show_int (millis_between t0 t1) @ '' ms'' @ nl),
        say (''committed marker rows : '' @ (c_str committed) @ ''   <- survived the crash'' @ nl),
        say (''uncommitted rows      : '' @ (c_str uncommitted) @
            ''   <- rolled back by visibility, not replay'' @ nl)]
       0)))))))\<close>

definition careful_writes_main :: "('s, int) prog" where
  \<open>careful_writes_main = bindP (arguments) (\<lambda>av.
      let childMode = (length av > 1 \<and> c_str (av ! 1) = ''--writer'') in
      bindP (argOrDefault (if childMode then 2 else 1) careful_writes_DEFAULT_DB) (\<lambda>dbFile.
      try_fb (if childMode then writer dbFile
      else (seqP
       [os_do (Unlink dbFile),
        setenv ''FIREBIRD'' ''/opt/firebird'' False] (
      bindP (careful_writes_spawn dbFile) (\<lambda>pid.
      seqP
       [careful_writes_watch dbFile pid 600 (- 1),
        os_do (Kill pid),
        os_do (WaitPid pid)] (
      careful_writes_reattach dbFile))))) report))\<close>


section \<open>page_cache.cpp\<close>

definition SRV_DB :: string where
  \<open>SRV_DB = ''inet://localhost//tmp/fbhandson/page_cache_srv.fdb''\<close>

definition EMB_DB :: string where
  \<open>EMB_DB = ''/tmp/fbhandson/page_cache_emb.fdb''\<close>

definition SANDBOX :: string where
  \<open>SANDBOX = ''/tmp/fbhandson/fbemb''\<close>

definition ROUNDS :: nat where
  \<open>ROUNDS = 300\<close>

definition initDb :: "string \<Rightarrow> ('s, int) prog" where
  \<open>initDb conn = with_Db (\<lambda>db. seqP
       [attachOrCreate db conn] (
      bindP (start db) (\<lambda>t.
      seqP
       [quietly (exec db t ''drop table t''),
        commit t] (
      bindP (start db) (\<lambda>t.
      seqP
       [exec db t ''create table t (id int primary key, v int)'',
        commit t] (
      bindP (start db) (\<lambda>t.
      returning
       [exec db t ''insert into t values (1, 0)'',
        exec db t ''insert into t values (2, 0)'',
        commit t]
       0)))))))\<close>

definition worker :: "string \<Rightarrow> string \<Rightarrow> ('s, int) prog" where
  \<open>worker conn rowId = with_Db (\<lambda>db. seqP
       [attach db conn,
        for_each [0..<ROUNDS] (\<lambda>_. bindP (start db) (\<lambda>t.
      block
       [exec db t (''update t set v = v + 1 where id = '' @ rowId),
        commit t]))] (
      bindP (start db) (\<lambda>t.
      bindP (query db t
      (''select MON$PAGE_FETCHES, MON$PAGE_READS, MON$PAGE_WRITES '' @
      ''from MON$IO_STATS join MON$ATTACHMENTS using (MON$STAT_ID) '' @
      ''where MON$ATTACHMENT_ID = CURRENT_CONNECTION'')) (\<lambda>io.
      bindP (getpid) (\<lambda>pid.
      bindP (cells_at io 0 3) (\<lambda>v.
      returning
       [say (''  worker pid '' @ ljust 6 (show_int pid) @ '' row '' @ rowId @ '': '' @
            show_int (int ROUNDS) @ '' commits | page fetches='' @ ljust 6 (v ! 0) @
            '' reads='' @ ljust 4 (v ! 1) @ '' writes='' @ (v ! 2) @ nl),
        commit t]
       0))))))\<close>

definition page_cache_check :: "string \<Rightarrow> ('s, int) prog" where
  \<open>page_cache_check conn = with_Db (\<lambda>db. seqP
       [attach db conn] (
      bindP (start db) (\<lambda>t.
      bindP (query db t ''select id, v from t order by id'') (\<lambda>r.
      returning
       [for_each (rows r) (\<lambda>row. bindP (col row 0) (\<lambda>i.
      bindP (col row 1) (\<lambda>v.
      block
       [say (''  final: id='' @ i @ '' v='' @ v @ '' (expected '' @ show_int (int ROUNDS) @ '')'' @ nl)]))),
        commit t]
       0))))\<close>

definition run :: "string \<Rightarrow> string list \<Rightarrow> ('s, unit) prog" where
  \<open>run self args = bindP (os_int Fork) (\<lambda>pid.
      block
       [if pid = 0
    then (bindP (ask_void (Os (ExecFile (self # args)))) (\<lambda>r.
      (if r_null r then fail (Exit 127) else fail (Exit (r_n r)))))
    else ret ()])\<close>

definition await :: "('s, unit) prog" where
  \<open>await = loopP (\<lambda>u. bindP (os_int WaitAny) (\<lambda>pid.
      ret (if pid > 0 then Inl u else Inr u))) ()\<close>

definition page_cache_phase :: "string \<Rightarrow> string \<Rightarrow> ('s, unit) prog" where
  \<open>page_cache_phase self conn = block
       [run self [''--init'', conn],
        await,
        run self [''--worker'', conn, ''1''],
        run self [''--worker'', conn, ''2''],
        await,
        run self [''--check'', conn],
        await]\<close>

definition page_cache_sandbox :: "('s, unit) prog" where
  \<open>page_cache_sandbox = seqP
       [os_do (Mkdir SANDBOX),
        for_each [''plugins'', ''intl'', ''tzdata'', ''firebird.msg'', ''security6.fdb'']
      (\<lambda>f. os_do (Symlink (''/opt/firebird/'' @ f) (SANDBOX @ ''/'' @ f)))] (
      bindP (ask_void (Os (WriteFile (SANDBOX @ ''/firebird.conf'') (''ServerMode = SuperClassic'' @ nl)))) (\<lambda>r.
      block
       [if r_null r then fail (UB ''fputs to a null FILE'') else ret (),
        setenv ''FIREBIRD'' SANDBOX True,
        os_do (Unlink EMB_DB)]))\<close>

definition page_cache_main :: "('s, int) prog" where
  \<open>page_cache_main =
    try_fb (bindP (arguments) (\<lambda>av.
      (if length av > 2 \<and> c_str (av ! 1) = ''--init'' then initDb (av ! 2)
      else if length av > 3 \<and> c_str (av ! 1) = ''--worker'' then worker (av ! 2) (av ! 3)
      else if length av > 2 \<and> c_str (av ! 1) = ''--check'' then page_cache_check (av ! 2)
      else (seqP
       [say (''phase 1: two client processes, ONE SuperServer shared cache'' @ nl)] (
      bindP (arg_at 0) (\<lambda>self.
      returning
       [page_cache_phase self SRV_DB,
        page_cache_sandbox,
        say (''phase 2: two EMBEDDED engine processes, PRIVATE page caches'' @ nl),
        page_cache_phase self EMB_DB,
        say (''same workload '' @ [CHR 0xE2, CHR 0x80, CHR 0x94] @
            '' the private caches paid for coherency in disk I/O.'' @ nl)]
       0)))))) report\<close>


section \<open>Interfaces\<close>

lemma okd_sessions [okd_rules]:
  "okd k (showStats db s) 0" "okd k (showCounters db s) 0" "okd k (gc_sweep_updates db) 0"
  "okd k (levelSummary db) 0" "okd k (poolRow db s j) 0"
  "okd k (whoAmI db tra s) 0" "okd k (visibleAttachments db tra) 0"
  unfolding showStats_def showCounters_def gc_sweep_updates_def levelSummary_def poolRow_def
    whoAmI_def visibleAttachments_def
  by ((rule okd_eq, (rule okd_rules | simp add: delta_simps)+)[1])+

lemma att_quiet_watch [att_rules]:
  "keeps (\<lambda>w. att_view w = v) (careful_writes_watch f p n b)"
  by (induction n arbitrary: b)
    (simp_all only: careful_writes_watch.simps careful_writes_fileSize_def,
      (intro quiet_rules att_rules; simp add: delta_simps)+)

lemma att_sessions [att_rules]:
  "keeps (\<lambda>w. att_view w = v) (showStats db s)"
  "keeps (\<lambda>w. att_view w = v) (showCounters db s)"
  "keeps (\<lambda>w. att_view w = v) (gc_sweep_updates db)"
  "keeps (\<lambda>w. att_view w = v) (levelSummary db)"
  "keeps (\<lambda>w. att_view w = v) (poolRow db s j)"
  "keeps (\<lambda>w. att_view w = v) (tryQuery s db tra j)"
  "keeps (\<lambda>w. att_view w = v) (execIgnore db s)"
  "keeps (\<lambda>w. att_view w = v) (whoAmI db tra s)"
  "keeps (\<lambda>w. att_view w = v) (visibleAttachments db tra)"
  "keeps (\<lambda>w. att_view w = v) (careful_writes_spawn f)"
  "keeps (\<lambda>w. att_view w = v) (page_cache_phase self conn)"
  "keeps (\<lambda>w. att_view w = v) page_cache_sandbox"
  unfolding showStats_def showCounters_def gc_sweep_updates_def levelSummary_def poolRow_def
    tryQuery_def execIgnore_def whoAmI_def visibleAttachments_def careful_writes_spawn_def
    page_cache_phase_def run_def await_def page_cache_sandbox_def
  by (intro quiet_rules att_rules; simp add: delta_simps)+

definition sessions_mains :: "('s, int) prog list" where
  "sessions_mains = [transactions_demo_main, gc_sweep_main, memory_pools_main, page_cache_main]"

definition sessions_leaking_mains :: "('s, int) prog list" where
  "sessions_leaking_mains = [metadata_cache_main, security_main, careful_writes_main]"

lemmas sessions_defs = transactions_demo_main_def gc_sweep_main_def memory_pools_main_def
  metadata_cache_main_def security_main_def careful_writes_main_def page_cache_main_def

lemmas sessions_parts = initDb_def worker_def page_cache_check_def writer_def
  careful_writes_reattach_def

lemma sessions_reports: "\<forall>m \<in> set (sessions_mains @ sessions_leaking_mains). reports m"
  unfolding sessions_mains_def sessions_leaking_mains_def append.simps sessions_defs
    sessions_parts list.set ball_simps
  by (intro conjI reports_arg reports_bind_total [OF arguments_total] reports_Let reports_try
    returns_rules TrueI)

lemma sessions_okd: "k \<notin> {KStatus, KProv, KAtt} \<Longrightarrow> \<forall>m \<in> set sessions_mains. okd0 k m"
  unfolding sessions_mains_def sessions_defs sessions_parts list.set ball_simps
    page_cache_phase_def run_def await_def page_cache_sandbox_def
  by (rule conjI TrueI okd0_arg okd0_main okd_with_Db okd_attachOrCreate okd_rules
    | assumption | (rule okd_keeps, (intro count_rules; simp add: delta_simps))
    | simp add: delta_simps)+

lemma sessions_att: "\<forall>m \<in> set (sessions_mains @ sessions_leaking_mains). att_triple b {} {} m {}"
  unfolding sessions_mains_def sessions_leaking_mains_def append.simps sessions_defs
    sessions_parts security_plain_def security_monitor_def security_bad_def list.set ball_simps
  by (rule conjI TrueI subset_refl att_attachDatabase att_flow att_with_Db_nested
    | (rule att_quiet, (intro quiet_rules att_rules; simp add: delta_simps))
    | (rule att_leaf, (intro quiet_rules att_rules; simp add: delta_simps), simp) | simp)+


section \<open>Errors that are contained\<close>

lemma nothrow_formatStatus [nothrow_rules]: "nothrow (formatStatus n st)"
  unfolding formatStatus_def by (intro nothrow_rules)

definition rollback_failed :: "'s world \<Rightarrow> bool" where
  "rollback_failed w \<longleftrightarrow> (\<exists>t st r. (Tra t Rollback, Some st, r) \<in> set (log w))"

lemma quiet_rollback:
  "hoare (\<lambda>w. bal (gain KTra) w = b + 1)
     (bindP (ask_void (Master GetStatus)) (\<lambda>quiet. block
        [ignore (ask_check (Tra t Rollback)), do_void (StatusDispose (r_h quiet))]))
     (\<lambda>_ w. bal (gain KTra) w = b \<or> rollback_failed w) (\<lambda>_ _. False)"
  by (rule hoareI)
    (auto simp: bindP_def ignore_def do_void_def run_simps bal_def gain_def delta_simps
      rollback_failed_def intro!: exI [of _ t] split: if_splits prod.splits, blast)

lemma execIgnore_triple:
  "hoare (\<lambda>w. bal (gain KTra) w = b) (execIgnore db sql)
     (\<lambda>_ w. bal (gain KTra) w = b \<or> rollback_failed w) (\<lambda>_ _. False)"
proof -
  let ?I = "\<lambda>n w. bal (gain KTra) w = n"
  have att: "hoare (?I n) (att_of db) (\<lambda>_. ?I n) (\<lambda>_. ?I n)" for n :: int
    unfolding att_of_def using count.keeps_reads(4) keeps_checked
    by (intro keeps_bindP [unfolded keeps_def]) (auto simp: keeps_def)
  have tr: "hoare (?I b) (handle_of (Att a (StartTransaction x))) (\<lambda>_. ?I (b + 1)) (\<lambda>_. ?I b)" for a x
    by (rule hoare_weaken [OF count_call(2)]) (auto simp: delta_simps)
  have st: "hoare (?I b) (try_fb (bindP (start db) (\<lambda>t. ret (Some t))) (\<lambda>_. ret None))
      (\<lambda>t. ?I (case t of None \<Rightarrow> b | Some _ \<Rightarrow> b + 1)) (\<lambda>_ _. False)"
    unfolding start_tpb_def
    by (rule hoare_try_fb [where E' = "\<lambda>_. ?I b"], rule hoare_bindP, rule hoare_bindP [OF att],
        rule tr, rule hoare_ret, simp, rule hoare_ret, simp)
  have ex: "hoare (?I (b + 1)) (exec db t sql) (\<lambda>_. ?I (b + 1)) (\<lambda>_. ?I (b + 1))" for t
    using count_exec unfolding keeps_def by blast
  have cm: "hoare (?I (b + 1)) (commit t) (\<lambda>_. ?I b) (\<lambda>_. ?I (b + 1))" for t
    unfolding commit_def by (rule hoare_weaken [OF count_call(3)]) (auto simp: delta_simps)
  have body: "hoare (?I (b + 1)) (try_fb (block [exec db t sql, commit t])
        (\<lambda>_. bindP (ask_void (Master GetStatus)) (\<lambda>quiet. block
          [ignore (ask_check (Tra t Rollback)), do_void (StatusDispose (r_h quiet))])))
      (\<lambda>_ w. ?I b w \<or> rollback_failed w) (\<lambda>_ _. False)" for t
    by (rule hoare_try_fb [where E' = "\<lambda>_. ?I (b + 1)", OF _ quiet_rollback])
      (unfold block.simps, rule hoare_bindP [OF ex], rule hoare_bindP [OF cm], rule hoare_ret, simp)
  show ?thesis
    unfolding execIgnore_def
  proof (rule hoare_bindP [OF st])
    fix t
    show "hoare (?I (case t of None \<Rightarrow> b | Some _ \<Rightarrow> b + 1))
        (case t of None \<Rightarrow> ret () | Some t \<Rightarrow>
          try_fb (block [exec db t sql, commit t])
           (\<lambda>_. bindP (ask_void (Master GetStatus)) (\<lambda>quiet. block
             [ignore (ask_check (Tra t Rollback)), do_void (StatusDispose (r_h quiet))])))
        (\<lambda>_ w. ?I b w \<or> rollback_failed w) (\<lambda>_ _. False)"
      using body by (cases t) (auto intro: hoare_ret)
  qed
qed

text \<open>
  \<open>execIgnore\<close> lets no \<open>FbException\<close> out, and when it returns, the transaction it started has been
  committed or rolled back, unless the quiet rollback itself failed.
\<close>

lemma execIgnore_contained:
  assumes "execIgnore db sql e w = Some (r, w')"
  shows "(\<forall>s. r \<noteq> Fail (FbException s)) \<and>
    (r = Ok () \<longrightarrow> bal (gain KTra) w' = bal (gain KTra) w \<or> rollback_failed w')"
  using hoareD [OF execIgnore_triple refl assms] by (cases r) auto

definition stubborn_env :: "unit env" where
  "stubborn_env = \<lparr>fb = (\<lambda>c s. ((case c of Att a (Execute t x) \<Rightarrow> Some [1] | _ \<Rightarrow> None,
       \<lparr>r_h = 1, r_n = 0, r_s = [], r_b = [], r_ns = [], r_descs = [], r_ints = [], r_code = RESULT_NO_DATA, r_null = False\<rparr>), s)),
     hdr = undefined, argv = []\<rparr>"

definition attached_world :: "unit world" where
  "attached_world = \<lparr>server = (), log = [], out = [], err = [], environ = (\<lambda>_. None),
     cells = (\<lambda>_ _. Some 5), fresh = 1\<rparr>"


text \<open>
  \<open>tryQuery\<close> contains the error of the statement it probes: it never ends in an \<open>FbException\<close>, and the
  error text it prints is one line however many the status had.
\<close>

lemma tryQuery_contained:
  "tryQuery who db tra sql e w \<noteq> Some (Fail (FbException s), w')
    \<and> CHR 0x0A \<notin> set (one_line buf) \<and> length (one_line buf) = length buf"
proof -
  have "nothrow (tryQuery who db tra sql)" unfolding tryQuery_def by (intro nothrow_rules)
  then show ?thesis by (auto simp: nothrow_def one_line_def)
qed


text \<open>
  C27.  \<open>await\<close> returns exactly when every child has been waited for: with \<open>c\<close> children left it makes
  \<open>c + 1\<close> calls of \<open>wait\<close>.
\<close>

theorem await_reaps_all:
  assumes "\<forall>s. \<exists>st r s'. fb e (Os WaitAny) s = ((st, r), s') \<and> (0 < r_n r \<longleftrightarrow> 0 < c s) \<and> c s' = c s - 1"
  shows "\<exists>w'. await e w = Some (Ok (), w') \<and> c (server w') = 0
    \<and> length (log w') = length (log w) + c (server w) + 1"
proof (induction "c (server w)" arbitrary: w)
  case 0
  obtain st r s' where "fb e (Os WaitAny) (server w) = ((st, r), s')" "\<not> 0 < r_n r" "c s' = 0"
    using assms 0 by (metis diff_0_eq_0 less_numeral_extra(3))
  then show ?case
    unfolding await_def using 0
    by (subst loopP.simps) (simp add: bindP_def os_int_def run_simps)
next
  case (Suc k)
  obtain st r s' where r: "fb e (Os WaitAny) (server w) = ((st, r), s')" "0 < r_n r" "c s' = k"
    using assms Suc.hyps(2) by (metis diff_Suc_1 zero_less_Suc)
  let ?w = "w\<lparr>server := s', log := (Os WaitAny, None, r) # log w\<rparr>"
  have "await e w = await e ?w"
    unfolding await_def using r by (intro loopP_again) (simp add: bindP_def os_int_def run_simps)
  then show ?case using Suc.hyps(1) [of ?w] Suc.hyps(2) r(3) by auto
qed

theorem await_reaps_all_witness:
  "\<exists>w'. await \<lparr>fb = (\<lambda>c s. ((None, \<lparr>r_h = 0, r_n = int s, r_s = [], r_b = [], r_ns = [], r_descs = [], r_ints = [],
         r_code = RESULT_OK, r_null = False\<rparr>), s - 1)), hdr = undefined, argv = []\<rparr>
       \<lparr>server = 2 :: nat, log = [], out = [], err = [], environ = (\<lambda>_. None), cells = (\<lambda>_ _. None), fresh = 0\<rparr> =
     Some (Ok (), w') \<and> length (log w') = 3"
  using await_reaps_all [of "\<lparr>fb = (\<lambda>c s. ((None, \<lparr>r_h = 0, r_n = int s, r_s = [], r_b = [], r_ns = [], r_descs = [], r_ints = [],
         r_code = RESULT_OK, r_null = False\<rparr>), s - 1)), hdr = undefined, argv = []\<rparr>" "\<lambda>s. s"
       "\<lparr>server = 2 :: nat, log = [], out = [], err = [], environ = (\<lambda>_. None), cells = (\<lambda>_ _. None), fresh = 0\<rparr>"]
  by auto

end
