(* ===== verification/Ods_Header.thy ===== *)
theory Ods_Header
  imports Sample_Kit
begin

text \<open>
  \<open>samples/cpp/ods_header.cpp\<close>: the header page of a database file parsed byte by byte, and
  the census of its page types.  The three readers \<open>u16\<close>, \<open>u32\<close> and \<open>u64\<close> keep the width of
  the C++ type and satisfy the contract \<open>le_field\<close> of the prelude; from it follows that the
  parse of a 152-byte header is total and inverts its layout.  The census loop is shown to
  return, with one visit per page and counts that add up, whenever the page size is not 0;
  with a page size of 0 and a non-empty file it does not return.
\<close>


section \<open>Readers\<close>

definition u16 :: "byte list \<Rightarrow> nat \<Rightarrow> 16 word option" where
  "u16 b off = map_option of_nat (le_read 2 b off)"

definition u32 :: "byte list \<Rightarrow> nat \<Rightarrow> 32 word option" where
  "u32 b off = map_option of_nat (le_read 4 b off)"

definition u64 :: "byte list \<Rightarrow> nat \<Rightarrow> 64 word option" where
  "u64 b off = map_option of_nat (le_read 8 b off)"

definition pageTypeNames :: "string list" where
  \<open>pageTypeNames = [''undefined'', ''pag_header'', ''pag_pages (PIP)'',
     ''pag_transactions (TIP)'', ''pag_pointer'', ''pag_data'', ''pag_root'',
     ''pag_index (b-tree)'', ''pag_blob'', ''pag_ids (generators)'', ''pag_scns'']\<close>

definition pageTypeName :: "int \<Rightarrow> string" where
  \<open>pageTypeName t = (if t \<ge> 0 \<and> t \<le> 10 then pageTypeNames ! nat t else ''???'')\<close>


section \<open>The header page\<close>

text \<open>The fields \<open>main\<close> reads, at the offsets of \<open>ods.h\<close>; the GUID is kept as its bytes.\<close>

record header_page =
  pag_type :: byte
  pag_flags :: byte
  hdr_page_size :: "16 word"
  hdr_ods_version :: "16 word"
  hdr_ods_minor :: "16 word"
  hdr_flags :: "16 word"
  hdr_PAGES :: "32 word"
  hdr_next_transaction :: "64 word"
  hdr_oldest_transaction :: "64 word"
  hdr_oldest_active :: "64 word"
  hdr_oldest_snapshot :: "64 word"
  hdr_guid :: "byte list"

definition parse_header :: "byte list \<Rightarrow> header_page option" where
  "parse_header h =
     Option.bind (rd h 0) (\<lambda>ty. Option.bind (rd h 1) (\<lambda>fl.
     Option.bind (u16 h 16) (\<lambda>ps. Option.bind (u16 h 18) (\<lambda>ods.
     Option.bind (u16 h 20) (\<lambda>mi. Option.bind (u16 h 22) (\<lambda>hf.
     Option.bind (u32 h 28) (\<lambda>pg. Option.bind (u64 h 40) (\<lambda>nx.
     Option.bind (u64 h 48) (\<lambda>oit. Option.bind (u64 h 56) (\<lambda>oat.
     Option.bind (u64 h 64) (\<lambda>ost. Option.bind (slice h 84 16) (\<lambda>g.
     Some \<lparr>pag_type = ty, pag_flags = fl, hdr_page_size = ps, hdr_ods_version = ods,
       hdr_ods_minor = mi, hdr_flags = hf, hdr_PAGES = pg, hdr_next_transaction = nx,
       hdr_oldest_transaction = oit, hdr_oldest_active = oat, hdr_oldest_snapshot = ost,
       hdr_guid = g\<rparr>))))))))))))"

definition show_guid :: "byte list \<Rightarrow> string option" where
  \<open>show_guid g =
    Option.bind (u32 g 0) (\<lambda>a. Option.bind (u16 g 4) (\<lambda>b. Option.bind (u16 g 6) (\<lambda>c.
    Option.bind (all_some (map (rd g) [8..<16])) (\<lambda>d.
    Some ((''{'' @ zjust 8 (show_HEX (unat a)) @ ''-'' @ zjust 4 (show_HEX (unat b)) @
            ''-'' @ zjust 4 (show_HEX (unat c)) @ ''-'' @ zjust 2 (show_HEX (unat (d ! 0))) @
            zjust 2 (show_HEX (unat (d ! 1))) @ ''-'' @ zjust 2 (show_HEX (unat (d ! 2))) @
            zjust 2 (show_HEX (unat (d ! 3))) @ zjust 2 (show_HEX (unat (d ! 4))) @
            zjust 2 (show_HEX (unat (d ! 5))) @ zjust 2 (show_HEX (unat (d ! 6))) @
            zjust 2 (show_HEX (unat (d ! 7))) @ ''}''))))))\<close>

definition show_header :: "string \<Rightarrow> header_page \<Rightarrow> string \<Rightarrow> string" where
  \<open>show_header localFile p guid =
    (nl @ ''-- header page, parsed from '' @ localFile @ '' (offsets per ods.h) --'' @ nl) @
    (''pag_type      @0   = '' @ show_nat (unat (pag_type p)) @ '' ('' @
            (pageTypeName (int (unat (pag_type p)))) @ '')'' @ nl) @
    (''pag_flags     @1   = '' @ show_nat (unat (pag_flags p)) @ nl) @
    (''hdr_page_size @16  = '' @ show_nat (unat (hdr_page_size p)) @ nl) @
    (''hdr_ods_version @18 = 0x'' @ zjust 4 (show_hex (unat (hdr_ods_version p))) @
            '' -> ODS '' @ show_nat (unat (hdr_ods_version p AND 0x7fff)) @
            '' (FIREBIRD flag 0x8000 '' @
            (if hdr_ods_version p AND 0x8000 \<noteq> 0 then ''set'' else ''clear'') @
            ''), minor @20 = '' @ show_nat (unat (hdr_ods_minor p)) @ nl) @
    (''hdr_flags     @22  = 0x'' @ zjust 2 (show_hex (unat (hdr_flags p))) @ '' ('' @
            (if hdr_flags p AND 0x2 \<noteq> 0 then ''force_write '' else []) @
            (if hdr_flags p AND 0x8 \<noteq> 0 then ''no_reserve '' else []) @
            (if hdr_flags p AND 0x10 \<noteq> 0 then ''SQL_dialect_3'' else []) @ '')'' @ nl) @
    (''hdr_PAGES     @28  = '' @ show_nat (unat (hdr_PAGES p)) @
            ''   <- pointer page of RDB$PAGES (catalog bootstrap anchor)'' @ nl) @
    (''hdr_next_transaction   @40 = '' @ show_nat (unat (hdr_next_transaction p)) @ nl) @
    (''hdr_oldest_transaction @48 = '' @ show_nat (unat (hdr_oldest_transaction p)) @
            '' (OIT)'' @ nl) @
    (''hdr_oldest_active      @56 = '' @ show_nat (unat (hdr_oldest_active p)) @
            '' (OAT)'' @ nl) @
    (''hdr_oldest_snapshot    @64 = '' @ show_nat (unat (hdr_oldest_snapshot p)) @
            '' (OST)'' @ nl) @
    (''hdr_guid      @84  = '' @ guid @ nl)\<close>


section \<open>The page census\<close>

text \<open>
  \<open>fseek\<close> to a negative offset fails; reading at or past the end of the file is \<open>EOF\<close>.  The
  page number is an \<open>unsigned long\<close>, so the product with the page size wraps at 64 bits.
\<close>

definition page_slot :: "byte \<Rightarrow> nat" where
  "page_slot c = (if unat c \<le> 10 then unat c else 0)"

partial_function (option) census ::
  "byte list \<Rightarrow> 32 word \<Rightarrow> 64 word \<Rightarrow> 32 word list \<Rightarrow> (64 word \<times> 32 word list) option" where
  "census f pageSize pageNo counts =
     (let off = pageNo * ucast pageSize :: 64 word in
      if sint off < 0 then Some (pageNo, counts)
      else (case rd f (unat off) of None \<Rightarrow> Some (pageNo, counts)
        | Some c \<Rightarrow> census f pageSize (pageNo + 1)
            (counts[page_slot c := counts ! page_slot c + 1])))"

definition show_census :: "64 word \<Rightarrow> 32 word \<Rightarrow> 32 word list \<Rightarrow> string" where
  \<open>show_census pageNo pageSize counts =
    (nl @ ''-- page-type census: '' @ show_nat (unat pageNo) @ '' pages of '' @
            show_nat (unat pageSize) @ '' bytes --'' @ nl) @
    concat (map (\<lambda>t. if counts ! t \<noteq> 0
      then (''  type '' @ rjust 2 (show_int (int t)) @ ''  '' @
            ljust 22 (pageTypeName (int t)) @ '' '' @ rjust 5 (show_nat (unat (counts ! t))) @
            nl) else [])
      [1..<11])\<close>

text \<open>The census as a step of the program: it may not return.\<close>

definition run_census :: "byte list \<Rightarrow> 32 word \<Rightarrow> ('s, 64 word \<times> 32 word list) prog" where
  "run_census f pageSize = (\<lambda>e w.
     map_option (\<lambda>r. (Ok r, w)) (census f pageSize 0 (replicate 11 0)))"

definition ods_census :: "string \<Rightarrow> byte list \<Rightarrow> ('s, int) prog" where
  \<open>ods_census localFile f =
    (if length f < 152 then (returning
       [say_err (''short read'' @ nl)]
       1)
     else (bindP (checked ''header read'' (parse_header (take 152 f))) (\<lambda>p.
      bindP (checked ''header read'' (show_guid (hdr_guid p))) (\<lambda>guid.
      seqP
       [say (show_header localFile p guid)] (
      bindP (run_census f (ucast (hdr_page_size p))) (\<lambda>c.
      returning
       [say (show_census (fst c) (ucast (hdr_page_size p)) (snd c)),
        say (''done.'' @ nl)]
       0))))))\<close>

definition ods_header_main :: "('s, int) prog" where
  \<open>ods_header_main = bindP (argOrDefault 1 ''inet://localhost//tmp/fbhandson/ods.fdb'') (\<lambda>database.
      bindP (argOrDefault 2 ''/tmp/fbhandson/ods.fdb'') (\<lambda>localFile.
      try_fb (with_Db (\<lambda>db. seqP
       [attachOrCreate db database,
        for_each [0..<3] (\<lambda>i. bindP (start db) (\<lambda>t.
      block
       [ignore (queryValue db t ''select 1 from rdb$database''),
        commit t]))] (
      bindP (start db) (\<lambda>tra.
      seqP
       [say (''-- server's view (MON$DATABASE) --'' @ nl),
        print_query db tra
        (''select mon$page_size, mon$ods_major, mon$ods_minor,'' @
        ''       mon$oldest_transaction, mon$oldest_active,'' @
        ''       mon$oldest_snapshot, mon$next_transaction '' @
        ''from mon$database''),
        commit tra,
        detach db] (
      bindP (ask_void (Os (ReadFile localFile))) (\<lambda>f.
      (if r_null f then (returning
       [say_err (localFile @ '': '' @ (r_s f) @ nl)]
       1)
      else ods_census localFile (r_b f)))))))) report))\<close>


section \<open>The readers meet the field contract\<close>

lemma le_read_field:
  assumes "v < 256 ^ n"
  shows "le_read n (enc_le n v @ rest) 0 = Some v"
  using assms by (simp add: le_read_def slice_def le_nat_enc_le)

interpretation f16: le_field 2 "\<lambda>v :: 16 word. enc_le 2 (unat v)" u16
proof
  fix v :: "16 word" and rest
  have "unat v < 256 ^ 2" using unsigned_less [of v] by simp
  then show "u16 (enc_le 2 (unat v) @ rest) 0 = Some v"
    by (simp only: u16_def le_read_field) simp
qed (auto simp: u16_def le_read_append_right le_read_bounds)

interpretation f32: le_field 4 "\<lambda>v :: 32 word. enc_le 4 (unat v)" u32
proof
  fix v :: "32 word" and rest
  have "unat v < 256 ^ 4" using unsigned_less [of v] by simp
  then show "u32 (enc_le 4 (unat v) @ rest) 0 = Some v"
    by (simp only: u32_def le_read_field) simp
qed (auto simp: u32_def le_read_append_right le_read_bounds)

interpretation f64: le_field 8 "\<lambda>v :: 64 word. enc_le 8 (unat v)" u64
proof
  fix v :: "64 word" and rest
  have "unat v < 256 ^ 8" using unsigned_less [of v] by simp
  then show "u64 (enc_le 8 (unat v) @ rest) 0 = Some v"
    by (simp only: u64_def le_read_field) simp
qed (auto simp: u64_def le_read_append_right le_read_bounds)

lemma rd_defined: "i < length b \<Longrightarrow> \<exists>x. rd b i = Some x"
  by (simp add: rd_def)

lemma slice_defined: "i + n \<le> length b \<Longrightarrow> \<exists>x. slice b i n = Some x \<and> length x = n"
  by (simp add: slice_def)


section \<open>The header parse\<close>

lemma parse_header_defined:
  assumes len: "length h = 152"
  shows "\<exists>p. parse_header h = Some p \<and> length (hdr_guid p) = 16"
proof -
  obtain ty fl where "rd h 0 = Some ty" "rd h 1 = Some fl"
    using len rd_defined [of _ h] by fastforce
  moreover obtain ps ods mi hf where "u16 h 16 = Some ps" "u16 h 18 = Some ods"
      "u16 h 20 = Some mi" "u16 h 22 = Some hf"
    using f16.dec_defined [of 16 h] f16.dec_defined [of 18 h] f16.dec_defined [of 20 h]
      f16.dec_defined [of 22 h] len by auto
  moreover obtain pg where "u32 h 28 = Some pg" using f32.dec_defined [of 28 h] len by auto
  moreover obtain nx oit oat ost where "u64 h 40 = Some nx" "u64 h 48 = Some oit"
      "u64 h 56 = Some oat" "u64 h 64 = Some ost"
    using f64.dec_defined [of 40 h] f64.dec_defined [of 48 h] f64.dec_defined [of 56 h]
      f64.dec_defined [of 64 h] len by auto
  moreover obtain g where "slice h 84 16 = Some g" "length g = 16"
    using slice_defined [of 84 16 h] len by auto
  ultimately show ?thesis by (simp add: parse_header_def)
qed

lemma all_some_map_Some: "(\<And>i. i \<in> set is \<Longrightarrow> \<exists>x. f i = Some x) \<Longrightarrow> \<exists>xs. all_some (map f is) = Some xs"
  by (induction "is") fastforce+

lemma show_guid_defined:
  assumes "length g = 16"
  shows "\<exists>s. show_guid g = Some s"
proof -
  obtain a where "u32 g 0 = Some a" using f32.dec_defined [of 0 g] assms by auto
  moreover obtain b c where "u16 g 4 = Some b" "u16 g 6 = Some c"
    using f16.dec_defined [of 4 g] f16.dec_defined [of 6 g] assms by auto
  moreover have "i \<in> set [8..<16] \<Longrightarrow> \<exists>x. rd g i = Some x" for i
    using assms by (auto intro: rd_defined)
  then obtain d where "all_some (map (rd g) [8..<16]) = Some d"
    using all_some_map_Some [of "[8..<16]" "rd g"] by blast
  ultimately show ?thesis by (simp add: show_guid_def)
qed

text \<open>The layout of \<open>ods.h\<close> as \<open>main\<close> reads it; the bytes it does not read are arbitrary.\<close>

definition layout_header :: "header_page \<Rightarrow> byte list \<Rightarrow> byte list \<Rightarrow> byte list \<Rightarrow> byte list \<Rightarrow> byte list \<Rightarrow> byte list" where
  "layout_header p x1 x2 x3 x4 x5 =
     [pag_type p, pag_flags p] @ x1
     @ enc_le 2 (unat (hdr_page_size p)) @ enc_le 2 (unat (hdr_ods_version p))
     @ enc_le 2 (unat (hdr_ods_minor p)) @ enc_le 2 (unat (hdr_flags p)) @ x2
     @ enc_le 4 (unat (hdr_PAGES p)) @ x3
     @ enc_le 8 (unat (hdr_next_transaction p)) @ enc_le 8 (unat (hdr_oldest_transaction p))
     @ enc_le 8 (unat (hdr_oldest_active p)) @ enc_le 8 (unat (hdr_oldest_snapshot p)) @ x4
     @ hdr_guid p @ x5"

lemma header_fields:
  fixes p :: header_page and x5 :: "byte list"
  assumes "length x1 = 14" "length x2 = 4" "length x3 = 8" "length x4 = 12" "length (hdr_guid p) = 16"
  defines "h \<equiv> layout_header p x1 x2 x3 x4 x5"
  shows "u16 h 16 = Some (hdr_page_size p)" "u16 h 18 = Some (hdr_ods_version p)"
    "u16 h 20 = Some (hdr_ods_minor p)" "u16 h 22 = Some (hdr_flags p)"
    "u32 h 28 = Some (hdr_PAGES p)"
    "u64 h 40 = Some (hdr_next_transaction p)" "u64 h 48 = Some (hdr_oldest_transaction p)"
    "u64 h 56 = Some (hdr_oldest_active p)" "u64 h 64 = Some (hdr_oldest_snapshot p)"
    "slice h 84 16 = Some (hdr_guid p)"
proof -
  let ?a = "[pag_type p, pag_flags p] @ x1"
  let ?b = "?a @ enc_le 2 (unat (hdr_page_size p))"
  let ?c = "?b @ enc_le 2 (unat (hdr_ods_version p))"
  let ?d = "?c @ enc_le 2 (unat (hdr_ods_minor p))"
  let ?e = "?d @ enc_le 2 (unat (hdr_flags p)) @ x2"
  let ?f = "?e @ enc_le 4 (unat (hdr_PAGES p)) @ x3"
  let ?g = "?f @ enc_le 8 (unat (hdr_next_transaction p))"
  let ?i = "?g @ enc_le 8 (unat (hdr_oldest_transaction p))"
  let ?j = "?i @ enc_le 8 (unat (hdr_oldest_active p))"
  let ?k = "?j @ enc_le 8 (unat (hdr_oldest_snapshot p)) @ x4"
  note len = assms(1-5)
  show "u16 h 16 = Some (hdr_page_size p)" "u16 h 18 = Some (hdr_ods_version p)"
    "u16 h 20 = Some (hdr_ods_minor p)" "u16 h 22 = Some (hdr_flags p)"
    using len f16.dec_at [of ?a 16] f16.dec_at [of ?b 18] f16.dec_at [of ?c 20] f16.dec_at [of ?d 22]
    by (simp_all add: h_def layout_header_def)
  show "u32 h 28 = Some (hdr_PAGES p)"
    using len f32.dec_at [of ?e 28] by (simp add: h_def layout_header_def)
  show "u64 h 40 = Some (hdr_next_transaction p)" "u64 h 48 = Some (hdr_oldest_transaction p)"
    "u64 h 56 = Some (hdr_oldest_active p)" "u64 h 64 = Some (hdr_oldest_snapshot p)"
    using len f64.dec_at [of ?f 40] f64.dec_at [of ?g 48] f64.dec_at [of ?i 56] f64.dec_at [of ?j 64]
    by (simp_all add: h_def layout_header_def)
  show "slice h 84 16 = Some (hdr_guid p)"
    using len slice_append_hd [of ?k "hdr_guid p" x5] by (simp add: h_def layout_header_def)
qed

lemma parse_layout:
  fixes p :: header_page
  assumes "length x1 = 14" "length x2 = 4" "length x3 = 8" "length x4 = 12" "length (hdr_guid p) = 16"
  shows "parse_header (layout_header p x1 x2 x3 x4 x5) = Some p"
proof -
  have "rd (layout_header p x1 x2 x3 x4 x5) 0 = Some (pag_type p)"
    "rd (layout_header p x1 x2 x3 x4 x5) 1 = Some (pag_flags p)"
    by (simp_all add: layout_header_def rd_def)
  then show ?thesis using header_fields [OF assms] by (simp add: parse_header_def)
qed


section \<open>The census\<close>

lemma unat_ucast_64 [simp]: "unat (ucast (x :: 32 word) :: 64 word) = unat x"
proof -
  have "unat x < 2 ^ LENGTH(32)" by (rule unsigned_less)
  then have "unat x < 2 ^ LENGTH(64)" by simp
  then show ?thesis by (simp only: unsigned_ucast_eq take_bit_nat_eq_self)
qed

lemma census_step:
  assumes "unat pageNo * unat pageSize < 2 ^ 63"
  shows "census f pageSize pageNo counts =
    (case rd f (unat pageNo * unat pageSize) of None \<Rightarrow> Some (pageNo, counts)
     | Some c \<Rightarrow> census f pageSize (pageNo + 1) (counts[page_slot c := counts ! page_slot c + 1]))"
proof -
  have "unat pageNo * unat (ucast pageSize :: 64 word) < 2 ^ LENGTH(64)" using assms by simp
  then have u: "unat (pageNo * ucast pageSize :: 64 word) = unat pageNo * unat pageSize"
    by (simp only: unat_mult_lem [THEN iffD1] unat_ucast_64)
  then have "sint (pageNo * ucast pageSize :: 64 word) = int (unat (pageNo * ucast pageSize :: 64 word))"
    using assms by (intro sint_small) simp
  then have "\<not> sint (pageNo * ucast pageSize :: 64 word) < 0"
    by (simp only: of_nat_less_0_iff not_False_eq_True)
  then show ?thesis by (subst census.simps) (simp add: Let_def u)
qed

text \<open>The pages of a file and what the census should say of them.\<close>

definition page_count :: "byte list \<Rightarrow> nat \<Rightarrow> nat" where
  "page_count f ps = (length f + ps - 1) div ps"

definition page_bytes :: "byte list \<Rightarrow> nat \<Rightarrow> byte list" where
  "page_bytes f ps = map (\<lambda>i. f ! (i * ps)) [0..<page_count f ps]"

text \<open>The pages of type \<open>t\<close>; those whose type is none of the eleven count as type 0.\<close>

definition slot_count :: "byte list \<Rightarrow> nat \<Rightarrow> nat" where
  "slot_count bs t = length (filter (\<lambda>c. unat c = t \<or> t = 0 \<and> 10 < unat c) bs)"

lemma slot_count_slot: "t < 11 \<Longrightarrow> slot_count bs t = length (filter (\<lambda>c. page_slot c = t) bs)"
  unfolding slot_count_def by (rule arg_cong [where f = length], rule filter_cong) (auto simp: page_slot_def)

lemma page_count_iff:
  assumes "0 < ps"
  shows "i * ps < length f \<longleftrightarrow> i < page_count f ps"
proof -
  have "i < page_count f ps \<longleftrightarrow> Suc i * ps \<le> length f + ps - 1"
    using assms by (simp add: page_count_def less_eq_div_iff_mult_less_eq Suc_le_eq [symmetric]
        del: mult_Suc)
  then show ?thesis using assms by auto
qed

lemma page_slot_less [simp]: "page_slot c < 11"
  by (simp add: page_slot_def)

lemma tally_step:
  assumes "counts = map (\<lambda>t. of_nat (slot_count bs t)) [0..<11]"
  shows "counts[page_slot c := counts ! page_slot c + 1] =
    (map (\<lambda>t. of_nat (slot_count (bs @ [c]) t)) [0..<11] :: 32 word list)"
  using assms by (auto intro!: nth_equalityI simp: slot_count_slot nth_list_update)

lemma census_from:
  assumes ps: "0 < unat pageSize" and len: "length f + unat pageSize < 2 ^ 63"
    and n: "n \<le> page_count f (unat pageSize)"
  shows "census f pageSize (of_nat n)
      (map (\<lambda>t. of_nat (slot_count (take n (page_bytes f (unat pageSize))) t)) [0..<11]) =
    Some (of_nat (page_count f (unat pageSize)),
      map (\<lambda>t. of_nat (slot_count (page_bytes f (unat pageSize)) t)) [0..<11])"
  using n
proof (induction "page_count f (unat pageSize) - n" arbitrary: n)
  case 0
  let ?ps = "unat pageSize"
  have n: "n = page_count f ?ps" using 0 by simp
  have "(page_count f ?ps - 1) * ?ps < length f \<or> page_count f ?ps = 0"
    using page_count_iff [OF ps] by (cases "page_count f ?ps") auto
  then have b: "n * ?ps < 2 ^ 63" using n len by (cases "page_count f ?ps") auto
  have "n \<le> n * ?ps" using ps by simp
  then have "n < 2 ^ 63" using b by (rule le_less_trans)
  then have u: "unat (of_nat n :: 64 word) = n" by (simp add: unat_of_nat)
  have "rd f (n * ?ps) = None" using page_count_iff [OF ps, of n f] n by (simp add: rd_def)
  then have "census f pageSize (of_nat n) c = Some (of_nat n, c)" for c
    using b by (subst census_step) (simp_all add: u)
  then show ?case using n by (simp add: page_bytes_def)
next
  case (Suc k)
  let ?ps = "unat pageSize"
  let ?t = "\<lambda>n. map (\<lambda>t. of_nat (slot_count (take n (page_bytes f ?ps)) t)) [0..<11] :: 32 word list"
  have lt: "n < page_count f ?ps" using Suc by simp
  then have off: "n * ?ps < length f" using page_count_iff [OF ps] by simp
  moreover have "n \<le> n * ?ps" using ps by simp
  ultimately have "n < 2 ^ 63" using len by linarith
  then have u: "unat (of_nat n :: 64 word) = n" by (simp add: unat_of_nat)
  have "take (Suc n) (page_bytes f ?ps) = take n (page_bytes f ?ps) @ [f ! (n * ?ps)]"
    using lt by (simp add: page_bytes_def take_Suc_conv_app_nth)
  then have "(?t n)[page_slot (f ! (n * ?ps)) := ?t n ! page_slot (f ! (n * ?ps)) + 1] = ?t (Suc n)"
    using tally_step [OF refl, of "take n (page_bytes f ?ps)" "f ! (n * ?ps)"] by simp
  then have "census f pageSize (of_nat n) (?t n) = census f pageSize (of_nat (Suc n)) (?t (Suc n))"
    using off len by (subst census_step) (simp_all add: u rd_def add.commute)
  also have "\<dots> = Some (of_nat (page_count f ?ps),
      map (\<lambda>t. of_nat (slot_count (page_bytes f ?ps) t)) [0..<11])"
    using Suc.hyps(1) [of "Suc n"] Suc.hyps(2) lt by simp
  finally show ?case .
qed

lemma slot_count_sum: "(\<Sum>t<11. slot_count bs t) = length bs"
proof (induction bs)
  case (Cons c bs)
  have "(\<Sum>t<11. slot_count (c # bs) t) = (\<Sum>t<11. (if page_slot c = t then 1 else 0) + slot_count bs t)"
    by (rule sum.cong) (simp_all add: slot_count_slot)
  also have "\<dots> = 1 + (\<Sum>t<11. slot_count bs t)"
    by (simp add: sum.distrib)
  finally show ?case using Cons by simp
qed (simp add: slot_count_def)

lemma census_page_size_0:
  assumes "f \<noteq> []"
  shows "census f 0 pageNo counts = None"
proof (cases "census f 0 pageNo counts")
  case (Some y)
  have "f = f \<and> (0 :: 32 word) = 0 \<longrightarrow> f = []"
  proof (rule census.raw_induct [where P = "\<lambda>f' ps _ _ _. f' = f \<and> ps = 0 \<longrightarrow> f = []", OF _ Some])
    fix cen :: "byte list \<Rightarrow> 32 word \<Rightarrow> 64 word \<Rightarrow> 32 word list \<Rightarrow> (64 word \<times> 32 word list) option"
      and f' ps pn cs y
    assume IH: "\<And>f' ps pn cs y. cen f' ps pn cs = Some y \<Longrightarrow> f' = f \<and> ps = 0 \<longrightarrow> f = []"
      and eq: "(let off = pn * ucast ps :: 64 word in
        if sint off < 0 then Some (pn, cs)
        else (case rd f' (unat off) of None \<Rightarrow> Some (pn, cs)
          | Some c \<Rightarrow> cen f' ps (pn + 1) (cs[page_slot c := cs ! page_slot c + 1]))) = Some y"
    show "f' = f \<and> ps = 0 \<longrightarrow> f = []"
    proof (intro impI, elim conjE)
      assume "f' = f" and "ps = 0"
      then show "f = []" using eq assms by (auto simp: rd_def dest: IH)
    qed
  qed
  then show ?thesis using assms by simp
qed simp


section \<open>The program\<close>

lemma okd_run_census [okd_rules]: "okd k (run_census f ps) 0"
  by (auto simp: okd_def run_census_def)

lemma att_run_census [att_rules]: "keeps (\<lambda>w. att_view w = v) (run_census f ps)"
  by (rule keepsI) (auto simp: run_census_def)

lemma okd_ods_census [okd_rules]: "okd k (ods_census l f) 0"
  unfolding ods_census_def by (rule okd_eq) (rule okd_rules | simp)+

lemma att_ods_census [att_rules]: "keeps (\<lambda>w. att_view w = v) (ods_census l f)"
  unfolding ods_census_def by (intro quiet_rules att_rules)

lemma ods_header_reports: "reports ods_header_main"
  unfolding ods_header_main_def ods_census_def
  by (intro reports_arg reports_try returns_rules; simp add: nl_def)

lemma ods_header_okd: "k \<notin> {KStatus, KProv, KAtt} \<Longrightarrow> okd0 k ods_header_main"
  unfolding ods_header_main_def
  by (rule okd0_arg okd0_main okd_with_Db okd_attachOrCreate okd_rules
    | assumption | simp add: delta_simps)+

lemma ods_header_att: "att_triple b {} {} ods_header_main {}"
  unfolding ods_header_main_def
  by (rule att_flow
    | (rule att_quiet, (intro quiet_rules att_rules; simp add: delta_simps))
    | (rule att_leaf, (intro quiet_rules att_rules; simp add: delta_simps), simp) | simp)+


section \<open>Properties\<close>

text \<open>
  C20.  Parsing inverts the layout of \<open>ods.h\<close>: every field \<open>main\<close> prints is the value stored at its
  offset, whatever the bytes in between.
\<close>

theorem header_roundtrip:
  fixes p :: header_page
  assumes "length x1 = 14" and "length x2 = 4" and "length x3 = 8" and "length x4 = 12"
    and "length (hdr_guid p) = 16"
  shows "parse_header (layout_header p x1 x2 x3 x4 x5) = Some p"
  by (rule parse_layout [OF assms])

definition demo_page :: header_page where
  "demo_page = \<lparr>pag_type = 1, pag_flags = 0, hdr_page_size = 8192, hdr_ods_version = 0x800E,
     hdr_ods_minor = 0, hdr_flags = 0x12, hdr_PAGES = 4, hdr_next_transaction = 77,
     hdr_oldest_transaction = 70, hdr_oldest_active = 71, hdr_oldest_snapshot = 71,
     hdr_guid = replicate 16 7\<rparr>"

theorem header_roundtrip_witness:
  "parse_header (layout_header demo_page (replicate 14 0) (replicate 4 0) (replicate 8 0)
     (replicate 12 0) (replicate 52 0)) = Some demo_page"
  by (rule header_roundtrip) (simp_all add: demo_page_def)

text \<open>
  C21.  On a file of at least 152 bytes the part of \<open>main\<close> that reads the header and takes the census
  never fails: no read leaves the buffer, whatever the bytes are.
\<close>

theorem header_read_safe:
  assumes "152 \<le> length f"
  shows "ods_census localFile f e w \<noteq> Some (Fail x, w')"
proof -
  obtain p where p: "parse_header (take 152 f) = Some p" "length (hdr_guid p) = 16"
    using parse_header_defined [of "take 152 f"] assms by auto
  obtain g where "show_guid (hdr_guid p) = Some g" using show_guid_defined [OF p(2)] by blast
  then show ?thesis
    using assms p(1)
    by (auto simp: ods_census_def checked_def bindP_def seqP_def returning_def run_census_def run_simps
        split: option.splits)
qed

theorem header_read_safe_witness:
  "\<forall>e w x w'. ods_census ''f'' (replicate 152 1) e w \<noteq> Some (Fail x, w')"
  by (intro allI header_read_safe) simp

text \<open>
  C22.  For a page size above 0 the census loop ends after visiting every page of the file once: the page
  number it reports is the number of pages (the last one possibly partial), the count of each type
  is the number of pages whose first byte is that type (unknown types count as 0), and the counts
  add up to the number of pages.
\<close>

theorem census_counts:
  assumes "0 < unat pageSize" and "length f + unat pageSize < 2 ^ 63"
  shows "census f pageSize 0 (replicate 11 0) =
      Some (of_nat (page_count f (unat pageSize)),
        map (\<lambda>t. of_nat (slot_count (page_bytes f (unat pageSize)) t)) [0..<11])
    \<and> (\<Sum>t<11. slot_count (page_bytes f (unat pageSize)) t) = page_count f (unat pageSize)"
proof
  have "(replicate 11 0 :: 32 word list) =
      map (\<lambda>t. of_nat (slot_count (take 0 (page_bytes f (unat pageSize))) t)) [0..<11]"
    by (rule nth_equalityI) (simp_all add: slot_count_def)
  then show "census f pageSize 0 (replicate 11 0) =
      Some (of_nat (page_count f (unat pageSize)),
        map (\<lambda>t. of_nat (slot_count (page_bytes f (unat pageSize)) t)) [0..<11])"
    using census_from [OF assms, of 0] by simp
  show "(\<Sum>t<11. slot_count (page_bytes f (unat pageSize)) t) = page_count f (unat pageSize)"
    using slot_count_sum [of "page_bytes f (unat pageSize)"] by (simp add: page_bytes_def)
qed

theorem census_counts_witness:
  "census [1, 0, 5, 0, 5] 2 0 (replicate 11 0) = Some (3, [0, 1, 0, 0, 0, 2, 0, 0, 0, 0, 0])"
proof -
  have "page_bytes [1, 0, 5, 0, 5] 2 = [1, 5, 5]"
    by (simp add: page_bytes_def page_count_def upt_rec)
  then show ?thesis
    using census_counts [of "2 :: 32 word" "[1, 0, 5, 0, 5]"]
    by (simp add: page_count_def slot_count_def page_slot_def upt_rec)
qed

text \<open>
  C23.  A header with page size 0 keeps the sample busy for ever: the loop then reads the first byte of
  the file again and again and never leaves.
\<close>

theorem census_page_size_zero:
  assumes "152 \<le> length f" and "parse_header (take 152 f) = Some p" and "hdr_page_size p = 0"
  shows "ods_census localFile f e w = None"
proof -
  have "f \<noteq> []" using assms(1) by auto
  then have "run_census f (ucast (hdr_page_size p)) e w' = None" for w' :: "'a world"
    by (simp add: run_census_def assms(3) census_page_size_0)
  moreover have "length (hdr_guid p) = 16"
    using parse_header_defined [of "take 152 f"] assms(1,2) by auto
  then obtain g where "show_guid (hdr_guid p) = Some g" using show_guid_defined by blast
  ultimately show ?thesis
    using assms(1,2)
    by (simp add: ods_census_def checked_def bindP_def seqP_def returning_def run_simps)
qed

theorem census_page_size_zero_witness:
  "\<forall>e w. ods_census ''f'' (layout_header (demo_page\<lparr>hdr_page_size := 0\<rparr>) (replicate 14 0) (replicate 4 0)
     (replicate 8 0) (replicate 12 0) (replicate 52 0)) e w = None"
proof (intro allI census_page_size_zero [where p = "demo_page\<lparr>hdr_page_size := 0\<rparr>"])
  let ?p = "demo_page\<lparr>hdr_page_size := 0\<rparr>"
  let ?f = "layout_header ?p (replicate 14 0) (replicate 4 0) (replicate 8 0) (replicate 12 0) (replicate 52 0)"
  show len: "152 \<le> length ?f" by (simp add: layout_header_def demo_page_def)
  have "length ?f = 152" by (simp add: layout_header_def demo_page_def)
  then show "parse_header (take 152 ?f) = Some ?p"
    using parse_layout [of "replicate 14 0" "replicate 4 0" "replicate 8 0" "replicate 12 0" ?p]
    by (simp add: demo_page_def)
  show "hdr_page_size ?p = 0" by (simp add: demo_page_def)
qed

end
