(* ===== verification/Blob_Info.thy ===== *)
theory Blob_Info
  imports Sample_Kit
begin

text \<open>
  \<open>samples/cpp/blobs.cpp\<close>: segmented blobs and the decoder \<open>infoValue\<close> of the
  item / 2-byte length / value clumplets that \<open>getInfo\<close> returns.  The decoder works on the
  bytes as the C++ does, with every read checked; it is shown to return the value of the
  first clumplet with the item and -1 when there is none, to read inside the buffer on every
  well-formed answer, and to stop on every input.
\<close>


section \<open>infoValue\<close>

text \<open>\<open>for (i = 0; i < clen && i < 4; ++i) v |= long(p[i]) << (8 * i)\<close>, on 64-bit longs.\<close>

definition or_bytes :: "byte list \<Rightarrow> 64 word" where
  "or_bytes bs = fold (\<lambda>(i, b) v. v OR push_bit (8 * i) (ucast b)) (enumerate 0 bs) 0"

function infoValue_at :: "nat \<Rightarrow> byte list \<Rightarrow> nat \<Rightarrow> byte \<Rightarrow> nat \<Rightarrow> int option" where
  "infoValue_at info_end buf len item p =
     (if p < len then
        (case rd buf p of None \<Rightarrow> None
         | Some it \<Rightarrow>
             if unat it = info_end then Some (- 1)
             else (case le_read 2 buf (p + 1) of None \<Rightarrow> None
               | Some clen \<Rightarrow>
                   if it = item
                   then map_option (\<lambda>bs. sint (or_bytes bs)) (slice buf (p + 3) (min clen 4))
                   else infoValue_at info_end buf len item (p + 3 + clen)))
      else Some (- 1))"
  by pat_completeness auto

termination infoValue_at
  by (relation "measure (\<lambda>(_, _, len, _, p). len - p)") auto

definition infoValue :: "header_values \<Rightarrow> byte list \<Rightarrow> nat \<Rightarrow> info_item \<Rightarrow> int option" where
  "infoValue h buf len item =
     infoValue_at (info_val h isc_info_end) buf len (of_nat (info_val h item)) 0"


section \<open>The program\<close>

text \<open>\<open>memcpy\<close> into a message buffer.\<close>

definition poke :: "byte list \<Rightarrow> nat \<Rightarrow> byte list \<Rightarrow> byte list option" where
  "poke buf off bs =
     (if off + length bs \<le> length buf
      then Some (take off buf @ bs @ drop (off + length bs) buf) else None)"

definition blob_segments :: "string list" where
  \<open>blob_segments = [''first segment'', ''second, longer segment'', ''third'']\<close>

definition blob_write :: "Db \<Rightarrow> nat \<Rightarrow> ('s, unit) prog" where
  \<open>blob_write db tra = bindP (att_of db) (\<lambda>a.
      bindP (ask (Att a (CreateBlob tra))) (\<lambda>b.
      seqP
       [for_each blob_segments (\<lambda>seg. do_call (Blob (r_h b) (PutSegment (bytes_of seg)))),
        do_call (Blob (r_h b) BlobClose),
        say (''wrote 3 segments into a new text blob'' @ nl)] (
      bindP (prepare db tra ''insert into docs (id, note) values (?, ?)'' False) (\<lambda>stmt.
      bindP (handle_of (Stmt stmt GetInputMetadata)) (\<lambda>inm.
      bindP (number_of (Meta inm GetMessageLength)) (\<lambda>len.
      bindP (number_of (Meta inm (GetOffset 0))) (\<lambda>off0.
      bindP (checked ''message write'' (poke (replicate len 0) off0 (enc_le 4 1))) (\<lambda>m1.
      bindP (number_of (Meta inm (GetOffset 1))) (\<lambda>off1.
      bindP (checked ''message write'' (poke m1 off1 (fit 8 (r_b b)))) (\<lambda>m2.
      block
       [do_call (Stmt stmt (StmtExecute tra m2 None)),
        do_void (Meta inm MetaRelease),
        do_call (Stmt stmt StmtFree)]))))))))))\<close>

definition blob_readId :: "Db \<Rightarrow> nat \<Rightarrow> ('s, byte list) prog" where
  \<open>blob_readId db tra = bindP (prepare db tra ''select note from docs where id = 1'' False) (\<lambda>stmt.
      bindP (handle_of (Stmt stmt GetOutputMetadata)) (\<lambda>outm.
      bindP (number_of (Meta outm GetMessageLength)) (\<lambda>len.
      bindP (handle_of (Stmt stmt (OpenCursor tra None))) (\<lambda>rs.
      bindP (fetch_into rs len) (\<lambda>row.
      bindP (number_of (Meta outm (GetOffset 0))) (\<lambda>off.
      bindP (checked ''message read'' (slice row off 8)) (\<lambda>readId.
      returning
       [do_call (Curs rs CursClose),
        do_void (Meta outm MetaRelease),
        do_call (Stmt stmt StmtFree)]
       readId)))))))\<close>

text \<open>
  The segment loop: \<open>seg\<close> is a \<open>char[64]\<close> of which 63 bytes are offered to the library, so
  the terminating zero fits.
\<close>

definition blob_readSegments :: "nat \<Rightarrow> ('s, unit) prog" where
  \<open>blob_readSegments blob =
    ignore (loopP (\<lambda>n. bindP (ask (Blob blob (GetSegment 63))) (\<lambda>r.
      (if r_code r = RESULT_OK
      then (bindP (checked ''seg[segLen]'' (if length (r_b r) \<le> 63 then Some (r_b r) else None)) (\<lambda>seg.
      returning
       [say (''  getSegment #'' @ show_nat (Suc n) @ '': '' @ rjust 2 (show_nat (length seg)) @
            '' bytes  "'' @ (c_str (chars seg)) @ ''"'' @ nl)]
       (Inl (Suc n))))
      else ret (Inr ())))) 0)\<close>

definition blob_describe :: "nat \<Rightarrow> ('s, unit) prog" where
  \<open>blob_describe blob = bindP (ask (Blob blob (GetInfo [isc_info_blob_num_segments, isc_info_blob_max_segment,
      isc_info_blob_total_length, isc_info_blob_type] 64))) (\<lambda>r.
      bindP (headers) (\<lambda>h.
      let info = fit 64 (r_b r) in
      bindP (checked ''info read'' (infoValue h info 64 isc_info_blob_num_segments)) (\<lambda>v1.
      bindP (checked ''info read'' (infoValue h info 64 isc_info_blob_max_segment)) (\<lambda>v2.
      bindP (checked ''info read'' (infoValue h info 64 isc_info_blob_total_length)) (\<lambda>v3.
      bindP (checked ''info read'' (infoValue h info 64 isc_info_blob_type)) (\<lambda>v4.
      block
       [say (''blob info: '' @ show_int v1 @ '' segments, longest '' @ show_int v2 @
            '', total '' @ show_int v3 @ '' bytes, type '' @ show_int v4 @
            '' (0=segmented)'' @ nl)]))))))\<close>

definition blobs_main :: "('s, int) prog" where
  \<open>blobs_main = bindP (argOrDefault 1 ''inet://localhost//tmp/fbhandson/blobs.fdb'') (\<lambda>database.
      try_fb (with_Db (\<lambda>db. seqP
       [attachOrCreate db database] (
      bindP (start db) (\<lambda>tra.
      seqP
       [exec db tra (''recreate table docs ('' @
        '' id integer primary key,'' @
        '' note blob sub_type text character set utf8,'' @
        '' data blob sub_type binary)''),
        commit tra] (
      bindP (start db) (\<lambda>tra.
      seqP
       [blob_write db tra] (
      bindP (blob_readId db tra) (\<lambda>readId.
      bindP (att_of db) (\<lambda>a.
      bindP (handle_of (Att a (OpenBlob tra readId))) (\<lambda>blob.
      seqP
       [blob_readSegments blob,
        blob_describe blob,
        do_call (Blob blob BlobClose),
        say (nl @ ''-- column subtypes (RDB$FIELDS) --'' @ nl)] (
      bindP (query db tra
        (''select trim(rf.rdb$field_name), f.rdb$field_sub_type, trim(cs.rdb$character_set_name) '' @
        ''from rdb$relation_fields rf '' @
        ''join rdb$fields f on rf.rdb$field_source = f.rdb$field_name '' @
        ''left join rdb$character_sets cs '' @
        ''  on f.rdb$character_set_id = cs.rdb$character_set_id '' @
        ''where rf.rdb$relation_name = 'DOCS' and f.rdb$field_type = 261 '' @
        ''order by 1'')) (\<lambda>sub.
      seqP
       [print (sub\<lparr>names := [''FIELD'', ''SUBTYPE'', ''CHARSET'']\<rparr>),
        exec db tra (''insert into docs (id, note) values (2, '' @
        ''blob_append(cast('' @ [CHR 0x27, CHR 0x27] @ '' as blob sub_type text), 'part1-', 'part2-', 'part3'))''),
        say (nl @ ''-- BLOB_APPEND result --'' @ nl)] (
      bindP (query db tra
        (''select id, octet_length(note), char_length(note), cast(note as varchar(50)) '' @
        ''from docs where id = 2'')) (\<lambda>ba.
      returning
       [print (ba\<lparr>names := [''ID'', ''OCTETS'', ''CHARS'', ''CONTENT'']\<rparr>),
        commit tra,
        detach db,
        say (''done.'' @ nl)]
       0)))))))))))))) report)\<close>


section \<open>Decoding\<close>

declare infoValue_at.simps [simp del]

text \<open>Disjoint bytes: the bitwise or of the shifted bytes is their little-endian value.\<close>

lemma or_bytes_append:
  "or_bytes (bs @ [b]) = or_bytes bs OR push_bit (8 * length bs) (ucast b)"
  by (simp add: or_bytes_def enumerate_append_eq)

lemma le_nat_append: "le_nat (xs @ ys) = le_nat xs + 256 ^ length xs * le_nat ys"
  by (induction xs) (simp_all add: algebra_simps)

lemma uint_or_disjoint:
  fixes x y :: "64 word"
  assumes "unat x < 2 ^ n" and "unat y = 2 ^ n * m"
  shows "unat (x OR y) = unat x + unat y"
proof -
  have "take_bit n (unat x) = unat x" using assms(1) by (rule take_bit_nat_eq_self)
  moreover have "unat y = push_bit n m" using assms(2) by (simp add: push_bit_eq_mult)
  ultimately have "unat x AND unat y = take_bit n (unat x) AND push_bit n m" by simp
  also have "\<dots> = 0" by (auto simp: bit_eq_iff bit_simps)
  finally have "unat x OR unat y = unat x + unat y" by (simp add: disjunctive_add_eq_or)
  then show ?thesis by (simp add: unsigned_or_eq)
qed

lemma or_bytes_le_nat:
  assumes "length bs \<le> 4"
  shows "unat (or_bytes bs) = le_nat bs"
  using assms
proof (induction bs rule: rev_induct)
  case Nil
  show ?case by (simp add: or_bytes_def)
next
  case (snoc b bs)
  let ?n = "8 * length bs"
  have IH: "unat (or_bytes bs) = le_nat bs" using snoc by simp
  have p: "(256 :: nat) ^ length bs = 2 ^ ?n" by (simp add: power_mult)
  have "unat b < 2 ^ 8" by simp
  moreover have "?n + 8 \<le> 64" using snoc.prems by simp
  ultimately have "unat b * 2 ^ ?n < 2 ^ (8 + ?n)" by (simp add: power_add)
  also have "\<dots> \<le> 2 ^ 64" using \<open>?n + 8 \<le> 64\<close> by (intro power_increasing) auto
  finally have lt: "unat b * 2 ^ ?n < 2 ^ 64" .
  have y: "unat (push_bit ?n (ucast b :: 64 word)) = 2 ^ ?n * unat b"
  proof -
    have "unat (ucast b :: 64 word) = unat b"
    proof -
      have "unat b < 2 ^ LENGTH(64)" by (rule less_trans [OF byte_less]) simp
      then show ?thesis by (simp only: unsigned_ucast_eq take_bit_nat_eq_self)
    qed
    moreover have "push_bit ?n (unat b) < 2 ^ LENGTH(64)" using lt by (simp add: push_bit_eq_mult)
    ultimately show ?thesis
      by (simp only: unsigned_push_bit_eq take_bit_nat_eq_self) (simp add: push_bit_eq_mult)
  qed
  have "unat (or_bytes bs) < 2 ^ ?n" using IH le_nat_less [of bs] p by simp
  from uint_or_disjoint [OF this y] show ?case
    using IH y p by (simp add: or_bytes_append le_nat_append mult.commute)
qed

lemma sint_or_bytes: "length bs \<le> 4 \<Longrightarrow> sint (or_bytes bs) = int (le_nat bs)"
proof -
  assume len: "length bs \<le> 4"
  have "le_nat bs < 256 ^ length bs" by (rule le_nat_less)
  also have "\<dots> \<le> 256 ^ 4" using len by (intro power_increasing) auto
  finally have "unat (or_bytes bs) < 2 ^ 63" using or_bytes_le_nat [OF len] by simp
  then show ?thesis using or_bytes_le_nat [OF len] by (simp add: sint_small)
qed

text \<open>A well-formed answer: clumplets, the end marker, anything after it.\<close>

fun clumplets :: "(byte \<times> byte list) list \<Rightarrow> byte list" where
  "clumplets [] = []"
| "clumplets ((it, bs) # cs) = it # enc_le 2 (length bs) @ bs @ clumplets cs"

definition clumplets_ok :: "nat \<Rightarrow> (byte \<times> byte list) list \<Rightarrow> bool" where
  "clumplets_ok e cs \<longleftrightarrow> (\<forall>(it, bs) \<in> set cs. unat it \<noteq> e \<and> length bs < 65536)"

definition info_lookup :: "(byte \<times> byte list) list \<Rightarrow> byte \<Rightarrow> int" where
  "info_lookup cs item = (case map_of cs item of None \<Rightarrow> - 1 | Some bs \<Rightarrow> int (le_nat (take 4 bs)))"

lemma clumplet_reads:
  assumes "length bs < 65536"
  shows "rd (pre @ clumplets ((it, bs) # cs) @ rest) (length pre) = Some it"
    and "le_read 2 (pre @ clumplets ((it, bs) # cs) @ rest) (length pre + 1) = Some (length bs)"
    and "slice (pre @ clumplets ((it, bs) # cs) @ rest) (length pre + 3) (min (length bs) 4) = Some (take 4 bs)"
proof -
  show "rd (pre @ clumplets ((it, bs) # cs) @ rest) (length pre) = Some it"
    by (simp add: rd_def nth_append)
  have "le_read 2 (it # enc_le 2 (length bs) @ bs @ clumplets cs @ rest) 1 = Some (length bs)"
    using assms by (simp add: le_read_def slice_def le_nat_enc_le)
  then show "le_read 2 (pre @ clumplets ((it, bs) # cs) @ rest) (length pre + 1) = Some (length bs)"
    by (simp only: le_read_append_right clumplets.simps append_Cons append_assoc)
  have "slice (it # enc_le 2 (length bs) @ bs @ clumplets cs @ rest) 3 (min (length bs) 4) = Some (take 4 bs)"
    by (simp add: slice_def min_def)
  then show "slice (pre @ clumplets ((it, bs) # cs) @ rest) (length pre + 3) (min (length bs) 4) = Some (take 4 bs)"
    by (simp only: slice_append_right clumplets.simps append_Cons append_assoc)
qed

lemma infoValue_from:
  assumes "clumplets_ok e cs" and "unat w = e"
  shows "infoValue_at e (pre @ clumplets cs @ w # rest) (length pre + length (clumplets cs @ w # rest))
     item (length pre) = Some (info_lookup cs item)"
  using assms(1)
proof (induction cs arbitrary: pre)
  case Nil
  have "rd (pre @ w # rest) (length pre) = Some w" by (simp add: rd_def nth_append)
  then show ?case using assms(2)
    by (subst infoValue_at.simps) (simp add: info_lookup_def)
next
  case (Cons c cs)
  obtain it bs where c: "c = (it, bs)" by force
  have ok: "clumplets_ok e cs" "unat it \<noteq> e" "length bs < 65536"
    using Cons.prems c by (auto simp: clumplets_ok_def)
  note reads = clumplet_reads [OF ok(3), of pre it cs "w # rest"]
  let ?pre = "pre @ it # enc_le 2 (length bs) @ bs"
  have shift: "?pre @ clumplets cs @ w # rest = pre @ clumplets ((it, bs) # cs) @ w # rest"
    by simp
  show ?case
  proof (cases "it = item")
    case True
    then show ?thesis
      using reads ok(2) c by (subst infoValue_at.simps) (simp add: info_lookup_def sint_or_bytes)
  next
    case False
    have "infoValue_at e (pre @ clumplets (c # cs) @ w # rest)
        (length pre + length (clumplets (c # cs) @ w # rest)) item (length pre)
      = infoValue_at e (?pre @ clumplets cs @ w # rest)
        (length ?pre + length (clumplets cs @ w # rest)) item (length ?pre)"
      using reads ok(2) False c by (subst infoValue_at.simps) (simp add: add_ac numeral_3_eq_3)
    also have "\<dots> = Some (info_lookup cs item)" by (rule Cons.IH [OF ok(1)])
    finally show ?thesis using False c by (simp add: info_lookup_def)
  qed
qed

lemma infoValue_range:
  "infoValue_at e buf len item p = Some v \<Longrightarrow> v = - 1 \<or> 0 \<le> v \<and> v < 2 ^ 32"
proof (induction e buf len item p rule: infoValue_at.induct)
  case (1 e buf len item p)
  have val: "0 \<le> sint (or_bytes bs) \<and> sint (or_bytes bs) < 2 ^ 32" if l: "length bs = min n 4" for bs n
  proof -
    have that: "length bs \<le> 4" using l by simp
    have "le_nat bs < 256 ^ length bs" by (rule le_nat_less)
    also have "\<dots> \<le> 256 ^ 4" using that by (intro power_increasing) auto
    finally show ?thesis using sint_or_bytes [OF that] by simp
  qed
  show ?case using 1
    by (subst (asm) (2) infoValue_at.simps)
      (auto split: if_splits option.splits dest!: slice_length val)
qed


section \<open>Interfaces\<close>

lemma okd_blobs [okd_rules]:
  "okd k (blob_write db tra) 0" "okd k (blob_readId db tra) 0" "okd k (blob_readSegments h) 0"
  "okd k (blob_describe h) 0"
  unfolding blob_write_def blob_readId_def blob_readSegments_def blob_describe_def
  by ((rule okd_eq, (rule okd_rules | simp add: delta_simps)+)[1])+

lemma att_blobs [att_rules]:
  "keeps (\<lambda>w. att_view w = v) (blob_write db tra)"
  "keeps (\<lambda>w. att_view w = v) (blob_readId db tra)"
  "keeps (\<lambda>w. att_view w = v) (blob_readSegments h)"
  "keeps (\<lambda>w. att_view w = v) (blob_describe h)"
  unfolding blob_write_def blob_readId_def blob_readSegments_def blob_describe_def
  by (intro quiet_rules att_rules; simp add: delta_simps)+

lemma blobs_reports: "reports blobs_main"
  unfolding blobs_main_def by (intro reports_arg reports_try returns_rules)

lemma blobs_okd: "k \<notin> {KStatus, KProv, KAtt} \<Longrightarrow> okd0 k blobs_main"
  unfolding blobs_main_def
  by (rule okd0_arg okd0_main okd_with_Db okd_attachOrCreate okd_rules
    | assumption | simp add: delta_simps)+

lemma blobs_att: "att_triple b {} {} blobs_main {}"
  unfolding blobs_main_def
  by (rule att_flow
    | (rule att_quiet, (intro quiet_rules att_rules; simp add: delta_simps))
    | (rule att_leaf, (intro quiet_rules att_rules; simp add: delta_simps), simp) | simp)+


section \<open>Properties\<close>

text \<open>
  C19.  On every answer that is a sequence of clumplets followed by the end marker, \<open>infoValue\<close> stays inside
  the buffer and returns the little-endian value (of at most four bytes) of the first clumplet with
  the requested item, or -1 when there is none.
\<close>

theorem infoValue_decodes:
  assumes "clumplets_ok (info_val h isc_info_end) cs" and "info_val h isc_info_end < 256"
  shows "infoValue h (clumplets cs @ of_nat (info_val h isc_info_end) # rest)
      (length (clumplets cs @ of_nat (info_val h isc_info_end) # rest)) item =
    Some (info_lookup cs (of_nat (info_val h item)))"
  using infoValue_from [OF assms(1), of "of_nat (info_val h isc_info_end)" "[]" rest] assms(2)
  by (simp add: infoValue_def unat_of_nat)

definition info_headers :: header_values where
  "info_headers = \<lparr>xpb_val = (\<lambda>_. 0), info_val = (\<lambda>i. case i of isc_info_end \<Rightarrow> 1
       | isc_info_blob_num_segments \<Rightarrow> 4 | isc_info_blob_max_segment \<Rightarrow> 5 | _ \<Rightarrow> 9),
     sql_val = (\<lambda>_. 0), blr_val = (\<lambda>_. 0), arg_val = (\<lambda>_. 0), enum_val = (\<lambda>_. 0), isc_portable_integer = (\<lambda>bs. int (le_nat bs))\<rparr>"

lemma info_headers_vals: "info_val info_headers isc_info_end = 1"
  "info_val info_headers isc_info_blob_num_segments = 4"
  by (simp_all add: info_headers_def)

theorem infoValue_decodes_witness:
  "infoValue info_headers (clumplets [(5, [22, 0]), (4, [3, 1])] @ 1 # replicate 20 0)
     (length (clumplets [(5, [22, 0]), (4, [3, 1])] @ 1 # replicate 20 0)) isc_info_blob_num_segments
     = Some 259"
  using infoValue_decodes [of info_headers "[(5, [22, 0]), (4, [3, 1])]" "replicate 20 0"
      isc_info_blob_num_segments]
  by (simp add: clumplets_ok_def info_headers_vals info_lookup_def)

text \<open>
  C24.  Whatever the buffer holds, \<open>infoValue\<close> stops, and a value it returns is -1 or an unsigned 32-bit
  number.
\<close>

theorem infoValue_bounds:
  assumes "infoValue h buf len item = Some v"
  shows "v = - 1 \<or> 0 \<le> v \<and> v < 2 ^ 32"
  using assms unfolding infoValue_def by (rule infoValue_range)

theorem infoValue_bounds_witness:
  "\<exists>v. infoValue info_headers [4, 4, 0, 255, 255, 255, 255, 1] 8 isc_info_blob_num_segments = Some v
     \<and> (v = - 1 \<or> 0 \<le> v \<and> v < 2 ^ 32)"
proof -
  have "infoValue info_headers [4, 4, 0, 255, 255, 255, 255, 1] 8 isc_info_blob_num_segments =
      Some (sint (or_bytes [255, 255, 255, 255]))"
    by (simp add: infoValue_def infoValue_at.simps info_headers_vals rd_def le_read_def slice_def)
  then show ?thesis using infoValue_bounds by blast
qed

end
