(* ===== verification/Service_Streams.thy ===== *)
theory Service_Streams
  imports Sample_Kit
begin

text \<open>
  The two samples that run gbak through the service manager and drain its output:
  \<open>services.cpp\<close> (\<open>printLines\<close> and its polling loop) and \<open>backup.cpp\<close>
  (\<open>streamServiceOutput\<close>).  Both decode the same answers with different code.  The locale
  \<open>line_stream\<close> is what a polling client needs of a decoder: an answer with a line shows
  that line and asks for more, the answer with an empty line ends the stream.  Both decoders
  are interpretations, so both loops show exactly the lines the service wrote and stop.
\<close>


section \<open>Bytes as text\<close>

text \<open>\<open>(unsigned) isc_portable_integer(p, 2)\<close>\<close>

definition portable_len :: "header_values \<Rightarrow> byte list \<Rightarrow> 32 word" where
  "portable_len h bs = word_of_int (isc_portable_integer h bs)"


section \<open>services.cpp\<close>

text \<open>
  \<open>printLines\<close>: the lines it prints, and whether the utility has more to say.
\<close>

function printLines_at ::
  "header_values \<Rightarrow> byte list \<Rightarrow> nat \<Rightarrow> nat \<Rightarrow> bool \<Rightarrow> string list \<Rightarrow> (bool \<times> string list) option" where
  "printLines_at h buf sz p more' ls =
     (if p < sz then
        (case rd buf p of None \<Rightarrow> None
         | Some it \<Rightarrow>
             if unat it = info_val h isc_info_end then Some (more', ls)
             else if unat it = info_val h isc_info_svc_line then
               (case slice buf (p + 1) 2 of None \<Rightarrow> None
                | Some two \<Rightarrow>
                    let len = portable_len h two in
                    if 0 < len
                    then (case prec_str buf (p + 3) (sint len) of None \<Rightarrow> None
                      | Some s \<Rightarrow> printLines_at h buf sz (p + 3 + unat len) True (ls @ [s]))
                    else printLines_at h buf sz (p + 3 + unat len) more' ls)
             else if unat it = info_val h isc_info_svc_timeout
                 \<or> unat it = info_val h isc_info_data_not_ready
                 \<or> unat it = info_val h isc_info_truncated
             then printLines_at h buf sz (p + 1) True ls
             else Some (more', ls))
      else Some (more', ls))"
  by pat_completeness auto

termination printLines_at
  by (relation "measure (\<lambda>(_, _, sz, p, _, _). sz - p)") auto

definition printLines :: "header_values \<Rightarrow> byte list \<Rightarrow> nat \<Rightarrow> (bool \<times> string list) option" where
  "printLines h buf sz = printLines_at h buf sz 0 False []"

definition services_poll :: "nat \<Rightarrow> ('s, nat \<times> nat) prog" where
  \<open>services_poll svc =
    loopP (\<lambda>(lines, polls). bindP (ask (Svc svc (SvcQuery [isc_info_svc_line] 1024))) (\<lambda>r.
      bindP (headers) (\<lambda>h.
      bindP (checked ''service answer'' (printLines h (fit 1024 (r_b r)) 1024)) (\<lambda>d.
      seqP
       [say (concat (map (\<lambda>s. (''  '' @ s @ nl)) (snd d)))] (
      (let lines' = lines + length (snd d) in
        ret (if fst d then Inl (lines', Suc polls) else Inr (lines', Suc polls)))))))) (0, 0)\<close>

definition services_prepare :: "string \<Rightarrow> ('s, unit) prog" where
  \<open>services_prepare dsn = with_Db (\<lambda>db. seqP
       [attachOrCreate db (c_str dsn)] (
      bindP (start db) (\<lambda>tra.
      block
       [quietly (exec db tra ''create table t (id int, v varchar(20))''),
        commit tra])))\<close>

definition spb_attach :: "nat \<Rightarrow> string \<Rightarrow> ('s, nat) prog" where
  \<open>spb_attach prov manager = bindP (handle_of (Master (GetXpbBuilder SPB_ATTACH))) (\<lambda>spb.
      bindP (defaultUser) (\<lambda>user.
      seqP
       [do_call (Xpb spb (InsertString isc_spb_user_name user))] (
      bindP (defaultPassword) (\<lambda>password.
      seqP
       [do_call (Xpb spb (InsertString isc_spb_password password))] (
      bindP (ask (Xpb spb GetBuffer)) (\<lambda>b.
      bindP (handle_of (Prov prov (AttachServiceManager manager (r_b b)))) (\<lambda>svc.
      returning
       [do_void (Xpb spb XpbDispose)]
       svc)))))))\<close>

definition service_start :: "nat \<Rightarrow> (nat \<Rightarrow> ('s, unit) prog list) \<Rightarrow> ('s, unit) prog" where
  \<open>service_start svc items = bindP (handle_of (Master (GetXpbBuilder SPB_START))) (\<lambda>start.
      seqP
       [block (items start)] (
      bindP (ask (Xpb start GetBuffer)) (\<lambda>b.
      block
       [do_call (Svc svc (SvcStart (r_b b))),
        do_void (Xpb start XpbDispose)])))\<close>

text \<open>The answer to the version request: item, 2-byte length, text.\<close>

definition services_version :: "header_values \<Rightarrow> byte list \<Rightarrow> string option option" where
  \<open>services_version h results =
    (case rd results 0 of None \<Rightarrow> None
     | Some it \<Rightarrow>
         if unat it = info_val h isc_info_svc_server_version
         then (case slice results 1 2 of None \<Rightarrow> None
           | Some two \<Rightarrow> map_option Some (prec_str results 3 (sint (portable_len h two))))
         else Some None)\<close>

definition services_main :: "('s, int) prog" where
  \<open>services_main = bindP (argOrDefault 1 ''/tmp/fbhandson/services.fdb'') (\<lambda>dbPath.
      bindP (argOrDefault 2 ''/tmp/fbhandson/services.fbk'') (\<lambda>bkPath.
      let dsn = ''inet://localhost/'' @ dbPath in
      try_fb (seqP
       [services_prepare dsn] (
      bindP (ask_void (Master GetStatus)) (\<lambda>st.
      bindP (ask_void (Master GetDispatcher)) (\<lambda>prov.
      bindP (spb_attach (r_h prov) ''localhost:service_mgr'') (\<lambda>svc.
      bindP (ask (Svc svc (SvcQuery [isc_info_svc_server_version] 1024))) (\<lambda>r.
      bindP (headers) (\<lambda>h.
      bindP (checked ''service answer'' (services_version h (fit 1024 (r_b r)))) (\<lambda>v.
      seqP
       [(case v of None \<Rightarrow> ret () | Some s \<Rightarrow> say (''server version: '' @ s @ nl)),
        service_start svc (\<lambda>start.
        [do_call (Xpb start (InsertTag isc_action_svc_backup)),
         do_call (Xpb start (InsertString isc_spb_dbname dbPath)),
         do_call (Xpb start (InsertString isc_spb_bkp_file bkPath)),
         do_call (Xpb start (InsertTag isc_spb_verbose))]),
        say (''backup started (verbose) '' @ [CHR 0xE2, CHR 0x80, CHR 0x94] @
            '' draining the 1 KB ring buffer:'' @ nl)] (
      bindP (services_poll svc) (\<lambda>n.
      returning
       [say (''done: '' @ show_int (int (fst n)) @ '' gbak lines drained in '' @
            show_int (int (snd n)) @ '' query() polls'' @ nl),
        say (''the file '' @ bkPath @ '' now exists on the SERVER, owned by the server's user'' @ nl),
        do_call (Svc svc SvcDetach),
        do_void (Prov (r_h prov) ProvRelease),
        do_void (StatusDispose (r_h st))]
       0)))))))))) report))\<close>


section \<open>backup.cpp\<close>

definition DB_SRC :: string where
  \<open>DB_SRC = ''inet://localhost//tmp/fbhandson/backup.fdb''\<close>

definition SRV :: string where
  \<open>SRV = ''localhost:service_mgr''\<close>

definition FBK :: string where
  \<open>FBK = ''/tmp/fbhandson/backup.fbk''\<close>

definition DB_REST :: string where
  \<open>DB_REST = ''inet://localhost//tmp/fbhandson/backup_restored.fdb''\<close>

text \<open>One answer of the service: \<open>Some None\<close> ends the loop, \<open>Some (Some s)\<close> shows a line.\<close>

definition streamLine :: "header_values \<Rightarrow> byte list \<Rightarrow> string option option" where
  "streamLine h buf =
     (case rd buf 0 of None \<Rightarrow> None
      | Some it \<Rightarrow>
          if unat it \<noteq> info_val h isc_info_svc_line then Some None
          else (case le_read 2 buf 1 of None \<Rightarrow> None
            | Some len \<Rightarrow>
                if len = 0 then Some None else map_option Some (prec_str buf 3 (int len))))"

definition streamServiceOutput :: "nat \<Rightarrow> string \<Rightarrow> ('s, unit) prog" where
  \<open>streamServiceOutput svc pfx =
    loopP (\<lambda>u. bindP (ask (Svc svc (SvcQuery [isc_info_svc_line] 1024))) (\<lambda>r.
      bindP (headers) (\<lambda>h.
      bindP (checked ''service answer'' (streamLine h (fit 1024 (r_b r)))) (\<lambda>d.
      (case d of None \<Rightarrow> ret (Inr ())
        | Some s \<Rightarrow> (returning
       [say (pfx @ s @ nl)]
       (Inl ()))))))) ()\<close>

definition backup_main :: "('s, int) prog" where
  \<open>backup_main =
    try_fb (with_Db (\<lambda>db. bindP (argOrDefault 1 DB_SRC) (\<lambda>dsn.
      seqP
       [attachOrCreate db dsn] (
      bindP (start db) (\<lambda>tra.
      seqP
       [quietly (exec db tra ''DROP TABLE BR_ITEMS''),
        exec db tra ''CREATE TABLE BR_ITEMS (ID INT NOT NULL PRIMARY KEY, NAME VARCHAR(30))'',
        commitRetaining tra,
        exec db tra ''INSERT INTO BR_ITEMS VALUES (1, 'alpha')'',
        exec db tra ''INSERT INTO BR_ITEMS VALUES (2, 'beta')'',
        exec db tra ''INSERT INTO BR_ITEMS VALUES (3, 'gamma')'',
        commit tra,
        say (''source ready: BR_ITEMS with 3 rows'' @ nl)] (
      bindP (ask_void (Master GetStatus)) (\<lambda>st.
      bindP (ask_void (Master GetDispatcher)) (\<lambda>prov.
      bindP (spb_attach (r_h prov) SRV) (\<lambda>svc.
      seqP
       [say (nl @ ''== backup: '' @ (''/tmp/fbhandson/backup.fdb'') @ '' -> '' @ FBK @ '' =='' @ nl),
        service_start svc (\<lambda>start.
        [do_call (Xpb start (InsertTag isc_action_svc_backup)),
         do_call (Xpb start (InsertString isc_spb_dbname ''/tmp/fbhandson/backup.fdb'')),
         do_call (Xpb start (InsertString isc_spb_bkp_file FBK)),
         do_call (Xpb start (InsertTag isc_spb_verbose))]),
        streamServiceOutput svc ''  gbak> '',
        say (nl @ ''== restore: '' @ FBK @ '' -> '' @
            (''/tmp/fbhandson/backup_restored.fdb'') @ '' =='' @ nl),
        service_start svc (\<lambda>start.
        [do_call (Xpb start (InsertTag isc_action_svc_restore)),
         do_call (Xpb start (InsertString isc_spb_bkp_file FBK)),
         do_call (Xpb start (InsertString isc_spb_dbname ''/tmp/fbhandson/backup_restored.fdb'')),
         do_call (Xpb start (InsertConst isc_spb_options isc_spb_res_replace)),
         do_call (Xpb start (InsertTag isc_spb_verbose))]),
        streamServiceOutput svc ''  gbak> '',
        do_call (Svc svc SvcDetach),
        do_void (Prov (r_h prov) ProvRelease),
        do_void (StatusDispose (r_h st))] (
      with_Db (\<lambda>rdb. seqP
       [attach rdb DB_REST] (
      bindP (start rdb) (\<lambda>rtra.
      bindP (queryValue rdb rtra ''SELECT COUNT(*) FROM BR_ITEMS'') (\<lambda>n.
      bindP (queryValue rdb rtra ''SELECT MAX(NAME) FROM BR_ITEMS'') (\<lambda>m.
      returning
       [say (nl @ ''restored database says: '' @ (c_str n) @ '' rows, max name = '' @ (c_str m) @ nl),
        commit rtra,
        say (''done.'' @ nl)]
       0))))))))))))))) report\<close>


section \<open>The contract of a line decoder\<close>



text \<open>What the headers and \<open>isc_portable_integer\<close> have to provide: distinct one-byte item codes and
  the little-endian value of two bytes.\<close>

definition svc_headers_ok :: "header_values \<Rightarrow> bool" where
  "svc_headers_ok h \<longleftrightarrow>
     info_val h isc_info_end < 256 \<and> info_val h isc_info_svc_line < 256
     \<and> info_val h isc_info_svc_line \<noteq> info_val h isc_info_end
     \<and> (\<forall>n < 32768. isc_portable_integer h (enc_le 2 n) = int n)"

text \<open>An answer as the service manager documents it: the line item, a 2-byte length, the text and the
  end marker, in the 1024-byte buffer of the caller.\<close>

definition svc_answer :: "header_values \<Rightarrow> string \<Rightarrow> byte list" where
  "svc_answer h s = fit 1024 (of_nat (info_val h isc_info_svc_line) # enc_le 2 (length s) @ bytes_of s
     @ [of_nat (info_val h isc_info_end)])"

definition svc_fits :: "string \<Rightarrow> bool" where
  "svc_fits s \<longleftrightarrow> length s \<le> 1020 \<and> CHR 0x00 \<notin> set s"

lemma unat_byte: "n < 256 \<Longrightarrow> unat (of_nat n :: byte) = n"
  by (simp add: unat_of_nat)

lemma svc_answer_shape:
  assumes "length s \<le> 1020"
  obtains pad where "svc_answer h s = of_nat (info_val h isc_info_svc_line) # enc_le 2 (length s)
     @ bytes_of s @ of_nat (info_val h isc_info_end) # pad"
proof -
  let ?m = "of_nat (info_val h isc_info_svc_line) # enc_le 2 (length s) @ bytes_of s
    @ [of_nat (info_val h isc_info_end)] :: byte list"
  have "length ?m \<le> 1024" using assms by simp
  then have "svc_answer h s = ?m @ take (1024 - length ?m) (replicate 1024 0)"
    unfolding svc_answer_def fit_def by (subst take_append) simp
  then show thesis by (intro that) simp
qed

lemma portable_len_small:
  assumes "svc_headers_ok h" and "n < 32768"
  shows "portable_len h (enc_le 2 n) = of_nat n" and "unat (portable_len h (enc_le 2 n)) = n"
    and "sint (portable_len h (enc_le 2 n)) = int n"
proof -
  show p: "portable_len h (enc_le 2 n) = of_nat n"
    using assms by (simp add: portable_len_def svc_headers_ok_def)
  show "unat (portable_len h (enc_le 2 n)) = n" using assms(2) by (simp add: p unat_of_nat)
  have "signed_take_bit 31 (int n) = int n"
    using assms(2) by (intro signed_take_bit_int_eq_self) auto
  then show "sint (portable_len h (enc_le 2 n)) = int n"
    by (simp add: p signed_of_nat)
qed

declare printLines_at.simps [simp del]

lemma printLines_answer:
  assumes h: "svc_headers_ok h" and s: "svc_fits s"
  shows "printLines h (svc_answer h s) 1024 = Some (s \<noteq> [], if s = [] then [] else [s])"
proof -
  let ?line = "of_nat (info_val h isc_info_svc_line) :: byte"
  let ?stop = "of_nat (info_val h isc_info_end) :: byte"
  have len: "length s \<le> 1020" and nz: "CHR 0x00 \<notin> set s" using s by (auto simp: svc_fits_def)
  obtain pad where buf: "svc_answer h s = ?line # enc_le 2 (length s) @ bytes_of s @ ?stop # pad"
    by (rule svc_answer_shape [OF len, of h])
  have codes: "unat ?line = info_val h isc_info_svc_line" "unat ?stop = info_val h isc_info_end"
    "info_val h isc_info_svc_line \<noteq> info_val h isc_info_end"
    using h by (simp_all add: svc_headers_ok_def unat_byte)
  have item: "rd (svc_answer h s) 0 = Some ?line" by (simp add: buf rd_def)
  have two: "slice (svc_answer h s) 1 2 = Some (enc_le 2 (length s))" by (simp add: buf slice_def)
  have shown: "prec_str (svc_answer h s) 3 (int (length s)) = Some s"
    using prec_str_at [OF nz, of "?line # enc_le 2 (length s)" 3 "?stop # pad"] by (simp add: buf)
  have stop: "rd (svc_answer h s) (3 + length s) = Some ?stop"
    using rd_append_hd [of "?line # enc_le 2 (length s) @ bytes_of s" ?stop pad]
    by (simp add: buf numeral_3_eq_3)
  note l = portable_len_small [OF h, of "length s"]
  have last: "printLines_at h (svc_answer h s) 1024 (3 + length s) b ls = Some (b, ls)" for b ls
    using stop codes len by (subst printLines_at.simps) simp
  have pos: "0 < portable_len h (enc_le 2 (length s)) \<longleftrightarrow> s \<noteq> []"
    using l(2) len by (simp add: word_less_nat_alt)
  show ?thesis
    unfolding printLines_def
    by (subst printLines_at.simps)
      (use item two shown codes l len pos last [of False "[]"] last [of True "[s]"] in
        \<open>auto simp: Let_def\<close>)
qed



lemma length_svc_answer [simp]: "length (svc_answer h s) = 1024"
  by (simp add: svc_answer_def)

lemma streamLine_answer:
  assumes h: "svc_headers_ok h" and s: "svc_fits s"
  shows "streamLine h (svc_answer h s) = Some (if s = [] then None else Some s)"
proof -
  have len: "length s \<le> 1020" and nz: "CHR 0x00 \<notin> set s" using s by (auto simp: svc_fits_def)
  let ?line = "of_nat (info_val h isc_info_svc_line) :: byte"
  obtain pad where buf: "svc_answer h s = ?line # enc_le 2 (length s) @ bytes_of s
      @ of_nat (info_val h isc_info_end) # pad"
    by (rule svc_answer_shape [OF len, of h])
  have "rd (svc_answer h s) 0 = Some ?line" by (simp add: buf rd_def)
  moreover have "unat ?line = info_val h isc_info_svc_line"
    using h by (simp add: svc_headers_ok_def unat_byte)
  moreover have "le_read 2 (svc_answer h s) 1 = Some (length s)"
    using len by (simp add: buf le_read_def slice_def le_nat_enc_le)
  moreover have "prec_str (svc_answer h s) 3 (int (length s)) = Some s"
    using prec_str_at [OF nz, of "?line # enc_le 2 (length s)" 3
        "of_nat (info_val h isc_info_end) # pad"] by (simp add: buf)
  ultimately show ?thesis by (simp add: streamLine_def)
qed




section \<open>The polling loops\<close>

text \<open>
  A service with output: \<open>q\<close> reads from the server state the answers still to come, and every
  request for a line takes the next one.
\<close>

definition speaks :: "'s env \<Rightarrow> nat \<Rightarrow> ('s \<Rightarrow> byte list list) \<Rightarrow> bool" where
  "speaks e svc q \<longleftrightarrow> (\<forall>s. q s \<noteq> [] \<longrightarrow>
     (\<exists>r s'. fb e (Svc svc (SvcQuery [isc_info_svc_line] 1024)) s = ((None, r), s')
        \<and> r_b r = hd (q s) \<and> q s' = tl (q s)))"

lemma speaksE:
  assumes "speaks e svc q" and "q (server w) = a # as"
  obtains r w' where "ask (Svc svc (SvcQuery [isc_info_svc_line] 1024)) e w = Some (Ok r, w')"
    "r_b r = a" "q (server w') = as" "out w' = out w"
proof -
  obtain r s' where "fb e (Svc svc (SvcQuery [isc_info_svc_line] 1024)) (server w) = ((None, r), s')"
      "r_b r = a" "q s' = as"
    using assms unfolding speaks_def by (metis list.distinct(1) list.sel(1,3))
  then show thesis
    by (intro that [of r "w\<lparr>server := s', log := (Svc svc (SvcQuery [isc_info_svc_line] 1024), None, r) # log w\<rparr>"])
      (simp_all add: ask_run)
qed

lemma stream_drains:
  assumes sp: "speaks e svc q" and h: "svc_headers_ok (hdr e)"
    and ss: "\<forall>s \<in> set ss. svc_fits s \<and> s \<noteq> []"
    and q: "q (server w) = map (svc_answer (hdr e)) ss @ svc_answer (hdr e) [] # later"
  shows "\<exists>w'. streamServiceOutput svc pfx e w = Some (Ok (), w')
    \<and> out w' = out w @ concat (map (\<lambda>s. pfx @ s @ nl) ss) \<and> q (server w') = later"
  using ss q
proof (induction ss arbitrary: w)
  case Nil
  then obtain r w' where "ask (Svc svc (SvcQuery [isc_info_svc_line] 1024)) e w = Some (Ok r, w')"
      "r_b r = svc_answer (hdr e) []" "q (server w') = later" "out w' = out w"
    using speaksE [OF sp] by (metis append_Nil list.map(1))
  then show ?case
    using streamLine_answer [OF h, of "[]"]
    by (auto simp: streamServiceOutput_def bindP_def run_simps checked_def svc_fits_def
        intro!: loopP_leave)
next
  case (Cons s ss)
  let ?q = "map (svc_answer (hdr e)) ss @ svc_answer (hdr e) [] # later"
  obtain r w1 where r: "ask (Svc svc (SvcQuery [isc_info_svc_line] 1024)) e w = Some (Ok r, w1)"
      "r_b r = svc_answer (hdr e) s" "q (server w1) = ?q" "out w1 = out w"
    using speaksE [OF sp, of w "svc_answer (hdr e) s" ?q] Cons.prems(2) by auto
  let ?w = "w1\<lparr>out := out w1 @ pfx @ s @ nl\<rparr>"
  have "streamServiceOutput svc pfx e w = streamServiceOutput svc pfx e ?w"
    unfolding streamServiceOutput_def
    using r streamLine_answer [OF h, of s] Cons.prems(1)
    by (intro loopP_again) (simp add: bindP_def run_simps checked_def returning_def)
  moreover obtain w' where "streamServiceOutput svc pfx e ?w = Some (Ok (), w')"
      "out w' = out ?w @ concat (map (\<lambda>s. pfx @ s @ nl) ss)" "q (server w') = later"
    using Cons.IH [of ?w] Cons.prems(1) r(3) by auto
  ultimately show ?case using r(4) by simp
qed

abbreviation poll_loop :: "nat \<Rightarrow> nat \<times> nat \<Rightarrow> ('s, nat \<times> nat) prog" where
  "poll_loop svc a \<equiv> loopP (\<lambda>(lines, polls).
      bindP (ask (Svc svc (SvcQuery [isc_info_svc_line] 1024))) (\<lambda>r.
      bindP headers (\<lambda>h.
      bindP (checked ''service answer'' (printLines h (fit 1024 (r_b r)) 1024)) (\<lambda>d.
      seqP [say (concat (map (\<lambda>s. ''  '' @ s @ nl) (snd d)))] (
      (let lines' = lines + length (snd d) in
        ret (if fst d then Inl (lines', Suc polls) else Inr (lines', Suc polls)))))))) a"

lemma poll_drains:
  assumes sp: "speaks e svc q" and h: "svc_headers_ok (hdr e)"
    and ss: "\<forall>s \<in> set ss. svc_fits s \<and> s \<noteq> []"
    and q: "q (server w) = map (svc_answer (hdr e)) ss @ svc_answer (hdr e) [] # later"
  shows "\<exists>w'. poll_loop svc (l, p) e w = Some (Ok (l + length ss, p + Suc (length ss)), w')
    \<and> out w' = out w @ concat (map (\<lambda>s. ''  '' @ s @ nl) ss) \<and> q (server w') = later"
  using ss q
proof (induction ss arbitrary: w l p)
  case Nil
  then obtain r w' where "ask (Svc svc (SvcQuery [isc_info_svc_line] 1024)) e w = Some (Ok r, w')"
      "r_b r = svc_answer (hdr e) []" "q (server w') = later" "out w' = out w"
    using speaksE [OF sp] by (metis append_Nil list.map(1))
  then show ?case
    using printLines_answer [OF h, of "[]"]
    by (auto simp: bindP_def run_simps checked_def svc_fits_def seqP_def intro!: loopP_leave)
next
  case (Cons s ss)
  let ?q = "map (svc_answer (hdr e)) ss @ svc_answer (hdr e) [] # later"
  obtain r w1 where r: "ask (Svc svc (SvcQuery [isc_info_svc_line] 1024)) e w = Some (Ok r, w1)"
      "r_b r = svc_answer (hdr e) s" "q (server w1) = ?q" "out w1 = out w"
    using speaksE [OF sp, of w "svc_answer (hdr e) s" ?q] Cons.prems(2) by auto
  let ?w = "w1\<lparr>out := out w1 @ ''  '' @ s @ nl\<rparr>"
  have "poll_loop svc (l, p) e w = poll_loop svc (Suc l, Suc p) e ?w"
    using r printLines_answer [OF h, of s] Cons.prems(1)
    by (intro loopP_again) (simp add: bindP_def run_simps checked_def seqP_def)
  moreover obtain w' where "poll_loop svc (Suc l, Suc p) e ?w =
        Some (Ok (Suc l + length ss, Suc p + Suc (length ss)), w')"
      "out w' = out ?w @ concat (map (\<lambda>s. ''  '' @ s @ nl) ss)" "q (server w') = later"
    using Cons.IH [of ?w "Suc l" "Suc p"] Cons.prems(1) r(3) by auto
  ultimately show ?case using r(4) by simp
qed


section \<open>Interfaces\<close>

lemma okd_services [okd_rules]:
  "okd k (services_poll svc) 0" "okd k (streamServiceOutput svc pfx) 0"
  "okd k (spb_attach prov m) (if k = KSvc then 1 else 0)"
  unfolding services_poll_def streamServiceOutput_def spb_attach_def
  by ((rule okd_eq, (rule okd_rules | simp add: delta_simps)+)[1])+

lemma okd_service_start [okd_rules]:
  assumes "\<And>s. okd k (block (items s)) n" and "n = 0"
  shows "okd k (service_start svc items) 0"
  unfolding service_start_def using assms(1) unfolding assms(2)
  by - (rule okd_eq, (rule okd_rules | assumption | simp add: delta_simps)+)

lemma okd_services_prepare [okd_rules]:
  assumes "k \<notin> {KStatus, KProv, KAtt}"
  shows "okd k (services_prepare d) 0"
  unfolding services_prepare_def using assms
  by - (rule okd_eq, (rule okd_with_Db okd_attachOrCreate okd_rules | assumption | simp add: delta_simps)+)

lemma att_services [att_rules]:
  "keeps (\<lambda>w. att_view w = v) (services_poll svc)"
  "keeps (\<lambda>w. att_view w = v) (streamServiceOutput svc pfx)"
  "keeps (\<lambda>w. att_view w = v) (spb_attach prov m)"
  "(\<And>s. keeps (\<lambda>w. att_view w = v) (block (items s))) \<Longrightarrow> keeps (\<lambda>w. att_view w = v) (service_start svc items)"
  unfolding services_poll_def streamServiceOutput_def spb_attach_def service_start_def
  by (intro quiet_rules att_rules; simp add: delta_simps)+

definition service_mains :: "('s, int) prog list" where
  "service_mains = [services_main, backup_main]"

lemma service_reports: "\<forall>m \<in> set service_mains. reports m"
  unfolding service_mains_def services_main_def backup_main_def list.set ball_simps
  by (intro conjI reports_arg reports_Let reports_try returns_rules TrueI)

lemma okd0_Let: "okd0 k (f t) \<Longrightarrow> okd0 k (let x = t in f x)"
  by simp

lemma service_okd: "k \<notin> {KStatus, KProv, KAtt} \<Longrightarrow> \<forall>m \<in> set service_mains. okd0 k m"
  unfolding service_mains_def services_main_def backup_main_def list.set ball_simps
  by (rule conjI TrueI okd0_arg okd0_Let okd0_main okd_with_Db okd_attachOrCreate okd_rules
    | assumption | simp add: delta_simps)+

lemma service_att: "\<forall>m \<in> set service_mains. att_triple b {} {} m {}"
  unfolding service_mains_def services_main_def services_prepare_def backup_main_def list.set ball_simps
  by (rule conjI TrueI subset_refl att_flow att_with_Db_nested
    | (rule att_quiet, (intro quiet_rules att_rules; simp add: delta_simps))
    | (rule att_leaf, (intro quiet_rules att_rules; simp add: delta_simps), simp) | simp)+


section \<open>Properties\<close>

text \<open>
  C16.  \<open>streamServiceOutput\<close> prints exactly the lines the service wrote, in order and each once, and returns
  at the empty line; what the service has to say later stays unread.
\<close>

theorem backup_stream_drains:
  assumes "speaks e svc q" and "svc_headers_ok (hdr e)" and "\<forall>s \<in> set ss. svc_fits s \<and> s \<noteq> []"
    and "q (server w) = map (svc_answer (hdr e)) ss @ svc_answer (hdr e) [] # later"
  shows "\<exists>w'. streamServiceOutput svc pfx e w = Some (Ok (), w')
    \<and> out w' = out w @ concat (map (\<lambda>s. pfx @ s @ nl) ss) \<and> q (server w') = later"
  by (rule stream_drains [OF assms])

definition svc_headers :: header_values where
  "svc_headers = \<lparr>xpb_val = (\<lambda>_. 0), info_val = (\<lambda>i. case i of isc_info_end \<Rightarrow> 1 | isc_info_svc_line \<Rightarrow> 62
       | isc_info_truncated \<Rightarrow> 2 | isc_info_data_not_ready \<Rightarrow> 4 | isc_info_svc_timeout \<Rightarrow> 64 | _ \<Rightarrow> 9),
     sql_val = (\<lambda>_. 0), blr_val = (\<lambda>_. 0), arg_val = (\<lambda>_. 0), enum_val = (\<lambda>_. 0), isc_portable_integer = (\<lambda>bs. int (le_nat bs))\<rparr>"

definition svc_env :: "byte list list env" where
  "svc_env = \<lparr>fb = (\<lambda>c s. ((None, \<lparr>r_h = 1, r_n = 0, r_s = [], r_b = hd (s @ [[]]), r_ns = [], r_descs = [], r_ints = [],
       r_code = RESULT_OK, r_null = False\<rparr>), tl s)), hdr = svc_headers, argv = []\<rparr>"

definition svc_world :: "string list \<Rightarrow> byte list list world" where
  "svc_world ss = \<lparr>server = map (svc_answer svc_headers) (ss @ [[]]), log = [], out = [], err = [],
     environ = (\<lambda>_. None), cells = (\<lambda>_ _. None), fresh = 0\<rparr>"

lemma svc_speaks: "speaks svc_env svc (\<lambda>s. s)"
  by (auto simp: speaks_def svc_env_def hd_append)

lemma svc_headers_fine: "svc_headers_ok (hdr svc_env)"
  by (simp add: svc_headers_ok_def svc_env_def svc_headers_def le_nat_enc_le)

lemma svc_world_queue: "server (svc_world ss) =
    map (svc_answer (hdr svc_env)) ss @ svc_answer (hdr svc_env) [] # []"
  by (simp add: svc_world_def svc_env_def)

theorem backup_stream_drains_witness:
  "\<exists>w'. streamServiceOutput 1 ''gbak> '' svc_env (svc_world [''reading'', ''closing'']) = Some (Ok (), w')
     \<and> out w' = ''gbak> reading'' @ nl @ ''gbak> closing'' @ nl"
  using backup_stream_drains [OF svc_speaks svc_headers_fine _ svc_world_queue,
      of "[''reading'', ''closing'']" 1 "''gbak> ''"]
  by (auto simp: svc_fits_def svc_world_def)

text \<open>
  C17.  The polling loop of \<open>services.cpp\<close> prints exactly the lines the service wrote, counts them, and stops
  after one poll more than there are lines.
\<close>

theorem services_poll_drains:
  assumes "speaks e svc q" and "svc_headers_ok (hdr e)" and "\<forall>s \<in> set ss. svc_fits s \<and> s \<noteq> []"
    and "q (server w) = map (svc_answer (hdr e)) ss @ svc_answer (hdr e) [] # later"
  shows "\<exists>w'. services_poll svc e w = Some (Ok (length ss, Suc (length ss)), w')
    \<and> out w' = out w @ concat (map (\<lambda>s. ''  '' @ s @ nl) ss) \<and> q (server w') = later"
  using poll_drains [OF assms, of 0 0] by (simp add: services_poll_def)

theorem services_poll_drains_witness:
  "\<exists>w'. services_poll 1 svc_env (svc_world [''reading'', ''closing'']) = Some (Ok (2, 3), w')
     \<and> out w' = ''  reading'' @ nl @ ''  closing'' @ nl"
  using services_poll_drains [OF svc_speaks svc_headers_fine _ svc_world_queue,
      of "[''reading'', ''closing'']" 1]
  by (auto simp: svc_fits_def svc_world_def)



end
