(* ===== verification/Blr_Decoder.thy ===== *)
theory Blr_Decoder
  imports Sample_Kit
begin

text \<open>
  \<open>samples/cpp/blr.cpp\<close>: stored BLR fetched as a blob, dumped in hex and decoded.
  \<open>expr\<close> walks a prefix-encoded expression tree by recursion on the byte pointer; the loop
  over \<open>blr_message\<close> declarations reads the opening of a procedure.  Both are modelled on
  the bytes with every read checked, and shown to invert the encoding of expression trees
  and message lists; they terminate on every input.  The opcode values come from
  \<open>firebird/impl/blr.h\<close> and are the parameter \<open>blr_val\<close>.
\<close>


section \<open>Fetching the blob\<close>

text \<open>
  The segment loop: \<open>seg\<close> has 4096 bytes, and both a whole segment and a piece of one are
  appended.
\<close>

definition blr_segments :: "nat \<Rightarrow> ('s, byte list) prog" where
  \<open>blr_segments blob =
    loopP (\<lambda>bytes. bindP (ask (Blob blob (GetSegment 4096))) (\<lambda>r.
      (if r_code r \<noteq> RESULT_OK \<and> r_code r \<noteq> RESULT_SEGMENT
      then ret (Inr bytes)
      else (bindP (checked ''seg + len'' (if length (r_b r) \<le> 4096 then Some (r_b r) else None)) (\<lambda>seg.
      ret (Inl (bytes @ seg))))))) []\<close>

definition fetchBlob :: "Db \<Rightarrow> nat \<Rightarrow> string \<Rightarrow> ('s, byte list) prog" where
  \<open>fetchBlob db tra sql = bindP (prepare db tra sql True) (\<lambda>stmt.
      bindP (handle_of (Stmt stmt GetOutputMetadata)) (\<lambda>meta.
      bindP (number_of (Meta meta GetMessageLength)) (\<lambda>len.
      bindP (handle_of (Stmt stmt (OpenCursor tra (Some meta)))) (\<lambda>curs.
      bindP (ask (Curs curs (FetchNext len))) (\<lambda>r.
      seqP
       [if r_code r \<noteq> RESULT_OK then fail (Terminate ''no row'') else ret ()] (
      bindP (number_of (Meta meta (GetOffset 0))) (\<lambda>off.
      bindP (checked ''message read'' (slice (fit len (r_b r)) off 8)) (\<lambda>blobId.
      seqP
       [do_call (Curs curs CursClose),
        do_void (Meta meta MetaRelease),
        do_call (Stmt stmt StmtFree)] (
      bindP (att_of db) (\<lambda>a.
      bindP (handle_of (Att a (OpenBlob tra blobId))) (\<lambda>blob.
      bindP (blr_segments blob) (\<lambda>bytes.
      returning
       [do_call (Blob blob BlobClose)]
       bytes))))))))))))\<close>

definition hexDump :: "byte list \<Rightarrow> nat \<Rightarrow> string" where
  \<open>hexDump b limit =
    concat (map (\<lambda>i. zjust 2 (show_hex (unat (b ! i))) @ (if i mod 16 = 15 then nl else '' ''))
      [0..<min (length b) limit]) @
    (if limit < length b then (''... ('' @ show_nat (length b) @ '' bytes total)'' @ nl)
     else (''('' @ show_nat (length b) @ '' bytes total)'' @ nl))\<close>


section \<open>Expressions\<close>

text \<open>
  \<open>expr(p, end, depth)\<close> on the buffer \<open>b\<close>: the text it prints and the pointer it leaves in
  \<open>p\<close>; \<open>None\<close> when a read leaves the buffer.  \<open>end\<close> is \<open>length b\<close>; the code never compares
  \<open>p\<close> with it.
\<close>

function expr :: "header_values \<Rightarrow> byte list \<Rightarrow> nat \<Rightarrow> nat \<Rightarrow> (string \<times> nat) option" where
  \<open>expr h b p depth =
    (case rd b p of None \<Rightarrow> None
     | Some op \<Rightarrow>
        if unat op = blr_val h blr_concatenate then
          (case expr h b (p + 1) (depth + 1) of None \<Rightarrow> None
           | Some sp \<Rightarrow>
              (case expr h b (snd sp) (depth + 1) of None \<Rightarrow> None
               | Some tq \<Rightarrow>
                  Some ((rjust (depth * 3) ([]) @ ''blr_concatenate'' @ nl @ (fst sp) @ (fst tq)), snd tq)))
        else if unat op = blr_val h blr_field then
          (case rd b (p + 1) of None \<Rightarrow> None
           | Some ctx \<Rightarrow>
              (case rd b (p + 2) of None \<Rightarrow> None
               | Some len \<Rightarrow>
                  (case prec_str b (p + 3) (int (unat len)) of None \<Rightarrow> None
                   | Some name \<Rightarrow>
                      Some ((rjust (depth * 3) ([]) @ ''blr_field context '' @ show_nat (unat ctx) @ '', '' @
            [CHR 0x27] @ name @ [CHR 0x27] @ nl),
                        p + 3 + unat len))))
        else if unat op = blr_val h blr_literal then
          (case rd b (p + 1) of None \<Rightarrow> None
           | Some dtype \<Rightarrow>
              if unat dtype = blr_val h blr_text2 then
                (case le_read 2 b (p + 2) of None \<Rightarrow> None
                 | Some cs \<Rightarrow>
                    (case le_read 2 b (p + 4) of None \<Rightarrow> None
                     | Some len \<Rightarrow>
                        (case prec_str b (p + 6) (int len) of None \<Rightarrow> None
                         | Some txt \<Rightarrow>
                            Some ((rjust (depth * 3) ([]) @ ''blr_literal blr_text2 charset '' @ show_nat cs @
            '', len '' @ show_nat len @ '', "'' @ txt @ ''"'' @ nl),
                              p + 6 + len))))
              else Some ((rjust (depth * 3) ([]) @ ''blr_literal dtype '' @ show_nat (unat dtype) @ '' ...'' @ nl), length b))
        else Some ((rjust (depth * 3) ([]) @ ''opcode '' @ show_nat (unat op) @ '' (decoder stops here)'' @ nl), length b))\<close>
  by pat_completeness auto

lemma expr_moves:
  assumes "expr_dom (h, b, p, d)" and "expr h b p d = Some (s, p')"
  shows "p < p'"
  using assms
proof (induction h b p d arbitrary: s p' rule: expr.pinduct)
  case (1 h b p d)
  note step = 1(4) [unfolded expr.psimps [OF 1(1)]]
  obtain op where op: "rd b p = Some op" using step by (cases "rd b p") auto
  show ?case
  proof (cases "unat op = blr_val h blr_concatenate")
    case True
    then obtain s1 p1 s2 where r: "expr h b (p + 1) (d + 1) = Some (s1, p1)"
        "expr h b p1 (d + 1) = Some (s2, p')"
      using step op by (auto split: option.splits)
    have "p + 1 < p1" by (rule 1(2) [OF op True r(1)])
    moreover have "p1 < p'" using 1(3) [OF op True r(1)] r(2) by simp
    ultimately show ?thesis by simp
  next
    case False
    then show ?thesis
      using step op by (auto simp: rd_Some_iff split: option.splits if_splits)
  qed
qed

termination expr
  by (relation "measure (\<lambda>(_, b, p, _). length b - p)")
    (auto simp: rd_Some_iff dest: expr_moves)

declare expr.simps [simp del]


section \<open>Message declarations\<close>

text \<open>
  The \<open>for\<close> loop over the fields of one message, \<open>n\<close> of them left: an unknown type prints and
  ends the loop (\<open>i = count\<close>) with \<open>p\<close> still on it.
\<close>

primrec blr_fields :: "header_values \<Rightarrow> byte list \<Rightarrow> nat \<Rightarrow> nat \<Rightarrow> (string \<times> nat) option" where
  \<open>blr_fields h b 0 p = Some ([], p)\<close>
| \<open>blr_fields h b (Suc n) p =
    (case rd b p of None \<Rightarrow> None
     | Some t \<Rightarrow>
        if unat t = blr_val h blr_short then
          (case rd b (p + 1) of None \<Rightarrow> None
           | Some scale \<Rightarrow>
              map_option (\<lambda>(s, q). ('' blr_short(scale '' @ show_nat (unat scale) @ '')'' @ s, q))
                (blr_fields h b n (p + 2)))
        else if unat t = blr_val h blr_text2 then
          (case le_read 2 b (p + 1) of None \<Rightarrow> None
           | Some cs \<Rightarrow>
              (case le_read 2 b (p + 3) of None \<Rightarrow> None
               | Some len \<Rightarrow>
                  map_option (\<lambda>(s, q).
                      ('' blr_text2(cs '' @ show_nat cs @ '', len '' @ show_nat len @ '')'' @ s, q))
                    (blr_fields h b n (p + 5))))
        else Some ('' dtype '' @ show_nat (unat t) @ ''?'', p))\<close>

lemma blr_fields_mono: "blr_fields h b n p = Some (s, q) \<Longrightarrow> p \<le> q"
  by (induction n arbitrary: p s q) (fastforce split: option.splits if_splits)+

function blr_messages :: "header_values \<Rightarrow> byte list \<Rightarrow> nat \<Rightarrow> (string \<times> nat) option" where
  \<open>blr_messages h b p =
    (case rd b p of None \<Rightarrow> None
     | Some t \<Rightarrow>
        if unat t = blr_val h blr_message then
          (case rd b (p + 1) of None \<Rightarrow> None
           | Some msg \<Rightarrow>
              (case le_read 2 b (p + 2) of None \<Rightarrow> None
               | Some count \<Rightarrow>
                  (case blr_fields h b count (p + 4) of None \<Rightarrow> None
                   | Some sq \<Rightarrow>
                      (case blr_messages h b (snd sq) of None \<Rightarrow> None
                       | Some tr \<Rightarrow>
                          Some ((''blr_message '' @ show_nat (unat msg) @ '', '' @ show_nat count @ '' fields:'' @
            (fst sq) @ nl @ (fst tr)),
                            snd tr)))))
        else Some ([], p))\<close>
  by pat_completeness auto

termination blr_messages
  by (relation "measure (\<lambda>(_, b, p). length b - p)")
    (auto simp: rd_Some_iff dest!: blr_fields_mono)

declare blr_messages.simps [simp del]


section \<open>The program\<close>

text \<open>What \<open>main\<close> prints of the computed column after its dump, and of the procedure.\<close>

definition blr_computed :: "header_values \<Rightarrow> byte list \<Rightarrow> string option" where
  \<open>blr_computed h b =
    (case rd b 0 of None \<Rightarrow> None
     | Some v \<Rightarrow>
        (case expr h b 1 1 of None \<Rightarrow> None
         | Some sp \<Rightarrow>
            Some ((((if unat v = blr_val h blr_version5 then ''blr_version5'' else ''unexpected version!'')) @
            nl @ (fst sp) @
            ((if snd sp < length b \<and> unat (b ! snd sp) = blr_val h blr_eoc
               then ''blr_eoc'' else ''(no blr_eoc?)'')) @
            nl))))\<close>

definition blr_procedure :: "header_values \<Rightarrow> byte list \<Rightarrow> string option" where
  \<open>blr_procedure h b =
    (case rd b 0 of None \<Rightarrow> None
     | Some v \<Rightarrow>
        (case rd b 1 of None \<Rightarrow> None
         | Some v' \<Rightarrow>
            (case blr_messages h b 2 of None \<Rightarrow> None
             | Some sp \<Rightarrow>
                Some ((((if unat v = blr_val h blr_version5 then ''blr_version5'' else ''?'')) @ '', '' @
            ((if unat v' = blr_val h blr_begin then ''blr_begin'' else ''?'')) @ nl @ (fst sp) @
            ''... '' @ show_nat (length b - snd sp) @ '' more bytes '' @
            [CHR 0xE2, CHR 0x80, CHR 0x94] @ '' see isql SET BLOB ALL for the full dump'' @
            nl)))))\<close>

definition blr_main :: "('s, int) prog" where
  \<open>blr_main = bindP (argOrDefault 1 ''inet://localhost/employee'') (\<lambda>database.
      try_fb (with_Db (\<lambda>db. bindP (defaultUser) (\<lambda>user.
      bindP (defaultPassword) (\<lambda>password.
      seqP
       [attach_as db database user password ''NONE''] (
      bindP (start db) (\<lambda>tra.
      seqP
       [say (''== computed column EMPLOYEE.FULL_NAME '' @ [CHR 0xE2, CHR 0x80, CHR 0x94] @
            '' RDB$FIELDS.RDB$COMPUTED_BLR'' @ nl)] (
      bindP (fetchBlob db tra
        (''SELECT f.RDB$COMPUTED_BLR FROM RDB$FIELDS f'' @
        '' JOIN RDB$RELATION_FIELDS rf ON f.RDB$FIELD_NAME = rf.RDB$FIELD_SOURCE'' @
        '' WHERE rf.RDB$RELATION_NAME = 'EMPLOYEE'' @ [CHR 0x27] @
        '' AND rf.RDB$FIELD_NAME = 'FULL_NAME'' @ [CHR 0x27])) (\<lambda>blr.
      seqP
       [say (hexDump blr 64)] (
      bindP (headers) (\<lambda>h.
      bindP (checked ''BLR read'' (blr_computed h blr)) (\<lambda>text.
      seqP
       [say text,
        say (nl @ ''== procedure GET_EMP_PROJ '' @ [CHR 0xE2, CHR 0x80, CHR 0x94] @
            '' RDB$PROCEDURES.RDB$PROCEDURE_BLR'' @ nl)] (
      bindP (fetchBlob db tra
        (''SELECT RDB$PROCEDURE_BLR FROM RDB$PROCEDURES'' @
        '' WHERE RDB$PROCEDURE_NAME = 'GET_EMP_PROJ'' @ [CHR 0x27])) (\<lambda>blr.
      seqP
       [say (hexDump blr 32)] (
      bindP (checked ''BLR read'' (blr_procedure h blr)) (\<lambda>text.
      returning
       [say text,
        commit tra]
       0))))))))))))))) report)\<close>

section \<open>What the decoders invert\<close>

text \<open>
  The opcode values of \<open>blr.h\<close> are bytes, and distinct.  The encodings below are the byte
  sequences the decoders are written for; the renderings are the lines they should print.
\<close>

definition blr_headers_ok :: "header_values \<Rightarrow> bool" where
  "blr_headers_ok h \<longleftrightarrow> inj (blr_val h) \<and> (\<forall>op. blr_val h op < 256)"

definition opcode :: "header_values \<Rightarrow> blr_op \<Rightarrow> byte" where
  "opcode h op = of_nat (blr_val h op)"

datatype blr_expr = Concatenate blr_expr blr_expr | Field nat string | Literal nat string

primrec blr_encode :: "header_values \<Rightarrow> blr_expr \<Rightarrow> byte list" where
  "blr_encode h (Concatenate a b) = opcode h blr_concatenate # blr_encode h a @ blr_encode h b"
| "blr_encode h (Field ctx name) =
     [opcode h blr_field, of_nat ctx, of_nat (length name)] @ bytes_of name"
| "blr_encode h (Literal cs txt) =
     [opcode h blr_literal, opcode h blr_text2] @ enc_le 2 cs @ enc_le 2 (length txt) @ bytes_of txt"

primrec blr_fits :: "blr_expr \<Rightarrow> bool" where
  "blr_fits (Concatenate a b) \<longleftrightarrow> blr_fits a \<and> blr_fits b"
| "blr_fits (Field ctx name) \<longleftrightarrow> ctx < 256 \<and> length name < 256 \<and> CHR 0x00 \<notin> set name"
| "blr_fits (Literal cs txt) \<longleftrightarrow> cs < 65536 \<and> length txt < 65536 \<and> CHR 0x00 \<notin> set txt"

primrec blr_render :: "nat \<Rightarrow> blr_expr \<Rightarrow> string" where
  "blr_render d (Concatenate a b) =
     rjust (d * 3) [] @ ''blr_concatenate'' @ nl @ blr_render (d + 1) a @ blr_render (d + 1) b"
| "blr_render d (Field ctx name) =
     rjust (d * 3) [] @ ''blr_field context '' @ show_nat ctx @ '', '' @ [CHR 0x27] @ name @ [CHR 0x27] @ nl"
| "blr_render d (Literal cs txt) =
     rjust (d * 3) [] @ ''blr_literal blr_text2 charset '' @ show_nat cs @ '', len '' @ show_nat (length txt) @
       '', \"'' @ txt @ ''\"'' @ nl"

lemma opcode_val: "blr_headers_ok h \<Longrightarrow> unat (opcode h op) = blr_val h op"
  by (simp add: blr_headers_ok_def opcode_def unat_of_nat)

lemma opcode_eq: "blr_headers_ok h \<Longrightarrow> blr_val h op = blr_val h op' \<longleftrightarrow> op = op'"
  by (auto simp: blr_headers_ok_def inj_eq)

lemma rd_at: "i = length pre \<Longrightarrow> rd (pre @ x # rest) i = Some x"
  by (simp add: rd_append_hd)

lemma enc_le_2: "enc_le 2 v = [of_nat v, of_nat (v div 256)]"
  by (simp add: numeral_2_eq_2)

lemma le_read_2_at:
  assumes "v < 65536" and "i = length pre"
  shows "le_read 2 (pre @ enc_le 2 v @ rest) i = Some v"
  using slice_append_hd [of pre "enc_le 2 v" rest] assms
  by (simp del: enc_le.simps add: le_read_def le_nat_enc_le)

lemma rd_field:
  fixes x y z :: byte
  shows "rd (pre @ x # y # z # rest) (length pre + 1) = Some y"
    and "rd (pre @ x # y # z # rest) (length pre + 2) = Some z"
  by (simp_all add: rd_def nth_append)

lemma expr_Field:
  assumes h: "blr_headers_ok h" and "blr_fits (Field ctx name)"
  shows "expr h (pre @ blr_encode h (Field ctx name) @ rest) (length pre) d =
    Some (blr_render d (Field ctx name), length pre + length (blr_encode h (Field ctx name)))"
proof -
  let ?b = "pre @ blr_encode h (Field ctx name) @ rest"
  have "prec_str ((pre @ [opcode h blr_field, of_nat ctx, of_nat (length name)]) @ bytes_of name @ rest)
      (length pre + 3) (int (length name)) = Some name"
    using assms by (intro prec_str_at) auto
  then have p: "prec_str ?b (length pre + 3) (int (length name)) = Some name" by simp
  have r: "rd ?b (length pre) = Some (opcode h blr_field)"
    "rd ?b (length pre + 1) = Some (of_nat ctx)" "rd ?b (length pre + 2) = Some (of_nat (length name))"
    by (simp_all add: rd_def nth_append)
  show ?thesis
    by (subst expr.simps) (use assms p r in \<open>simp add: opcode_val opcode_eq unat_of_nat\<close>)
qed

lemma expr_Literal:
  assumes h: "blr_headers_ok h" and "blr_fits (Literal cs txt)"
  shows "expr h (pre @ blr_encode h (Literal cs txt) @ rest) (length pre) d =
    Some (blr_render d (Literal cs txt), length pre + length (blr_encode h (Literal cs txt)))"
proof -
  let ?b = "pre @ blr_encode h (Literal cs txt) @ rest"
  let ?pre = "pre @ [opcode h blr_literal, opcode h blr_text2]"
  have b: "?b = ?pre @ enc_le 2 cs @ enc_le 2 (length txt) @ bytes_of txt @ rest"
    "?b = (?pre @ enc_le 2 cs) @ enc_le 2 (length txt) @ bytes_of txt @ rest"
    "?b = (?pre @ enc_le 2 cs @ enc_le 2 (length txt)) @ bytes_of txt @ rest"
    by simp_all
  have "le_read 2 ?b (length pre + 2) = Some cs"
    unfolding b(1) by (rule le_read_2_at) (use assms in \<open>simp_all del: enc_le.simps\<close>)
  moreover have "le_read 2 ?b (length pre + 4) = Some (length txt)"
    unfolding b(2) by (rule le_read_2_at) (use assms in \<open>simp_all del: enc_le.simps\<close>)
  moreover have "prec_str ?b (length pre + 6) (int (length txt)) = Some txt"
    unfolding b(3) by (rule prec_str_at) (use assms in \<open>simp_all del: enc_le.simps\<close>)
  moreover have "rd ?b (length pre) = Some (opcode h blr_literal)"
    "rd ?b (length pre + 1) = Some (opcode h blr_text2)"
    by (simp_all add: rd_def nth_append)
  ultimately show ?thesis
    by (subst expr.simps) (use h in \<open>simp del: enc_le.simps add: opcode_val opcode_eq\<close>)
qed

lemma expr_inverts:
  assumes h: "blr_headers_ok h" and "blr_fits t"
  shows "expr h (pre @ blr_encode h t @ rest) (length pre) d =
    Some (blr_render d t, length pre + length (blr_encode h t))"
  using assms(2)
proof (induction t arbitrary: pre rest d)
  case (Concatenate a b)
  let ?op = "opcode h blr_concatenate"
  have "expr h ((pre @ [?op]) @ blr_encode h a @ blr_encode h b @ rest) (length (pre @ [?op])) (d + 1) =
      Some (blr_render (d + 1) a, length (pre @ [?op]) + length (blr_encode h a))"
    using Concatenate by (intro Concatenate.IH) simp
  moreover have "expr h ((pre @ ?op # blr_encode h a) @ blr_encode h b @ rest)
      (length (pre @ ?op # blr_encode h a)) (d + 1) =
      Some (blr_render (d + 1) b, length (pre @ ?op # blr_encode h a) + length (blr_encode h b))"
    using Concatenate by (intro Concatenate.IH) simp
  ultimately show ?case
    by (subst expr.simps) (simp add: rd_append_hd opcode_val [OF h])
qed (use h in \<open>simp_all only: expr_Field expr_Literal\<close>)


text \<open>Message declarations: the number, and one descriptor per field.\<close>

datatype blr_dtype = Short nat | Text2 nat nat

primrec dtype_encode :: "header_values \<Rightarrow> blr_dtype \<Rightarrow> byte list" where
  "dtype_encode h (Short scale) = [opcode h blr_short, of_nat scale]"
| "dtype_encode h (Text2 cs len) = opcode h blr_text2 # enc_le 2 cs @ enc_le 2 len"

primrec dtype_fits :: "blr_dtype \<Rightarrow> bool" where
  "dtype_fits (Short scale) \<longleftrightarrow> scale < 256"
| "dtype_fits (Text2 cs len) \<longleftrightarrow> cs < 65536 \<and> len < 65536"

primrec dtype_render :: "blr_dtype \<Rightarrow> string" where
  "dtype_render (Short scale) = '' blr_short(scale '' @ show_nat scale @ '')''"
| "dtype_render (Text2 cs len) = '' blr_text2(cs '' @ show_nat cs @ '', len '' @ show_nat len @ '')''"

definition message_encode :: "header_values \<Rightarrow> nat \<times> blr_dtype list \<Rightarrow> byte list" where
  "message_encode h m = [opcode h blr_message, of_nat (fst m)] @ enc_le 2 (length (snd m)) @
     concat (map (dtype_encode h) (snd m))"

definition message_fits :: "nat \<times> blr_dtype list \<Rightarrow> bool" where
  "message_fits m \<longleftrightarrow> fst m < 256 \<and> length (snd m) < 65536 \<and> (\<forall>t \<in> set (snd m). dtype_fits t)"

definition message_render :: "nat \<times> blr_dtype list \<Rightarrow> string" where
  "message_render m = ''blr_message '' @ show_nat (fst m) @ '', '' @ show_nat (length (snd m)) @
     '' fields:'' @ concat (map dtype_render (snd m)) @ nl"

lemma blr_fields_Text2:
  assumes h: "blr_headers_ok h" and fits: "dtype_fits (Text2 cs len)"
  shows "blr_fields h (pre @ dtype_encode h (Text2 cs len) @ rest) (Suc n) (length pre) =
    map_option (\<lambda>(s, q). (dtype_render (Text2 cs len) @ s, q))
      (blr_fields h (pre @ dtype_encode h (Text2 cs len) @ rest) n (length pre + 5))"
proof -
  let ?b = "pre @ dtype_encode h (Text2 cs len) @ rest"
  have b: "?b = (pre @ [opcode h blr_text2]) @ enc_le 2 cs @ enc_le 2 len @ rest"
    "?b = (pre @ opcode h blr_text2 # enc_le 2 cs) @ enc_le 2 len @ rest"
    by simp_all
  have "le_read 2 ?b (length pre + 1) = Some cs"
    unfolding b(1) by (rule le_read_2_at) (use fits in \<open>simp_all del: enc_le.simps\<close>)
  moreover have "le_read 2 ?b (length pre + 3) = Some len"
    unfolding b(2) by (rule le_read_2_at) (use fits in \<open>simp_all del: enc_le.simps\<close>)
  moreover have "rd ?b (length pre) = Some (opcode h blr_text2)"
    by (simp add: rd_append_hd)
  ultimately show ?thesis using h
    by (simp del: enc_le.simps dtype_encode.simps add: opcode_val opcode_eq)
qed

lemma blr_fields_inverts:
  assumes h: "blr_headers_ok h" and "\<forall>t \<in> set ts. dtype_fits t"
  shows "blr_fields h (pre @ concat (map (dtype_encode h) ts) @ rest) (length ts) (length pre) =
    Some (concat (map dtype_render ts), length pre + length (concat (map (dtype_encode h) ts)))"
  using assms(2)
proof (induction ts arbitrary: pre)
  case (Cons t ts)
  have IH: "blr_fields h ((pre @ dtype_encode h t) @ concat (map (dtype_encode h) ts) @ rest) (length ts)
      (length (pre @ dtype_encode h t)) = Some (concat (map dtype_render ts),
      length (pre @ dtype_encode h t) + length (concat (map (dtype_encode h) ts)))"
    using Cons by (intro Cons.IH) simp
  show ?case
  proof (cases t)
    case (Short scale)
    have "rd (pre @ opcode h blr_short # of_nat scale # r) (length pre + 1) = Some (of_nat scale)" for r
      by (simp add: rd_def nth_append)
    then show ?thesis
      using IH Cons.prems Short h by (simp add: rd_append_hd opcode_val unat_of_nat)
  next
    case (Text2 cs len)
    have "dtype_fits (Text2 cs len)" using Cons.prems Text2 by simp
    from blr_fields_Text2 [OF h this, of pre "concat (map (dtype_encode h) ts) @ rest"] show ?thesis
      using IH Text2 by (simp del: blr_fields.simps)
  qed
qed simp

lemma blr_messages_inverts:
  assumes h: "blr_headers_ok h" and "\<forall>m \<in> set ms. message_fits m"
    and stop: "unat x \<noteq> blr_val h blr_message"
  shows "blr_messages h (pre @ concat (map (message_encode h) ms) @ x # rest) (length pre) =
    Some (concat (map message_render ms), length pre + length (concat (map (message_encode h) ms)))"
  using assms(2)
proof (induction ms arbitrary: pre)
  case Nil
  then show ?case using stop by (simp add: blr_messages.simps rd_append_hd)
next
  case (Cons m ms)
  obtain i ts where m: "m = (i, ts)" by force
  then have fits: "i < 256" "length ts < 65536" "\<forall>t \<in> set ts. dtype_fits t"
    using Cons.prems by (auto simp: message_fits_def)
  let ?tail = "concat (map (message_encode h) ms) @ x # rest"
  let ?two = "pre @ [opcode h blr_message, of_nat i]" and ?ds = "concat (map (dtype_encode h) ts)"
  let ?b = "pre @ message_encode h m @ ?tail"
  have b: "?b = ?two @ enc_le 2 (length ts) @ ?ds @ ?tail"
    "?b = (?two @ enc_le 2 (length ts)) @ ?ds @ ?tail"
    by (simp_all add: message_encode_def m)
  have IH: "blr_messages h ((pre @ message_encode h m) @ ?tail) (length (pre @ message_encode h m)) =
      Some (concat (map message_render ms),
        length (pre @ message_encode h m) + length (concat (map (message_encode h) ms)))"
    using Cons by (intro Cons.IH) simp
  have len: "length (message_encode h m) = 4 + length ?ds"
    by (simp add: message_encode_def m)
  have "blr_fields h ?b (length ts) (length (?two @ enc_le 2 (length ts))) =
      Some (concat (map dtype_render ts), length (?two @ enc_le 2 (length ts)) + length ?ds)"
    unfolding b(2) by (rule blr_fields_inverts [OF h fits(3)])
  then have fl: "blr_fields h ?b (length ts) (length pre + 4) =
      Some (concat (map dtype_render ts), length (pre @ message_encode h m))"
    by (simp add: len)
  have le: "le_read 2 ?b (length pre + 2) = Some (length ts)"
    unfolding b(1) by (rule le_read_2_at) (use fits in simp_all)
  have rds: "rd ?b (length pre) = Some (opcode h blr_message)" "rd ?b (length pre + 1) = Some (of_nat i)"
    unfolding b(1) by (simp_all add: rd_def nth_append)
  have "blr_messages h ?b (length pre) = Some (message_render m @ concat (map message_render ms),
      length (pre @ message_encode h m) + length (concat (map (message_encode h) ms)))"
    by (subst blr_messages.simps)
      (use rds le fl IH fits h in \<open>simp add: opcode_val unat_of_nat message_render_def m\<close>)
  then show ?case by simp
qed


section \<open>Interfaces\<close>

lemma okd_blr_segments [okd_rules]: "okd k (blr_segments h) 0"
  unfolding blr_segments_def by (rule okd_eq, (rule okd_rules | simp add: delta_simps)+)

lemma okd_fetchBlob [okd_rules]: "okd k (fetchBlob db tra sql) 0"
  unfolding fetchBlob_def by (rule okd_eq, (rule okd_rules | simp add: delta_simps)+)

lemma att_blr [att_rules]:
  "keeps (\<lambda>w. att_view w = v) (blr_segments h)"
  "keeps (\<lambda>w. att_view w = v) (fetchBlob db tra sql)"
  unfolding fetchBlob_def blr_segments_def
  by (intro quiet_rules att_rules; simp add: delta_simps)+

lemma blr_reports: "reports blr_main"
  unfolding blr_main_def by (intro reports_arg reports_try returns_rules)

lemma blr_okd: "k \<notin> {KStatus, KProv, KAtt} \<Longrightarrow> okd0 k blr_main"
  unfolding blr_main_def
  by (rule okd0_arg okd0_main okd_with_Db okd_attachOrCreate okd_rules
    | assumption | simp add: delta_simps)+

lemma blr_att: "att_triple b {} {} blr_main {}"
  unfolding blr_main_def
  by (rule att_flow
    | (rule att_quiet, (intro quiet_rules att_rules; simp add: delta_simps))
    | (rule att_leaf, (intro quiet_rules att_rules; simp add: delta_simps), simp) | simp)+


section \<open>Properties\<close>

text \<open>
  C28.  \<open>expr\<close> inverts the prefix encoding of expression trees: started on the encoding of a tree,
  wherever it stands in the buffer, it prints the tree in preorder, one line per node indented by
  its depth, and leaves the pointer just behind the encoding.
\<close>

theorem expr_decodes:
  assumes "blr_headers_ok h" and "blr_fits t"
  shows "expr h (pre @ blr_encode h t @ rest) (length pre) depth =
    Some (blr_render depth t, length pre + length (blr_encode h t))"
  by (rule expr_inverts [OF assms])

text \<open>The opcode values of \<open>blr.h\<close>.\<close>

definition blr_headers :: header_values where
  "blr_headers = \<lparr>xpb_val = (\<lambda>_. 0), info_val = (\<lambda>_. 0), sql_val = (\<lambda>_. 0),
     blr_val = (\<lambda>op. case op of blr_version5 \<Rightarrow> 5 | blr_begin \<Rightarrow> 2 | blr_message \<Rightarrow> 4 | blr_eoc \<Rightarrow> 76
       | blr_concatenate \<Rightarrow> 39 | blr_field \<Rightarrow> 23 | blr_literal \<Rightarrow> 21 | blr_text2 \<Rightarrow> 15 | blr_short \<Rightarrow> 7),
     arg_val = (\<lambda>_. 0), enum_val = (\<lambda>_. 0), isc_portable_integer = (\<lambda>_. 0)\<rparr>"

lemma blr_headers_ok_instance: "blr_headers_ok blr_headers"
  by (auto simp: blr_headers_ok_def blr_headers_def inj_def split: blr_op.splits)

definition demo_expr :: blr_expr where
  "demo_expr = Concatenate (Field 0 ''LAST'') (Literal 0 '', '')"

lemma demo_expr_bytes:
  "blr_encode blr_headers demo_expr = [39, 23, 0, 4, 76, 65, 83, 84, 21, 15, 0, 0, 2, 0, 44, 32]"
  by (simp add: demo_expr_def opcode_def blr_headers_def enc_le_2 bytes_of_def)

theorem expr_decodes_witness:
  "expr blr_headers [5, 39, 23, 0, 4, 76, 65, 83, 84, 21, 15, 0, 0, 2, 0, 44, 32, 76] 1 1 =
     Some (blr_render 1 demo_expr, 17)"
proof -
  have "blr_fits demo_expr" by (simp add: demo_expr_def)
  then show ?thesis
    using expr_decodes [OF blr_headers_ok_instance, of demo_expr "[5]" "[76]" 1]
    by (simp add: demo_expr_bytes)
qed

text \<open>
  C29.  The loop over the message declarations prints every message with all its field descriptors, in
  order, and stops on the first byte that is not \<open>blr_message\<close>.
\<close>

theorem messages_decode:
  assumes "blr_headers_ok h" and "\<forall>m \<in> set ms. message_fits m" and "unat x \<noteq> blr_val h blr_message"
  shows "blr_procedure h ([opcode h blr_version5, opcode h blr_begin] @
      concat (map (message_encode h) ms) @ x # rest) =
    Some (''blr_version5, blr_begin'' @ nl @ concat (map message_render ms) @ ''... '' @
      show_nat (Suc (length rest)) @ '' more bytes '' @ [CHR 0xE2, CHR 0x80, CHR 0x94] @
      '' see isql SET BLOB ALL for the full dump'' @ nl)"
proof -
  let ?two = "[opcode h blr_version5, opcode h blr_begin]"
  let ?b = "?two @ concat (map (message_encode h) ms) @ x # rest"
  have "blr_messages h ?b 2 = Some (concat (map message_render ms),
      2 + length (concat (map (message_encode h) ms)))"
    using blr_messages_inverts [OF assms, of ?two rest] by (simp add: numeral_2_eq_2)
  moreover have "rd ?b 0 = Some (opcode h blr_version5)" "rd ?b 1 = Some (opcode h blr_begin)"
    by (simp_all add: rd_def)
  ultimately show ?thesis
    using opcode_val [OF assms(1)] by (simp add: blr_procedure_def)
qed

lemma demo_messages_bytes:
  "[opcode blr_headers blr_version5, opcode blr_headers blr_begin] @
     concat (map (message_encode blr_headers) [(0, [Short 0]), (1, [Text2 0 5])]) @ [76] =
   [5, 2, 4, 0, 1, 0, 7, 0, 4, 1, 1, 0, 15, 0, 0, 5, 0, 76]"
  by (simp add: message_encode_def opcode_def blr_headers_def enc_le_2)

theorem messages_decode_witness:
  "blr_procedure blr_headers [5, 2, 4, 0, 1, 0, 7, 0, 4, 1, 1, 0, 15, 0, 0, 5, 0, 76] \<noteq> None"
proof -
  have "\<forall>m \<in> set [(0, [Short 0]), (1, [Text2 0 5])]. message_fits m" by (simp add: message_fits_def)
  moreover have "unat (76 :: byte) \<noteq> blr_val blr_headers blr_message" by (simp add: blr_headers_def)
  ultimately show ?thesis
    using messages_decode [OF blr_headers_ok_instance, of "[(0, [Short 0]), (1, [Text2 0 5])]" 76 "[]"]
    by (simp only: demo_messages_bytes) simp
qed

text \<open>
  C30.  \<open>expr\<close> takes the end of the BLR but does not test it: on BLR cut off before the second
  operand of a concatenation it reads past the end.
\<close>

theorem expr_unguarded:
  assumes "blr_headers_ok h" and "blr_fits a"
  shows "expr h (pre @ opcode h blr_concatenate # blr_encode h a) (length pre) depth = None"
proof -
  let ?pre = "pre @ [opcode h blr_concatenate]"
  have "expr h (?pre @ blr_encode h a) (length ?pre) (depth + 1) =
      Some (blr_render (depth + 1) a, length (?pre @ blr_encode h a))"
    using expr_inverts [OF assms, of ?pre "[]" "depth + 1"] by simp
  moreover have "expr h (?pre @ blr_encode h a) (length (?pre @ blr_encode h a)) (depth + 1) = None"
    by (subst expr.simps) (simp add: rd_def)
  ultimately show ?thesis
    by (subst expr.simps) (simp add: rd_append_hd opcode_val [OF assms(1)])
qed

theorem expr_unguarded_witness: "expr blr_headers [39, 23, 0, 1, 65] 0 1 = None"
  using expr_unguarded [OF blr_headers_ok_instance, of "Field 0 ''A''" "[]" 1]
  by (simp add: opcode_def blr_headers_def bytes_of_def)

text \<open>
  C31.  The segment loop of \<open>fetchBlob\<close> returns on every server that delivers finitely many segments of
  at most 4096 bytes, whole or in pieces, and the bytes it returns are all of them in order.
\<close>

theorem segments_concatenate:
  assumes "\<forall>s. \<exists>r s'. fb e (Blob blob (GetSegment 4096)) s = ((None, r), s') \<and>
    (case segs s of [] \<Rightarrow> r_code r = RESULT_NO_DATA
     | x # xs \<Rightarrow> r_code r \<in> {RESULT_OK, RESULT_SEGMENT} \<and> r_b r = x \<and> length x \<le> 4096 \<and> segs s' = xs)"
  shows "\<exists>w'. blr_segments blob e w = Some (Ok (concat (segs (server w))), w')"
proof -
  have "\<exists>w'. loopP (\<lambda>bytes. bindP (ask (Blob blob (GetSegment 4096))) (\<lambda>r.
      if r_code r \<noteq> RESULT_OK \<and> r_code r \<noteq> RESULT_SEGMENT then ret (Inr bytes)
      else bindP (checked ''seg + len'' (if length (r_b r) \<le> 4096 then Some (r_b r) else None))
        (\<lambda>seg. ret (Inl (bytes @ seg))))) acc e w = Some (Ok (acc @ concat (segs (server w))), w')" for acc
  proof (induction "segs (server w)" arbitrary: w acc)
    case Nil
    obtain r s' where "fb e (Blob blob (GetSegment 4096)) (server w) = ((None, r), s')"
        "r_code r = RESULT_NO_DATA"
      using assms [rule_format, of "server w"] Nil by auto
    then show ?case
      using Nil by (subst loopP.simps) (simp add: bindP_def ask_def ret_def Let_def)
  next
    case (Cons x xs)
    obtain r s' where r: "fb e (Blob blob (GetSegment 4096)) (server w) = ((None, r), s')"
        "r_code r \<in> {RESULT_OK, RESULT_SEGMENT}" "r_b r = x" "length x \<le> 4096" "segs s' = xs"
      using assms [rule_format, of "server w"] by (auto simp: Cons.hyps(2) [symmetric])
    let ?w = "w\<lparr>server := s', log := (Blob blob (GetSegment 4096), None, r) # log w\<rparr>"
    show ?case
      using Cons.hyps(1) [of ?w "acc @ x"] r
      by (subst loopP.simps)
        (auto simp: bindP_def ask_def ret_def Let_def checked_def Cons.hyps(2) [symmetric])
  qed
  from this [of "[]"] show ?thesis unfolding blr_segments_def by simp
qed

definition segment_server :: "byte list list env" where
  "segment_server = \<lparr>fb = (\<lambda>c s. ((None, \<lparr>r_h = 0, r_n = 0, r_s = [], r_b = (case s of [] \<Rightarrow> [] | x # _ \<Rightarrow> take 4096 x),
       r_ns = [], r_descs = [], r_ints = [], r_code = (if s = [] then RESULT_NO_DATA else RESULT_SEGMENT), r_null = False\<rparr>), tl s)),
     hdr = blr_headers, argv = []\<rparr>"

theorem segments_concatenate_witness:
  "\<exists>w'. blr_segments 7 segment_server \<lparr>server = [[5, 39], [76]], log = [], out = [], err = [],
       environ = (\<lambda>_. None), cells = (\<lambda>_ _. None), fresh = 0\<rparr> = Some (Ok [5, 39, 76], w')"
proof -
  have "\<forall>s. \<exists>r s'. fb segment_server (Blob 7 (GetSegment 4096)) s = ((None, r), s') \<and>
    (case map (take 4096) s of [] \<Rightarrow> r_code r = RESULT_NO_DATA
     | x # xs \<Rightarrow> r_code r \<in> {RESULT_OK, RESULT_SEGMENT} \<and> r_b r = x \<and> length x \<le> 4096
         \<and> map (take 4096) s' = xs)"
    by (auto simp: segment_server_def split: list.splits)
  from segments_concatenate [OF this, of "\<lparr>server = [[5, 39], [76]], log = [],
      out = [], err = [], environ = (\<lambda>_. None), cells = (\<lambda>_ _. None), fresh = 0\<rparr>"]
  show ?thesis by simp
qed

end
