(* ===== verification/Native_Clients.thy ===== *)
theory Native_Clients
  imports Sample_Kit
begin

text \<open>
  The two clients that use the object-oriented API without \<open>fb_sample.h\<close>:
  \<open>samples/client_test.cpp\<close> and \<open>samples/protocol_client.cpp\<close>.  Their \<open>main\<close> keeps the
  interfaces it holds in pointer variables that start as \<open>nullptr\<close>, are set by the call that
  acquires and cleared after the call that gives back, and releases whatever is still
  non-null after its handler.  The pointers of one \<open>main\<close> are the cells of one index, one per
  kind.  The invariant \<open>held\<close> ties the count of a kind to its pointer; with it, whatever
  fails, everything held in a pointer is given back before \<open>main\<close> returns.
\<close>


section \<open>Pointer variables\<close>

text \<open>\<open>p = call;\<close>\<close>

definition hold :: "kind \<Rightarrow> nat \<Rightarrow> call \<Rightarrow> ('s, nat) prog" where
  "hold k c call = bindP (handle_of call) (\<lambda>h. bindP (set_cell k c (Some h)) (\<lambda>_. ret h))"

text \<open>\<open>p->close(&status); p = nullptr;\<close>\<close>

definition give :: "kind \<Rightarrow> nat \<Rightarrow> call \<Rightarrow> ('s, unit) prog" where
  "give k c call = block [do_call call, set_cell k c None]"

text \<open>\<open>if (p) p->release();\<close>\<close>

definition release_if :: "kind \<Rightarrow> nat \<Rightarrow> (nat \<Rightarrow> call) \<Rightarrow> ('s, unit) prog" where
  "release_if k c rel =
     bindP (get_cell k c) (\<lambda>p. case p of None \<Rightarrow> ret () | Some h \<Rightarrow> do_void (rel h))"

definition deref :: "kind \<Rightarrow> nat \<Rightarrow> ('s, nat) prog" where
  "deref k c = bindP (get_cell k c) (checked ''null pointer'')"

definition clear :: "kind list \<Rightarrow> nat \<Rightarrow> ('s, unit) prog" where
  "clear ks c = for_each ks (\<lambda>k. set_cell k c None)"


section \<open>client\_test.cpp\<close>

definition client_connect :: "nat \<Rightarrow> nat \<Rightarrow> string \<Rightarrow> nat \<Rightarrow> ('s, unit) prog" where
  \<open>client_connect c prov database dpb =
    try_fb (bindP (ask (Xpb dpb GetBuffer)) (\<lambda>b.
      block
       [ignore (hold KAtt c (Prov prov (AttachDatabase database (r_b b)))),
        say (''Attached to existing database: '' @ database @ nl)]))
    (\<lambda>_. bindP (ask (Xpb dpb GetBuffer)) (\<lambda>b.
      block
       [ignore (hold KAtt c (Prov prov (CreateDatabase database (r_b b)))),
        say (''Created new database: '' @ database @ nl)]))\<close>

definition client_seed :: "(int \<times> string \<times> string) list" where
  \<open>client_seed =
    [(1, ''Ada Lovelace'', ''London''), (2, ''Grace Hopper'', ''New York''),
     (3, ''Edsger Dijkstra'', ''Rotterdam''), (4, ''Jim Starkey'', ''Manchester'')]\<close>

text \<open>\<open>snprintf\<close> into a \<open>char[256]\<close>.\<close>

definition client_insert :: "int \<times> string \<times> string \<Rightarrow> string" where
  \<open>client_insert s = take 255
    ((''insert into people (id, name, city) values ('' @ show_int (fst s) @ '', '' @
            [CHR 0x27] @ (fst (snd s)) @ [CHR 0x27] @ '', '' @ [CHR 0x27] @ (snd (snd s)) @
            [CHR 0x27] @ '')''))\<close>

text \<open>The lambda \<open>trimmed\<close>, and \<open>out.pop_back()\<close> while the last character is a blank.\<close>

definition rtrim :: "string \<Rightarrow> string" where
  "rtrim s = rev (dropWhile (\<lambda>c. c = CHR '' '') (rev s))"

definition trimmed :: "byte list \<Rightarrow> nat \<Rightarrow> nat \<Rightarrow> string option" where
  "trimmed buf off len = map_option (\<lambda>bs. rtrim (chars bs)) (slice buf off len)"

definition client_coerce :: "nat \<Rightarrow> nat \<Rightarrow> ('s, unit) prog" where
  \<open>client_coerce meta builder = bindP (number_of (Meta meta GetCount)) (\<lambda>cols.
      bindP (headers) (\<lambda>h.
      block
       [for_each [0..<cols] (\<lambda>j. bindP (number_of (Meta meta (GetType j))) (\<lambda>t.
      block
       [if t = sql_val h SQL_VARYING \<or> t = sql_val h SQL_TEXT
      then do_call (Builder builder (SetType j SQL_TEXT)) else ret ()]))]))\<close>

definition client_rows :: "nat \<Rightarrow> nat \<Rightarrow> nat \<Rightarrow> nat \<times> nat \<Rightarrow> nat \<times> nat \<Rightarrow> ('s, unit) prog" where
  \<open>client_rows curs msgLen idOff name city =
    loopP (\<lambda>u. bindP (ask (Curs curs (FetchNext msgLen))) (\<lambda>r.
      (if r_code r = RESULT_OK
      then (let buffer = fit msgLen (r_b r) in
      bindP (message_nat buffer idOff 4) (\<lambda>i.
      bindP (checked ''name'' (trimmed buffer (fst name) (snd name))) (\<lambda>n.
      bindP (checked ''city'' (trimmed buffer (fst city) (snd city))) (\<lambda>t.
      returning
       [say (ljust 4 (show_int (signed32 i)) @ '' '' @ ljust 20 (c_str n) @ '' '' @
            ljust 20 (c_str t) @ nl)]
       (Inl ())))))
      else ret (Inr ())))) ()\<close>

definition client_query :: "nat \<Rightarrow> nat \<Rightarrow> nat \<Rightarrow> ('s, unit) prog" where
  \<open>client_query c att tra = bindP (hold KStmt c (Att att (Prepare tra ''select id, name, city from people order by id'' True))) (\<lambda>stmt.
      bindP (handle_of (Stmt stmt GetOutputMetadata)) (\<lambda>meta.
      bindP (handle_of (Meta meta GetBuilder)) (\<lambda>builder.
      seqP
       [client_coerce meta builder,
        do_void (Meta meta MetaRelease)] (
      bindP (handle_of (Builder builder BuilderGetMetadata)) (\<lambda>meta.
      seqP
       [do_void (Builder builder BuilderRelease)] (
      bindP (number_of (Meta meta GetMessageLength)) (\<lambda>msgLen.
      bindP (number_of (Meta meta (GetOffset 0))) (\<lambda>idOff.
      bindP (number_of (Meta meta (GetOffset 1))) (\<lambda>nameOff.
      bindP (number_of (Meta meta (GetOffset 2))) (\<lambda>cityOff.
      bindP (number_of (Meta meta (GetLength 1))) (\<lambda>nameLen.
      bindP (number_of (Meta meta (GetLength 2))) (\<lambda>cityLen.
      bindP (hold KCurs c (Stmt stmt (OpenCursor tra (Some meta)))) (\<lambda>curs.
      block
       [say (ljust 4 (''ID'') @ '' '' @ ljust 20 (''NAME'') @ '' '' @ ljust 20 (''CITY'') @ nl),
        say (''---- -------------------- --------------------'' @ nl),
        client_rows curs msgLen idOff (nameOff, nameLen) (cityOff, cityLen),
        do_void (Meta meta MetaRelease),
        give KCurs c (Curs curs CursClose),
        give KStmt c (Stmt stmt StmtFree)])))))))))))))\<close>

definition client_body :: "nat \<Rightarrow> nat \<Rightarrow> string \<Rightarrow> ('s, unit) prog" where
  \<open>client_body c prov database = bindP (hold KXpb c (Master (GetXpbBuilder DPB))) (\<lambda>dpb.
      seqP
       [do_call (Xpb dpb (InsertInt isc_dpb_page_size (8 * 1024)))] (
      bindP (getenv ''ISC_USER'') (\<lambda>u.
      bindP (checked ''getenv'' u) (\<lambda>user.
      seqP
       [do_call (Xpb dpb (InsertString isc_dpb_user_name user))] (
      bindP (getenv ''ISC_PASSWORD'') (\<lambda>p.
      bindP (checked ''getenv'' p) (\<lambda>password.
      seqP
       [do_call (Xpb dpb (InsertString isc_dpb_password password)),
        do_call (Xpb dpb (InsertString isc_dpb_set_db_charset ''UTF8'')),
        client_connect c prov database dpb] (
      bindP (deref KAtt c) (\<lambda>att.
      bindP (hold KTra c (Att att (StartTransaction []))) (\<lambda>tra.
      block
       [do_call (Att att (Execute tra
      (''recreate table people (id integer not null primary key, '' @
      ''name varchar(30), city varchar(30))''))),
        do_call (Tra tra CommitRetaining),
        say (''Table 'people' ready.'' @ nl),
        for_each client_seed (\<lambda>s. do_call (Att att (Execute tra (client_insert s)))),
        do_call (Tra tra CommitRetaining),
        say (''Inserted '' @ show_nat (length client_seed) @ '' rows.'' @ nl @ nl),
        client_query c att tra,
        give KTra c (Tra tra Commit),
        give KAtt c (Att att Detach),
        say (nl @ ''Done.'' @ nl)]))))))))))\<close>

definition client_test_main :: "('s, int) prog" where
  \<open>client_test_main = bindP (argOrDefault 1 ''employees.fdb'') (\<lambda>database.
      bindP (getenv ''ISC_USER'') (\<lambda>u.
      seqP
       [setenv ''ISC_USER'' (case u of Some x \<Rightarrow> x | None \<Rightarrow> ''SYSDBA'') True] (
      bindP (getenv ''ISC_PASSWORD'') (\<lambda>p.
      seqP
       [setenv ''ISC_PASSWORD'' (case p of Some x \<Rightarrow> x | None \<Rightarrow> ''masterkey'') True] (
      bindP (ask_void (Master GetStatus)) (\<lambda>status.
      bindP (ask_void (Master GetDispatcher)) (\<lambda>prov.
      bindP (new_cell) (\<lambda>c.
      seqP
       [clear [KAtt, KTra, KStmt, KCurs, KXpb] c] (
      bindP (try_fb (returning
       [client_body c (r_h prov) database]
       0)
      (\<lambda>error. bindP (formatStatus 512 error) (\<lambda>buf.
      returning
       [say_err (''Firebird error:'' @ nl @ buf @ nl)]
       1))) (\<lambda>rc.
      returning
       [release_if KCurs c (\<lambda>h. Curs h CursRelease),
        release_if KStmt c (\<lambda>h. Stmt h StmtRelease),
        release_if KTra c (\<lambda>h. Tra h TraRelease),
        release_if KAtt c (\<lambda>h. Att h AttRelease),
        release_if KXpb c (\<lambda>h. Xpb h XpbDispose),
        do_void (Prov (r_h prov) ProvRelease),
        do_void (StatusDispose (r_h status))]
       rc))))))))))\<close>


section \<open>protocol\_client.cpp\<close>

text \<open>
  What \<open>queryScalar\<close> makes of a fetched message: a NULL gives the empty string, a VARCHAR its
  text without trailing blanks.
\<close>

definition scalar_value :: "byte list \<Rightarrow> nat \<Rightarrow> nat \<Rightarrow> string option" where
  "scalar_value buf off nullOff =
     (case le_read 2 buf nullOff of None \<Rightarrow> None
      | Some flag \<Rightarrow>
          if flag = 0
          then (case le_read 2 buf off of None \<Rightarrow> None
                | Some n \<Rightarrow> map_option (\<lambda>bs. rtrim (chars bs)) (slice buf (off + 2) n))
          else Some [])"

definition queryScalar :: "nat \<Rightarrow> nat \<Rightarrow> string \<Rightarrow> ('s, string) prog" where
  \<open>queryScalar att tra sql = bindP (handle_of (Att att (OpenCursorSql tra sql))) (\<lambda>rs.
      bindP (handle_of (Curs rs CursGetMetadata)) (\<lambda>meta.
      bindP (number_of (Meta meta GetMessageLength)) (\<lambda>len.
      bindP (number_of (Meta meta (GetOffset 0))) (\<lambda>off.
      bindP (number_of (Meta meta (GetNullOffset 0))) (\<lambda>nullOff.
      bindP (ask (Curs rs (FetchNext len))) (\<lambda>r.
      bindP ((if r_code r = RESULT_OK
      then checked ''message read'' (scalar_value (fit len (r_b r)) off nullOff) else ret [])) (\<lambda>out.
      returning
       [do_call (Curs rs CursClose),
        do_void (Meta meta MetaRelease)]
       out)))))))\<close>

definition protocol_body :: "nat \<Rightarrow> nat \<Rightarrow> string \<Rightarrow> string \<Rightarrow> string \<Rightarrow> ('s, unit) prog" where
  \<open>protocol_body c prov database user password = bindP (hold KXpb c (Master (GetXpbBuilder DPB))) (\<lambda>dpb.
      seqP
       [do_call (Xpb dpb (InsertString isc_dpb_user_name user)),
        do_call (Xpb dpb (InsertString isc_dpb_password password)),
        do_call (Xpb dpb (InsertString isc_dpb_lc_ctype ''NONE''))] (
      bindP (ask (Xpb dpb GetBuffer)) (\<lambda>b.
      bindP (hold KAtt c (Prov prov (AttachDatabase database (r_b b)))) (\<lambda>att.
      seqP
       [say (''attached to '' @ database @ nl)] (
      bindP (hold KTra c (Att att (StartTransaction []))) (\<lambda>tra.
      bindP (queryScalar att tra ''select rdb$get_context('SYSTEM','ENGINE_VERSION') from rdb$database'') (\<lambda>v.
      seqP
       [say (''engine version : '' @ (c_str v) @ nl)] (
      bindP (queryScalar att tra ''select rdb$get_context('SYSTEM','NETWORK_PROTOCOL') from rdb$database'') (\<lambda>v.
      seqP
       [say (''protocol       : '' @ (c_str v) @ nl)] (
      bindP (queryScalar att tra ''select rdb$get_context('SYSTEM','WIRE_CRYPT_PLUGIN') from rdb$database'') (\<lambda>wc.
      seqP
       [say (''wire crypt     : '' @ (if wc = [] then ''(none)'' else c_str wc) @ nl)] (
      bindP (queryScalar att tra ''select trim(current_user) from rdb$database'') (\<lambda>v.
      block
       [say (''authenticated  : '' @ (c_str v) @ nl),
        give KTra c (Tra tra Commit),
        give KAtt c (Att att Detach),
        say (''detached. bye'' @ nl)])))))))))))))\<close>

definition protocol_client_main :: "('s, int) prog" where
  \<open>protocol_client_main = bindP (argOrDefault 1 ''inet://localhost/employee'') (\<lambda>database.
      bindP (argOrDefault 2 ''SYSDBA'') (\<lambda>user.
      bindP (argOrDefault 3 ''masterkey'') (\<lambda>password.
      bindP (ask_void (Master GetStatus)) (\<lambda>status.
      bindP (ask_void (Master GetDispatcher)) (\<lambda>prov.
      bindP (new_cell) (\<lambda>c.
      seqP
       [clear [KAtt, KTra, KXpb] c] (
      bindP (try_fb (returning
       [protocol_body c (r_h prov) database user password]
       0)
      (\<lambda>e. bindP (formatStatus 512 e) (\<lambda>msg.
      returning
       [say_err (''ERROR: '' @ msg @ nl)]
       1))) (\<lambda>rc.
      returning
       [release_if KTra c (\<lambda>h. Tra h TraRelease),
        release_if KAtt c (\<lambda>h. Att h AttRelease),
        release_if KXpb c (\<lambda>h. Xpb h XpbDispose),
        do_void (Prov (r_h prov) ProvRelease),
        do_void (StatusDispose (r_h status))]
       rc))))))))\<close>


section \<open>Pointers and counts\<close>

definition held :: "kind \<Rightarrow> nat \<Rightarrow> int \<Rightarrow> bool \<Rightarrow> 's world \<Rightarrow> bool" where
  "held k c b n w \<longleftrightarrow> bal (gain k) w = b + of_bool n \<and> (cells w k c \<noteq> None \<longleftrightarrow> n)"

definition own_view :: "kind \<Rightarrow> nat \<Rightarrow> 's world \<Rightarrow> int \<times> nat option" where
  "own_view k c w = (bal (gain k) w, cells w k c)"

interpretation own: world_view "own_view k c" "\<lambda>cl. delta k cl = 0" for k c
  by unfold_locales (auto simp: own_view_def bal_def gain_def)

lemma held_view: "held k c b n w \<longleftrightarrow> (case own_view k c w of (m, p) \<Rightarrow> m = b + of_bool n \<and> (p \<noteq> None \<longleftrightarrow> n))"
  by (simp add: held_def own_view_def)

abbreviation own_triple :: "kind \<Rightarrow> nat \<Rightarrow> int \<Rightarrow> bool \<Rightarrow> ('s, 'a) prog \<Rightarrow> bool \<Rightarrow> bool" where
  "own_triple k c b n m n' \<equiv> hoare (held k c b n) m (\<lambda>_. held k c b n') (\<lambda>_ w. \<exists>n. held k c b n w)"

named_theorems own_flow \<open>the pointer of a kind along a statement sequence\<close>
named_theorems own_rules \<open>operations that leave the pointer of a kind alone\<close>

lemma own_quiet:
  assumes "\<And>v. keeps (\<lambda>w. own_view k c w = v) m"
  shows "own_triple k c b n m n"
proof (rule hoare_weaken)
  show "hoare (held k c b n) m (\<lambda>_. held k c b n) (\<lambda>_. held k c b n)"
    by (rule view_hoare [OF assms]) (simp add: held_view)
qed auto

lemma own_bind [own_flow]:
  "own_triple k c b n m n' \<Longrightarrow> (\<And>a. own_triple k c b n' (f a) n'') \<Longrightarrow> own_triple k c b n (bindP m f) n''"
  by (rule hoare_bindP)

lemma own_block [own_flow]:
  "own_triple k c b n (block []) n"
  "own_triple k c b n m n' \<Longrightarrow> own_triple k c b n' (block ms) n'' \<Longrightarrow> own_triple k c b n (block (m # ms)) n''"
  by (auto intro: hoare_ret hoare_bindP)

lemma own_seqP [own_flow]:
  "own_triple k c b n (block ms) n' \<Longrightarrow> own_triple k c b n' r n'' \<Longrightarrow> own_triple k c b n (seqP ms r) n''"
  unfolding seqP_def by (rule hoare_bindP)

lemma own_returning [own_flow]:
  "own_triple k c b n (block ms) n' \<Longrightarrow> own_triple k c b n (returning ms a) n'"
  unfolding returning_def by (rule hoare_bindP) (auto intro: hoare_ret)

text \<open>The acquiring assignment, precise on its exceptional exit: the pointer is still null.\<close>

lemma hold_triple:
  assumes "delta k call = 1"
  shows "hoare (held k c b False) (hold k c call) (\<lambda>_. held k c b True) (\<lambda>_. held k c b False)"
  using assms by (intro hoareI)
    (auto simp: hold_def handle_of_def bindP_def run_simps ask_run held_def bal_def gain_def
      split: prod.splits option.splits if_splits)

lemma own_hold [own_flow]: "delta k call = 1 \<Longrightarrow> own_triple k c b False (hold k c call) True"
  by (rule hoare_weaken [OF hold_triple]) auto

lemma own_give [own_flow]:
  assumes "delta k call = - 1"
  shows "own_triple k c b True (give k c call) False"
  using assms by (intro hoareI)
    (auto simp: give_def do_call_def ignore_def bindP_def run_simps ask_run held_def bal_def gain_def
      split: prod.splits option.splits if_splits)

lemma own_set_other [own_rules]: "kk \<noteq> k \<Longrightarrow> keeps (\<lambda>w. own_view k c w = v) (set_cell kk i x)"
  by (rule keepsI) (auto simp: set_cell_def own_view_def bal_def)

lemma own_other [own_rules]:
  "kk \<noteq> k \<Longrightarrow> delta k call = 0 \<Longrightarrow> keeps (\<lambda>w. own_view k c w = v) (hold kk i call)"
  "kk \<noteq> k \<Longrightarrow> delta k call = 0 \<Longrightarrow> keeps (\<lambda>w. own_view k c w = v) (give kk i call)"
  "keeps (\<lambda>w. own_view k c w = v) (deref kk i)"
  "(\<And>h. delta k (rel h) = 0) \<Longrightarrow> keeps (\<lambda>w. own_view k c w = v) (release_if kk i rel)"
  unfolding hold_def give_def deref_def release_if_def
  by (intro keeps_rules own.leaf_rules own_set_other; assumption)+

lemma own_formatStatus [own_rules]: "keeps (\<lambda>w. own_view k c w = v) (formatStatus m st)"
  unfolding formatStatus_def by (intro keeps_rules own.leaf_rules; simp add: delta_simps)

lemma own_message_nat [own_rules]: "keeps (\<lambda>w. own_view k c w = v) (message_nat buf off m)"
  unfolding message_nat_def by (intro keeps_rules)

lemmas own_leaves = keeps_rules own.leaf_rules

text \<open>At the end: the pointer is released if it is set, and the count is what it was.\<close>

lemma release_triple:
  assumes "\<And>h. delta k (rel h) = - 1"
  shows "hoare (\<lambda>w. \<exists>n. held k c b n w) (release_if k c rel) (\<lambda>_ w. bal (gain k) w = b) (\<lambda>_ _. True)"
proof (rule hoareI)
  fix e w r w' assume "\<exists>n. held k c b n w" and run: "release_if k c rel e w = Some (r, w')"
  then obtain n where h: "held k c b n w" by blast
  show "post (\<lambda>_ w. bal (gain k) w = b) (\<lambda>_ _. True) r w'"
  proof (cases "cells w k c")
    case None
    then show ?thesis using h run by (auto simp: release_if_def bindP_def run_simps held_def)
  next
    case (Some x)
    then have "bal (gain k) w = b + 1" using h by (auto simp: held_def)
    moreover have "do_void (rel x) e w = Some (r, w')"
      using run Some by (simp add: release_if_def bindP_def run_simps)
    ultimately show ?thesis using assms [of x]
      by (auto simp: do_void_def ignore_def bindP_def run_simps bal_def gain_def)
  qed
qed

lemma clear_triple:
  assumes "k \<in> set ks"
  shows "hoare (\<lambda>w. bal (gain k) w = b) (clear ks c) (\<lambda>_. held k c b False) (\<lambda>_ _. True)"
proof (rule hoareI)
  fix e w r w' assume b: "bal (gain k) w = b" and "clear ks c e w = Some (r, w')"
  then have "r = Ok () \<and> bal (gain k) w' = bal (gain k) w \<and> (\<forall>kk \<in> set ks. cells w' kk c = None)
      \<and> (\<forall>kk. cells w kk c = None \<longrightarrow> cells w' kk c = None)"
    unfolding clear_def
  proof (induction ks arbitrary: w)
    case (Cons kk ks)
    let ?w = "w\<lparr>cells := (cells w)(kk := (cells w kk)(c := None))\<rparr>"
    have "for_each ks (\<lambda>k. set_cell k c None) e ?w = Some (r, w')"
      using Cons.prems by (simp add: bindP_def set_cell_def)
    from Cons.IH [OF _ this] Cons.prems(1) show ?case by (auto simp: bal_def)
  qed (auto simp: ret_def)
  then show "post (\<lambda>_. held k c b False) (\<lambda>_ _. True) r w'" using b assms by (auto simp: held_def)
qed


section \<open>The bodies\<close>

lemma client_connect_KAtt [own_flow]: "own_triple KAtt c b False (client_connect c p d x) True"
  unfolding client_connect_def
proof (rule hoare_try_fb [where E' = "\<lambda>_. held KAtt c b False"])
  have buf: "hoare (held KAtt c b False) (ask (Xpb x GetBuffer)) (\<lambda>_. held KAtt c b False)
      (\<lambda>_. held KAtt c b False)"
    by (rule view_hoare [where view = "own_view KAtt c"])
      (auto intro!: own.leaf_rules simp: delta_simps held_view)
  have att: "hoare (held KAtt c b False) (ignore (hold KAtt c (Prov p pc))) (\<lambda>_. held KAtt c b True)
      (\<lambda>_. held KAtt c b False)" if "delta KAtt (Prov p pc) = 1" for pc
    unfolding ignore_def by (rule hoare_bindP [OF hold_triple [OF that]]) (auto intro: hoare_ret)
  have say: "hoare (held KAtt c b True) (say s) (\<lambda>_. held KAtt c b True) E" for s E
    by (rule hoareI) (auto simp: say_def held_def bal_def)
  show "hoare (held KAtt c b False)
     (bindP (ask (Xpb x GetBuffer)) (\<lambda>bf. block [ignore (hold KAtt c (Prov p (AttachDatabase d (r_b bf)))),
        say (''Attached to existing database: '' @ d @ nl)])) (\<lambda>_. held KAtt c b True)
     (\<lambda>_. held KAtt c b False)"
    unfolding block.simps
    by (rule hoare_bindP [OF buf], rule hoare_bindP, rule att, simp add: delta_simps,
        rule hoare_bindP, rule say, rule hoare_ret, assumption)
  show "own_triple KAtt c b False
     (bindP (ask (Xpb x GetBuffer)) (\<lambda>bf. block [ignore (hold KAtt c (Prov p (CreateDatabase d (r_b bf)))),
        say (''Created new database: '' @ d @ nl)])) True" for s :: status
    unfolding ignore_def
    by (rule own_flow own_quiet own_leaves own_rules | simp add: delta_simps)+
qed

lemma own_client_parts [own_rules]:
  "k \<noteq> KAtt \<Longrightarrow> keeps (\<lambda>w. own_view k c w = v) (client_connect i p d x)"
  "keeps (\<lambda>w. own_view k c w = v) (client_rows cu l o1 o2 o3)"
  "keeps (\<lambda>w. own_view k c w = v) (client_coerce m bd)"
  unfolding client_connect_def client_rows_def client_coerce_def
  by (intro own_leaves own_rules; auto simp: delta_simps)+

lemma own_client_query_other [own_rules]:
  "k \<notin> {KStmt, KCurs, KMeta, KBuilder} \<Longrightarrow> keeps (\<lambda>w. own_view k c w = v) (client_query i a t)"
  unfolding client_query_def by (intro own_leaves own_rules; auto simp: delta_simps)

lemma own_client_query [own_flow]:
  "own_triple KStmt c b False (client_query c a t) False"
  "own_triple KCurs c b False (client_query c a t) False"
  unfolding client_query_def
  by (rule own_flow | (rule own_quiet, (intro own_leaves own_rules; simp add: delta_simps)) | simp add: delta_simps)+

definition client_kinds :: "kind list" where
  "client_kinds = [KAtt, KTra, KStmt, KCurs, KXpb]"

lemma client_body_own:
  assumes "k \<in> set client_kinds"
  shows "own_triple k c b False (client_body c p d) (k = KXpb)"
proof -
  have "own_triple KAtt c b False (client_body c p d) False"
    "own_triple KTra c b False (client_body c p d) False"
    "own_triple KStmt c b False (client_body c p d) False"
    "own_triple KCurs c b False (client_body c p d) False"
    "own_triple KXpb c b False (client_body c p d) True"
    unfolding client_body_def
    by (rule own_flow | (rule own_quiet, (intro own_leaves own_rules; simp add: delta_simps)) | simp add: delta_simps)+
  then show ?thesis using assms by (auto simp: client_kinds_def)
qed

lemma own_queryScalar [own_rules]:
  "k \<notin> {KCurs, KMeta} \<Longrightarrow> keeps (\<lambda>w. own_view k c w = v) (queryScalar a t s)"
  unfolding queryScalar_def by (intro own_leaves own_rules; auto simp: delta_simps)

definition protocol_kinds :: "kind list" where
  "protocol_kinds = [KAtt, KTra, KXpb]"

lemma protocol_body_own:
  assumes "k \<in> set protocol_kinds"
  shows "own_triple k c b False (protocol_body c p d u pw) (k = KXpb)"
proof -
  have "own_triple KAtt c b False (protocol_body c p d u pw) False"
    "own_triple KTra c b False (protocol_body c p d u pw) False"
    "own_triple KXpb c b False (protocol_body c p d u pw) True"
    unfolding protocol_body_def
    by (rule own_flow | (rule own_quiet, (intro own_leaves own_rules; simp add: delta_simps)) | simp add: delta_simps)+
  then show ?thesis using assms by (auto simp: protocol_kinds_def)
qed


section \<open>The mains\<close>

text \<open>From the handler on: the pointer of a kind is in an unknown state, then released.\<close>

named_theorems fin_rules \<open>the statements before and after the body of a main\<close>

abbreviation fin :: "kind \<Rightarrow> int \<Rightarrow> 's world \<Rightarrow> bool" where
  "fin k b w \<equiv> bal (gain k) w = b"

lemma fin_keeps:
  assumes "\<And>v. keeps (\<lambda>w. bal (gain k) w = v) m"
  shows "hoare (fin k b) m (\<lambda>_. fin k b) (\<lambda>_ _. True)"
  by (rule hoare_weaken [OF assms [unfolded keeps_def]]) simp_all

lemma ex_held_keeps:
  assumes "\<And>v. keeps (\<lambda>w. own_view k c w = v) m"
  shows "hoare (\<lambda>w. \<exists>n. held k c b n w) m (\<lambda>_ w. \<exists>n. held k c b n w) (\<lambda>_ _. True)"
proof (rule hoare_weaken)
  show "hoare (\<lambda>w. \<exists>n. held k c b n w) m (\<lambda>_ w. \<exists>n. held k c b n w) (\<lambda>_ w. \<exists>n. held k c b n w)"
    by (rule view_hoare [OF assms]) (simp add: held_view)
qed simp_all

lemma fin_handler:
  assumes "own_triple k c b False body n" and "\<And>s v. keeps (\<lambda>w. own_view k c w = v) (h s)"
  shows "hoare (held k c b False) (try_fb (returning [body] 0) h) (\<lambda>_ w. \<exists>n. held k c b n w) (\<lambda>_ _. True)"
proof (rule hoare_try_fb [where E' = "\<lambda>_ w. \<exists>n. held k c b n w"])
  show "hoare (held k c b False) (returning [body] 0) (\<lambda>_ w. \<exists>n. held k c b n w)
      (\<lambda>_ w. \<exists>n. held k c b n w)"
    by (rule hoare_weaken [OF own_returning [OF own_block(2) [OF assms(1) own_block(1)]]]) auto
qed (rule ex_held_keeps [OF assms(2)])

lemma fin_returning_Nil [fin_rules]: "hoare P (returning [] a) (\<lambda>_. P) (\<lambda>_ _. True)"
  by (simp add: returning_def bindP_def hoare_def ret_def)

lemma fin_returning_Cons [fin_rules]:
  "hoare P m (\<lambda>_. Q) (\<lambda>_ _. True) \<Longrightarrow> hoare Q (returning ms a) R (\<lambda>_ _. True) \<Longrightarrow>
   hoare P (returning (m # ms) a) R (\<lambda>_ _. True)"
  unfolding returning_def block.simps by (simp add: bindP_assoc hoare_bindP)

lemma fin_other [fin_rules]:
  assumes "\<And>h. delta k (rel h) = 0"
  shows "hoare (\<lambda>w. \<exists>n. held k c b n w) (release_if kk i rel) (\<lambda>_ w. \<exists>n. held k c b n w) (\<lambda>_ _. True)"
    and "hoare (fin k b) (release_if kk i rel) (\<lambda>_. fin k b) (\<lambda>_ _. True)"
  by (rule ex_held_keeps, rule own_other(4), rule assms)
    (rule fin_keeps, unfold release_if_def, intro keeps_rules count.leaf_rules assms)

lemma fin_void [fin_rules]:
  "delta k c = 0 \<Longrightarrow> hoare (fin k b) (do_void c) (\<lambda>_. fin k b) (\<lambda>_ _. True)"
  by (rule fin_keeps, rule count.keeps_do_void)

text \<open>A \<open>main\<close> of this shape leaves the count of every kind it keeps a pointer for as it was,
  however its body ends.\<close>

lemma fin_main:
  assumes "k \<in> set ks" and "\<And>c b. own_triple k c b False (body c) (n c)"
    and "\<And>c s v. keeps (\<lambda>w. own_view k c w = v) (h s)"
    and tail: "\<And>c b (rc :: int). hoare (\<lambda>w. \<exists>n. held k c b n w) (returning (rels c) rc) (\<lambda>_. fin k b) (\<lambda>_ _. True)"
  shows "okd k (bindP new_cell (\<lambda>c. seqP [clear ks c]
    (bindP (try_fb (returning [body c] (0 :: int)) h) (\<lambda>rc. returning (rels c) rc)))) 0"
proof -
  have "hoare (fin k b) (bindP new_cell (\<lambda>c. seqP [clear ks c]
      (bindP (try_fb (returning [body c] (0 :: int)) h) (\<lambda>rc. returning (rels c) rc)))) (\<lambda>_. fin k b) (\<lambda>_ _. True)" for b
    unfolding seqP_def block.simps
  proof (rule hoare_bindP, rule fin_keeps)
    show "keeps (fin k v) new_cell" for v
      by (rule keepsI) (auto simp: new_cell_def bal_def)
    show "hoare (fin k b) (bindP (bindP (clear ks c) (\<lambda>_. ret ())) (\<lambda>_.
        bindP (try_fb (returning [body c] (0 :: int)) h) (\<lambda>rc. returning (rels c) rc))) (\<lambda>_. fin k b) (\<lambda>_ _. True)" for c
      by (rule hoare_bindP [where Q = "\<lambda>_. held k c b False"], rule hoare_bindP,
          rule clear_triple [OF assms(1)], rule hoare_ret, assumption,
          rule hoare_bindP, rule fin_handler [OF assms(2,3)], rule tail)
  qed
  then show ?thesis by (auto simp: okd_def dest: hoareD_Ok)
qed

lemma client_tail:
  assumes "k \<in> set client_kinds"
  shows "hoare (\<lambda>w. \<exists>n. held k c b n w) (returning
      [release_if KCurs c (\<lambda>h. Curs h CursRelease), release_if KStmt c (\<lambda>h. Stmt h StmtRelease),
       release_if KTra c (\<lambda>h. Tra h TraRelease), release_if KAtt c (\<lambda>h. Att h AttRelease),
       release_if KXpb c (\<lambda>h. Xpb h XpbDispose), do_void (Prov p ProvRelease), do_void (StatusDispose st)] rc)
    (\<lambda>_. fin k b) (\<lambda>_ _. True)"
proof -
  consider "k = KAtt" | "k = KTra" | "k = KStmt" | "k = KCurs" | "k = KXpb"
    using assms by (auto simp: client_kinds_def)
  then show ?thesis
    by cases (hypsubst; (rule release_triple fin_rules | simp add: delta_simps)+)+
qed

lemma protocol_tail:
  assumes "k \<in> set protocol_kinds"
  shows "hoare (\<lambda>w. \<exists>n. held k c b n w) (returning
      [release_if KTra c (\<lambda>h. Tra h TraRelease), release_if KAtt c (\<lambda>h. Att h AttRelease),
       release_if KXpb c (\<lambda>h. Xpb h XpbDispose), do_void (Prov p ProvRelease), do_void (StatusDispose st)] rc)
    (\<lambda>_. fin k b) (\<lambda>_ _. True)"
proof -
  consider "k = KAtt" | "k = KTra" | "k = KXpb"
    using assms by (auto simp: protocol_kinds_def)
  then show ?thesis
    by cases (hypsubst; (rule release_triple fin_rules | simp add: delta_simps)+)+
qed

text \<open>A \<open>main\<close> as a whole; the status and the provider are given back at the end as well, since
  the body is quiet for them.\<close>

lemma okd_client_main:
  assumes "k \<in> set client_kinds"
  shows "okd k client_test_main 0"
proof -
  have mem: "k \<in> set [KAtt, KTra, KStmt, KCurs, KXpb]" using assms by (simp add: client_kinds_def)
  have d: "delta k (Master GetStatus) = 0" "delta k (Master GetDispatcher) = 0"
      "delta k (Master (FormatStatus n st)) = 0" for n st
    using mem by (auto simp: delta_simps)
  show ?thesis
    unfolding client_test_main_def
    by (rule okd_eq, (rule fin_main [where n = "\<lambda>_. k = KXpb"] okd_rules d mem assms client_body_own
          client_tail own_leaves own_rules | simp)+)
qed

lemma okd_protocol_main:
  assumes "k \<in> set protocol_kinds"
  shows "okd k protocol_client_main 0"
proof -
  have mem: "k \<in> set [KAtt, KTra, KXpb]" using assms by (simp add: protocol_kinds_def)
  have d: "delta k (Master GetStatus) = 0" "delta k (Master GetDispatcher) = 0" 
    using mem by (auto simp: delta_simps)
  show ?thesis
    unfolding protocol_client_main_def
    by (rule okd_eq, (rule fin_main [where n = "\<lambda>_. k = KXpb"] okd_rules d mem assms protocol_body_own
          protocol_tail own_leaves own_rules | simp)+)
qed

lemma count_cells: "keeps (\<lambda>w. bal (gain k) w = v) (set_cell kk i x)"
  by (rule keepsI) (auto simp: set_cell_def bal_def)

lemma count_bodies:
  assumes "k = KStatus \<or> k = KProv"
  shows "keeps (\<lambda>w. bal (gain k) w = v) (client_body c p d)"
    and "keeps (\<lambda>w. bal (gain k) w = v) (protocol_body c p d u pw)"
  unfolding client_body_def protocol_body_def client_connect_def client_query_def client_rows_def
    client_coerce_def queryScalar_def hold_def give_def deref_def message_nat_def
  by (intro keeps_rules count.leaf_rules count_cells; use assms in \<open>auto simp: delta_simps\<close>)+

lemma okd_holders [okd_rules]:
  "k = KStatus \<or> k = KProv \<Longrightarrow> okd k (try_fb (returning [client_body c p d] a)
     (\<lambda>error. bindP (formatStatus n error) (\<lambda>buf. returning [say_err (f buf)] a'))) 0"
  "k = KStatus \<or> k = KProv \<Longrightarrow> okd k (try_fb (returning [protocol_body c p d u pw] a)
     (\<lambda>error. bindP (formatStatus n error) (\<lambda>buf. returning [say_err (f buf)] a'))) 0"
  "okd k (clear ks c) 0"
  "(\<And>h. delta k (rel h) = 0) \<Longrightarrow> okd k (release_if kk c rel) 0"
  unfolding clear_def release_if_def
  by (rule okd_keeps, (intro count_bodies count_formatStatus keeps_rules count.leaf_rules count_cells; assumption))+

lemma okd_status_prov:
  "okd KStatus client_test_main 0" "okd KProv client_test_main 0"
  "okd KStatus protocol_client_main 0" "okd KProv protocol_client_main 0"
  unfolding client_test_main_def protocol_client_main_def
  by ((rule okd_eq, (rule okd_holders okd_rules | simp add: delta_simps)+)[1])+


section \<open>Exit codes\<close>

definition native_mains :: "('s, int) prog list" where
  "native_mains = [client_test_main, protocol_client_main]"

lemma err_leaves:
  "keeps (\<lambda>w. err w \<noteq> []) (ask_void cl)" "keeps (\<lambda>w. err w \<noteq> []) (get_cell k i)"
  by (rule keepsI, auto simp: run_simps)+

lemma err_releases: "keeps (\<lambda>w. err w \<noteq> []) (release_if k c rel)" "keeps (\<lambda>w. err w \<noteq> []) (do_void cl)"
  unfolding release_if_def do_void_def by (intro keeps_rules err_leaves)+

lemma nothrow_native [nothrow_rules]:
  "nothrow (release_if k c rel)" "nothrow (formatStatus n st)" "nothrow (argOrDefault n d)"
  "nothrow (setenv x v ow)" "nothrow (clear ks c)"
proof -
  show "nothrow (setenv x v ow)" by (simp add: nothrow_def setenv_def)
  show "nothrow (clear ks c)" unfolding clear_def by (induction ks) (auto intro!: nothrow_rules)
qed (unfold release_if_def formatStatus_def argOrDefault_def, (intro nothrow_rules)+)

text \<open>The code a \<open>main\<close> returns is the one its handler decided on.\<close>

lemma post_trivial: "post (\<lambda>_ _. True) (\<lambda>_ _. True) r w"
  by (cases r) auto

lemma reports_handler:
  assumes "\<And>rc. nothrow (block (ms rc))" and "\<And>rc. keeps (\<lambda>w. err w \<noteq> []) (block (ms rc))"
    and "\<And>buf. f buf \<noteq> []"
  shows "reports (bindP (try_fb (returning [body] 0)
    (\<lambda>st. bindP (formatStatus n st) (\<lambda>buf. returning [say_err (f buf)] 1))) (\<lambda>rc. returning (ms rc) rc))"
proof -
  let ?Q = "\<lambda>rc w. rc = 0 \<or> rc = (1 :: int) \<and> err w \<noteq> []"
  have "hoare (\<lambda>_. True) (try_fb (returning [body] 0)
      (\<lambda>st. bindP (formatStatus n st) (\<lambda>buf. returning [say_err (f buf)] 1))) ?Q (\<lambda>_ _. False)"
  proof (rule hoare_try_fb [where E' = "\<lambda>_ _. True"])
    show "hoare (\<lambda>_. True) (returning [body] 0) ?Q (\<lambda>_ _. True)"
      unfolding returning_def
      by (rule hoare_bindP [where Q = "\<lambda>_ _. True"], simp add: hoare_def post_trivial, rule hoare_ret, simp)
    show "hoare (\<lambda>_. True) (bindP (formatStatus n st) (\<lambda>buf. returning [say_err (f buf)] 1)) ?Q (\<lambda>_ _. False)" for st
    proof (rule hoare_bindP [where Q = "\<lambda>_ _. True"])
      show "hoare (\<lambda>_. True) (formatStatus n st) (\<lambda>_ _. True) (\<lambda>_ _. False)"
        by (simp add: hoare_def formatStatus_def bindP_def ask_void_def ret_def split_beta)
      show "hoare (\<lambda>_. True) (returning [say_err (f buf)] 1) ?Q (\<lambda>_ _. False)" for buf
        using assms(3) [of buf] by (simp add: hoare_def returning_def bindP_def say_err_def ret_def)
    qed
  qed
  moreover have "hoare (?Q rc) (returning (ms rc) rc) ?Q (\<lambda>_ _. False)" for rc
  proof (rule hoareI)
    fix e w r w' assume Q: "?Q rc w" and run: "returning (ms rc) rc e w = Some (r, w')"
    from run show "post ?Q (\<lambda>_ _. False) r w'"
      unfolding returning_def
    proof (cases rule: bindP_SomeE)
      case (step a w1)
      then have "r = Ok rc" "w1 = w'" by (auto simp: ret_def)
      moreover have "err w \<noteq> [] \<Longrightarrow> err w1 \<noteq> []"
        using hoareD_Ok [OF assms(2) [of rc, unfolded keeps_def] _ step(1)] by simp
      ultimately show ?thesis using Q by auto
    next
      case (fail x)
      then show ?thesis using assms(1) [of rc] by (cases x) (auto simp: nothrow_def)
    qed
  qed
  ultimately have whole: "hoare (\<lambda>_. True) (bindP (try_fb (returning [body] 0)
    (\<lambda>st. bindP (formatStatus n st) (\<lambda>buf. returning [say_err (f buf)] 1))) (\<lambda>rc. returning (ms rc) rc)) ?Q (\<lambda>_ _. False)"
    by (rule hoare_bindP)
  show ?thesis unfolding reports_def
  proof (intro allI impI)
    fix e w r w' assume "bindP (try_fb (returning [body] 0)
      (\<lambda>st. bindP (formatStatus n st) (\<lambda>buf. returning [say_err (f buf)] 1)))
      (\<lambda>rc. returning (ms rc) rc) e w = Some (r, w')"
    from hoareD [OF whole TrueI this]
    show "(\<forall>s. r \<noteq> Fail (FbException s)) \<and> (\<forall>n. r = Ok n \<longrightarrow> n = 0 \<or> n = 1 \<and> err w' \<noteq> [])"
      by (cases r) auto
  qed
qed

lemma native_reports: "m \<in> set native_mains \<Longrightarrow> reports m"
proof -
  have seq: "reports (seqP ms k)" if "nothrow (block ms)" "reports k" for ms and k :: "('s, int) prog"
    unfolding seqP_def by (rule reports_bind_nothrow) (use that in auto)
  have "reports client_test_main" "reports protocol_client_main"
    unfolding client_test_main_def protocol_client_main_def
    by (rule reports_handler reports_bind_nothrow seq nothrow_rules keeps_rules err_releases | simp)+
  then show "m \<in> set native_mains \<Longrightarrow> reports m" by (auto simp: native_mains_def)
qed


section \<open>Properties\<close>

text \<open>
  C32.  The clients that manage their pointers by hand give back everything they hold in one, whatever
  fails: whenever \<open>main\<close> returns, with exit code 0 or 1, the counts of the builder, attachment and
  transaction, of the status and the provider, and in \<open>client_test\<close> of the statement and the cursor,
  are what they were.
\<close>

theorem native_release:
  assumes "m = client_test_main \<and> k \<in> {KXpb, KAtt, KTra, KStmt, KCurs, KStatus, KProv} \<or>
      m = protocol_client_main \<and> k \<in> {KXpb, KAtt, KTra, KStatus, KProv}"
    and "m e w = Some (Ok rc, w')"
  shows "bal (gain k) w' = bal (gain k) w"
proof -
  have "okd k m 0"
    using assms(1) okd_client_main [of k] okd_protocol_main [of k] okd_status_prov
    by (auto simp: client_kinds_def protocol_kinds_def)
  then show ?thesis using assms(2) by (auto dest: okdD)
qed

text \<open>A server that accepts every call but the start of a transaction.\<close>

definition no_tra_env :: "unit env" where
  "no_tra_env = \<lparr>fb = (\<lambda>c s. ((case c of Att a (StartTransaction t) \<Rightarrow> Some [1] | _ \<Rightarrow> None,
       \<lparr>r_h = 1, r_n = 0, r_s = [], r_b = [], r_ns = [], r_descs = [], r_ints = [], r_code = RESULT_NO_DATA, r_null = False\<rparr>), s)),
     hdr = \<lparr>xpb_val = (\<lambda>_. 0), info_val = (\<lambda>_. 0), sql_val = (\<lambda>_. 0), blr_val = (\<lambda>_. 0),
       arg_val = (\<lambda>_. 0), enum_val = (\<lambda>_. 0), isc_portable_integer = (\<lambda>_. 0)\<rparr>, argv = [''protocol_client'']\<rparr>"

definition first_world :: "unit world" where
  "first_world = \<lparr>server = (), log = [], out = [], err = [], environ = (\<lambda>_. None),
     cells = (\<lambda>_ _. None), fresh = 0\<rparr>"

theorem native_release_witness:
  "\<exists>w'. protocol_client_main no_tra_env first_world = Some (Ok 1, w') \<and> bal (gain KAtt) w' = 0"
proof -
  obtain w' where run: "protocol_client_main no_tra_env first_world = Some (Ok 1, w')"
    by (simp add: protocol_client_main_def protocol_body_def hold_def clear_def
        release_if_def seqP_def returning_def bindP_def try_fb_def run_simps ask_run handle_of_def do_call_def
        do_void_def ignore_def argOrDefault_def formatStatus_def no_tra_env_def first_world_def)
  then show ?thesis
    using native_release [of protocol_client_main KAtt, OF _ run] by (auto simp: first_world_def bal_def)
qed

text \<open>
  \<open>queryScalar\<close> and \<open>Db::query\<close> read the same message alike: both are defined on the same buffers, the
  text of \<open>queryScalar\<close> is that of \<open>query\<close> without its trailing blanks, and a NULL, which \<open>query\<close> shows
  as \<open><null>\<close>, is the empty text.
\<close>

lemma scalar_agrees:
  "scalar_value buf off nullOff =
    map_option (\<lambda>s. if le_read 2 buf nullOff = Some 0 then rtrim s else []) (read_value buf off nullOff)"
  by (auto simp: scalar_value_def read_value_def option.map_comp comp_def split: option.split)

lemma rtrim_blanks: "rtrim (s @ replicate n (CHR '' '')) = rtrim s"
proof -
  have "dropWhile (\<lambda>c. c = CHR '' '') (replicate n (CHR '' '') @ rev s) =
      dropWhile (\<lambda>c. c = CHR '' '') (rev s)"
    by (rule dropWhile_append2) auto
  then show ?thesis by (simp add: rtrim_def)
qed

lemma rtrim_id: "s = [] \<or> last s \<noteq> CHR '' '' \<Longrightarrow> rtrim s = s"
  by (cases s rule: rev_cases) (auto simp: rtrim_def)

text \<open>
  A CHAR column arrives padded with blanks to its full length; \<open>trimmed\<close> gives the value back, for
  every value that does not itself end in a blank.
\<close>

lemma trimmed_padded:
  assumes "length s \<le> len" and "s = [] \<or> last s \<noteq> CHR '' ''"
  shows "trimmed (pre @ bytes_of (ljust len s) @ rest) (length pre) len = Some s"
proof -
  have "length (bytes_of (ljust len s)) = len" using assms(1) by simp
  then have "slice (pre @ bytes_of (ljust len s) @ rest) (length pre) len = Some (bytes_of (ljust len s))"
    using slice_append_hd [of pre "bytes_of (ljust len s)" rest] by simp
  then show ?thesis
    using assms(2) by (simp add: trimmed_def ljust_def rtrim_blanks rtrim_id)
qed

end
