(* ===== verification/Events_Demo.thy ===== *)
theory Events_Demo
  imports Native_Clients
begin

text \<open>
  \<open>samples/events_demo.cpp\<close>: a \<open>Listener\<close> registers interest in an event, a second attachment
  posts it, and \<open>main\<close> checks when the posts are delivered.  \<open>eventCallbackFunction\<close> runs on a
  thread of the client library.  Two models: the program as a \<open>prog\<close>, where the main thread
  learns at every access to the shared members which callbacks have run since the last one
  (\<open>EventThread\<close>); and a step relation in which the single steps of both threads interleave,
  on which the absence of lost and torn deliveries is an invariant of the one-registration
  discipline, and fails without it.
\<close>


section \<open>The listener\<close>

text \<open>
  \<open>refCounter\<close> and \<open>fired\<close> are \<open>std::atomic_int\<close>; \<open>eveBuffer\<close> and \<open>eveResult\<close> are the two
  buffers of \<open>eveLen\<close> bytes that \<open>isc_event_block\<close> allocates.
\<close>

record Listener =
  refCounter :: "32 word"
  attachment :: nat
  l_status :: nat
  events :: "nat option"
  fired :: "32 word"
  eveBuffer :: "byte list"
  eveResult :: "byte list"
  eveLen :: nat

text \<open>\<open>memcpy(eveResult, data, length)\<close> when the data fits, then \<open>++fired\<close>.\<close>

definition eventCallbackFunction :: "byte list \<Rightarrow> Listener \<Rightarrow> Listener" where
  "eventCallbackFunction data L =
     (let L1 = (if length data \<le> eveLen L
                then L\<lparr>eveResult := data @ drop (length data) (eveResult L)\<rparr> else L)
      in L1\<lparr>fired := fired L1 + 1\<rparr>)"


text \<open>
  What the library's thread has done since the main thread last looked: the callbacks it ran,
  one answer each, and at the end the references it took or gave back.
\<close>

definition event_thread :: "Listener \<Rightarrow> ('s, Listener) prog" where
  \<open>event_thread L =
    loopP (\<lambda>L. bindP (ask_void (Os EventThread)) (\<lambda>r.
      (if r_null r
      then ret (Inr (L\<lparr>refCounter := refCounter L + of_int (r_n r)\<rparr>))
      else ret (Inl (eventCallbackFunction (r_b r) L))))) L\<close>



text \<open>\<open>for (waited = 0; !fired && waited < timeoutMs; waited += 50) sleep\<close>, one round of it and the
  whole loop.\<close>

definition wait_poll :: "nat \<Rightarrow> nat \<times> Listener \<Rightarrow> ('s, nat \<times> Listener + Listener) prog" where
  \<open>wait_poll timeoutMs wl = bindP (event_thread (snd wl)) (\<lambda>L.
      (if fired L = 0 \<and> fst wl < timeoutMs
    then (returning
       [os_do (SleepMs 50)]
       (Inl (fst wl + 50, L)))
    else ret (Inr L)))\<close>

definition wait_fired :: "nat \<Rightarrow> Listener \<Rightarrow> ('s, Listener) prog" where
  "wait_fired timeoutMs L = loopP (wait_poll timeoutMs) (0, L)"

definition wait :: "nat \<Rightarrow> Listener \<Rightarrow> ('s, nat \<times> Listener) prog" where
  \<open>wait timeoutMs L = bindP (wait_fired timeoutMs L) (\<lambda>L.
      bindP (event_thread L) (\<lambda>L.
      (if fired L = 0 then ret (0, L)
    else (bindP (ask_void (Os (IscEventCounts (eveBuffer L) (eveResult L)))) (\<lambda>r.
      bindP (event_thread (L\<lparr>eveBuffer := fit (eveLen L) (r_b r)\<rparr>)) (\<lambda>L.
      ret (out_nat r 0, L\<lparr>fired := 0\<rparr>)))))))\<close>




section \<open>The program\<close>








section \<open>The two threads, step by step\<close>

text \<open>
  Where the main thread is in \<open>wait\<close> (\<open>MIdle\<close> outside it) and where the library's thread is in
  \<open>eventCallbackFunction\<close>.  \<open>queued\<close> counts the registrations that have not been answered by a
  callback yet: a registration is answered once.  \<open>uncounted\<close> is a ghost: the deliveries that
  \<open>isc_event_counts\<close> has not been asked about.
\<close>

datatype main_pc = MIdle | MPoll nat nat | MCheck | MCount | MReset nat | MDone nat

datatype cb_pc = CbIdle | CbCopied

record sys =
  lst :: Listener
  mpc :: main_pc
  cpc :: cb_pc
  queued :: nat
  uncounted :: nat

text \<open>
  \<open>counts\<close> stands for \<open>isc_event_counts\<close>: the total, and the buffer with the new baseline.
  \<open>strict\<close> is the discipline to queue only when nothing is outstanding or unconsumed; the
  code's \<open>requeue\<close> does not check it.
\<close>

inductive lstep :: "bool \<Rightarrow> (byte list \<Rightarrow> byte list \<Rightarrow> nat \<times> byte list) \<Rightarrow> sys \<Rightarrow> sys \<Rightarrow> bool"
  for strict counts where
  enter: "mpc s = MIdle \<Longrightarrow> lstep strict counts s (s\<lparr>mpc := MPoll 0 t\<rparr>)"
| poll: "mpc s = MPoll w t \<Longrightarrow> fired (lst s) = 0 \<Longrightarrow> w < t \<Longrightarrow>
    lstep strict counts s (s\<lparr>mpc := MPoll (w + 50) t\<rparr>)"
| leave: "mpc s = MPoll w t \<Longrightarrow> \<not> (fired (lst s) = 0 \<and> w < t) \<Longrightarrow> lstep strict counts s (s\<lparr>mpc := MCheck\<rparr>)"
| none: "mpc s = MCheck \<Longrightarrow> fired (lst s) = 0 \<Longrightarrow> lstep strict counts s (s\<lparr>mpc := MDone 0\<rparr>)"
| some: "mpc s = MCheck \<Longrightarrow> fired (lst s) \<noteq> 0 \<Longrightarrow> lstep strict counts s (s\<lparr>mpc := MCount\<rparr>)"
| count: "mpc s = MCount \<Longrightarrow> counts (eveBuffer (lst s)) (eveResult (lst s)) = (n, buf) \<Longrightarrow>
    lstep strict counts s (s\<lparr>lst := (lst s)\<lparr>eveBuffer := buf\<rparr>, uncounted := 0, mpc := MReset n\<rparr>)"
| reset: "mpc s = MReset n \<Longrightarrow>
    lstep strict counts s (s\<lparr>lst := (lst s)\<lparr>fired := 0\<rparr>, mpc := MDone n\<rparr>)"
| finish: "mpc s = MDone n \<Longrightarrow> lstep strict counts s (s\<lparr>mpc := MIdle\<rparr>)"
| queue: "mpc s = MIdle \<Longrightarrow> strict \<longrightarrow> queued s = 0 \<and> cpc s = CbIdle \<and> fired (lst s) = 0 \<Longrightarrow>
    lstep strict counts s (s\<lparr>queued := Suc (queued s)\<rparr>)"
| copy: "cpc s = CbIdle \<Longrightarrow> queued s = Suc q \<Longrightarrow>
    lstep strict counts s (s\<lparr>lst := (if length data \<le> eveLen (lst s)
      then (lst s)\<lparr>eveResult := data @ drop (length data) (eveResult (lst s))\<rparr> else lst s),
      queued := q, cpc := CbCopied\<rparr>)"
| bump: "cpc s = CbCopied \<Longrightarrow>
    lstep strict counts s (s\<lparr>lst := (lst s)\<lparr>fired := fired (lst s) + 1\<rparr>,
      uncounted := Suc (uncounted s), cpc := CbIdle\<rparr>)"

inductive_cases lstepE: "lstep strict counts s s'"

definition lsys_init :: "Listener \<Rightarrow> sys" where
  "lsys_init L = \<lparr>lst = L\<lparr>fired := 0\<rparr>, mpc = MIdle, cpc = CbIdle, queued = 0, uncounted = 0\<rparr>"

abbreviation lreach :: "bool \<Rightarrow> (byte list \<Rightarrow> byte list \<Rightarrow> nat \<times> byte list) \<Rightarrow> Listener \<Rightarrow> sys \<Rightarrow> bool" where
  "lreach strict counts L s \<equiv> (lstep strict counts)\<^sup>*\<^sup>* (lsys_init L) s"

text \<open>The two steps of the library's thread are the callback.\<close>

lemma callback_steps:
  assumes "cpc s = CbIdle" and "queued s = Suc q"
  obtains s' where "(lstep strict counts)\<^sup>*\<^sup>* s s'" and "lst s' = eventCallbackFunction data (lst s)"
    and "queued s' = q" and "cpc s' = CbIdle" and "uncounted s' = Suc (uncounted s)" and "mpc s' = mpc s"
proof -
  let ?c = "s\<lparr>lst := (if length data \<le> eveLen (lst s)
      then (lst s)\<lparr>eveResult := data @ drop (length data) (eveResult (lst s))\<rparr> else lst s),
      queued := q, cpc := CbCopied\<rparr>"
  let ?b = "?c\<lparr>lst := (lst ?c)\<lparr>fired := fired (lst ?c) + 1\<rparr>, uncounted := Suc (uncounted ?c), cpc := CbIdle\<rparr>"
  have "lstep strict counts s ?c" using assms by (rule lstep.copy)
  moreover have "lstep strict counts ?c ?b" by (rule lstep.bump) simp
  ultimately have "(lstep strict counts)\<^sup>*\<^sup>* s ?b" by auto
  then show thesis by (rule that) (auto simp: eventCallbackFunction_def Let_def)
qed

definition one_delivery :: "sys \<Rightarrow> bool" where
  "one_delivery s \<longleftrightarrow>
     queued s + of_bool (cpc s = CbCopied) + unat (fired (lst s)) \<le> 1
     \<and> (mpc s = MCount \<longrightarrow> fired (lst s) = 1)
     \<and> (case mpc s of MReset n \<Rightarrow> fired (lst s) = 1 \<and> uncounted s = 0 | _ \<Rightarrow> uncounted s = unat (fired (lst s)))"

lemma unat_le_1: "unat (x :: 32 word) \<le> 1 \<Longrightarrow> x \<noteq> 0 \<Longrightarrow> x = 1"
proof -
  assume "unat x \<le> 1" and "x \<noteq> 0"
  then have "unat x = 1" by (cases "unat x") (auto simp: unat_eq_zero)
  then have "of_nat (unat x) = (1 :: 32 word)" by simp
  then show "x = 1" by simp
qed

lemma one_delivery_step:
  assumes "lstep True counts s s'" and "one_delivery s"
  shows "one_delivery s'"
  using assms
proof cases
  case (some)
  then show ?thesis using assms(2) unat_le_1 [of "fired (lst s)"]
    by (auto simp: one_delivery_def)
next
  case (bump)
  then have "fired (lst s) = 0" using assms(2) by (auto simp: one_delivery_def unat_eq_zero)
  then show ?thesis using assms(2) bump
    by (auto simp: one_delivery_def split: main_pc.splits)
qed (auto simp: one_delivery_def split: main_pc.splits if_splits)

lemma one_delivery_reach: "lreach True counts L s \<Longrightarrow> one_delivery s"
proof (induction rule: rtranclp_induct)
  case base
  show ?case by (simp add: one_delivery_def lsys_init_def)
next
  case (step s s')
  then show ?case by (blast intro: one_delivery_step)
qed


text \<open>A run: the delivery of a registration, and \<open>wait\<close> up to the point where it counts it.\<close>

lemma run_to_count:
  assumes "mpc s = MIdle" "cpc s = CbIdle" "queued s = Suc q" "fired (lst s) = 0"
  obtains s' where "(lstep strict counts)\<^sup>*\<^sup>* s s'" and "mpc s' = MCount" and "cpc s' = CbIdle"
    and "queued s' = q" and "fired (lst s') = 1"
proof -
  obtain s1 where s1: "(lstep strict counts)\<^sup>*\<^sup>* s s1" "lst s1 = eventCallbackFunction [] (lst s)"
      "queued s1 = q" "cpc s1 = CbIdle" "mpc s1 = MIdle"
    using callback_steps [OF assms(2,3), of strict counts "[]"] assms(1) by metis
  have f: "fired (lst s1) = 1" using s1(2) assms(4) by (simp add: eventCallbackFunction_def)
  let ?p = "s1\<lparr>mpc := MPoll 0 3000\<rparr>" and ?c = "s1\<lparr>mpc := MCheck\<rparr>" and ?n = "s1\<lparr>mpc := MCount\<rparr>"
  have "lstep strict counts s1 ?p" using s1(5) by (rule lstep.enter)
  moreover have "lstep strict counts ?p ?c" using lstep.leave [of ?p 0 3000 strict counts] f by simp
  moreover have "lstep strict counts ?c ?n" using lstep.some [of ?c strict counts] f by simp
  ultimately have "(lstep strict counts)\<^sup>*\<^sup>* s ?n" using s1(1) by (meson rtranclp.rtrancl_into_rtrancl)
  then show thesis by (rule that) (use s1 f in auto)
qed


section \<open>Waiting\<close>

text \<open>
  A library whose event thread delivers a queue of results, whose sleeps deliver nothing by
  themselves, and whose \<open>isc_event_counts\<close> computes \<open>cnt\<close> and leaves the result as the new
  baseline.
\<close>

definition delivers :: "'s env \<Rightarrow> ('s \<Rightarrow> byte list list) \<Rightarrow> (byte list \<Rightarrow> byte list \<Rightarrow> nat) \<Rightarrow> bool" where
  "delivers e q cnt \<longleftrightarrow>
     (\<forall>s. \<exists>st r s'. fb e (Os EventThread) s = ((st, r), s') \<and>
        (case q s of [] \<Rightarrow> r_null r \<and> r_n r = 0 \<and> q s' = [] | d # ds \<Rightarrow> \<not> r_null r \<and> r_b r = d \<and> q s' = ds))
     \<and> (\<forall>s. \<exists>st r s'. fb e (Os (SleepMs 50)) s = ((st, r), s') \<and> q s' = q s)
     \<and> (\<forall>b res s. \<exists>st r s'. fb e (Os (IscEventCounts b res)) s = ((st, r), s') \<and> r_ns r = [cnt b res]
          \<and> r_b r = res \<and> q s' = q s)"

definition sleeps :: "'s world \<Rightarrow> nat" where
  "sleeps w = length (filter (\<lambda>ev. fst ev = Os (SleepMs 50)) (log w))"

lemma event_thread_run:
  assumes "delivers e q cnt"
  shows "\<exists>w'. event_thread L e w = Some (Ok (fold eventCallbackFunction (q (server w)) L), w')
    \<and> q (server w') = [] \<and> sleeps w' = sleeps w"
proof (induction "q (server w)" arbitrary: L w)
  case Nil
  obtain st r s' where r: "fb e (Os EventThread) (server w) = ((st, r), s')" "r_null r" "r_n r = 0" "q s' = []"
    using assms [unfolded delivers_def, THEN conjunct1, rule_format, of "server w"] Nil by auto
  then show ?case unfolding event_thread_def using Nil
    by (subst loopP.simps) (simp add: bindP_def run_simps sleeps_def)
next
  case (Cons d ds)
  obtain st r s' where r: "fb e (Os EventThread) (server w) = ((st, r), s')" "\<not> r_null r" "r_b r = d" "q s' = ds"
    using assms [unfolded delivers_def, THEN conjunct1, rule_format, of "server w"]
    by (auto simp: Cons.hyps(2) [symmetric])
  let ?w = "w\<lparr>server := s', log := (Os EventThread, None, r) # log w\<rparr>"
  have "event_thread L e w = event_thread (eventCallbackFunction d L) e ?w"
    unfolding event_thread_def using r by (intro loopP_again) (simp add: bindP_def run_simps)
  moreover have "sleeps ?w = sleeps w" by (simp add: sleeps_def)
  ultimately show ?case
    using Cons.hyps(1) [of ?w "eventCallbackFunction d L"] r(4) by (simp add: Cons.hyps(2) [symmetric])
qed




section \<open>Properties\<close>

text \<open>
  C34.  If interest is queued only when no registration is outstanding and no delivery unconsumed, the two
  threads of the listener never meet: while \<open>wait\<close> reads the result and resets \<open>fired\<close>, no callback is
  under way or possible, and outside these steps \<open>fired\<close> counts exactly the deliveries not yet
  counted, so none is lost.
\<close>

theorem listener_race_free:
  assumes "lreach True counts L s"
  shows "(mpc s = MCount \<or> mpc s = MReset n \<longrightarrow> queued s = 0 \<and> cpc s = CbIdle)
    \<and> (mpc s = MIdle \<or> mpc s = MDone n \<longrightarrow> uncounted s = unat (fired (lst s)))"
  using one_delivery_reach [OF assms]
  by (cases "cpc s") (auto simp: one_delivery_def split: main_pc.splits)

definition demo_listener :: Listener where
  "demo_listener = \<lparr>refCounter = 1, attachment = 1, l_status = 1, events = Some 1, fired = 0,
     eveBuffer = [1, 0], eveResult = [0, 0], eveLen = 2\<rparr>"

theorem listener_race_free_witness:
  "\<exists>s. lreach True (\<lambda>b r. (1, r)) demo_listener s \<and> mpc s = MCount \<and> queued s = 0 \<and> cpc s = CbIdle"
proof -
  let ?i = "lsys_init demo_listener" and ?counts = "\<lambda>b r. (1 :: nat, r)"
  have q: "lstep True ?counts ?i (?i\<lparr>queued := Suc 0\<rparr>)"
    using lstep.queue [of ?i True ?counts] by (simp add: lsys_init_def)
  obtain s where "(lstep True ?counts)\<^sup>*\<^sup>* (?i\<lparr>queued := Suc 0\<rparr>) s" and m: "mpc s = MCount"
    by (rule run_to_count [of "?i\<lparr>queued := Suc 0\<rparr>" 0 True ?counts]) (auto simp: lsys_init_def)
  with q have "lreach True ?counts demo_listener s" by (meson converse_rtranclp_into_rtranclp)
  then show ?thesis using listener_race_free [of ?counts demo_listener s 0] m by blast
qed







text \<open>
  A delivery that has arrived is taken without sleeping: \<open>wait\<close> returns the counts of the delivered result
  against the baseline, the result becomes the new baseline, and \<open>fired\<close> is reset.
\<close>

lemma wait_counts:
  assumes "delivers e q cnt" and "q (server w) = [d]" and "fired L = 0"
    and "length d = eveLen L" and "length (eveResult L) = eveLen L"
  shows "\<exists>w'. wait t L e w = Some (Ok (cnt (eveBuffer L) d, L\<lparr>eveBuffer := d, eveResult := d\<rparr>), w')
    \<and> sleeps w' = sleeps w"
proof -
  let ?L = "L\<lparr>eveResult := d, fired := 1\<rparr>" and ?M = "L\<lparr>eveResult := d, fired := 1, eveBuffer := d\<rparr>"
  have cb: "eventCallbackFunction d L = ?L" using assms(3-5) by (simp add: eventCallbackFunction_def)
  obtain w1 where w1: "event_thread L e w = Some (Ok ?L, w1)" "q (server w1) = []" "sleeps w1 = sleeps w"
    using event_thread_run [OF assms(1), of L w] assms(2) cb by auto
  then have f: "wait_fired t L e w = Some (Ok ?L, w1)"
    unfolding wait_fired_def by (subst loopP.simps) (simp add: wait_poll_def bindP_def ret_def)
  obtain w2 where w2: "event_thread ?L e w1 = Some (Ok ?L, w2)" "q (server w2) = []" "sleeps w2 = sleeps w1"
    using event_thread_run [OF assms(1), of ?L w1] w1(2) by auto
  obtain st r s' where r: "fb e (Os (IscEventCounts (eveBuffer L) d)) (server w2) = ((st, r), s')"
      "r_ns r = [cnt (eveBuffer L) d]" "r_b r = d" "q s' = q (server w2)"
    using assms(1) unfolding delivers_def by blast
  let ?w = "w2\<lparr>server := s', log := (Os (IscEventCounts (eveBuffer L) d), None, r) # log w2\<rparr>"
  obtain w3 where w3: "event_thread ?M e ?w = Some (Ok ?M, w3)" "sleeps w3 = sleeps ?w"
    using event_thread_run [OF assms(1), of ?M ?w] r(4) w2(2) by auto
  have "sleeps w3 = sleeps w" using w1(3) w2(3) w3(2) by (simp add: sleeps_def)
  moreover have "?M\<lparr>fired := 0\<rparr> = L\<lparr>eveBuffer := d, eveResult := d\<rparr>"
    using assms(3) by (cases L) simp
  moreover have "wait t L e w = Some (Ok (cnt (eveBuffer L) d, ?M\<lparr>fired := 0\<rparr>), w3)"
    using f w2(1) r(1,2,3) w3(1) assms(4) by (simp add: wait_def bindP_def run_simps out_nat_def)
  ultimately show ?thesis by auto
qed












end
