(* ===== verification/Isc_Api.thy ===== *)
theory Isc_Api
  imports Sample_Kit Db_Query
begin

text \<open>
  \<open>samples/cpp/api_styles.cpp\<close>: the same query through the legacy ISC API and through
  \<open>fb_sample.h\<close>.  The ISC half checks a status vector after every call, builds its database
  parameter buffer by hand in a \<open>char[128]\<close>, and fetches into a caller-supplied VARCHAR.
  Shown: the parameter buffer decodes to the user and the password exactly when they fit the
  array (and overruns it otherwise), the fetched text is the one the server sent, and the
  ISC half either returns or exits with code 1 after a report.
\<close>


section \<open>Status vectors\<close>

text \<open>
  A call of the C API answers with its status vector; an untouched vector is \<open>{1, 0, ...}\<close>.
\<close>

definition isc_vector :: "status option \<Rightarrow> status" where
  "isc_vector st = (case st of None \<Rightarrow> [1, 0] | Some v \<Rightarrow> v)"

definition slot :: "status \<Rightarrow> nat \<Rightarrow> int" where
  "slot v i = (if i < length v then v ! i else 0)"

definition isc :: "isc_call \<Rightarrow> ('s, status \<times> reply) prog" where
  "isc c = (\<lambda>e w. case fb e (Isc c) (server w) of ((st, r), s') \<Rightarrow>
     Some (Ok (isc_vector st, r), w\<lparr>server := s', log := (Isc c, st, r) # log w\<rparr>))"

definition isc_do :: "isc_call \<Rightarrow> ('s, unit) prog" where
  "isc_do c = ignore (isc c)"

text \<open>\<open>while (fb_interpret(msg, sizeof(msg), &walk)) fprintf(...)\<close>\<close>

definition isc_interpret :: "status \<Rightarrow> ('s, unit) prog" where
  \<open>isc_interpret st =
    loopP (\<lambda>n. bindP (isc (FbInterpret st n)) (\<lambda>vr.
      let r = snd vr in
      (if r_n r = 0 then ret (Inr ())
      else (returning
       [say_err (''    '' @ (c_str (r_s r)) @ nl)]
       (Inl (Suc n)))))) 0\<close>

definition isc_check :: "status \<Rightarrow> string \<Rightarrow> ('s, unit) prog" where
  \<open>isc_check st place =
    (if slot st 0 = 1 \<and> slot st 1 \<noteq> 0
     then (seqP
       [say_err (''ISC error in '' @ place @ '':'' @ nl),
        isc_interpret st] (
      fail (Exit 1)))
     else ret ())\<close>


section \<open>The ISC half\<close>

text \<open>
  The parameter buffer: the length byte is \<open>(char) strlen(...)\<close>; writing past the 128 bytes
  of the array is undefined.
\<close>

definition isc_dpb :: "header_values \<Rightarrow> string \<Rightarrow> string \<Rightarrow> byte list option" where
  "isc_dpb h user password =
     (let dpb = [of_nat (xpb_val h isc_dpb_version1), of_nat (xpb_val h isc_dpb_user_name), of_nat (length user)]
                @ bytes_of user
                @ [of_nat (xpb_val h isc_dpb_password), of_nat (length password)] @ bytes_of password
      in if length dpb \<le> 128 then Some dpb else None)"

text \<open>
  What \<open>printf("%.*s", var.len, var.data)\<close> shows of the 514 bytes of \<open>var\<close>: \<open>var.len\<close> is a
  signed 16-bit integer.
\<close>

definition isc_var_text :: "byte list \<Rightarrow> string option" where
  "isc_var_text var =
     (case le_read 2 var 0 of None \<Rightarrow> None
      | Some n \<Rightarrow> prec_str (drop 2 var) 0 (sint (of_nat n :: 16 word)))"

definition API_SQL :: string where
  \<open>API_SQL = ''select rdb$get_context('SYSTEM', 'ENGINE_VERSION') from rdb$database''\<close>

definition isc_fetch_loop :: "nat \<Rightarrow> ('s, status) prog" where
  \<open>isc_fetch_loop stmt =
    loopP (\<lambda>u. bindP (isc (IscDsqlFetch stmt)) (\<lambda>vr.
      (if r_n (snd vr) = 0
      then (bindP (checked ''var.data'' (isc_var_text (fit 514 (r_b (snd vr))))) (\<lambda>s.
      returning
       [say (''[ISC API] engine version = '' @ s @ nl)]
       (Inl ())))
      else ret (Inr (fst vr))))) ()\<close>

definition iscStyle :: "string \<Rightarrow> string \<Rightarrow> string \<Rightarrow> ('s, unit) prog" where
  \<open>iscStyle database user password = bindP (headers) (\<lambda>h.
      bindP (checked ''dpb[128]'' (isc_dpb h user password)) (\<lambda>dpb.
      bindP (isc (IscAttachDatabase database dpb)) (\<lambda>a.
      seqP
       [isc_check (fst a) ''isc_attach_database''] (
      bindP (isc (IscStartTransaction (r_h (snd a)))) (\<lambda>t.
      seqP
       [isc_check (fst t) ''isc_start_transaction''] (
      bindP (isc (IscDsqlAllocate (r_h (snd a)))) (\<lambda>s.
      seqP
       [isc_check (fst s) ''isc_dsql_allocate_statement''] (
      bindP (isc (IscDsqlPrepare (r_h (snd t)) (r_h (snd s)) API_SQL)) (\<lambda>p.
      seqP
       [isc_check (fst p) ''isc_dsql_prepare''] (
      bindP (isc (IscDsqlExecute (r_h (snd t)) (r_h (snd s)))) (\<lambda>x.
      seqP
       [isc_check (fst x) ''isc_dsql_execute''] (
      bindP (isc_fetch_loop (r_h (snd s))) (\<lambda>f.
      seqP
       [isc_check f ''isc_dsql_fetch'',
        isc_do (IscDsqlFree (r_h (snd s))),
        isc_do (IscCommit (r_h (snd t)))] (
      bindP (isc (IscDetach (r_h (snd a)))) (\<lambda>d.
      isc_check (fst d) ''isc_detach_database'')))))))))))))))\<close>


section \<open>The object-oriented half and main\<close>

definition ooStyle :: "string \<Rightarrow> ('s, unit) prog" where
  \<open>ooStyle database = with_Db (\<lambda>db. seqP
       [attach db database] (
      bindP (start db) (\<lambda>tra.
      bindP (queryValue db tra API_SQL) (\<lambda>v.
      block
       [say (''[OO API ] engine version = '' @ (c_str v) @ nl),
        commit tra]))))\<close>

definition api_styles_main :: "('s, int) prog" where
  \<open>api_styles_main = bindP (argOrDefault 1 ''inet://localhost/employee'') (\<lambda>database.
      bindP (defaultUser) (\<lambda>user.
      bindP (defaultPassword) (\<lambda>password.
      seqP
       [iscStyle database user password] (
      bindP (try_fb (bindP (ooStyle database) (\<lambda>_. ret None)) (\<lambda>e. bindP (report e) (\<lambda>rc. ret (Some rc)))) (\<lambda>rc.
    case rc of Some n \<Rightarrow> ret n
    | None \<Rightarrow> (returning
       [say (''same engine, same Y-valve, two API styles. done.'' @ nl)]
       0))))))\<close>


section \<open>The interfaces\<close>

lemma delta_Isc [simp]: "delta k (Isc c) = 0"
  by (simp add: delta_simps)

lemma keeps_isc:
  assumes "\<And>st r sv w. view (w\<lparr>server := sv, log := (Isc c, st, r) # log w\<rparr>) = view w"
  shows "keeps (\<lambda>w. view w = v) (isc c)"
  by (rule keepsI) (auto simp: isc_def assms split: prod.splits)

lemma att_isc [att_rules]: "keeps (\<lambda>w. att_view w = v) (isc c)"
  by (rule keeps_isc, rule atts.view_call) simp

lemma count_isc: "keeps (\<lambda>w. bal (gain k) w = b) (isc c)"
  by (rule keeps_isc, rule count.view_call) simp

lemma nothrow_isc [nothrow_rules]: "nothrow (isc c)"
  by (auto simp: nothrow_def isc_def split: prod.splits)

lemmas isc_defs = iscStyle_def isc_check_def isc_interpret_def isc_fetch_loop_def isc_do_def

lemma att_iscStyle [att_rules]: "keeps (\<lambda>w. att_view w = v) (iscStyle d u p)"
  unfolding isc_defs by (intro quiet_rules att_rules)

lemma okd_iscStyle [okd_rules]: "okd k (iscStyle d u p) 0"
  unfolding isc_defs by (rule okd_keeps) (intro keeps_rules count.leaf_rules count_isc)

lemma okd_ooStyle: "k \<notin> {KStatus, KProv, KAtt} \<Longrightarrow> okd k (ooStyle d) 0"
  unfolding ooStyle_def
  by (rule okd_with_Db, assumption) (rule okd_eq, (rule okd_rules | simp)+)

lemma att_ooStyle [att_flow]: "att_triple b {} {} (ooStyle d) {}"
  unfolding ooStyle_def
  by (rule att_flow
    | (rule att_quiet, (intro quiet_rules att_rules; simp add: delta_simps))
    | (rule att_leaf, (intro quiet_rules att_rules; simp add: delta_simps), simp) | simp)+


section \<open>How the ISC half ends\<close>

text \<open>It returns, exits with code 1 after a report, or runs into undefined behaviour.\<close>

definition isc_ends :: "('s, 'a) prog \<Rightarrow> bool" where
  "isc_ends m \<longleftrightarrow> (\<forall>e w x w'. m e w = Some (Fail x, w') \<longrightarrow> x = Exit 1 \<and> err w' \<noteq> [] \<or> (\<exists>t. x = UB t))"

lemma isc_ends_bind: "isc_ends m \<Longrightarrow> (\<And>a. isc_ends (f a)) \<Longrightarrow> isc_ends (bindP m f)"
  unfolding isc_ends_def by (metis bindP_SomeE outcome.inject(2))

lemma isc_ends_leaves:
  "isc_ends (isc c)" "isc_ends headers" "isc_ends (ret a)" "isc_ends (checked t x)" "isc_ends (say s)"
  by (auto simp: isc_ends_def isc_def headers_def ret_def say_def checked_def fail_def
      split: prod.splits option.splits)

lemma isc_ends_flow:
  "isc_ends m \<Longrightarrow> isc_ends n \<Longrightarrow> isc_ends (if b then m else n)"
  "isc_ends (block [])" "isc_ends m' \<Longrightarrow> isc_ends (block ms) \<Longrightarrow> isc_ends (block (m' # ms))"
  "isc_ends (block ms) \<Longrightarrow> isc_ends k \<Longrightarrow> isc_ends (seqP ms k)"
  "isc_ends (block ms) \<Longrightarrow> isc_ends (returning ms a)" "isc_ends mm \<Longrightarrow> isc_ends (ignore mm)"
  unfolding seqP_def returning_def ignore_def
  by (auto intro: isc_ends_bind isc_ends_leaves)

lemma isc_ends_loop:
  fixes body :: "'a \<Rightarrow> ('s, 'a + 'b) prog"
  assumes "\<And>a. isc_ends (body a)"
  shows "isc_ends (loopP body a)"
  unfolding isc_ends_def
proof (intro allI impI)
  fix e w x w' assume run: "loopP body a e w = Some (Fail x, w')"
  define P where "P r w \<longleftrightarrow> (\<forall>x. r = Fail x \<longrightarrow> x = Exit 1 \<and> err w \<noteq> [] \<or> (\<exists>t. x = UB t))"
    for r :: "'b outcome" and w :: "'s world"
  have "P (Fail x) w'"
  proof (rule loopP_run [where J = "\<lambda>_ _. True" and P = P, OF _ TrueI run])
    fix a v r v' assume "body a e v = Some (r, v')"
    then show "case r of Ok (Inl a') \<Rightarrow> True | Ok (Inr b) \<Rightarrow> P (Ok b) v' | Fail x \<Rightarrow> P (Fail x) v'"
      using assms [of a] by (auto simp: P_def isc_ends_def split: outcome.splits sum.splits)
  qed
  then show "x = Exit 1 \<and> err w' \<noteq> [] \<or> (\<exists>t. x = UB t)" by (simp add: P_def)
qed

text \<open>The walk over the status vector never fails, and keeps the report that \<open>check\<close> has begun.\<close>

lemma isc_interpret_run:
  assumes "isc_interpret st e w = Some (r, w')"
  shows "r = Ok () \<and> (err w \<noteq> [] \<longrightarrow> err w' \<noteq> [])"
  by (rule loopP_run [where J = "\<lambda>_ v. err w \<noteq> [] \<longrightarrow> err v \<noteq> []"
        and P = "\<lambda>r v. r = Ok () \<and> (err w \<noteq> [] \<longrightarrow> err v \<noteq> [])", OF _ _ assms [unfolded isc_interpret_def]])
    (auto simp: isc_def bindP_def returning_def ret_def say_err_def split: prod.splits if_splits)

lemma say_err_bindP: "bindP (say_err s) f e w = f () e (w\<lparr>err := err w @ s\<rparr>)"
  by (simp add: bindP_def say_err_def)

lemma isc_ends_check: "isc_ends (isc_check st place)"
  unfolding isc_ends_def
proof (intro allI impI)
  fix e w x w' assume run: "isc_check st place e w = Some (Fail x, w')"
  then have b: "slot st 0 = 1 \<and> slot st 1 \<noteq> 0" by (auto simp: isc_check_def ret_def split: if_splits)
  let ?w = "w\<lparr>err := err w @ ''ISC error in '' @ place @ '':'' @ nl\<rparr>"
  have "bindP (isc_interpret st) (\<lambda>_. fail (Exit 1)) e ?w = Some (Fail x :: unit outcome, w')"
    using run b by (simp add: isc_check_def seqP_def bindP_assoc say_err_bindP)
  then show "x = Exit 1 \<and> err w' \<noteq> [] \<or> (\<exists>t. x = UB t)"
    by (cases rule: bindP_SomeE) (auto simp: fail_def dest: isc_interpret_run)
qed

lemma isc_ends_iscStyle: "isc_ends (iscStyle d u p)"
  unfolding iscStyle_def isc_fetch_loop_def isc_do_def
  by (intro isc_ends_bind isc_ends_flow isc_ends_loop isc_ends_check isc_ends_leaves)

lemma nothrow_isc_ends: "isc_ends m \<Longrightarrow> nothrow m"
  by (auto simp: isc_ends_def nothrow_def)


section \<open>The sample as a whole\<close>

text \<open>The handler around the second half, with the closing line, as one \<open>try\<close>.\<close>

lemma api_styles_form:
  "bindP (try_fb (bindP m (\<lambda>_. ret None)) (\<lambda>s. bindP (report s) (\<lambda>rc. ret (Some rc))))
     (\<lambda>rc. case rc of Some n \<Rightarrow> ret n | None \<Rightarrow> returning [say t] 0)
   = try_fb (bindP m (\<lambda>_. returning [say t] 0)) report"
  by (intro ext) (simp add: bindP_def try_fb_def ret_def say_def returning_def
      split: option.split prod.split outcome.split failure.split)

lemmas api_styles_body = api_styles_main_def [unfolded api_styles_form]

lemma nothrow_defaults: "nothrow defaultUser" "nothrow defaultPassword"
  unfolding defaultUser_def defaultPassword_def by (intro nothrow_rules)+

lemma api_styles_reports: "reports api_styles_main"
  unfolding api_styles_body seqP_def block.simps bindP_ret_right
  by (rule reports_arg reports_try reports_bind_nothrow nothrow_defaults
    nothrow_bindP nothrow_leaves nothrow_isc_ends [OF isc_ends_iscStyle] returns_rules)+

lemma api_styles_okd: "k \<notin> {KStatus, KProv, KAtt} \<Longrightarrow> okd0 k api_styles_main"
  unfolding api_styles_body seqP_def block.simps bindP_ret_right
  by (rule okd0_arg okd0_main okd_ooStyle okd0_bindP okd_rules
    | assumption | simp add: delta_simps)+

lemma api_styles_att: "att_triple b {} {} api_styles_main {}"
  unfolding api_styles_body
  by (rule att_flow
    | (rule att_quiet, (intro quiet_rules att_rules; simp add: delta_simps))
    | (rule att_leaf, (intro quiet_rules att_rules; simp add: delta_simps), simp) | simp)+


section \<open>Properties\<close>

lemma sint16_small:
  assumes "n < 2 ^ 15"
  shows "sint (of_nat n :: 16 word) = int n"
  using assms by (simp add: signed_of_nat signed_take_bit_int_eq_self)

text \<open>The documented layout of a database parameter buffer: a version byte, then tag, length, payload.\<close>

fun dpb_items :: "byte list \<Rightarrow> (byte \<times> byte list) list option" where
  "dpb_items [] = Some []"
| "dpb_items [t] = None"
| "dpb_items (t # n # bs) =
     (if length bs < unat n then None
      else map_option ((#) (t, take (unat n) bs)) (dpb_items (drop (unat n) bs)))"

definition dpb_parse :: "byte list \<Rightarrow> (byte \<times> (byte \<times> byte list) list) option" where
  "dpb_parse b = (case b of [] \<Rightarrow> None | v # bs \<Rightarrow> map_option (Pair v) (dpb_items bs))"

lemma dpb_items_item:
  assumes "length p < 256"
  shows "dpb_items (t # of_nat (length p) # p @ rest) = map_option ((#) (t, p)) (dpb_items rest)"
proof -
  have "unat (of_nat (length p) :: byte) = length p"
    using assms by (simp add: unat_of_nat)
  then show ?thesis by simp
qed

text \<open>
  C38.  The hand-built parameter buffer of \<open>iscStyle\<close> decodes to the user name and the
  password it was given exactly when the two together have at most 123 characters; with longer
  ones the writes leave \<open>dpb[128]\<close>, which nothing in the code prevents.
\<close>

theorem isc_dpb_decodes:
  "map_option dpb_parse (isc_dpb h user password) =
     (if length user + length password \<le> 123
      then Some (Some (of_nat (xpb_val h isc_dpb_version1),
                       [(of_nat (xpb_val h isc_dpb_user_name), bytes_of user),
                        (of_nat (xpb_val h isc_dpb_password), bytes_of password)]))
      else None)"
proof -
  have "dpb_items (t # of_nat (length user) # bytes_of user @ t' # of_nat (length password) # bytes_of password)
     = Some [(t, bytes_of user), (t', bytes_of password)]" if "length user + length password \<le> 123" for t t'
    using that dpb_items_item [of "bytes_of user" t] dpb_items_item [of "bytes_of password" t' "[]"]
    by (simp del: dpb_items.simps(3))
  then show ?thesis by (auto simp: isc_dpb_def dpb_parse_def Let_def)
qed

text \<open>
  A VARCHAR of at most 512 bytes without NUL, laid out in \<open>var\<close> with its
  16-bit length first, is printed by the fetch loop exactly as the server sent it, whatever an
  earlier row left in the rest of the buffer.
\<close>

lemma isc_var_text_roundtrip:
  assumes "length s \<le> 512" and "CHR 0x00 \<notin> set s"
  shows "isc_var_text (enc_le 2 (length s) @ bytes_of s @ rest) = Some s"
proof -
  have "le_nat (enc_le 2 (length s)) = length s"
    using assms(1) by (simp add: le_nat_enc_le del: le_nat.simps enc_le.simps)
  moreover have "sint (of_nat (length s) :: 16 word) = int (length s)"
    by (rule sint16_small) (use assms(1) in simp)
  ultimately show ?thesis
    using prec_str_at [OF assms(2), of "[]" 0 rest] by (simp add: isc_var_text_def le_read_def slice_def)
qed

text \<open>
  The ISC half ends in one of three ways: it returns; it leaves through \<open>check\<close>,
  with exit code 1 and a report on the error stream; or it runs into undefined behaviour.  No
  error of the API goes unreported and none is thrown.
\<close>

lemma iscStyle_exits:
  assumes "iscStyle database user password e w = Some (Fail x, w')"
  shows "x = Exit 1 \<and> err w' \<noteq> [] \<or> (\<exists>t. x = UB t)"
  using isc_ends_iscStyle assms unfolding isc_ends_def by blast

definition isc_refusing_env :: "unit env" where
  "isc_refusing_env = \<lparr>fb = (\<lambda>c s. ((Some [1, 335544721], blank_reply), s)), hdr = demo_headers, argv = []\<rparr>"

lemma isc_refused:
  "\<exists>w'. iscStyle ''employee'' ''SYSDBA'' ''masterkey'' isc_refusing_env (demo_world ()) = Some (Fail (Exit 1), w')"
  by (simp add: iscStyle_def headers_def checked_def isc_dpb_def isc_def isc_check_def isc_interpret_def
      isc_vector_def slot_def bindP_def seqP_def ret_def fail_def say_err_def
      isc_refusing_env_def blank_reply_def loopP.simps)

end
