(* ===== verification/Double_Text.thy ===== *)
theory Double_Text
  imports FB_Prelude Complex_Main "HOL-Library.Log_Nat"
begin

text \<open>
  The arithmetic on \<open>double\<close> and the \<open>%.nf\<close> and \<open>%.ng\<close> conversions of the samples that print timings and
  scaled numbers.  A finite \<open>double\<close> is the rational number it stands for; every operation rounds
  its exact result to the nearest \<open>double\<close>, ties to even (IEEE 754 binary64, with gradual
  underflow; the samples stay far below the overflow bound).  \<open>printf\<close> rounds the exact value to
  the requested number of decimals.  Shown: rounding is off by at most \<open>2 ^ -53\<close> of the value, and
  the printed decimal by at most half a unit of its last place.
\<close>


section \<open>Rounding\<close>

type_synonym double = rat

definition round_half_even :: "rat \<Rightarrow> int" where
  "round_half_even x =
     (let f = \<lfloor>x\<rfloor>; d = x - of_int f
      in if d < 1/2 then f else if d > 1/2 then f + 1 else if even f then f else f + 1)"

lemma round_half_even_near: "\<bar>of_int (round_half_even x) - x\<bar> \<le> 1/2"
proof -
  have "of_int \<lfloor>x\<rfloor> \<le> x" "x < of_int \<lfloor>x\<rfloor> + 1" by linarith+
  then show ?thesis unfolding round_half_even_def Let_def
    by (simp split: if_split add: abs_le_iff)
qed

lemma round_half_even_of_int [simp]: "round_half_even (of_int n) = n"
  by (simp add: round_half_even_def)

lemma round_half_even_nonneg: "0 \<le> x \<Longrightarrow> 0 \<le> round_half_even x"
  unfolding round_half_even_def Let_def by auto

text \<open>The exponent of the leading binary digit.\<close>

definition exponent2 :: "rat \<Rightarrow> int" where
  "exponent2 x =
     (let (p, q) = quotient_of x; k = bitlen p - bitlen q
      in if 2 powi k \<le> x then k else k - 1)"

lemma bitlen_rat_bounds:
  fixes p :: int assumes "0 < p"
  shows "(2 :: rat) powi (bitlen p - 1) \<le> of_int p" "of_int p < (2 :: rat) powi bitlen p"
proof -
  have b: "0 < bitlen p" using assms by (simp add: bitlen_alt_def)
  have lo: "2 ^ nat (bitlen p - 1) \<le> p" and hi: "p < 2 ^ nat (bitlen p)"
    using bitlen_bounds [OF assms] by auto
  have "(2 :: rat) powi (bitlen p - 1) = of_int (2 ^ nat (bitlen p - 1))"
    using b by (simp add: power_int_def)
  then show "(2 :: rat) powi (bitlen p - 1) \<le> of_int p" using lo by (simp only: of_int_le_iff)
  have "(2 :: rat) powi bitlen p = of_int (2 ^ nat (bitlen p))"
    using b by (simp add: power_int_def)
  then show "of_int p < (2 :: rat) powi bitlen p" using hi by (simp only: of_int_less_iff)
qed

lemma exponent2_bounds:
  assumes "0 < x"
  shows "2 powi exponent2 x \<le> x" "x < 2 powi (exponent2 x + 1)"
proof -
  obtain p q where pq: "quotient_of x = (p, q)" by fastforce
  have q: "0 < q" and x: "x = of_int p / of_int q"
    using quotient_of_denom_pos [OF pq] quotient_of_div [OF pq] by auto
  have p: "0 < p" using assms q unfolding x by (simp add: zero_less_divide_iff)
  let ?k = "bitlen p - bitlen q"
  have "x < 2 powi bitlen p / 2 powi (bitlen q - 1)"
    unfolding x using bitlen_rat_bounds [OF p] bitlen_rat_bounds [OF q] p q
    by (intro frac_less) auto
  then have hi: "x < 2 powi (?k + 1)"
    by (simp add: power_int_diff power_int_add field_simps)
  have "2 powi (bitlen p - 1) / 2 powi bitlen q \<le> x"
    unfolding x using bitlen_rat_bounds [OF p] bitlen_rat_bounds [OF q] p q
    by (intro frac_le) auto
  then have lo: "2 powi (?k - 1) \<le> x"
    by (simp add: power_int_diff power_int_add field_simps)
  show "2 powi exponent2 x \<le> x" "x < 2 powi (exponent2 x + 1)"
    using hi lo by (auto simp: exponent2_def pq Let_def)
qed

text \<open>The distance of neighbouring doubles at \<open>x\<close>, and rounding to a double.\<close>

definition ulp :: "rat \<Rightarrow> rat" where
  "ulp x = 2 powi (max (exponent2 \<bar>x\<bar>) (- 1022) - 52)"

definition dbl :: "rat \<Rightarrow> double" where
  "dbl x = (if x = 0 then 0 else of_int (round_half_even (x / ulp x)) * ulp x)"

lemma ulp_pos [simp]: "0 < ulp x"
  by (simp add: ulp_def)

lemma dbl_near: "\<bar>dbl x - x\<bar> \<le> ulp x / 2"
proof (cases "x = 0")
  case False
  have "\<bar>of_int (round_half_even (x / ulp x)) - x / ulp x\<bar> * ulp x \<le> 1/2 * ulp x"
    by (intro mult_right_mono round_half_even_near) (simp add: less_imp_le)
  moreover have "\<bar>of_int (round_half_even (x / ulp x)) - x / ulp x\<bar> * ulp x
      = \<bar>(of_int (round_half_even (x / ulp x)) - x / ulp x) * ulp x\<bar>"
    by (simp add: abs_mult abs_of_pos)
  moreover have "(of_int (round_half_even (x / ulp x)) - x / ulp x) * ulp x = dbl x - x"
    using False less_imp_neq [OF ulp_pos [of x]] by (simp add: dbl_def left_diff_distrib)
  ultimately show ?thesis by simp
qed (simp add: dbl_def less_imp_le)

lemma dbl_relative:
  assumes "2 powi (- 1022) \<le> \<bar>x\<bar>"
  shows "\<bar>dbl x - x\<bar> \<le> \<bar>x\<bar> / 2 ^ 53"
proof -
  have x: "0 < \<bar>x\<bar>" using assms by (rule order_less_le_trans [rotated]) simp
  have "\<not> (2 :: rat) powi (exponent2 \<bar>x\<bar> + 1) \<le> 2 powi (- 1022)"
    using assms exponent2_bounds(2) [OF x] by linarith
  then have "- 1022 < exponent2 \<bar>x\<bar> + 1"
    using power_int_increasing [of "exponent2 \<bar>x\<bar> + 1" "- 1022" "2 :: rat"] by linarith
  then have "ulp x = 2 powi exponent2 \<bar>x\<bar> / 2 ^ 52"
    by (simp add: ulp_def max_def power_int_diff)
  then have "ulp x / 2 \<le> \<bar>x\<bar> / 2 ^ 53"
    using exponent2_bounds(1) [OF x] by simp
  then show ?thesis using dbl_near [of x] by simp
qed

lemma dbl_nonneg: "0 \<le> x \<Longrightarrow> 0 \<le> dbl x"
  by (simp add: dbl_def round_half_even_nonneg less_imp_le)


section \<open>Fixed-point conversion\<close>

text \<open>\<open>%.nf\<close>, and the value such a text denotes.\<close>

definition fixed :: "nat \<Rightarrow> double \<Rightarrow> string" where
  "fixed n x =
     (let s = zjust (n + 1) (show_nat (nat (round_half_even (\<bar>x\<bar> * 10 ^ n)))); k = length s - n
      in (if x < 0 then ''-'' else []) @ take k s @ (if n = 0 then [] else CHR ''.'' # drop k s))"

definition decimal :: "string \<Rightarrow> rat" where
  "decimal t =
     (let neg = (t \<noteq> [] \<and> hd t = CHR ''-''); u = (if neg then tl t else t);
          i = takeWhile (\<lambda>c. c \<noteq> CHR ''.'') u; f = drop 1 (dropWhile (\<lambda>c. c \<noteq> CHR ''.'') u);
          v = of_nat (read_dec (i @ f)) / 10 ^ length f
      in if neg then - v else v)"

lemma read_dec_zeros [simp]: "read_dec (replicate k (CHR ''0'') @ s) = read_dec s"
  by (induction k) (simp_all add: read_dec_def char_digit_def)

lemma digit_char_cases: "d < 10 \<Longrightarrow> digit_char d \<in> set ''0123456789''"
proof -
  have "\<forall>d \<in> set [0..<10]. digit_char d \<in> set ''0123456789''" by code_simp
  then show "d < 10 \<Longrightarrow> digit_char d \<in> set ''0123456789''" by simp
qed

lemma show_nat_digits: "set (show_nat n) \<subseteq> set ''0123456789''"
proof (induction n rule: less_induct)
  case (less n)
  show ?case
  proof (cases "n < 10")
    case True
    then show ?thesis using digit_char_cases [of n]
      by (simp add: show_nat_def digits_base.simps [of _ _ n])
  next
    case False
    then have "show_nat n = show_nat (n div 10) @ [digit_char (n mod 10)]"
      by (simp add: show_nat_def digits_base.simps [of _ _ n])
    then show ?thesis using less [of "n div 10"] False digit_char_cases [of "n mod 10"] by simp
  qed
qed

lemma decimal_fixed:
  "decimal (fixed n x) = (if x < 0 then - 1 else 1) * of_int (round_half_even (\<bar>x\<bar> * 10 ^ n)) / 10 ^ n"
proof -
  define m where "m = nat (round_half_even (\<bar>x\<bar> * 10 ^ n))"
  define s where "s = zjust (n + 1) (show_nat m)"
  define k where "k = length s - n"
  have len: "n < length s" by (simp add: s_def zjust_def)
  then have k: "0 < k" and n: "length (drop k s) = n" by (auto simp: k_def)
  have m: "rat_of_nat m = of_int (round_half_even (\<bar>x\<bar> * 10 ^ n))"
    unfolding m_def by (rule of_nat_nat) (simp add: round_half_even_nonneg)
  have digs: "set s \<subseteq> set ''0123456789''"
    using show_nat_digits [of m] by (auto simp: s_def zjust_def)
  then have dot: "CHR ''.'' \<notin> set s" and minus: "CHR ''-'' \<notin> set s" by auto
  have val: "read_dec s = m" by (simp add: s_def zjust_def)
  have tk: "takeWhile (\<lambda>c. c \<noteq> CHR ''.'') (take k s) = take k s"
      "dropWhile (\<lambda>c. c \<noteq> CHR ''.'') (take k s) = []"
    using dot by (auto dest: in_set_takeD intro!: takeWhile_eq_all_conv [THEN iffD2])
  let ?u = "take k s @ (if n = 0 then [] else CHR ''.'' # drop k s)"
  have u: "takeWhile (\<lambda>c. c \<noteq> CHR ''.'') ?u = take k s"
      "drop 1 (dropWhile (\<lambda>c. c \<noteq> CHR ''.'') ?u) = drop k s"
    using dot n tk by (auto simp: takeWhile_append dropWhile_append dest: in_set_takeD)
  have head: "hd s \<noteq> CHR ''-''" using minus len hd_in_set [of s] by fastforce
  have ne: "?u \<noteq> []" "hd ?u \<noteq> CHR ''-''"
    using k len head by (auto simp: hd_append take_eq_Nil2)
  obtain v where v: "v = ?u" by simp
  have f: "fixed n x = (if x < 0 then ''-'' else []) @ v"
    by (simp add: fixed_def Let_def k_def s_def m_def v)
  have "read_dec (takeWhile (\<lambda>c. c \<noteq> CHR ''.'') v @ drop 1 (dropWhile (\<lambda>c. c \<noteq> CHR ''.'') v)) = m"
      "length (drop 1 (dropWhile (\<lambda>c. c \<noteq> CHR ''.'') v)) = n"
    using u val n unfolding v by simp_all
  moreover have "v \<noteq> []" "hd v \<noteq> CHR ''-''" using ne unfolding v by auto
  ultimately show ?thesis unfolding f decimal_def Let_def using m by auto
qed

lemma fixed_near: "\<bar>decimal (fixed n x) - x\<bar> \<le> 1 / (2 * 10 ^ n)"
proof -
  let ?r = "rat_of_int (round_half_even (\<bar>x\<bar> * 10 ^ n))"
  have "\<bar>decimal (fixed n x) - x\<bar> = \<bar>?r / 10 ^ n - \<bar>x\<bar>\<bar>"
    by (auto simp: decimal_fixed abs_if)
  also have "\<dots> = \<bar>?r - \<bar>x\<bar> * 10 ^ n\<bar> / 10 ^ n"
    by (subst abs_of_pos [of "10 ^ n", symmetric], simp, subst abs_divide [symmetric])
      (simp add: diff_divide_distrib)
  also have "\<dots> \<le> (1/2) / 10 ^ n"
    by (intro divide_right_mono round_half_even_near) simp
  finally show ?thesis by simp
qed


section \<open>General conversion\<close>

text \<open>The exponent of the leading decimal digit.\<close>

definition exponent10 :: "rat \<Rightarrow> int" where
  "exponent10 x =
     (let (p, q) = quotient_of x;
          k = int (length (show_nat (nat p))) - int (length (show_nat (nat q)))
      in if 10 powi k \<le> x then k else k - 1)"

lemma show_nat_step: "10 \<le> n \<Longrightarrow> show_nat n = show_nat (n div 10) @ [digit_char (n mod 10)]"
  by (simp add: show_nat_def digits_base.simps [of _ _ n])

lemma show_nat_length:
  "0 < n \<Longrightarrow> 10 ^ (length (show_nat n) - 1) \<le> n \<and> n < 10 ^ length (show_nat n)"
proof (induction n rule: less_induct)
  case (less n)
  show ?case
  proof (cases "n < 10")
    case True
    then have "length (show_nat n) = 1" by (simp add: show_nat_def digits_base.simps [of _ _ n])
    then show ?thesis using True less.prems by simp
  next
    case False
    let ?l = "length (show_nat (n div 10))"
    have l: "length (show_nat n) = Suc ?l" using False show_nat_step [of n] by simp
    have "0 < ?l" by simp
    then have pow: "10 ^ ?l = 10 * (10 :: nat) ^ (?l - 1)" by (metis power_minus_mult mult.commute)
    have "10 ^ (?l - 1) \<le> n div 10 \<and> n div 10 < 10 ^ ?l" using less.IH [of "n div 10"] False by simp
    then show ?thesis unfolding l using pow by (simp add: less_mult_imp_div_less) linarith
  qed
qed

lemma show_nat_rat_bounds:
  fixes p :: int assumes "0 < p"
  shows "(10 :: rat) powi (int (length (show_nat (nat p))) - 1) \<le> of_int p"
    "of_int p < (10 :: rat) powi int (length (show_nat (nat p)))"
proof -
  let ?l = "length (show_nat (nat p))"
  have b: "10 ^ (?l - 1) \<le> nat p" "nat p < 10 ^ ?l" using show_nat_length [of "nat p"] assms by auto
  have l: "0 < ?l" by simp
  have p: "rat_of_int p = of_nat (nat p)" using assms by simp
  have "(10 :: rat) powi (int ?l - 1) = of_nat (10 ^ (?l - 1))"
    using l by (simp add: power_int_def nat_diff_distrib')
  then show "(10 :: rat) powi (int ?l - 1) \<le> of_int p" using b(1) p by (simp only: of_nat_le_iff)
  have "(10 :: rat) powi int ?l = of_nat (10 ^ ?l)" by simp
  then show "of_int p < (10 :: rat) powi int ?l" using b(2) p by (simp only: of_nat_less_iff)
qed

lemma exponent10_bounds:
  assumes "0 < x"
  shows "10 powi exponent10 x \<le> x" "x < 10 powi (exponent10 x + 1)"
proof -
  obtain p q where pq: "quotient_of x = (p, q)" by fastforce
  have q: "0 < q" and x: "x = of_int p / of_int q"
    using quotient_of_denom_pos [OF pq] quotient_of_div [OF pq] by auto
  have p: "0 < p" using assms q unfolding x by (simp add: zero_less_divide_iff)
  define a where "a = int (length (show_nat (nat p)))"
  define b where "b = int (length (show_nat (nat q)))"
  note bounds = show_nat_rat_bounds [OF p, folded a_def] show_nat_rat_bounds [OF q, folded b_def]
  have "x < 10 powi a / 10 powi (b - 1)"
    unfolding x using bounds p q by (intro frac_less) auto
  then have hi: "x < 10 powi (a - b + 1)"
    by (simp add: power_int_diff power_int_add field_simps)
  have "10 powi (a - 1) / 10 powi b \<le> x"
    unfolding x using bounds p q by (intro frac_le) auto
  then have lo: "10 powi (a - b - 1) \<le> x"
    by (simp add: power_int_diff power_int_add field_simps)
  show "10 powi exponent10 x \<le> x" "x < 10 powi (exponent10 x + 1)"
    using hi lo by (auto simp: exponent10_def pq Let_def a_def b_def)
qed

text \<open>The digits and the exponent of a positive number with \<open>P\<close> significant digits.\<close>

definition scientific :: "nat \<Rightarrow> rat \<Rightarrow> nat \<times> int" where
  "scientific P x =
     (let e = exponent10 x; m = nat (round_half_even (x * 10 powi (int P - 1 - e)))
      in if m = 10 ^ P then (10 ^ (P - 1), e + 1) else (m, e))"

text \<open>\<open>%.Pg\<close>: the style of \<open>%e\<close> when the exponent is below -4 or not below the precision, that of
  \<open>%f\<close> otherwise, in both without trailing zeros.\<close>

definition fraction :: "string \<Rightarrow> string" where
  "fraction t = (let u = rev (dropWhile (\<lambda>c. c = CHR ''0'') (rev t)) in if u = [] then [] else CHR ''.'' # u)"

definition general :: "nat \<Rightarrow> double \<Rightarrow> string" where
  "general P x =
     (if x = 0 then ''0'' else
      (let (m, e) = scientific P \<bar>x\<bar>; s = show_nat m
       in (if x < 0 then ''-'' else []) @
          (if e < - 4 \<or> int P \<le> e
           then take 1 s @ fraction (drop 1 s) @ (if e < 0 then ''e-'' else ''e+'') @ zjust 2 (show_nat (nat \<bar>e\<bar>))
           else if e < 0 then ''0'' @ fraction (replicate (nat (- e - 1)) (CHR ''0'') @ s)
           else take (nat e + 1) s @ fraction (drop (nat e + 1) s))))"

lemma scientific_near:
  assumes "0 < x" and "scientific P x = (m, e)" and "0 < P"
  shows "\<bar>of_nat m * 10 powi (e - int P + 1) - x\<bar> \<le> 10 powi (exponent10 x - int P + 1) / 2"
proof -
  let ?e = "exponent10 x"
  let ?u = "10 powi (?e - int P + 1) :: rat"
  define r where "r = round_half_even (x * 10 powi (int P - 1 - ?e))"
  have u: "x * 10 powi (int P - 1 - ?e) = x / ?u"
    by (simp add: power_int_diff power_int_add field_simps)
  have "0 \<le> r" unfolding r_def by (rule round_half_even_nonneg) (use assms(1) in simp)
  then have r: "rat_of_nat (nat r) = of_int r" by simp
  have "of_nat m * 10 powi (e - int P + 1) = rat_of_int r * ?u"
  proof (cases "nat r = 10 ^ P")
    case True
    then have "m = 10 ^ (P - 1)" "e = ?e + 1"
      using assms(2) unfolding scientific_def Let_def r_def by auto
    moreover have "(10 :: rat) ^ P = 10 * 10 ^ (P - 1)" using assms(3) by (simp add: power_eq_if)
    moreover have "rat_of_int r = 10 ^ P" using True r by (metis of_nat_numeral of_nat_power)
    ultimately show ?thesis by (simp add: power_int_add power_int_diff)
  next
    case False
    then show ?thesis using assms(2) r unfolding scientific_def Let_def r_def by auto
  qed
  then have "\<bar>of_nat m * 10 powi (e - int P + 1) - x\<bar> = \<bar>of_int r - x / ?u\<bar> * ?u"
    by (simp add: abs_mult [symmetric] left_diff_distrib abs_mult_pos)
  also have "\<dots> \<le> 1/2 * ?u"
    using round_half_even_near [of "x * 10 powi (int P - 1 - ?e)", folded r_def, unfolded u]
    by (intro mult_right_mono) auto
  finally show ?thesis by simp
qed

end
