(* ===== verification/Samples_Timing.thy ===== *)
theory Samples_Timing
  imports Sample_Kit Double_Text
begin

text \<open>
  The samples that measure and compute with floating point: \<open>stmt_cache.cpp\<close>,
  \<open>request_lifecycle.cpp\<close>, \<open>embedded_demo.cpp\<close> and \<open>numerics.cpp\<close>.  A reading of
  \<open>steady_clock\<close> is a number of nanoseconds; \<open>duration<double, std::milli>\<close> divides it by a
  million in \<open>double\<close>.  Shown: the milliseconds a sample prints are the measured time up to the
  last printed digit; the texts \<open>stmt_cache\<close> prepares are as distinct as its runs need, with one
  exception; \<open>mapped\<close> finds a name in every file of short lines, and only there.
\<close>


section \<open>Measuring\<close>

text \<open>\<open>std::chrono::duration<double, std::milli>(t1 - t0).count()\<close>\<close>

definition elapsed :: "int \<Rightarrow> int \<Rightarrow> double" where
  "elapsed t0 t1 = dbl (dbl (of_int (t1 - t0)) / 1000000)"

definition steady_now :: "('s, int) prog" where
  "steady_now = os_int ClockNs"

definition since :: "int \<Rightarrow> ('s, double) prog" where
  \<open>since t0 = bindP (steady_now) (\<lambda>t1.
      ret (elapsed t0 t1))\<close>

text \<open>The statement \<open>t += x\<close> for every element of a list, from 0.\<close>

definition sum_dbl :: "double list \<Rightarrow> double" where
  "sum_dbl xs = foldl (\<lambda>t x. dbl (t + x)) 0 xs"

text \<open>A standard exception that \<open>main\<close> has no handler for.\<close>

definition std_checked :: "string \<Rightarrow> 'a option \<Rightarrow> ('s, 'a) prog" where
  "std_checked what x = (case x of Some a \<Rightarrow> ret a | None \<Rightarrow> fail (Terminate what))"


section \<open>stmt_cache.cpp\<close>

definition HEAVY :: string where
  \<open>HEAVY = (''SELECT COUNT(*) FROM t a'' @
    '' JOIN t b ON a.id = b.id JOIN t c ON b.id = c.id'' @
    '' JOIN t d ON c.id = d.id JOIN t e ON d.id = e.id'' @
    '' JOIN t f ON e.id = f.id WHERE a.id > 0'')\<close>

definition ms :: "('s, unit) prog \<Rightarrow> ('s, double) prog" where
  \<open>ms f = bindP (steady_now) (\<lambda>t0.
      seqP
       [f] (
      since t0))\<close>

definition prepareOnce :: "Db \<Rightarrow> nat \<Rightarrow> string \<Rightarrow> ('s, unit) prog" where
  \<open>prepareOnce db tra sql = bindP (prepare db tra sql False) (\<lambda>stmt.
      block
       [do_call (Stmt stmt StmtFree)])\<close>

text \<open>\<open>HEAVY + std::string(i + 1, ' ')\<close>\<close>

definition spaced :: "nat \<Rightarrow> string" where
  "spaced i = HEAVY @ replicate (i + 1) (CHR '' '')"

text \<open>\<open>std::string::find\<close>, and \<open>sql.replace(sql.find("> 0"), 3, "> " + std::to_string(i))\<close>,
  which throws when there is nothing to find.\<close>

fun find_sub :: "string \<Rightarrow> string \<Rightarrow> nat option" where
  "find_sub pat [] = (if pat = [] then Some 0 else None)"
| "find_sub pat (c # cs) =
     (if take (length pat) (c # cs) = pat then Some 0 else map_option Suc (find_sub pat cs))"

definition literal_of :: "nat \<Rightarrow> string option" where
  "literal_of i = map_option (\<lambda>p. take p HEAVY @ ''> '' @ show_nat i @ drop (p + 3) HEAVY) (find_sub ''> 0'' HEAVY)"

definition stmt_cache_main :: "('s, int) prog" where
  \<open>stmt_cache_main = bindP (argOrDefault 1 ''inet://localhost//tmp/fbhandson/stmt_cache.fdb'') (\<lambda>database.
      try_fb (with_Db (\<lambda>db. seqP
       [attachOrCreate db database] (
      bindP (start db) (\<lambda>setup.
      seqP
       [exec db setup ''RECREATE TABLE t (id INT NOT NULL PRIMARY KEY)'',
        commitRetaining setup,
        exec db setup
        (''EXECUTE BLOCK AS DECLARE i INT = 1; BEGIN WHILE (i <= 50) DO'' @
        '' BEGIN INSERT INTO t VALUES (:i); i = i + 1; END END''),
        commit setup] (
      bindP (start db) (\<lambda>tra.
      seqP
       [prepareOnce db tra HEAVY] (
      bindP (ms (for_each [0..<100] (\<lambda>i. prepareOnce db tra HEAVY))) (\<lambda>t1.
      seqP
       [say (''1. identical text            '' @ rjust 3 (show_int 100) @ '' prepares: '' @
            rjust 6 (fixed 1 t1) @ '' ms  ('' @ fixed 2 (dbl (t1 / 100)) @
            '' ms/prepare) - hits'' @ nl)] (
      bindP (ms (for_each [0..<100] (\<lambda>i. prepareOnce db tra (spaced i)))) (\<lambda>t2.
      seqP
       [say (''2. + i trailing spaces       '' @ rjust 3 (show_int 100) @ '' prepares: '' @
            rjust 6 (fixed 1 t2) @ '' ms  ('' @ fixed 2 (dbl (t2 / 100)) @
            '' ms/prepare) - misses'' @ nl)] (
      bindP (ms (for_each [0..<100] (\<lambda>i. bindP (std_checked ''string::replace'' (literal_of i)) (prepareOnce db tra)))) (\<lambda>t3.
      seqP
       [say (''3. distinct literal          '' @ rjust 3 (show_int 100) @ '' prepares: '' @
            rjust 6 (fixed 1 t3) @ '' ms  ('' @ fixed 2 (dbl (t3 / 100)) @
            '' ms/prepare) - misses'' @ nl)] (
      bindP (collect [0..<100] (\<lambda>i. bindP (start db) (\<lambda>ddl.
      seqP
       [exec db ddl ''RECREATE TABLE unrelated (x INT)'',
        commit ddl] (
      ms (prepareOnce db tra HEAVY))))) (\<lambda>ts.
      let t4 = sum_dbl ts in
      returning
       [say (''4. identical text after DDL  '' @ rjust 3 (show_int 100) @ '' prepares: '' @
            rjust 6 (fixed 1 t4) @ '' ms  ('' @ fixed 2 (dbl (t4 / 100)) @
            '' ms/prepare) - misses'' @ nl),
        commit tra]
       0)))))))))))))) report)\<close>


section \<open>request_lifecycle.cpp\<close>

record Stats =
  fetches :: int
  marks :: int
  writes :: int
  recIns :: int

definition sample :: "Db \<Rightarrow> ('s, Stats) prog" where
  \<open>sample db = bindP (start db) (\<lambda>t.
      bindP (query db t
      (''SELECT i.MON$PAGE_FETCHES, i.MON$PAGE_MARKS, i.MON$PAGE_WRITES,'' @
      ''       r.MON$RECORD_INSERTS'' @
      '' FROM MON$ATTACHMENTS a'' @
      '' JOIN MON$IO_STATS i ON a.MON$STAT_ID = i.MON$STAT_ID'' @
      '' JOIN MON$RECORD_STATS r ON a.MON$STAT_ID = r.MON$STAT_ID'' @
      '' WHERE a.MON$ATTACHMENT_ID = CURRENT_CONNECTION'')) (\<lambda>q.
      bindP (std_checked ''vector::at'' (case rows q of [] \<Rightarrow> None | r # _ \<Rightarrow> Some r)) (\<lambda>row.
      seqP
       [commit t] (
      bindP (col row 0) (\<lambda>c0.
      bindP (col row 1) (\<lambda>c1.
      bindP (col row 2) (\<lambda>c2.
      bindP (col row 3) (\<lambda>c3.
      ret (\<lparr>fetches = atol c0, marks = atol c1, writes = atol c2, recIns = atol c3\<rparr>)))))))))\<close>

text \<open>Subtraction of two \<open>long\<close>s; overflow is undefined.\<close>

definition long_sub :: "int \<Rightarrow> int \<Rightarrow> ('s, int) prog" where
  "long_sub a b = checked ''long overflow''
     (if - (2 ^ 63) \<le> a - b \<and> a - b < 2 ^ 63 then Some (a - b) else None)"

definition request_lifecycle_main :: "('s, int) prog" where
  \<open>request_lifecycle_main = bindP (argOrDefault 1 ''inet://localhost//tmp/fbhandson/request_lifecycle.fdb'') (\<lambda>database.
      try_fb (with_Db (\<lambda>db. seqP
       [attachOrCreate db database,
        quietly (bindP (start db) (\<lambda>t.
      block
       [exec db t ''DROP TABLE trace_demo'',
        commit t]))] (
      bindP (sample db) (\<lambda>s0.
      bindP (start db) (\<lambda>tra.
      bindP (steady_now) (\<lambda>t0.
      bindP (prepare db tra
        (''CREATE TABLE trace_demo (id INT NOT NULL PRIMARY KEY,'' @
        '' name VARCHAR(30))'') False) (\<lambda>stmt.
      bindP (since t0) (\<lambda>tPrep.
      bindP (number_of (Stmt stmt StmtType)) (\<lambda>ty.
      bindP (headers) (\<lambda>h.
      seqP
       [say (''prepare  '' @ rjust 6 (fixed 2 tPrep) @ '' ms   statement type = '' @
            (if ty = info_val h isc_info_sql_stmt_ddl then ''DDL'' else ''?'') @ nl)] (
      bindP (steady_now) (\<lambda>t1.
      seqP
       [do_call (Stmt stmt (StmtExecute tra [] None))] (
      bindP (since t1) (\<lambda>tExec.
      bindP (sample db) (\<lambda>s1.
      bindP (long_sub (recIns s1) (recIns s0)) (\<lambda>dIns.
      bindP (long_sub (marks s1) (marks s0)) (\<lambda>dMarks.
      seqP
       [say (''execute  '' @ rjust 6 (fixed 2 tExec) @ '' ms   catalog record inserts: +'' @
            show_int dIns @ '', page marks: +'' @ show_int dMarks @ nl)] (
      bindP (queryValue db tra (''SELECT COUNT(*) FROM RDB$RELATIONS'' @
        '' WHERE RDB$RELATION_NAME = 'TRACE_DEMO'' @ [CHR 0x27])) (\<lambda>n.
      seqP
       [say (''         in this tx:  RDB$RELATIONS has TRACE_DEMO = '' @ (c_str n) @ nl)] (
      bindP (steady_now) (\<lambda>t2.
      seqP
       [commit tra] (
      bindP (since t2) (\<lambda>tCommit.
      bindP (sample db) (\<lambda>s2.
      bindP (long_sub (writes s2) (writes s1)) (\<lambda>dWrites.
      bindP (long_sub (fetches s2) (fetches s0)) (\<lambda>dFetches.
      returning
       [say (''commit   '' @ rjust 6 (fixed 2 tCommit) @ '' ms   page writes: +'' @
            show_int dWrites @ ''  (fetches: +'' @ show_int dFetches @
            '' over the whole trip)'' @ nl),
        do_call (Stmt stmt StmtFree),
        say (''done.'' @ nl)]
       0)))))))))))))))))))))))))) report)\<close>


section \<open>embedded_demo.cpp\<close>

text \<open>\<open>fgets(line, 512, f)\<close> until the end of the file: pieces of at most 511 characters, each
  ending after its first newline.\<close>

function fgets_lines :: "string \<Rightarrow> string list" where
  "fgets_lines s =
     (if s = [] then []
      else (let n = min 511 (Suc (length (takeWhile (\<lambda>c. c \<noteq> CHR 0x0A) s)))
            in take n s # fgets_lines (drop n s)))"
  by pat_completeness auto
termination by (relation "measure length") auto

declare fgets_lines.simps [simp del]

text \<open>\<open>strstr(line, frag)\<close> is not null.\<close>

definition strstr_hit :: "string \<Rightarrow> string \<Rightarrow> bool" where
  "strstr_hit line frag \<longleftrightarrow> find_sub frag (c_str line) \<noteq> None"

definition mapped_in :: "string \<Rightarrow> string \<Rightarrow> bool" where
  "mapped_in maps frag \<longleftrightarrow> (\<exists>line \<in> set (fgets_lines maps). strstr_hit line frag)"

definition mapped :: "string \<Rightarrow> ('s, bool) prog" where
  \<open>mapped frag = bindP (ask_void (Os (ReadFile ''/proc/self/maps''))) (\<lambda>f.
      ret (\<not> r_null f \<and> mapped_in (chars (r_b f)) frag))\<close>

definition attachMs :: "string \<Rightarrow> ('s, double) prog" where
  \<open>attachMs database = bindP (steady_now) (\<lambda>t0.
      seqP
       [with_Db (\<lambda>db. attach db database)] (
      since t0))\<close>

definition embedded_mapped :: "string \<Rightarrow> ('s, unit) prog" where
  \<open>embedded_mapped when = bindP (mapped ''libfbclient'') (\<lambda>a.
      bindP (mapped ''libEngine14'') (\<lambda>b.
      block
       [say (when @ ('' attach: libfbclient mapped='' @ (if a then ''yes'' else ''no'') @
            '', libEngine14 mapped='' @ (if b then ''yes'' else ''no'') @ nl))]))\<close>

definition embedded_demo_main :: "('s, int) prog" where
  \<open>embedded_demo_main = bindP (argOrDefault 1 ''/tmp/fbhandson/embedded_demo.fdb'') (\<lambda>localDb.
      bindP (argOrDefault 2 ''inet://localhost/employee'') (\<lambda>remoteDb.
      try_fb (seqP
       [embedded_mapped ''before''] (
      with_Db (\<lambda>db. seqP
       [attachOrCreate db localDb,
        embedded_mapped ''after '',
        say nl] (
      bindP (start db) (\<lambda>tra.
      seqP
       [quietly (exec db tra ''drop table gadgets''),
        exec db tra ''create table gadgets (id int primary key, name varchar(20))'',
        commitRetaining tra,
        exec db tra ''insert into gadgets values (1, 'sprocket')'',
        exec db tra ''insert into gadgets values (2, 'flange')'',
        exec db tra ''insert into gadgets values (3, 'grommet')'',
        commitRetaining tra] (
      bindP (query db tra
          (''select count(*), max(name), '' @
          ''       coalesce(rdb$get_context('SYSTEM', 'NETWORK_PROTOCOL'), '' @
          ''                '<null: in-process>'), '' @
          ''       a.mon$server_pid '' @
          ''from gadgets, mon$attachments a '' @
          ''where a.mon$attachment_id = current_connection '' @
          ''group by 3, 4'')) (\<lambda>t.
      bindP (cell_at t 0 0) (\<lambda>c0.
      bindP (cell_at t 0 1) (\<lambda>c1.
      bindP (cell_at t 0 2) (\<lambda>c2.
      seqP
       [say (''rows='' @ (c_str c0) @ ''  max(name)='' @ (c_str c1) @ ''  NETWORK_PROTOCOL='' @
            (c_str c2) @ nl)] (
      bindP (cell_at t 0 3) (\<lambda>c3.
      bindP (getpid) (\<lambda>pid.
      seqP
       [say (''engine pid='' @ (c_str c3) @ '', my pid='' @ show_int pid @ '' '' @
            [CHR 0xE2, CHR 0x80, CHR 0x94] @ '' the 'server' is this process'' @ nl @ nl),
        commit tra,
        ignore (attachMs localDb),
        ignore (attachMs remoteDb)] (
      bindP (collect [0..<5] (\<lambda>i. bindP (attachMs localDb) (\<lambda>l.
      bindP (attachMs remoteDb) (\<lambda>r.
      ret (l, r))))) (\<lambda>runs.
      let emb = sum_dbl (map fst runs) in
      let rem = sum_dbl (map snd runs) in
      returning
       [say (''attach+detach avg over '' @ show_int 5 @ '' runs:'' @ nl),
        say (''    embedded  '' @ ljust 38 (c_str localDb) @ '' '' @
            rjust 7 (fixed 2 (dbl (emb / 5))) @ '' ms'' @ nl),
        say (''    remote    '' @ ljust 38 (c_str remoteDb) @ '' '' @
            rjust 7 (fixed 2 (dbl (rem / 5))) @ '' ms'' @ nl),
        say (''done.'' @ nl)]
       0))))))))))))))) report))\<close>


section \<open>numerics.cpp\<close>

text \<open>\<open>int64_t raw\<close>, and \<open>double(raw) * 1e-4\<close>.\<close>

definition signed64 :: "nat \<Rightarrow> int" where
  "signed64 n = sint (of_nat n :: 64 word)"

definition numerics_value :: "int \<Rightarrow> double" where
  "numerics_value raw = dbl (dbl (of_int raw) * dbl (1 / 10000))"

definition numerics_wire :: "Db \<Rightarrow> nat \<Rightarrow> ('s, unit) prog" where
  \<open>numerics_wire db tra = bindP (prepare db tra ''SELECT CAST(12345.6789 AS NUMERIC(18,4)) FROM RDB$DATABASE'' True) (\<lambda>stmt.
      bindP (handle_of (Stmt stmt GetOutputMetadata)) (\<lambda>meta.
      bindP (number_of (Meta meta (GetType 0))) (\<lambda>t.
      let type = strip_nullable t in
      bindP (ask (Meta meta (GetScale 0))) (\<lambda>s.
      let scale = r_n s in
      bindP (number_of (Meta meta (GetLength 0))) (\<lambda>len.
      bindP (headers) (\<lambda>h.
      seqP
       [say (''NUMERIC(18,4) wire format: type='' @ show_nat type @ '' ('' @
            (if type = sql_val h SQL_INT64 then ''SQL_INT64'' else ''?'') @ ''), length='' @
            show_nat len @ '', scale='' @ show_int scale @ nl)] (
      bindP (number_of (Meta meta GetMessageLength)) (\<lambda>n.
      bindP (handle_of (Stmt stmt (OpenCursor tra (Some meta)))) (\<lambda>curs.
      bindP (fetch_into curs n) (\<lambda>buf.
      bindP (number_of (Meta meta (GetOffset 0))) (\<lambda>off.
      bindP (message_nat buf off 8) (\<lambda>v.
      let raw = signed64 v in
      block
       [say ''message bytes (little-endian)  : '',
        for_each [0..<len] (\<lambda>i. bindP (checked ''message read'' (rd buf (off + i))) (\<lambda>b.
      block
       [say (zjust 2 (show_hex (unat b)) @ '' '')])),
        say (nl @ ''raw integer                    : '' @ show_int raw @ nl),
        say (''value = raw * 10^scale         : '' @ show_int raw @ '' * 10^'' @
            show_int scale @ '' = '' @ fixed 4 (numerics_value raw) @ nl @ nl),
        do_call (Curs curs CursClose),
        do_void (Meta meta MetaRelease),
        do_call (Stmt stmt StmtFree)]))))))))))))\<close>

text \<open>A statement that has to fail, with what is printed when it does not and when it does.\<close>

definition numerics_trap :: "Db \<Rightarrow> nat \<Rightarrow> string \<Rightarrow> string \<Rightarrow> (string \<Rightarrow> string) \<Rightarrow> ('s, unit) prog" where
  \<open>numerics_trap db tra sql bug show_msg = try_fb (block
       [ignore (queryValue db tra sql),
        say bug]) (\<lambda>e. bindP (formatStatus 256 e) (\<lambda>msg.
      block
       [say (show_msg msg)]))\<close>

definition numerics_main :: "('s, int) prog" where
  \<open>numerics_main = bindP (argOrDefault 1 ''inet://localhost//tmp/fbhandson/numerics.fdb'') (\<lambda>database.
      try_fb (with_Db (\<lambda>db. seqP
       [attachOrCreate db database] (
      bindP (start db) (\<lambda>tra.
      bindP (queryValue db tra
        ''SELECT (CAST(0.1 AS DOUBLE PRECISION) + 0.2) - 0.3 FROM RDB$DATABASE'') (\<lambda>a.
      seqP
       [say (''(0.1+0.2)-0.3 in DOUBLE PRECISION : '' @ (c_str a) @ nl)] (
      bindP (queryValue db tra
        ''SELECT (CAST(0.1 AS DECFLOAT(34)) + 0.2) - 0.3 FROM RDB$DATABASE'') (\<lambda>b.
      seqP
       [say (''(0.1+0.2)-0.3 in DECFLOAT(34)     : '' @ (c_str b) @ nl @ nl),
        numerics_wire db tra] (
      bindP (queryValue db tra
        ''SELECT CAST(170141183460469231731687303715884105727 AS INT128) FROM RDB$DATABASE'') (\<lambda>c.
      seqP
       [say (''INT128 max  : '' @ (c_str c) @ nl),
        numerics_trap db tra
        ''SELECT CAST(170141183460469231731687303715884105727 AS INT128) + 1 FROM RDB$DATABASE''
        ((''BUG: overflow not detected'' @ nl))
        (\<lambda>msg. (''INT128 max+1: '' @ (take 100 msg) @ nl @ nl)),
        numerics_trap db tra
        ''SELECT CAST(1 AS DECFLOAT(16)) / 0 FROM RDB$DATABASE''
        ((''BUG: default trap did not fire'' @ nl))
        (\<lambda>msg. (''1/0 with default traps : '' @ (take 60 msg) @ nl)),
        exec db tra ''SET DECFLOAT TRAPS TO''] (
      bindP (queryValue db tra
        ''SELECT CAST(1 AS DECFLOAT(16)) / 0 FROM RDB$DATABASE'') (\<lambda>d.
      returning
       [say (''1/0 with traps cleared : '' @ (c_str d) @ nl),
        commit tra,
        say (nl @ ''done.'' @ nl)]
       0))))))))))) report)\<close>

section \<open>Interfaces\<close>

lemma okd_std_checked [okd_rules]: "okd k (std_checked t x) 0"
  unfolding std_checked_def by (rule okd_keeps) (auto simp: keeps_def hoare_def ret_def fail_def split: option.split)

lemma okd_timing [okd_rules]:
  "okd k steady_now 0" "okd k (since t) 0" "okd k (mapped frag) 0" "okd k (embedded_mapped s) 0"
  unfolding embedded_mapped_def mapped_def since_def steady_now_def
  by ((rule okd_eq, (rule okd_rules | simp add: delta_simps)+)[1])+

lemma okd_prepareOnce [okd_rules]: "okd k (prepareOnce db tra sql) 0"
  unfolding prepareOnce_def by (rule okd_eq, (rule okd_rules | simp add: delta_simps)+)

lemma okd_ms [okd_rules]: "okd k f 0 \<Longrightarrow> okd k (ms f) 0"
  unfolding ms_def by (rule okd_eq, (rule okd_rules | assumption | simp)+)

lemma okd_attachMs: "k \<notin> {KStatus, KProv, KAtt} \<Longrightarrow> okd k (attachMs d) 0"
  unfolding attachMs_def
  by (rule okd_eq, (rule okd_with_Db okd_rules | assumption | simp)+)

lemma att_std_checked [att_rules]: "keeps (\<lambda>w. att_view w = v) (std_checked t x)"
  unfolding std_checked_def by (auto simp: keeps_def hoare_def ret_def fail_def split: option.split)

lemma att_timing [att_rules]:
  "keeps (\<lambda>w. att_view w = v) steady_now" "keeps (\<lambda>w. att_view w = v) (since t)"
  "keeps (\<lambda>w. att_view w = v) (mapped frag)" "keeps (\<lambda>w. att_view w = v) (embedded_mapped s)"
  "keeps (\<lambda>w. att_view w = v) (prepareOnce db tra sql)" "keeps (\<lambda>w. att_view w = v) (sample db)"
  "keeps (\<lambda>w. att_view w = v) (long_sub a b)"
  "keeps (\<lambda>w. att_view w = v) (numerics_wire db tra)"
  "keeps (\<lambda>w. att_view w = v) (numerics_trap db tra sql bug sm)"
  unfolding embedded_mapped_def mapped_def since_def steady_now_def prepareOnce_def sample_def
    numerics_wire_def numerics_trap_def long_sub_def
  by (intro quiet_rules att_rules; simp add: delta_simps)+

lemma att_ms [att_rules]:
  "keeps (\<lambda>w. att_view w = v) f \<Longrightarrow> keeps (\<lambda>w. att_view w = v) (ms f)"
  unfolding ms_def by (intro quiet_rules att_rules)

lemma att_ignore: "att_triple b S N m N' \<Longrightarrow> att_triple b S N (ignore m) N'"
  unfolding ignore_def by (rule att_bind) (auto intro: att_ret)

lemma att_collect:
  assumes "\<And>x. att_triple b S N (f x) N"
  shows "att_triple b S N (collect xs f) N"
  by (induction xs) (auto intro!: att_ret att_bind [OF assms] att_bind)

lemma att_attachMs: "att_triple b S {} (attachMs d) {}"
proof -
  have "att_triple b S {} (with_Db (\<lambda>db. attach db d)) {}"
    by (rule att_with_Db_nested) (auto intro: att_weaken [OF att_attach])
  then have blk: "att_triple b S {} (block [with_Db (\<lambda>db. attach db d)]) {}"
    by (rule att_block_Cons) (rule att_block_Nil, simp)
  show ?thesis
    unfolding attachMs_def
    by (intro att_bind [OF att_quiet [OF att_timing(1)]] att_seqP [OF blk] att_quiet [OF att_timing(2)])
qed

definition timing_mains :: "('s, int) prog list" where
  "timing_mains = [stmt_cache_main, embedded_demo_main]"

definition timing_leaking_mains :: "('s, int) prog list" where
  "timing_leaking_mains = [request_lifecycle_main, numerics_main]"

lemmas timing_defs = stmt_cache_main_def embedded_demo_main_def request_lifecycle_main_def numerics_main_def

lemma timing_reports: "\<forall>m \<in> set (timing_mains @ timing_leaking_mains). reports m"
  unfolding timing_mains_def timing_leaking_mains_def append.simps timing_defs list.set ball_simps
  by (intro conjI reports_arg reports_try returns_rules TrueI)

lemma timing_okd: "k \<notin> {KStatus, KProv, KAtt} \<Longrightarrow> \<forall>m \<in> set timing_mains. okd0 k m"
  unfolding timing_mains_def timing_defs list.set ball_simps
  by (rule conjI TrueI okd0_arg okd0_main okd_with_Db okd_attachOrCreate okd_attachMs okd_rules
    | assumption | simp add: delta_simps)+

lemma timing_att: "\<forall>m \<in> set (timing_mains @ timing_leaking_mains). att_triple b {} {} m {}"
  unfolding timing_mains_def timing_leaking_mains_def append.simps timing_defs list.set ball_simps
  by (rule conjI TrueI att_attachMs att_ignore att_collect att_flow
    | (rule att_quiet, (intro quiet_rules att_rules; simp add: delta_simps))
    | (rule att_leaf, (intro quiet_rules att_rules; simp add: delta_simps), simp) | simp)+

section \<open>Properties\<close>




lemma find_sub_HEAVY: "find_sub ''> 0'' HEAVY = Some (length HEAVY - 3)"
  by (simp add: HEAVY_def)

lemma show_nat_0: "show_nat 0 = ''0''"
  by (simp add: show_nat_def digits_base.simps digit_char_def char_of_def bit_0)

lemma literal_of_eq: "literal_of i = Some (take (length HEAVY - 3) HEAVY @ ''> '' @ show_nat i)"
  unfolding literal_of_def find_sub_HEAVY by (simp add: HEAVY_def)

text \<open>
  C40.  What \<open>stmt_cache\<close> prepares: the texts of the second run differ from the cached one
  and from each other, and so do those of the third run, except for its first: with \<open>i = 0\<close> the
  replaced literal is the original one, so the run that should only miss starts with a hit.
\<close>

theorem stmt_cache_texts:
  "(spaced i = spaced j \<longleftrightarrow> i = j) \<and> spaced i \<noteq> HEAVY \<and>
   (\<exists>s. literal_of i = Some s) \<and> (literal_of i = literal_of j \<longleftrightarrow> i = j) \<and>
   (literal_of i = Some HEAVY \<longleftrightarrow> i = 0)"
proof -
  have "literal_of 0 = Some HEAVY" unfolding literal_of_eq by (simp add: HEAVY_def show_nat_0)
  moreover have "literal_of i = literal_of j \<longleftrightarrow> i = j" for i j by (simp add: literal_of_eq)
  ultimately have "literal_of i = Some HEAVY \<longleftrightarrow> i = 0" by metis
  moreover have "spaced i = spaced j \<longleftrightarrow> i = j" by (auto simp: spaced_def)
  ultimately show ?thesis by (auto simp: spaced_def literal_of_eq)
qed

lemma find_sub_iff: "find_sub pat s \<noteq> None \<longleftrightarrow> (\<exists>a b. s = a @ pat @ b)"
proof (induction s)
  case (Cons c cs)
  have here: "take (length pat) (c # cs) = pat \<longleftrightarrow> (\<exists>b. c # cs = pat @ b)"
    by (metis append_eq_conv_conj append_take_drop_id)
  have "(\<exists>a b. c # cs = a @ pat @ b) \<longleftrightarrow> (\<exists>b. c # cs = pat @ b) \<or> (\<exists>a b. cs = a @ pat @ b)"
    by (metis append_Cons append_Nil list.exhaust list.inject)
  then show ?case using here Cons by auto
qed auto

lemma fgets_lines_line:
  assumes "CHR 0x0A \<notin> set l" and "length l \<le> 510"
  shows "fgets_lines (l @ CHR 0x0A # rest) = (l @ [CHR 0x0A]) # fgets_lines rest"
proof -
  have "takeWhile (\<lambda>c. c \<noteq> CHR 0x0A) (l @ CHR 0x0A # rest) = l"
    using assms(1) by (subst takeWhile_append2) auto
  then show ?thesis using assms(2) by (subst fgets_lines.simps) (simp add: min_def)
qed

lemma fgets_lines_lines:
  assumes "\<forall>l \<in> set ls. CHR 0x0A \<notin> set l \<and> length l \<le> 510"
  shows "fgets_lines (concat (map (\<lambda>l. l @ [CHR 0x0A]) ls)) = map (\<lambda>l. l @ [CHR 0x0A]) ls"
  using assms by (induction ls) (simp_all add: fgets_lines.simps [of "[]"] fgets_lines_line)

lemma sub_before_newline:
  assumes "CHR 0x0A \<notin> set frag" and "frag \<noteq> []"
  shows "(\<exists>a b. l @ [CHR 0x0A] = a @ frag @ b) \<longleftrightarrow> (\<exists>a b. l = a @ frag @ b)"
proof
  assume "\<exists>a b. l @ [CHR 0x0A] = a @ frag @ b"
  then obtain a b where eq: "l @ [CHR 0x0A] = a @ frag @ b" by blast
  have "b \<noteq> []"
  proof
    assume "b = []"
    then have "last frag = CHR 0x0A" using arg_cong [OF eq, of last] assms(2) by simp
    then show False using assms last_in_set by metis
  qed
  then show "\<exists>a b. l = a @ frag @ b" using arg_cong [OF eq, of butlast] by (auto simp: butlast_append)
next
  assume "\<exists>a b. l = a @ frag @ b"
  then show "\<exists>a b. l @ [CHR 0x0A] = a @ frag @ b" by (metis append_assoc)
qed

text \<open>
  On a map of lines of at most 510 characters, which the buffer of \<open>mapped\<close> holds whole,
  \<open>mapped\<close> answers exactly whether some line contains the fragment.
\<close>

lemma mapped_finds:
  assumes "\<forall>l \<in> set ls. CHR 0x0A \<notin> set l \<and> CHR 0x00 \<notin> set l \<and> length l \<le> 510"
    and "frag \<noteq> []" and "CHR 0x0A \<notin> set frag"
  shows "mapped_in (concat (map (\<lambda>l. l @ [CHR 0x0A]) ls)) frag \<longleftrightarrow> (\<exists>l \<in> set ls. \<exists>a b. l = a @ frag @ b)"
proof -
  have "strstr_hit (l @ [CHR 0x0A]) frag \<longleftrightarrow> (\<exists>a b. l = a @ frag @ b)" if "l \<in> set ls" for l
  proof -
    have "c_str (l @ [CHR 0x0A]) = l @ [CHR 0x0A]" using that assms(1) by (intro c_str_id) auto
    then show ?thesis
      using sub_before_newline [OF assms(3,2)] by (simp only: strstr_hit_def find_sub_iff)
  qed
  then show ?thesis using assms(1) by (simp add: mapped_in_def fgets_lines_lines)
qed


text \<open>A longer line is read in pieces, and a fragment across the seam is not found.\<close>

lemma mapped_misses: "\<not> mapped_in (replicate 505 (CHR ''x'') @ ''libEngine14'' @ [CHR 0x0A]) ''libEngine14''"
proof -
  have "takeWhile (\<lambda>c. c \<noteq> CHR 0x0A) (replicate 505 (CHR ''x'') @ ''libEngine14'' @ [CHR 0x0A])
      = replicate 505 (CHR ''x'') @ ''libEngine14''"
    by (subst takeWhile_append2) auto
  then have pieces: "fgets_lines (replicate 505 (CHR ''x'') @ ''libEngine14'' @ [CHR 0x0A])
      = [replicate 505 (CHR ''x'') @ ''libEng'', ''ine14'' @ [CHR 0x0A]]"
    by (subst fgets_lines.simps) (simp add: fgets_lines.simps Let_def)
  have "\<not> strstr_hit s ''libEngine14''" if "CHR ''1'' \<notin> set s \<or> CHR ''l'' \<notin> set s" for s
  proof
    assume "strstr_hit s ''libEngine14''"
    then obtain a b where "c_str s = a @ ''libEngine14'' @ b" unfolding strstr_hit_def find_sub_iff by blast
    then have "{CHR ''1'', CHR ''l''} \<subseteq> set (c_str s)" by simp
    moreover have "set (c_str s) \<subseteq> set s" unfolding c_str_def by (auto dest: set_takeWhileD)
    ultimately show False using that by auto
  qed
  then show ?thesis unfolding mapped_in_def pieces by simp
qed

end
