(* ===== verification/Fbcpp_Kit.thy ===== *)
theory Fbcpp_Kit
  imports Sample_Kit
begin

text \<open>
  The samples of \<open>samples/fb-cpp\<close> and their header \<open>fbcpp_sample.h\<close>.  The wrapper library fb-cpp
  is not in the repository: its classes are handles, their constructors, methods and destructors
  calls that the environment answers.  What the samples' own code decides is when an object is
  constructed and, by its scope, destroyed.  The theory has the scopes, the handlers (the
  exception classes form a chain: \<open>DatabaseException\<close> is an \<open>FbCppException\<close> is a
  \<open>std::exception\<close>), the functions of the header, and the lifetime discipline: \<open>live\<close> replays a log
  on the stack of constructed objects and fails when a method is called on an object that is not
  on it or an object is destroyed that is not on top.  A program built from scopes never fails it.
\<close>


section \<open>Objects, scopes and exceptions\<close>

text \<open>An object with automatic storage: constructed, used, destroyed when its scope is left.\<close>

definition fc_scope :: "fc_kind \<Rightarrow> ('s, nat) prog \<Rightarrow> (nat \<Rightarrow> ('s, 'a) prog) \<Rightarrow> ('s, 'a) prog" where
  "fc_scope k ctor body = bindP ctor (\<lambda>h. scoped (body h) (do_void (Fc (FcDestroy k h))))"

definition with_Client :: "(nat \<Rightarrow> ('s, 'a) prog) \<Rightarrow> ('s, 'a) prog" where
  "with_Client body = fc_scope FClient (handle_of (Fc (FcClient ''fbclient''))) body"

definition with_Attachment :: "nat \<Rightarrow> string \<Rightarrow> fc_opt list \<Rightarrow> (nat \<Rightarrow> ('s, 'a) prog) \<Rightarrow> ('s, 'a) prog" where
  "with_Attachment client database opts body =
     fc_scope FAttachment (handle_of (Fc (FcAttachment client database opts))) body"

definition with_Transaction :: "nat \<Rightarrow> fc_opt list \<Rightarrow> (nat \<Rightarrow> ('s, 'a) prog) \<Rightarrow> ('s, 'a) prog" where
  "with_Transaction att opts body = fc_scope FTransaction (handle_of (Fc (FcTransaction att opts))) body"

definition with_Statement ::
  "nat \<Rightarrow> nat \<Rightarrow> string \<Rightarrow> fc_opt list \<Rightarrow> (nat \<Rightarrow> ('s, 'a) prog) \<Rightarrow> ('s, 'a) prog"
where
  "with_Statement att tra sql opts body =
     fc_scope FStatement (handle_of (Fc (FcStatement att tra sql opts))) body"

text \<open>Methods that the samples call.\<close>

definition fc_execute :: "nat \<Rightarrow> nat \<Rightarrow> ('s, bool) prog" where
  "fc_execute stmt tra = bindP (ask (Fc (FcStmt stmt (FcStmtExecute tra)))) (\<lambda>r. ret (r_n r \<noteq> 0))"

definition fc_fetchNext :: "nat \<Rightarrow> ('s, bool) prog" where
  "fc_fetchNext stmt = bindP (ask (Fc (FcStmt stmt FcFetchNext))) (\<lambda>r. ret (r_n r \<noteq> 0))"

definition fc_getString :: "nat \<Rightarrow> nat \<Rightarrow> ('s, string option) prog" where
  "fc_getString stmt i =
     bindP (ask (Fc (FcStmt stmt (FcGet FString i)))) (\<lambda>r. ret (if r_null r then None else Some (r_s r)))"

definition fc_getInt :: "fc_type \<Rightarrow> nat \<Rightarrow> nat \<Rightarrow> ('s, int option) prog" where
  "fc_getInt ty stmt i =
     bindP (ask (Fc (FcStmt stmt (FcGet ty i)))) (\<lambda>r. ret (if r_null r then None else Some (r_n r)))"

definition fc_queryString :: "nat \<Rightarrow> nat \<Rightarrow> string \<Rightarrow> ('s, string option) prog" where
  "fc_queryString att tra sql =
     bindP (ask (Fc (FcAtt att (FcQueryScalar FString tra sql)))) (\<lambda>r.
     ret (if r_null r then None else Some (r_s r)))"

definition fc_queryInt :: "fc_type \<Rightarrow> nat \<Rightarrow> nat \<Rightarrow> string \<Rightarrow> ('s, int option) prog" where
  "fc_queryInt ty att tra sql =
     bindP (ask (Fc (FcAtt att (FcQueryScalar ty tra sql)))) (\<lambda>r.
     ret (if r_null r then None else Some (r_n r)))"

definition att_execute :: "nat \<Rightarrow> nat \<Rightarrow> string \<Rightarrow> ('s, unit) prog" where
  "att_execute att tra sql = do_call (Fc (FcAtt att (FcExecute tra sql)))"

definition fc_commit :: "nat \<Rightarrow> ('s, unit) prog" where
  "fc_commit tra = do_call (Fc (FcTra tra FcCommit))"

definition fc_commitRetaining :: "nat \<Rightarrow> ('s, unit) prog" where
  "fc_commitRetaining tra = do_call (Fc (FcTra tra FcCommitRetaining))"

definition fc_rollback :: "nat \<Rightarrow> ('s, unit) prog" where
  "fc_rollback tra = do_call (Fc (FcTra tra FcRollback))"

text \<open>\<open>value_or\<close>\<close>

primrec value_or :: "'a option \<Rightarrow> 'a \<Rightarrow> 'a" where
  "value_or None d = d"
| "value_or (Some x) d = x"

text \<open>\<open>stmt.getString(i).value_or(d).c_str()\<close>, and the same for a number.\<close>

definition str_or :: "nat \<Rightarrow> nat \<Rightarrow> string \<Rightarrow> ('s, string) prog" where
  "str_or stmt i d = bindP (fc_getString stmt i) (\<lambda>v. ret (c_str (value_or v d)))"

definition int_or :: "fc_type \<Rightarrow> nat \<Rightarrow> nat \<Rightarrow> int \<Rightarrow> ('s, int) prog" where
  "int_or ty stmt i d = bindP (fc_getInt ty stmt i) (\<lambda>v. ret (value_or v d))"

text \<open>\<open>std::string s = stmt.getString(i).value_or(d);\<close>\<close>

definition string_or :: "nat \<Rightarrow> nat \<Rightarrow> string \<Rightarrow> ('s, string) prog" where
  "string_or stmt i d = bindP (fc_getString stmt i) (\<lambda>v. ret (value_or v d))"

text \<open>\<open>att.queryScalar<T>(tra, sql).value_or(d)\<close>\<close>

definition scalar_str_or :: "nat \<Rightarrow> nat \<Rightarrow> string \<Rightarrow> string \<Rightarrow> ('s, string) prog" where
  "scalar_str_or att tra sql d = bindP (fc_queryString att tra sql) (\<lambda>v. ret (c_str (value_or v d)))"

definition scalar_string_or :: "nat \<Rightarrow> nat \<Rightarrow> string \<Rightarrow> string \<Rightarrow> ('s, string) prog" where
  "scalar_string_or att tra sql d = bindP (fc_queryString att tra sql) (\<lambda>v. ret (value_or v d))"

definition scalar_int_or :: "fc_type \<Rightarrow> nat \<Rightarrow> nat \<Rightarrow> string \<Rightarrow> int \<Rightarrow> ('s, int) prog" where
  "scalar_int_or ty att tra sql d = bindP (fc_queryInt ty att tra sql) (\<lambda>v. ret (value_or v d))"

text \<open>\<open>stmt.getLegacyPlan()\<close>\<close>

definition legacyPlan :: "nat \<Rightarrow> ('s, string) prog" where
  "legacyPlan stmt = text_of (Fc (FcStmt stmt FcLegacyPlan))"

definition detailedPlan :: "nat \<Rightarrow> ('s, string) prog" where
  "detailedPlan stmt = text_of (Fc (FcStmt stmt FcPlan))"

text \<open>\<open>stmt.getType()\<close>; an enumerator of the library is its name.\<close>

definition stmtType :: "nat \<Rightarrow> ('s, string) prog" where
  "stmtType stmt = text_of (Fc (FcStmt stmt FcStmtType))"

definition outputDescriptors :: "nat \<Rightarrow> ('s, descriptor list) prog" where
  "outputDescriptors stmt = bindP (ask (Fc (FcStmt stmt FcOutputDescriptors))) (\<lambda>r. ret (r_descs r))"

text \<open>\<open>stmt.getString(i)->c_str()\<close>: undefined on an empty optional.\<close>

definition str_deref :: "nat \<Rightarrow> nat \<Rightarrow> ('s, string) prog" where
  "str_deref stmt i = bindP (fc_getString stmt i) (\<lambda>v. bindP (checked ''optional'' v) (\<lambda>x. ret (c_str x)))"

definition bool_or :: "nat \<Rightarrow> nat \<Rightarrow> bool \<Rightarrow> ('s, bool) prog" where
  "bool_or stmt i d = bindP (fc_getInt FBool stmt i) (\<lambda>v.
     ret (case v of None \<Rightarrow> d | Some n \<Rightarrow> n \<noteq> 0))"

text \<open>\<open>p.erase(0, p.find_first_not_of('\n'))\<close>: without any other character, \<open>npos\<close> erases it all.\<close>

definition strip_newlines :: "string \<Rightarrow> string" where
  "strip_newlines p = dropWhile (\<lambda>c. c = CHR 0x0A) p"

text \<open>\<open>Statement{att, tra, sql}.execute(tra);\<close>, a temporary that lives for the statement.\<close>

definition stmt_exec :: "nat \<Rightarrow> nat \<Rightarrow> string \<Rightarrow> ('s, unit) prog" where
  "stmt_exec att tra sql = with_Statement att tra sql [] (\<lambda>stmt. ignore (fc_execute stmt tra))"

text \<open>\<open>for (bool ok = stmt.execute(tra); ok; ok = stmt.fetchNext()) body\<close>\<close>

definition for_rows :: "nat \<Rightarrow> nat \<Rightarrow> ('s, unit) prog \<Rightarrow> ('s, unit) prog" where
  "for_rows stmt tra body = bindP (fc_execute stmt tra) (\<lambda>ok.
     loopP (\<lambda>ok. if ok
       then bindP body (\<lambda>_. bindP (fc_fetchNext stmt) (\<lambda>next. ret (Inl next)))
       else ret (Inr ())) ok)"

text \<open>The same loop with a local variable that its body changes.\<close>

definition for_rows_acc :: "nat \<Rightarrow> nat \<Rightarrow> 'a \<Rightarrow> ('a \<Rightarrow> ('s, 'a) prog) \<Rightarrow> ('s, 'a) prog" where
  "for_rows_acc stmt tra a body = bindP (fc_execute stmt tra) (\<lambda>ok.
     loopP (\<lambda>(ok, a). if ok
       then bindP (body a) (\<lambda>a'. bindP (fc_fetchNext stmt) (\<lambda>more. ret (Inl (more, a'))))
       else ret (Inr a)) (ok, a))"

text \<open>\<open>row.push_back(stmt.getString(i).value_or("<null>"))\<close> for every column of every row.\<close>

definition fetch_rows :: "nat \<Rightarrow> nat \<Rightarrow> nat \<Rightarrow> ('s, string list list) prog" where
  "fetch_rows stmt tra n = for_rows_acc stmt tra [] (\<lambda>rows.
     bindP (collect [0..<n] (\<lambda>i. string_or stmt i ''<null>'')) (\<lambda>row. ret (rows @ [row])))"

text \<open>
  An exception that the sample itself throws: a thrown object that starts with -1 (a standard
  exception) or -2 (an \<open>FbCppException\<close>) and has the characters of its text.
\<close>

definition std_exception :: "string \<Rightarrow> status" where
  "std_exception t = (- 1) # map (\<lambda>c. int (of_char c)) t"

definition fc_exception :: "string \<Rightarrow> status" where
  "fc_exception t = (- 2) # map (\<lambda>c. int (of_char c)) t"

definition std_text :: "status \<Rightarrow> (int \<times> string) option" where
  "std_text st = (case st of [] \<Rightarrow> None
     | x # xs \<Rightarrow> if x = - 1 then Some (0, map (\<lambda>n. char_of (nat n)) xs)
                 else if x = - 2 then Some (1, map (\<lambda>n. char_of (nat n)) xs) else None)"

lemma std_text_exception [simp]:
  "std_text (std_exception t) = Some (0, t)" "std_text (fc_exception t) = Some (1, t)"
  by (simp_all add: std_text_def std_exception_def fc_exception_def comp_def map_idI)

definition throwing :: "string \<Rightarrow> 'a option \<Rightarrow> ('s, 'a) prog" where
  "throwing t x = (case x of Some a \<Rightarrow> ret a | None \<Rightarrow> fail (FbException (std_exception t)))"

text \<open>\<open>att.queryFirstRowAs<T>(tra, sql, params)\<close>: the members of the structure, all integers.\<close>

definition first_row :: "nat \<Rightarrow> nat \<Rightarrow> string \<Rightarrow> int list \<Rightarrow> ('s, int list option) prog" where
  "first_row att tra sql params =
     bindP (ask (Fc (FcAtt att (FcQueryFirst tra sql params)))) (\<lambda>r.
     ret (if r_null r then None else Some (r_ints r)))"

definition member :: "int list \<Rightarrow> nat \<Rightarrow> int" where
  "member xs i = (if i < length xs then xs ! i else 0)"

text \<open>\<open>*stmt.getT(i)\<close>: undefined on an empty optional.  The value is in the fields of the reply: a
  number, a text, or the members of a structure.\<close>

definition fc_value :: "fc_type \<Rightarrow> nat \<Rightarrow> nat \<Rightarrow> ('s, reply) prog" where
  "fc_value ty stmt i = bindP (ask (Fc (FcStmt stmt (FcGet ty i)))) (\<lambda>r.
     if r_null r then fail (UB ''optional'') else ret r)"

definition inputDescriptors :: "nat \<Rightarrow> ('s, descriptor list) prog" where
  "inputDescriptors stmt = bindP (ask (Fc (FcStmt stmt FcInputDescriptors))) (\<lambda>r. ret (r_descs r))"

text \<open>\<open>%0Nd\<close>: the zeros go between the sign and the digits.\<close>

definition zjust_int :: "nat \<Rightarrow> int \<Rightarrow> string" where
  "zjust_int n v = (if v < 0 then CHR ''-'' # zjust (n - 1) (show_nat (nat (- v))) else zjust n (show_nat (nat v)))"

text \<open>A decimal floating-point value of Boost: the library prints and compares it.\<close>

definition dec_show :: "string \<Rightarrow> ('s, string) prog" where
  "dec_show v = bindP (ask_void (Fc (FcDecShow v))) (\<lambda>r. ret (c_str (r_s r)))"

definition dec_eq :: "string \<Rightarrow> string \<Rightarrow> ('s, bool) prog" where
  "dec_eq v lit = bindP (ask_void (Fc (FcDecEq v lit))) (\<lambda>r. ret (r_n r \<noteq> 0))"

text \<open>
  A thrown object is a \<open>status\<close>; the library says of which class it is (0 no library class, 1
  \<open>FbCppException\<close>, 2 its subclass \<open>DatabaseException\<close>), and what it has to say.
\<close>

definition exception_class :: "status \<Rightarrow> ('s, int) prog" where
  "exception_class st = (case std_text st of Some t \<Rightarrow> ret (fst t)
     | None \<Rightarrow> bindP (ask_void (Fc (FcExceptionClass st))) (\<lambda>r. ret (r_n r)))"

definition what :: "status \<Rightarrow> ('s, string) prog" where
  "what st = (case std_text st of Some t \<Rightarrow> ret (c_str (snd t))
     | None \<Rightarrow> bindP (ask_void (Fc (FcWhat st))) (\<lambda>r. ret (c_str (r_s r))))"

definition getErrorCode :: "status \<Rightarrow> ('s, int) prog" where
  "getErrorCode st = bindP (ask_void (Fc (FcErrorCode st))) (\<lambda>r. ret (r_n r))"

definition getErrors :: "status \<Rightarrow> ('s, int list) prog" where
  "getErrors st = bindP (ask_void (Fc (FcErrors st))) (\<lambda>r. ret (r_ints r))"

text \<open>\<open>try { m } catch (const C& e) { h e }\<close> for the class of the given rank.\<close>

definition try_class :: "int \<Rightarrow> ('s, 'a) prog \<Rightarrow> (status \<Rightarrow> ('s, 'a) prog) \<Rightarrow> ('s, 'a) prog" where
  "try_class rank m h = try_fb m (\<lambda>st. bindP (exception_class st) (\<lambda>c.
     if rank \<le> c then h st else fail (FbException st)))"

abbreviation try_FbCpp :: "('s, 'a) prog \<Rightarrow> (status \<Rightarrow> ('s, 'a) prog) \<Rightarrow> ('s, 'a) prog" where
  "try_FbCpp \<equiv> try_class 1"

abbreviation try_Database :: "('s, 'a) prog \<Rightarrow> (status \<Rightarrow> ('s, 'a) prog) \<Rightarrow> ('s, 'a) prog" where
  "try_Database \<equiv> try_class 2"


section \<open>fbcpp_sample.h\<close>

text \<open>\<open>v && *v ? v : dflt\<close>\<close>

definition envOr :: "string \<Rightarrow> string \<Rightarrow> ('s, string) prog" where
  "envOr name dflt = bindP (getenv name) (\<lambda>v.
     ret (case v of None \<Rightarrow> dflt | Some x \<Rightarrow> if x = [] then dflt else x))"

definition fc_defaultOptions :: "('s, fc_opt list) prog" where
  "fc_defaultOptions =
     bindP (envOr ''ISC_USER'' ''SYSDBA'') (\<lambda>u.
     bindP (envOr ''ISC_PASSWORD'' ''masterkey'') (\<lambda>p.
     ret [SetUserName u, SetPassword p]))"

definition fc_attachOrCreate :: "nat \<Rightarrow> string \<Rightarrow> ('s, nat) prog" where
  "fc_attachOrCreate client database =
     try_FbCpp
       (bindP fc_defaultOptions (\<lambda>o1. handle_of (Fc (FcAttachment client database o1))))
       (\<lambda>_. bindP fc_defaultOptions (\<lambda>o2.
          handle_of (Fc (FcAttachment client database (o2 @ [SetCreateDatabase True])))))"

definition fc_argOrDefault :: "nat \<Rightarrow> string \<Rightarrow> ('s, string) prog" where
  "fc_argOrDefault n dflt = bindP arguments (\<lambda>av. ret (if length av > n then av ! n else dflt))"

definition fc_report :: "status \<Rightarrow> ('s, int) prog" where
  "fc_report st = bindP (what st) (\<lambda>t.
     returning [say_err (''fb-cpp error:'' @ nl @ t @ nl)] 1)"

text \<open>\<open>Attachment att = attachOrCreate(client, database);\<close>\<close>

definition with_attachOrCreate :: "nat \<Rightarrow> string \<Rightarrow> (nat \<Rightarrow> ('s, 'a) prog) \<Rightarrow> ('s, 'a) prog" where
  "with_attachOrCreate client database body = fc_scope FAttachment (fc_attachOrCreate client database) body"


section \<open>The lifetime discipline\<close>

text \<open>The objects a call uses, and the kind of object it constructs.\<close>

definition uses :: "fc_call \<Rightarrow> (fc_kind \<times> nat) list" where
  "uses c = (case c of
     FcAttachment cl d o1 \<Rightarrow> [(FClient, cl)] | FcTransaction a o1 \<Rightarrow> [(FAttachment, a)]
   | FcTransactionSql a sql \<Rightarrow> [(FAttachment, a)]
   | FcStatement a t s o1 \<Rightarrow> [(FAttachment, a), (FTransaction, t)]
   | FcBlobCreate a t o1 \<Rightarrow> [(FAttachment, a), (FTransaction, t)]
   | FcBlobOpen a t i o1 \<Rightarrow> [(FAttachment, a), (FTransaction, t)]
   | FcBackupManager cl o1 \<Rightarrow> [(FClient, cl)] | FcServiceManager cl o1 \<Rightarrow> [(FClient, cl)]
   | FcAttachmentPool cl d o1 \<Rightarrow> [(FClient, cl)]
   | FcEventListener a ns \<Rightarrow> [(FAttachment, a)]
   | FcAtt a m \<Rightarrow> (FAttachment, a) # (case m of FcExecute t s \<Rightarrow> [(FTransaction, t)]
       | FcQueryScalar ty t s \<Rightarrow> [(FTransaction, t)] | FcQueryFirst t s ps \<Rightarrow> [(FTransaction, t)]
       | FcLeaseAssign b \<Rightarrow> [(FAttachment, b)] | _ \<Rightarrow> [])
   | FcTra t m \<Rightarrow> [(FTransaction, t)]
   | FcStmt s m \<Rightarrow> (FStatement, s) # (case m of FcStmtExecute t \<Rightarrow> [(FTransaction, t)] | _ \<Rightarrow> [])
   | FcBlob b m \<Rightarrow> [(FBlob, b)] | FcSvc v m \<Rightarrow> [(FBackupManager, v)] | FcPool p m \<Rightarrow> [(FPool, p)]
   | FcListener l m \<Rightarrow> [(FListener, l)]
   | _ \<Rightarrow> [])"

definition constructs :: "fc_call \<Rightarrow> reply \<Rightarrow> fc_kind option" where
  "constructs c r = (case c of FcClient n \<Rightarrow> Some FClient | FcAttachment cl d o1 \<Rightarrow> Some FAttachment
   | FcTransaction a o1 \<Rightarrow> Some FTransaction | FcTransactionSql a sql \<Rightarrow> Some FTransaction
   | FcStatement a t s o1 \<Rightarrow> Some FStatement
   | FcBlobCreate a t o1 \<Rightarrow> Some FBlob | FcBlobOpen a t i o1 \<Rightarrow> Some FBlob
   | FcBackupManager cl o1 \<Rightarrow> Some FBackupManager | FcServiceManager cl o1 \<Rightarrow> Some FServiceManager
   | FcAttachmentPool cl d o1 \<Rightarrow> Some FPool
   | FcEventListener a ns \<Rightarrow> Some FListener
   | FcPool p m \<Rightarrow> (case m of FcAcquire \<Rightarrow> Some FAttachment
       | FcTryAcquire \<Rightarrow> if r_null r then None else Some FAttachment | _ \<Rightarrow> None)
   | _ \<Rightarrow> None)"

text \<open>One event on the stack of objects; \<open>None\<close> is a violation.\<close>

definition live_step :: "event \<Rightarrow> (fc_kind \<times> nat) list \<Rightarrow> (fc_kind \<times> nat) list option" where
  "live_step ev s = (case ev of (c, st, r) \<Rightarrow> (case c of
     Fc f \<Rightarrow> (case f of
         FcDestroy k h \<Rightarrow> (case s of x # s' \<Rightarrow> if x = (k, h) then Some s' else None | [] \<Rightarrow> None)
       | _ \<Rightarrow> if set (uses f) \<subseteq> set s
              then (case constructs f r of Some k \<Rightarrow> Some (if st = None then (k, r_h r) # s else s)
                    | None \<Rightarrow> Some s)
              else None)
   | _ \<Rightarrow> Some s))"

fun live :: "event list \<Rightarrow> (fc_kind \<times> nat) list option" where
  "live [] = Some []"
| "live (ev # evs) = Option.bind (live evs) (live_step ev)"

definition lives :: "(fc_kind \<times> nat) list \<Rightarrow> 's world \<Rightarrow> bool" where
  "lives s w \<longleftrightarrow> live (log w) = Some s"

named_theorems live_rules \<open>programs that respect the lifetimes\<close>

text \<open>A call that uses live objects only and neither constructs nor destroys one.\<close>

definition tame :: "call \<Rightarrow> (fc_kind \<times> nat) list \<Rightarrow> bool" where
  "tame c s \<longleftrightarrow> (\<forall>st r. live_step (c, st, r) s = Some s)"

lemma tame_simps [simp]:
  "tame (Fc (FcAtt a m)) s \<longleftrightarrow> set (uses (FcAtt a m)) \<subseteq> set s"
  "tame (Fc (FcTra t tm)) s \<longleftrightarrow> (FTransaction, t) \<in> set s"
  "tame (Fc (FcStmt st sm)) s \<longleftrightarrow> set (uses (FcStmt st sm)) \<subseteq> set s"
  "tame (Fc (FcBlob b bm)) s \<longleftrightarrow> (FBlob, b) \<in> set s"
  "tame (Fc (FcSvc v vm)) s \<longleftrightarrow> (FBackupManager, v) \<in> set s"
  "tame (Fc (FcListener l lm)) s \<longleftrightarrow> (FListener, l) \<in> set s"
  "tame (Fc (FcErrors x)) s" "tame (Fc (FcDecShow v1)) s" "tame (Fc (FcDecEq v1 v2)) s"
  "tame (Fc (FcExceptionClass x)) s" "tame (Fc (FcWhat x)) s" "tame (Fc (FcErrorCode x)) s"
  "tame (Os oc) s"
  by (auto simp: tame_def live_step_def uses_def constructs_def)

lemma live_ask: "tame c s \<Longrightarrow> keeps (lives s) (ask c)"
  by (rule keepsI) (auto simp: ask_def lives_def Let_def tame_def split: prod.splits option.splits)

lemma live_ask_void: "tame c s \<Longrightarrow> keeps (lives s) (ask_void c)"
  by (rule keepsI) (auto simp: ask_void_def lives_def tame_def split: prod.splits)

lemma live_calls [live_rules]:
  assumes "tame c s"
  shows "keeps (lives s) (ask c)" "keeps (lives s) (ask_void c)" "keeps (lives s) (do_call c)"
    "keeps (lives s) (do_void c)" "keeps (lives s) (text_of c)" "keeps (lives s) (number_of c)"
  unfolding do_call_def do_void_def text_of_def number_of_def
  by (intro keeps_rules live_ask live_ask_void assms)+

lemma live_leaves [live_rules]:
  "keeps (lives s) (say t)" "keeps (lives s) (say_err t)" "keeps (lives s) headers"
  "keeps (lives s) arguments" "keeps (lives s) (getenv x)" "keeps (lives s) (setenv x y b)"
  by (rule keepsI, auto simp: lives_def run_simps setenv_def split: if_splits)+

text \<open>A constructor, or a function that returns a constructed object.\<close>

definition makes :: "(fc_kind \<times> nat) list \<Rightarrow> fc_kind \<Rightarrow> ('s, nat) prog \<Rightarrow> bool" where
  "makes s k m \<longleftrightarrow> hoare (lives s) m (\<lambda>h. lives ((k, h) # s)) (\<lambda>_. lives s)"

lemma makes_ctor:
  assumes "\<And>r. constructs c r = Some k" and "set (uses c) \<subseteq> set s"
  shows "makes s k (handle_of (Fc c))"
proof -
  have "live_step (Fc c, st, r) s = Some (if st = None then (k, r_h r) # s else s)" for st r
  proof (cases c)
    case FcDestroy
    then show ?thesis using assms(1) by (simp add: constructs_def)
  qed (use assms in \<open>simp_all add: live_step_def\<close>)
  then show ?thesis
    unfolding makes_def
    by (intro hoareI) (auto simp: handle_of_def bindP_def ask_def ret_def lives_def Let_def
      split: prod.splits option.splits)
qed

lemma live_destroy:
  "hoare (lives ((k, h) # s)) (do_void (Fc (FcDestroy k h))) (\<lambda>_. lives s) E"
  by (rule hoareI) (auto simp: do_void_def ignore_def bindP_def ask_void_def ret_def lives_def live_step_def
      split: prod.splits)

lemma live_fc_scope:
  assumes "makes s k ctor" and "\<And>h. keeps (lives ((k, h) # s)) (body h)"
  shows "keeps (lives s) (fc_scope k ctor body)"
  unfolding keeps_def fc_scope_def
  by (rule hoare_bindP [OF assms(1) [unfolded makes_def] hoare_scoped [OF assms(2) [unfolded keeps_def]]])
    (rule live_destroy)+

lemma live_exception_class [live_rules]: "keeps (lives s) (exception_class st)"
  unfolding exception_class_def by (intro keeps_rules live_rules) simp

lemma live_throwing [live_rules]: "keeps (lives s) (throwing t x)"
  unfolding throwing_def by (intro keeps_rules)

lemma live_try_class [live_rules]:
  "keeps (lives s) m \<Longrightarrow> (\<And>st. keeps (lives s) (h st)) \<Longrightarrow> keeps (lives s) (try_class rank m h)"
  unfolding try_class_def by (intro keeps_rules live_rules)

lemma live_exceptions [live_rules]:
  "keeps (lives s) (what st)" "keeps (lives s) (getErrorCode st)" "keeps (lives s) (fc_report st)"
  "keeps (lives s) (getErrors st)" "keeps (lives s) (dec_show v)" "keeps (lives s) (dec_eq v x)"
  unfolding fc_report_def what_def getErrorCode_def getErrors_def dec_show_def dec_eq_def by (intro keeps_rules live_rules; simp)+

lemma live_methods [live_rules]:
  "(FStatement, st) \<in> set s \<Longrightarrow> (FTransaction, t) \<in> set s \<Longrightarrow> keeps (lives s) (fc_execute st t)"
  "(FStatement, st) \<in> set s \<Longrightarrow> keeps (lives s) (fc_fetchNext st)"
  "(FStatement, st) \<in> set s \<Longrightarrow> keeps (lives s) (fc_getString st i)"
  "(FStatement, st) \<in> set s \<Longrightarrow> keeps (lives s) (fc_getInt ty st i)"
  "(FAttachment, a) \<in> set s \<Longrightarrow> (FTransaction, t) \<in> set s \<Longrightarrow> keeps (lives s) (fc_queryString a t sql)"
  "(FAttachment, a) \<in> set s \<Longrightarrow> (FTransaction, t) \<in> set s \<Longrightarrow> keeps (lives s) (fc_queryInt ty a t sql)"
  "(FAttachment, a) \<in> set s \<Longrightarrow> (FTransaction, t) \<in> set s \<Longrightarrow> keeps (lives s) (att_execute a t sql)"
  "(FAttachment, a) \<in> set s \<Longrightarrow> (FTransaction, t) \<in> set s \<Longrightarrow> keeps (lives s) (first_row a t sql ps)"
  "(FTransaction, t) \<in> set s \<Longrightarrow> keeps (lives s) (fc_commit t)"
  "(FTransaction, t) \<in> set s \<Longrightarrow> keeps (lives s) (fc_commitRetaining t)"
  "(FTransaction, t) \<in> set s \<Longrightarrow> keeps (lives s) (fc_rollback t)"
  unfolding fc_execute_def fc_fetchNext_def fc_getString_def fc_getInt_def fc_queryString_def
    fc_queryInt_def att_execute_def first_row_def fc_commit_def fc_commitRetaining_def fc_rollback_def
  by (intro keeps_rules live_rules; simp add: uses_def)+

lemma live_values [live_rules]:
  "(FStatement, st) \<in> set s \<Longrightarrow> keeps (lives s) (str_or st i d)"
  "(FStatement, st) \<in> set s \<Longrightarrow> keeps (lives s) (string_or st i d)"
  "(FStatement, st) \<in> set s \<Longrightarrow> keeps (lives s) (int_or ty st i n)"
  "(FAttachment, a) \<in> set s \<Longrightarrow> (FTransaction, t) \<in> set s \<Longrightarrow> keeps (lives s) (scalar_str_or a t sql d)"
  "(FAttachment, a) \<in> set s \<Longrightarrow> (FTransaction, t) \<in> set s \<Longrightarrow> keeps (lives s) (scalar_string_or a t sql d)"
  "(FAttachment, a) \<in> set s \<Longrightarrow> (FTransaction, t) \<in> set s \<Longrightarrow> keeps (lives s) (scalar_int_or ty a t sql n)"
  "(FStatement, st) \<in> set s \<Longrightarrow> keeps (lives s) (legacyPlan st)"
  "(FStatement, st) \<in> set s \<Longrightarrow> keeps (lives s) (detailedPlan st)"
  "(FStatement, st) \<in> set s \<Longrightarrow> keeps (lives s) (stmtType st)"
  "(FStatement, st) \<in> set s \<Longrightarrow> keeps (lives s) (outputDescriptors st)"
  "(FStatement, st) \<in> set s \<Longrightarrow> keeps (lives s) (inputDescriptors st)"
  "(FStatement, st) \<in> set s \<Longrightarrow> keeps (lives s) (fc_value ty st i)"
  "(FStatement, st) \<in> set s \<Longrightarrow> keeps (lives s) (str_deref st i)"
  "(FStatement, st) \<in> set s \<Longrightarrow> keeps (lives s) (bool_or st i b)"
  unfolding str_or_def string_or_def int_or_def scalar_str_or_def scalar_string_or_def scalar_int_or_def legacyPlan_def detailedPlan_def
    stmtType_def outputDescriptors_def inputDescriptors_def fc_value_def str_deref_def bool_or_def
  by (intro keeps_rules live_rules; simp add: uses_def)+

lemma live_scopes [live_rules]:
  "(\<And>h. keeps (lives ((FClient, h) # s)) (b1 h)) \<Longrightarrow> keeps (lives s) (with_Client b1)"
  "(FClient, cl) \<in> set s \<Longrightarrow> (\<And>h. keeps (lives ((FAttachment, h) # s)) (b2 h))
     \<Longrightarrow> keeps (lives s) (with_Attachment cl d o1 b2)"
  "(FAttachment, a) \<in> set s \<Longrightarrow> (\<And>h. keeps (lives ((FTransaction, h) # s)) (b3 h))
     \<Longrightarrow> keeps (lives s) (with_Transaction a o2 b3)"
  "(FAttachment, a) \<in> set s \<Longrightarrow> (FTransaction, t) \<in> set s
     \<Longrightarrow> (\<And>h. keeps (lives ((FStatement, h) # s)) (b4 h))
     \<Longrightarrow> keeps (lives s) (with_Statement a t sql o3 b4)"
  unfolding with_Client_def with_Attachment_def with_Transaction_def with_Statement_def
  by (rule live_fc_scope, rule makes_ctor; simp add: constructs_def uses_def)+

lemma live_defaultOptions [live_rules]: "keeps (lives s) fc_defaultOptions"
  unfolding fc_defaultOptions_def envOr_def by (intro keeps_rules live_rules)

lemma makes_options:
  assumes "(FClient, cl) \<in> set s"
  shows "makes s FAttachment (bindP fc_defaultOptions (\<lambda>os. handle_of (Fc (FcAttachment cl d (f os)))))"
  unfolding makes_def
  by (rule hoare_bindP [OF live_defaultOptions [unfolded keeps_def]])
    (use assms in \<open>auto simp: constructs_def uses_def intro!: makes_ctor [unfolded makes_def]\<close>)

lemma makes_if: "makes s k m \<Longrightarrow> makes s k n \<Longrightarrow> makes s k (if b then m else n)"
  by simp

lemma makes_try_class:
  assumes "makes s k m" and "\<And>st. makes s k (h st)"
  shows "makes s k (try_class rank m h)"
proof -
  have "hoare (lives s) (bindP (exception_class st) (\<lambda>c. if rank \<le> c then h st else fail (FbException st)))
      (\<lambda>h. lives ((k, h) # s)) (\<lambda>_. lives s)" for st
  proof (rule hoare_bindP)
    show "hoare (lives s) (exception_class st) (\<lambda>_. lives s) (\<lambda>_. lives s)"
      using live_exception_class unfolding keeps_def .
  qed (use assms(2) in \<open>auto simp: makes_def hoare_fail\<close>)
  from hoare_try_fb [OF assms(1) [unfolded makes_def] this] show ?thesis
    unfolding makes_def try_class_def .
qed

lemma makes_attachOrCreate: "(FClient, cl) \<in> set s \<Longrightarrow> makes s FAttachment (fc_attachOrCreate cl d)"
  unfolding fc_attachOrCreate_def
  by (intro makes_try_class makes_options [where f = "\<lambda>os. os"] makes_options)

declare makes_options [live_rules] makes_if [live_rules] makes_try_class [live_rules] makes_attachOrCreate [live_rules]
  live_fc_scope [live_rules]

lemma live_attachOrCreate [live_rules]:
  "(FClient, cl) \<in> set s \<Longrightarrow> (\<And>h. keeps (lives ((FAttachment, h) # s)) (b h))
     \<Longrightarrow> keeps (lives s) (with_attachOrCreate cl d b)"
  unfolding with_attachOrCreate_def by (rule live_fc_scope [OF makes_attachOrCreate])

lemma live_stmt_exec [live_rules]:
  "(FAttachment, a) \<in> set s \<Longrightarrow> (FTransaction, t) \<in> set s \<Longrightarrow> keeps (lives s) (stmt_exec a t sql)"
  unfolding stmt_exec_def by (intro keeps_rules live_rules) auto

lemma live_for_rows [live_rules]:
  "(FStatement, st) \<in> set s \<Longrightarrow> (FTransaction, t) \<in> set s \<Longrightarrow> keeps (lives s) b
     \<Longrightarrow> keeps (lives s) (for_rows st t b)"
  unfolding for_rows_def by (intro keeps_rules live_rules)

lemma live_for_rows_acc [live_rules]:
  "(FStatement, st) \<in> set s \<Longrightarrow> (FTransaction, t) \<in> set s \<Longrightarrow> (\<And>a. keeps (lives s) (f a))
     \<Longrightarrow> keeps (lives s) (for_rows_acc st t a0 f)"
  unfolding for_rows_acc_def by (intro keeps_rules live_rules)

lemma live_fetch_rows [live_rules]:
  "(FStatement, st) \<in> set s \<Longrightarrow> (FTransaction, t) \<in> set s \<Longrightarrow> keeps (lives s) (fetch_rows st t n)"
  unfolding fetch_rows_def by (intro keeps_rules live_rules)

lemma live_print [live_rules]: "keeps (lives s) (print t)"
  unfolding print_def by (intro keeps_rules live_rules)

lemma live_args [live_rules]: "keeps (lives s) (fc_argOrDefault n d)" "keeps (lives s) (os_int c)"
  "keeps (lives s) (os_do c)" "keeps (lives s) getpid"
  unfolding fc_argOrDefault_def os_int_def os_do_def getpid_def by (intro keeps_rules live_rules; simp)+


section \<open>Whole mains\<close>

lemma fc_report_run:
  "\<exists>w'. fc_report st e w = Some (Ok 1, w') \<and> err w' \<noteq> []"
  by (simp add: fc_report_def what_def returning_def bindP_def run_simps split: prod.split option.split)

lemma reports_fc:
  assumes "returns_ok m"
  shows "reports (try_fb m fc_report)"
  unfolding reports_def
proof (intro allI impI)
  fix e w r w' assume "try_fb m fc_report e w = Some (r, w')"
  then show "(\<forall>s. r \<noteq> Fail (FbException s)) \<and> (\<forall>n. r = Ok n \<longrightarrow> n = 0 \<or> n = 1 \<and> err w' \<noteq> [])"
  proof (cases rule: try_fb_SomeE)
    case (caught s w1)
    then show ?thesis using fc_report_run [of s e w1] by auto
  qed (use assms in \<open>auto dest: returns_okD\<close>)
qed

lemma reports_fc_arg: "(\<And>a. reports (f a)) \<Longrightarrow> reports (bindP (fc_argOrDefault n d) f)"
  by (rule reports_bind_total) (simp_all add: fc_argOrDefault_def bindP_def run_simps)

lemma err_destroy: "keeps (\<lambda>w. err w \<noteq> []) (do_void c)"
  unfolding do_void_def by (intro keeps_rules) (rule keepsI, auto simp: run_simps)

lemma returns_ok_fc_scope [returns_rules]: "(\<And>h. returns_ok (body h)) \<Longrightarrow> returns_ok (fc_scope k ctor body)"
  unfolding fc_scope_def by (intro returns_ok_bind returns_ok_scoped err_destroy)

lemma returns_ok_fc [returns_rules]:
  "(\<And>h. returns_ok (body h)) \<Longrightarrow> returns_ok (with_Client body)"
  "(\<And>h. returns_ok (body h)) \<Longrightarrow> returns_ok (with_Attachment cl d o1 body)"
  "(\<And>h. returns_ok (body h)) \<Longrightarrow> returns_ok (with_attachOrCreate cl d body)"
  "(\<And>h. returns_ok (body h)) \<Longrightarrow> returns_ok (with_Transaction a o2 body)"
  "(\<And>h. returns_ok (body h)) \<Longrightarrow> returns_ok (with_Statement a t sql o3 body)"
  unfolding with_Client_def with_Attachment_def with_attachOrCreate_def with_Transaction_def
    with_Statement_def
  by (rule returns_ok_fc_scope; assumption)+

end
