(* ===== verification/Fbcpp_Rows.thy ===== *)
theory Fbcpp_Rows
  imports Fbcpp_Kit Db_Query
begin

text \<open>
  The row loop of the fb-cpp samples, \<open>for (bool ok = stmt.execute(tra); ok; ok = stmt.fetchNext())\<close>,
  against a statement that delivers a result set: the loop ends, its body sees every row once and
  in order, and the rows collected with \<open>getString\<close> are the texts that \<open>Db::query\<close> returns for the
  same result set.
\<close>


section \<open>A statement that delivers rows\<close>

text \<open>
  The documented behaviour of a \<open>Statement\<close> for a query: \<open>execute\<close> stands on the first row and says
  whether there is one, \<open>fetchNext\<close> moves on and says the same, \<open>getString\<close> reads a column of the
  row it stands on.  \<open>cur\<close> reads the row it stands on and those after it off the server state.
\<close>

definition fc_delivers ::
  "'s env \<Rightarrow> nat \<Rightarrow> nat \<Rightarrow> ('s \<Rightarrow> string option list list) \<Rightarrow> string option list list \<Rightarrow> bool"
where
  "fc_delivers e stmt tra cur rs \<longleftrightarrow>
     (\<forall>s. \<exists>r s'. fb e (Fc (FcStmt stmt (FcStmtExecute tra))) s = ((None, r), s') \<and> cur s' = rs \<and>
        (r_n r \<noteq> 0 \<longleftrightarrow> rs \<noteq> [])) \<and>
     (\<forall>s. \<exists>r s'. fb e (Fc (FcStmt stmt FcFetchNext)) s = ((None, r), s') \<and> cur s' = tl (cur s) \<and>
        (r_n r \<noteq> 0 \<longleftrightarrow> tl (cur s) \<noteq> [])) \<and>
     (\<forall>s i row rest. cur s = row # rest \<and> i < length row \<longrightarrow>
        (\<exists>r s'. fb e (Fc (FcStmt stmt (FcGet FString i))) s = ((None, r), s') \<and> cur s' = cur s \<and>
           (if r_null r then None else Some (r_s r)) = row ! i))"

abbreviation standing :: "('s \<Rightarrow> string option list list) \<Rightarrow> string option list list \<Rightarrow> 's world \<Rightarrow> bool" where
  "standing cur rs w \<equiv> cur (server w) = rs"

lemma delivers_execute:
  assumes "fc_delivers e stmt tra cur rs"
  shows "gives e (\<lambda>w. True) (fc_execute stmt tra) (\<lambda>ok w. ok = (rs \<noteq> []) \<and> standing cur rs w)"
proof (rule givesI)
  fix w :: "'a world"
  obtain r s' where "fb e (Fc (FcStmt stmt (FcStmtExecute tra))) (server w) = ((None, r), s')"
    and "cur s' = rs" and "r_n r \<noteq> 0 \<longleftrightarrow> rs \<noteq> []"
    using assms unfolding fc_delivers_def by blast
  then show "\<exists>a w'. fc_execute stmt tra e w = Some (Ok a, w') \<and> a = (rs \<noteq> []) \<and> standing cur rs w'"
    by (auto simp: fc_execute_def bindP_def ask_run run_simps)
qed

lemma delivers_fetchNext:
  assumes "fc_delivers e stmt tra cur rs"
  shows "gives e (standing cur (row # rest)) (fc_fetchNext stmt)
    (\<lambda>ok w. ok = (rest \<noteq> []) \<and> standing cur rest w)"
proof (rule givesI)
  fix w assume "standing cur (row # rest) w"
  moreover obtain r s' where "fb e (Fc (FcStmt stmt FcFetchNext)) (server w) = ((None, r), s')"
    and "cur s' = tl (cur (server w))" and "r_n r \<noteq> 0 \<longleftrightarrow> tl (cur (server w)) \<noteq> []"
    using assms unfolding fc_delivers_def by blast
  ultimately show "\<exists>a w'. fc_fetchNext stmt e w = Some (Ok a, w') \<and> a = (rest \<noteq> []) \<and> standing cur rest w'"
    by (auto simp: fc_fetchNext_def bindP_def ask_run run_simps)
qed

lemma delivers_string:
  assumes "fc_delivers e stmt tra cur rs" and "i < length row"
  shows "gives e (standing cur (row # rest)) (string_or stmt i ''<null>'')
    (\<lambda>v w. v = show_cell (row ! i) \<and> standing cur (row # rest) w)"
proof (rule givesI)
  fix w assume st: "standing cur (row # rest) w"
  then obtain r s' where run: "fb e (Fc (FcStmt stmt (FcGet FString i))) (server w) = ((None, r), s')"
    and keep: "cur s' = cur (server w)" and val: "(if r_null r then None else Some (r_s r)) = row ! i"
    using assms unfolding fc_delivers_def by blast
  have "value_or (row ! i) ''<null>'' = show_cell (row ! i)" by (cases "row ! i") (auto simp: show_cell_def)
  then show "\<exists>a w'. string_or stmt i ''<null>'' e w = Some (Ok a, w') \<and> a = show_cell (row ! i) \<and>
      standing cur (row # rest) w'"
    using run keep val st
    by (auto simp: string_or_def fc_getString_def bindP_def ask_run run_simps)
qed


section \<open>The loop\<close>

lemma gives_rows_loop:
  assumes "fc_delivers e stmt tra cur rs"
    and body: "\<And>a row rest. row \<in> set all \<Longrightarrow>
      gives e (standing cur (row # rest)) (f a) (\<lambda>a' w. a' = g a row \<and> standing cur (row # rest) w)"
  shows "set left \<subseteq> set all \<Longrightarrow> gives e (standing cur left)
    (loopP (\<lambda>(ok, a). if ok
       then bindP (f a) (\<lambda>a'. bindP (fc_fetchNext stmt) (\<lambda>more. ret (Inl (more, a'))))
       else ret (Inr a)) (left \<noteq> [], a))
    (\<lambda>a' w. a' = foldl g a left \<and> standing cur [] w)"
proof (induction left arbitrary: a)
  case Nil
  show ?case by (rule givesI) (auto simp: loopP.simps bindP_def ret_def)
next
  case (Cons row rest)
  show ?case
  proof (rule givesI)
    fix w assume st: "standing cur (row # rest) w"
    have mem: "row \<in> set all" using Cons.prems by simp
    obtain w1 where b: "f a e w = Some (Ok (g a row), w1)" "standing cur (row # rest) w1"
      by (rule givesE [OF body [OF mem] st, of a]) blast
    obtain w2 where n: "fc_fetchNext stmt e w1 = Some (Ok (rest \<noteq> []), w2)" "standing cur rest w2"
      by (rule givesE [OF delivers_fetchNext [OF assms(1)] b(2)]) blast
    have "set rest \<subseteq> set all" using Cons.prems by simp
    obtain w3 where l: "loopP (\<lambda>(ok, a). if ok
         then bindP (f a) (\<lambda>a'. bindP (fc_fetchNext stmt) (\<lambda>more. ret (Inl (more, a'))))
         else ret (Inr a)) (rest \<noteq> [], g a row) e w2 = Some (Ok (foldl g (g a row) rest), w3)"
      and "standing cur [] w3"
      by (rule givesE [OF Cons.IH [OF \<open>set rest \<subseteq> set all\<close>] n(2), of "g a row"]) blast
    then show "\<exists>a' w'. loopP (\<lambda>(ok, a). if ok
         then bindP (f a) (\<lambda>a'. bindP (fc_fetchNext stmt) (\<lambda>more. ret (Inl (more, a'))))
         else ret (Inr a)) (row # rest \<noteq> [], a) e w = Some (Ok a', w') \<and>
        a' = foldl g a (row # rest) \<and> standing cur [] w'"
      by (subst loopP.simps) (simp add: bindP_def ret_def b(1) n(1))
  qed
qed

lemma gives_for_rows_acc:
  assumes "fc_delivers e stmt tra cur rs"
    and "\<And>a row rest. row \<in> set rs \<Longrightarrow>
      gives e (standing cur (row # rest)) (f a) (\<lambda>a' w. a' = g a row \<and> standing cur (row # rest) w)"
  shows "gives e (\<lambda>w. True) (for_rows_acc stmt tra a f) (\<lambda>a' w. a' = foldl g a rs \<and> standing cur [] w)"
  unfolding for_rows_acc_def
  by (rule gives_bindP [OF delivers_execute [OF assms(1)]], rule gives_pure)
    (simp only:, rule gives_rows_loop [OF assms subset_refl])

lemma gives_fetch_rows:
  assumes "fc_delivers e stmt tra cur rs" and "\<forall>row \<in> set rs. length row = n"
  shows "gives e (\<lambda>w. True) (fetch_rows stmt tra n)
    (\<lambda>a w. a = map (map show_cell) rs \<and> standing cur [] w)"
proof -
  have row: "map (\<lambda>i. show_cell (row ! i)) [0..<n] = map show_cell row" if "row \<in> set rs" for row
    using that assms(2) by (auto intro!: nth_equalityI)
  have "gives e (\<lambda>w. True) (fetch_rows stmt tra n)
      (\<lambda>a w. a = foldl (\<lambda>a row. a @ [map show_cell row]) [] rs \<and> standing cur [] w)"
    unfolding fetch_rows_def
  proof (rule gives_for_rows_acc [OF assms(1)])
    fix a row rest assume r: "row \<in> set rs"
    have "gives e (standing cur (row # rest)) (collect [0..<n] (\<lambda>i. string_or stmt i ''<null>''))
        (\<lambda>ys w. ys = map (\<lambda>i. show_cell (row ! i)) [0..<n] \<and> standing cur (row # rest) w)"
      by (rule gives_collect) (use r assms(2) in \<open>auto intro!: delivers_string [OF assms(1)]\<close>)
    then show "gives e (standing cur (row # rest))
        (bindP (collect [0..<n] (\<lambda>i. string_or stmt i ''<null>'')) (\<lambda>row. ret (a @ [row])))
        (\<lambda>a' w. a' = a @ [map show_cell row] \<and> standing cur (row # rest) w)"
      unfolding row [OF r] by (rule gives_bindP) (auto intro: gives_pure gives_ret)
  qed
  moreover have "foldl (\<lambda>a row. a @ [map show_cell row]) b rs = b @ map (map show_cell) rs" for b
    by (induction rs arbitrary: b) simp_all
  ultimately show ?thesis by simp
qed


section \<open>Properties\<close>

text \<open>A statement on two rows; the server state is the row it stands on and those after it.\<close>

definition row_reply :: "string option list list \<Rightarrow> reply" where
  "row_reply rs = blank_reply\<lparr>r_n := (if rs = [] then 0 else 1)\<rparr>"

definition rows_fb :: "call \<Rightarrow> string option list list \<Rightarrow>
  (status option \<times> reply) \<times> string option list list" where
  "rows_fb c s = (case c of
     Fc (FcStmt h m) \<Rightarrow> (case m of
         FcStmtExecute t \<Rightarrow> ((None, row_reply demo_rows), demo_rows)
       | FcFetchNext \<Rightarrow> ((None, row_reply (tl s)), tl s)
       | FcGet ty i \<Rightarrow> ((None, case hd s ! i of None \<Rightarrow> blank_reply\<lparr>r_null := True\<rparr>
            | Some v \<Rightarrow> blank_reply\<lparr>r_null := False, r_s := v\<rparr>), s)
       | _ \<Rightarrow> ((None, blank_reply), s))
   | _ \<Rightarrow> ((None, blank_reply), s))"

definition rows_env :: "string option list list env" where
  "rows_env = \<lparr>fb = rows_fb, hdr = demo_headers, argv = []\<rparr>"

lemma rows_env_delivers: "fc_delivers rows_env 7 3 (\<lambda>s. s) demo_rows"
  unfolding fc_delivers_def rows_env_def
  by (auto simp: rows_fb_def row_reply_def blank_reply_def split: option.split)

text \<open>
  C11.  The row loop of the fb-cpp samples returns on every statement that delivers a
  finite result set, and collects exactly its rows, in order, with \<open><null>\<close> for NULL: the same
  texts, in the same order, as \<open>Db::query\<close> of \<open>fb_sample.h\<close> gives for this result set.
\<close>

theorem fetch_rows_decodes:
  assumes "fc_delivers e stmt tra cur rs" and "\<forall>row \<in> set rs. length row = n"
  shows "\<exists>w'. fetch_rows stmt tra n e w = Some (Ok (map (map show_cell) rs), w') \<and> cur (server w') = []"
  by (rule givesE [OF gives_fetch_rows [OF assms], of w]) auto

theorem fetch_rows_decodes_witness:
  "\<exists>w'. fetch_rows 7 3 2 rows_env (demo_world []) = Some (Ok [[''1'', ''Ada''], [''2'', ''<null>'']], w')"
  using fetch_rows_decodes [OF rows_env_delivers, of 2 "demo_world []"]
  by (auto simp: demo_rows_def show_cell_def)


end
