(* ===== verification/Fbcpp_Tour.thy ===== *)
theory Fbcpp_Tour
  imports Fbcpp_Kit
begin

text \<open>
  The fb-cpp twins of the touring samples, from \<open>samples/fb-cpp\<close>: \<open>api_styles.cpp\<close>, \<open>protocol.cpp\<close>,
  \<open>architecture_comparison.cpp\<close>, \<open>deployment.cpp\<close>, \<open>extensibility.cpp\<close>, \<open>ha.cpp\<close>,
  \<open>replication.cpp\<close> and \<open>transactions_demo.cpp\<close>, statement by statement.
\<close>


section \<open>api_styles.cpp\<close>

definition fc_api_styles_main :: "('s, int) prog" where
  \<open>fc_api_styles_main = bindP (fc_argOrDefault 1 ''inet://localhost/employee'') (\<lambda>database.
      try_fb (with_Client (\<lambda>client. bindP (fc_defaultOptions) (\<lambda>opts.
      with_Attachment client database (opts @ [SetConnectionCharSet ''NONE'']) (\<lambda>att. with_Transaction att [] (\<lambda>tra. bindP (scalar_str_or att tra (''select rdb$get_context('SYSTEM', 'ENGINE_VERSION') from rdb$database'') ''?'') (\<lambda>c1.
      returning
       [say (''[fb-cpp ] engine version = '' @ c1 @ nl),
        fc_commit tra,
        say (''same engine, same Y-valve, a third API style. done.'' @ nl)]
       0)))))) fc_report)\<close>


section \<open>protocol.cpp\<close>

definition fc_protocol_context :: "nat \<Rightarrow> nat \<Rightarrow> string \<Rightarrow> ('s, string) prog" where
  \<open>fc_protocol_context att tra var = scalar_string_or att tra
      ((''select rdb$get_context('SYSTEM', '' @ [CHR 0x27]) @ var @ ([CHR 0x27] @ '') from rdb$database'')) ''(none)''\<close>

definition fc_protocol_main :: "('s, int) prog" where
  \<open>fc_protocol_main = bindP (fc_argOrDefault 1 ''inet://localhost/employee'') (\<lambda>database.
      try_fb (with_Client (\<lambda>client. bindP (fc_defaultOptions) (\<lambda>opts.
      with_Attachment client database (opts @ [SetConnectionCharSet ''NONE'']) (\<lambda>att. seqP
       [say (''attached to '' @ (c_str database) @ nl)] (
      with_Transaction att [] (\<lambda>tra. bindP (fc_protocol_context att tra ''ENGINE_VERSION'') (\<lambda>c1.
      seqP
       [say (''engine version : '' @ (c_str c1) @ nl)] (
      bindP (fc_protocol_context att tra ''NETWORK_PROTOCOL'') (\<lambda>c2.
      seqP
       [say (''protocol       : '' @ (c_str c2) @ nl)] (
      bindP (fc_protocol_context att tra ''WIRE_CRYPT_PLUGIN'') (\<lambda>c3.
      seqP
       [say (''wire crypt     : '' @ (c_str c3) @ nl)] (
      bindP (scalar_str_or att tra (''select trim(current_user) from rdb$database'') ''?'') (\<lambda>c4.
      returning
       [say (''authenticated  : '' @ c4 @ nl),
        fc_commit tra,
        do_call (Fc (FcAtt att FcDisconnect)),
        say (''detached. bye'' @ nl)]
       0))))))))))))) fc_report)\<close>


section \<open>architecture_comparison.cpp\<close>

definition fc_architecture_comparison_inspect :: "nat \<Rightarrow> string \<Rightarrow> string \<Rightarrow> bool \<Rightarrow> ('s, unit) prog" where
  \<open>fc_architecture_comparison_inspect client label database create = fc_scope FAttachment
      (if create then fc_attachOrCreate client database
       else (bindP (fc_defaultOptions) (\<lambda>opts.
      handle_of (Fc (FcAttachment client database opts))))) (\<lambda>att. with_Transaction att [] (\<lambda>tra. with_Statement att tra ((''select rdb$get_context('SYSTEM', 'ENGINE_VERSION'), '' @
    ''       rdb$get_context('SYSTEM', 'NETWORK_PROTOCOL'), '' @
    ''       a.mon$server_pid '' @
    ''from mon$attachments a '' @
    ''where a.mon$attachment_id = current_connection'')) [] (\<lambda>stmt. seqP
       [ignore (fc_execute stmt tra)] (
      bindP (str_or stmt 0 ''<null>'') (\<lambda>version.
      bindP (str_or stmt 1 ''<null>'') (\<lambda>protocol.
      bindP (int_or FInt32 stmt 2 (- 1)) (\<lambda>serverPid.
      seqP
       [say (label @ nl),
        say (''    connection string : '' @ (c_str database) @ nl),
        say (''    ENGINE_VERSION    : '' @ (c_str version) @ nl),
        say (''    NETWORK_PROTOCOL  : '' @ (c_str protocol) @ nl)] (
      bindP (getpid) (\<lambda>c1.
      bindP (getpid) (\<lambda>c2.
      block
       [say (''    MON$SERVER_PID    : '' @ show_int serverPid @ ''   (this process is pid '' @
            show_int c1 @
            (if serverPid = c2 then '' -- the engine runs IN this process'' else []) @ '')'' @
            nl),
        fc_commit tra]))))))))))\<close>

definition fc_architecture_comparison_main :: "('s, int) prog" where
  \<open>fc_architecture_comparison_main = bindP (fc_argOrDefault 1 ''inet://localhost/employee'') (\<lambda>remoteDb.
      bindP (fc_argOrDefault 2 ''/tmp/fbhandson/arch_embedded_fbcpp.fdb'') (\<lambda>embeddedDb.
      try_fb (with_Client (\<lambda>client. returning
       [say (''One libfbclient, two providers behind the Y-valve.'' @ nl @ nl),
        fc_architecture_comparison_inspect client (''[1] Remote provider (client-server):'') remoteDb False,
        say nl,
        fc_architecture_comparison_inspect client (''[2] Engine provider (embedded, no server):'') embeddedDb True,
        say (nl @ ''done.'' @ nl)]
       0)) fc_report))\<close>


section \<open>deployment.cpp\<close>

definition fc_deployment_DB :: string where
  \<open>fc_deployment_DB = ''inet://localhost/employee''\<close>

definition fc_deployment_line :: "nat \<Rightarrow> nat \<Rightarrow> string \<Rightarrow> string \<Rightarrow> ('s, unit) prog" where
  \<open>fc_deployment_line att tra label sql = with_Statement att tra (sql) [] (\<lambda>stmt. seqP
       [ignore (fc_execute stmt tra)] (
      bindP (str_or stmt 0 ''<null>'') (\<lambda>c1.
      block
       [say (''  '' @ ljust 22 label @ '' '' @ c1 @ nl)])))\<close>

definition fc_deployment_main :: "('s, int) prog" where
  \<open>fc_deployment_main = bindP (fc_argOrDefault 1 fc_deployment_DB) (\<lambda>database.
      try_fb (with_Client (\<lambda>client. bindP (fc_defaultOptions) (\<lambda>opts.
      with_Attachment client database opts (\<lambda>att. with_Transaction att [] (\<lambda>tra. seqP
       [say (''== MON$DATABASE: the database as deployed =='' @ nl),
        fc_deployment_line att tra (''database file'') (''SELECT MON$DATABASE_NAME FROM MON$DATABASE''),
        fc_deployment_line att tra (''ODS version'') (''SELECT MON$ODS_MAJOR || '.' || MON$ODS_MINOR FROM MON$DATABASE''),
        fc_deployment_line att tra (''page size'') (''SELECT MON$PAGE_SIZE FROM MON$DATABASE''),
        fc_deployment_line att tra (''page buffers'') (''SELECT MON$PAGE_BUFFERS FROM MON$DATABASE''),
        fc_deployment_line att tra (''sweep interval'') (''SELECT MON$SWEEP_INTERVAL FROM MON$DATABASE''),
        fc_deployment_line att tra (''forced writes'') (''SELECT MON$FORCED_WRITES FROM MON$DATABASE''),
        fc_deployment_line att tra (''SQL dialect'') (''SELECT MON$SQL_DIALECT FROM MON$DATABASE''),
        fc_deployment_line att tra (''crypt state'') (''SELECT MON$CRYPT_STATE FROM MON$DATABASE'')] (
      with_Statement att tra (''SELECT COUNT(*) FROM RDB$CONFIG'') [] (\<lambda>count. seqP
       [ignore (fc_execute count tra)] (
      bindP (str_or count 0 ''?'') (\<lambda>c1.
      seqP
       [say (nl @ ''== RDB$CONFIG: effective configuration (selected of '' @ c1 @
            '' settings) =='' @ nl)] (
      with_Statement att tra ((''SELECT RDB$CONFIG_NAME, RDB$CONFIG_VALUE, RDB$CONFIG_IS_SET '' @
      ''FROM RDB$CONFIG '' @
      ''WHERE RDB$CONFIG_NAME IN ('ServerMode', 'DefaultDbCachePages', '' @
      ''  'DatabaseAccess', 'WireCrypt', 'MaxParallelWorkers', 'SecurityDatabase') '' @
      ''ORDER BY RDB$CONFIG_NAME'')) [] (\<lambda>cfg. seqP
       [for_rows cfg tra (bindP (str_or cfg 0 ''<null>'') (\<lambda>c1.
      bindP (str_or cfg 1 ''<null>'') (\<lambda>c2.
      bindP (bool_or cfg 2 False) (\<lambda>c3.
      block
       [say (''  '' @ ljust 19 c1 @ '' '' @ ljust 27 c2 @ '' is_set='' @
            (if c3 then ''true'' else ''false'') @ nl)])))),
        say (nl @ ''== settings explicitly set in config files =='' @ nl)] (
      with_Statement att tra ((''SELECT RDB$CONFIG_NAME, RDB$CONFIG_VALUE, RDB$CONFIG_SOURCE '' @
      ''FROM RDB$CONFIG WHERE RDB$CONFIG_IS_SET ORDER BY RDB$CONFIG_ID'')) [] (\<lambda>set. bindP (for_rows_acc set tra False (\<lambda>any. bindP (str_or set 0 ''<null>'') (\<lambda>c1.
      bindP (str_or set 1 ''<null>'') (\<lambda>c2.
      bindP (str_or set 2 ''<null>'') (\<lambda>c3.
      returning
       [say (''  '' @ ljust 19 c1 @ '' '' @ ljust 27 c2 @ '' '' @ c3 @ nl)]
       True))))) (\<lambda>any.
      returning
       [(if \<not> any then block
       [say (''  (none '' @ [CHR 0xE2, CHR 0x80, CHR 0x94] @
            '' this server runs on stock defaults)'' @ nl)] else ret ()),
        say (nl @ ''== SYSTEM context: this engine, this session =='' @ nl),
        fc_deployment_line att tra (''ENGINE_VERSION'') (''SELECT RDB$GET_CONTEXT('SYSTEM','ENGINE_VERSION') FROM RDB$DATABASE''),
        fc_deployment_line att tra (''DB_NAME'') (''SELECT RDB$GET_CONTEXT('SYSTEM','DB_NAME') FROM RDB$DATABASE''),
        fc_deployment_line att tra (''NETWORK_PROTOCOL'') (''SELECT RDB$GET_CONTEXT('SYSTEM','NETWORK_PROTOCOL') FROM RDB$DATABASE''),
        fc_deployment_line att tra (''WIRE_CRYPT_PLUGIN'') (''SELECT RDB$GET_CONTEXT('SYSTEM','WIRE_CRYPT_PLUGIN') FROM RDB$DATABASE''),
        fc_deployment_line att tra (''CLIENT_ADDRESS'') (''SELECT RDB$GET_CONTEXT('SYSTEM','CLIENT_ADDRESS') FROM RDB$DATABASE''),
        fc_commit tra,
        say (nl @ ''done.'' @ nl)]
       0)))))))))))))) fc_report)\<close>


section \<open>extensibility.cpp\<close>

definition fc_extensibility_main :: "('s, int) prog" where
  \<open>fc_extensibility_main = bindP (fc_argOrDefault 1 ''inet://localhost//tmp/fbhandson/extensibility_fbcpp.fdb'') (\<lambda>database.
      try_fb (with_Client (\<lambda>client. with_attachOrCreate client database (\<lambda>att. with_Transaction att [] (\<lambda>tra. seqP
       [att_execute att tra ((''recreate procedure gen_rows (start_n integer not null, '' @
      ''                             end_n integer not null) '' @
      ''  returns (n integer not null) '' @
      ''  external name 'udrcpp_example!gen_rows' engine udr'')),
        att_execute att tra ((''recreate function sum_args (n1 integer, n2 integer, n3 integer) '' @
      ''  returns integer '' @
      ''  external name 'udrcpp_example!sum_args' engine udr'')),
        fc_commitRetaining tra,
        say (''select n from gen_rows(1, 5):'' @ nl)] (
      with_Statement att tra (''select n from gen_rows(1, 5)'') [] (\<lambda>gen. seqP
       [for_rows gen tra (bindP (int_or FInt32 gen 0 (- 1)) (\<lambda>c1.
      block
       [say (''    n = '' @ show_int c1 @ nl)]))] (
      bindP (scalar_int_or FInt32 att tra (''select sum_args(19, 20, 3) from rdb$database'') (- 1)) (\<lambda>c1.
      seqP
       [say (nl @ ''select sum_args(19, 20, 3):  '' @ show_int c1 @ nl),
        say (nl @ ''external routines recorded in the system tables:'' @ nl)] (
      with_Statement att tra ((''select trim(rdb$procedure_name) || '  ->  ' || '' @
      ''       trim(rdb$entrypoint) || '  (engine ' || '' @
      ''       trim(rdb$engine_name) || ')' '' @
      ''from rdb$procedures where rdb$engine_name = 'UDR' '' @
      ''union all '' @
      ''select trim(rdb$function_name) || '  ->  ' || '' @
      ''       trim(rdb$entrypoint) || '  (engine ' || '' @
      ''       trim(rdb$engine_name) || ')' '' @
      ''from rdb$functions where rdb$engine_name = 'UDR'' @ [CHR 0x27])) [] (\<lambda>routines. seqP
       [for_rows routines tra (bindP (str_or routines 0 []) (\<lambda>c1.
      block
       [say (''    '' @ c1 @ nl)])),
        say (nl @ ''plugins filling each role (rdb$config):'' @ nl)] (
      with_Statement att tra ((''select trim(rdb$config_name), trim(rdb$config_value) '' @
      ''from rdb$config '' @
      ''where rdb$config_name in ('Providers', 'AuthServer', '' @
      ''      'UserManager', 'WireCryptPlugin', 'TracePlugin', '' @
      ''      'DefaultProfilerPlugin') '' @
      ''order by rdb$config_id'')) [] (\<lambda>roles. returning
       [for_rows roles tra (bindP (str_or roles 0 []) (\<lambda>c1.
      bindP (str_or roles 1 []) (\<lambda>c2.
      block
       [say (''    '' @ ljust 22 c1 @ '' '' @ c2 @ nl)]))),
        fc_commit tra,
        say (nl @ ''done.'' @ nl)]
       0)))))))))))) fc_report)\<close>


section \<open>ha.cpp\<close>

definition fc_ha_DB :: string where
  \<open>fc_ha_DB = ''inet://localhost//tmp/fbhandson/ha_fbcpp.fdb''\<close>

definition fc_ha_MAIN :: string where
  \<open>fc_ha_MAIN = ''/tmp/fbhandson/ha_fbcpp.fdb''\<close>

definition fc_ha_SHAD :: string where
  \<open>fc_ha_SHAD = ''/tmp/fbhandson/ha_fbcpp.shd''\<close>

definition fc_ha_fileSize :: "string \<Rightarrow> ('s, int) prog" where
  \<open>fc_ha_fileSize path = bindP (ask_void (Os (FileSize path))) (\<lambda>st.
      ret (if r_null st then - 1 else r_n st))\<close>

definition fc_ha_showFiles :: "string \<Rightarrow> ('s, unit) prog" where
  \<open>fc_ha_showFiles when = bindP (fc_ha_fileSize fc_ha_MAIN) (\<lambda>c1.
      bindP (fc_ha_fileSize fc_ha_SHAD) (\<lambda>c2.
      block
       [say (ljust 28 when @ '' main = '' @ rjust 8 (show_int c1) @ '' bytes, shadow = '' @
            rjust 8 (show_int c2) @ '' bytes'' @ nl)]))\<close>

definition fc_ha_main :: "('s, int) prog" where
  \<open>fc_ha_main = bindP (fc_argOrDefault 1 fc_ha_DB) (\<lambda>database.
      try_fb (with_Client (\<lambda>client. with_attachOrCreate client database (\<lambda>att. with_Transaction att [] (\<lambda>tra. seqP
       [try_Database (block
       [stmt_exec att tra (''DROP SHADOW 1 DELETE FILE'')]) (\<lambda>_. ret ()),
        try_Database (block
       [stmt_exec att tra (''DROP TABLE HA_LOG'')]) (\<lambda>_. ret ()),
        stmt_exec att tra (''CREATE TABLE HA_LOG (ID INT NOT NULL PRIMARY KEY, PAYLOAD VARCHAR(200))''),
        fc_commitRetaining tra,
        stmt_exec att tra ((''CREATE SHADOW 1 '/tmp/fbhandson/ha_fbcpp.shd'' @ [CHR 0x27])),
        fc_commitRetaining tra,
        say (''CREATE SHADOW 1 done '' @ [CHR 0xE2, CHR 0x80, CHR 0x94] @
            '' the engine dumped every page to the mirror'' @ nl @ nl)] (
      with_Statement att tra ((''SELECT RDB$FILE_NAME, RDB$SHADOW_NUMBER, RDB$FILE_FLAGS '' @
      ''FROM RDB$FILES ORDER BY RDB$SHADOW_NUMBER'')) [] (\<lambda>files. seqP
       [for_rows files tra (bindP (str_or files 0 ''<null>'') (\<lambda>c1.
      bindP (str_or files 1 ''<null>'') (\<lambda>c2.
      bindP (str_or files 2 ''<null>'') (\<lambda>c3.
      block
       [say (''shadow file '' @ c1 @ ''   number '' @ c2 @ ''   flags '' @ c3 @ nl)])))),
        say nl,
        fc_ha_showFiles ''after CREATE SHADOW:'',
        stmt_exec att tra ((''EXECUTE BLOCK AS DECLARE I INT = 0; BEGIN '' @
      ''  WHILE (I < 5000) DO BEGIN '' @
      ''    INSERT INTO HA_LOG VALUES (:I, LPAD('' @ [CHR 0x27, CHR 0x27] @ '', 200, 'x')); I = I + 1; '' @
      ''  END '' @
      ''END'')),
        fc_commitRetaining tra,
        fc_ha_showFiles ''after 5000 inserts:'',
        stmt_exec att tra (''DROP SHADOW 1 DELETE FILE''),
        fc_commit tra,
        say (nl @ ''DROP SHADOW 1 DELETE FILE done'' @ nl),
        fc_ha_showFiles ''after DROP SHADOW:''] (
      with_Transaction att [] (\<lambda>tra2. with_Statement att tra2 (''SELECT COUNT(*) FROM RDB$FILES'') [] (\<lambda>left. seqP
       [ignore (fc_execute left tra2)] (
      bindP (str_or left 0 ''?'') (\<lambda>c1.
      returning
       [say (nl @ ''RDB$FILES rows left: '' @ c1 @ nl),
        fc_commit tra2,
        say (''done.'' @ nl)]
       0))))))))))) fc_report)\<close>


section \<open>replication.cpp\<close>

definition fc_replication_DB :: string where
  \<open>fc_replication_DB = ''inet://localhost//tmp/fbhandson/replication_fbcpp.fdb''\<close>

definition fc_replication_pubState :: "nat \<Rightarrow> nat \<Rightarrow> string \<Rightarrow> ('s, unit) prog" where
  \<open>fc_replication_pubState att tra when = with_Statement att tra ((''SELECT RDB$PUBLICATION_NAME, RDB$ACTIVE_FLAG, RDB$AUTO_ENABLE '' @
        ''FROM RDB$PUBLICATIONS'')) [] (\<lambda>pub. seqP
       [ignore (fc_execute pub tra)] (
      with_Statement att tra ((''SELECT RDB$TABLE_SCHEMA_NAME, RDB$TABLE_NAME '' @
        ''FROM RDB$PUBLICATION_TABLES ORDER BY RDB$TABLE_NAME'')) [] (\<lambda>members. bindP (for_rows_acc members tra [] (\<lambda>tables. bindP (fc_getString members 0) (\<lambda>s.
      bindP (fc_getString members 1) (\<lambda>t.
      ret ((if tables = [] then [] else tables @ '', '') @ value_or s ''?'' @ ''.'' @ value_or t ''?''))))) (\<lambda>tables.
      seqP
       [say (''-- '' @ when @ nl)] (
      bindP (str_or pub 0 ''<null>'') (\<lambda>c1.
      bindP (str_or pub 1 ''<null>'') (\<lambda>c2.
      bindP (str_or pub 2 ''<null>'') (\<lambda>c3.
      block
       [say (c1 @ ''   ACTIVE_FLAG '' @ c2 @ ''   AUTO_ENABLE '' @ c3 @ ''    published: '' @
            (if tables = [] then ''(none)'' else c_str tables) @ nl)]))))))))\<close>

definition fc_replication_main :: "('s, int) prog" where
  \<open>fc_replication_main = bindP (fc_argOrDefault 1 fc_replication_DB) (\<lambda>database.
      try_fb (with_Client (\<lambda>client. with_attachOrCreate client database (\<lambda>att. with_Transaction att [] (\<lambda>tra. seqP
       [try_Database (block
       [stmt_exec att tra (''ALTER DATABASE EXCLUDE ALL FROM PUBLICATION'')]) (\<lambda>_. ret ()),
        try_Database (block
       [stmt_exec att tra (''ALTER DATABASE DISABLE PUBLICATION'')]) (\<lambda>_. ret ()),
        try_Database (block
       [stmt_exec att tra (''DROP TABLE REPL_ORDERS'')]) (\<lambda>_. ret ()),
        try_Database (block
       [stmt_exec att tra (''DROP TABLE REPL_SCRATCH'')]) (\<lambda>_. ret ()),
        stmt_exec att tra (''CREATE TABLE REPL_ORDERS (ID INT NOT NULL PRIMARY KEY, ITEM VARCHAR(30))''),
        stmt_exec att tra (''CREATE TABLE REPL_SCRATCH (N INT)''),
        fc_commitRetaining tra,
        fc_replication_pubState att tra ''initial state (publication exists but is inactive)'',
        stmt_exec att tra (''ALTER DATABASE ENABLE PUBLICATION''),
        fc_commitRetaining tra,
        fc_replication_pubState att tra ''after ENABLE PUBLICATION'',
        stmt_exec att tra (''ALTER DATABASE INCLUDE TABLE REPL_ORDERS TO PUBLICATION''),
        fc_commitRetaining tra,
        fc_replication_pubState att tra ''after INCLUDE TABLE REPL_ORDERS'',
        stmt_exec att tra (''ALTER DATABASE INCLUDE ALL TO PUBLICATION''),
        fc_commitRetaining tra,
        fc_replication_pubState att tra ''after INCLUDE ALL (auto-enable: future tables join automatically)''] (
      with_Statement att tra (''SELECT MON$REPLICA_MODE FROM MON$DATABASE'') [] (\<lambda>mode. seqP
       [ignore (fc_execute mode tra)] (
      bindP (str_or mode 0 ''<null>'') (\<lambda>c1.
      returning
       [say (nl @ ''MON$REPLICA_MODE = '' @ c1 @ nl),
        fc_commit tra,
        say (nl @ ''done.'' @ nl)]
       0)))))))) fc_report)\<close>


section \<open>transactions_demo.cpp\<close>

definition fc_transactions_demo_amountSeenBy :: "nat \<Rightarrow> nat \<Rightarrow> ('s, int) prog" where
  \<open>fc_transactions_demo_amountSeenBy att tra = with_Statement att tra (''select amount from balance where id = 1'') [] (\<lambda>stmt. seqP
       [ignore (fc_execute stmt tra)] (
      int_or FInt32 stmt 0 (- 1)))\<close>

definition fc_transactions_demo_main :: "('s, int) prog" where
  \<open>fc_transactions_demo_main = bindP (fc_argOrDefault 1 ''inet://localhost//tmp/fbhandson/tx_fbcpp.fdb'') (\<lambda>database.
      try_fb (with_Client (\<lambda>client. with_attachOrCreate client database (\<lambda>a. bindP (fc_defaultOptions) (\<lambda>opts.
      with_Attachment client database opts (\<lambda>b. seqP
       [with_Transaction a [] (\<lambda>t. seqP
       [stmt_exec a t (''recreate table balance (id integer primary key, amount integer)''),
        fc_commit t] (
      with_Transaction a [] (\<lambda>t2. block
       [stmt_exec a t2 (''insert into balance values (1, 100)''),
        fc_commit t2])))] (
      with_Transaction a [SetIsolationLevel ''SNAPSHOT''] (\<lambda>snapA. bindP (fc_transactions_demo_amountSeenBy a snapA) (\<lambda>c1.
      seqP
       [say (''A (SNAPSHOT)       sees amount = '' @ show_int c1 @ nl),
        with_Transaction b [] (\<lambda>txB. block
       [stmt_exec b txB (''update balance set amount = 999 where id = 1''),
        fc_commit txB]),
        say (''B                  committed amount = 999'' @ nl)] (
      bindP (fc_transactions_demo_amountSeenBy a snapA) (\<lambda>c2.
      seqP
       [say (''A (same SNAPSHOT)  sees amount = '' @ show_int c2 @
            ''   <- still the start-of-tx version'' @ nl)] (
      with_Transaction a [SetIsolationLevel ''READ_COMMITTED'', SetReadCommittedMode ''RECORD_VERSION''] (\<lambda>rcA. bindP (fc_transactions_demo_amountSeenBy a rcA) (\<lambda>c1.
      seqP
       [say (''A (READ COMMITTED) sees amount = '' @ show_int c1 @ ''   <- the committed version'' @ nl),
        fc_commit rcA] (
      with_Transaction b [SetIsolationLevel ''SNAPSHOT''] (\<lambda>holdB. seqP
       [stmt_exec b holdB (''update balance set amount = amount + 1 where id = 1'')] (
      with_Transaction a [SetIsolationLevel ''SNAPSHOT'', SetWaitMode ''NO_WAIT''] (\<lambda>loserA. returning
       [try_Database (block
       [stmt_exec a loserA (''update balance set amount = amount + 10 where id = 1''),
        say (''unexpected: conflicting update succeeded'' @ nl)]) (\<lambda>e. bindP (getErrorCode e) (\<lambda>c1.
      bindP (what e) (\<lambda>c2.
      block
       [say (''A conflicting update failed as designed (gds '' @ show_int c1 @
            '' = isc_deadlock):'' @ nl @ ''    '' @ c2 @ nl)]))),
        fc_rollback loserA,
        fc_commit holdB,
        fc_commit snapA,
        say (''done.'' @ nl)]
       0))))))))))))))))) fc_report)\<close>


section \<open>Lifetimes and reports\<close>

lemma live_fctour [live_rules]:
  "(FAttachment, att) \<in> set s \<Longrightarrow> (FTransaction, tra) \<in> set s \<Longrightarrow> keeps (lives s) (fc_protocol_context att tra var)"
  "(FClient, client) \<in> set s \<Longrightarrow> keeps (lives s) (fc_architecture_comparison_inspect client label database create)"
  "(FAttachment, att) \<in> set s \<Longrightarrow> (FTransaction, tra) \<in> set s \<Longrightarrow> keeps (lives s) (fc_deployment_line att tra label sql)"
  "keeps (lives s) (fc_ha_fileSize path)"
  "keeps (lives s) (fc_ha_showFiles when)"
  "(FAttachment, att) \<in> set s \<Longrightarrow> (FTransaction, tra) \<in> set s \<Longrightarrow> keeps (lives s) (fc_replication_pubState att tra when)"
  "(FAttachment, att) \<in> set s \<Longrightarrow> (FTransaction, tra) \<in> set s \<Longrightarrow> keeps (lives s) (fc_transactions_demo_amountSeenBy att tra)"
  unfolding fc_protocol_context_def fc_architecture_comparison_inspect_def fc_deployment_line_def fc_ha_fileSize_def fc_ha_showFiles_def fc_replication_pubState_def fc_transactions_demo_amountSeenBy_def
  by (intro keeps_rules live_rules; simp add: uses_def)+

definition fctour_mains :: "('s, int) prog list" where
  "fctour_mains = [fc_api_styles_main, fc_protocol_main, fc_architecture_comparison_main, fc_deployment_main, fc_extensibility_main, fc_ha_main, fc_replication_main, fc_transactions_demo_main]"

lemmas fctour_defs = fc_api_styles_main_def fc_protocol_main_def fc_architecture_comparison_main_def fc_deployment_main_def fc_extensibility_main_def fc_ha_main_def fc_replication_main_def fc_transactions_demo_main_def

lemma fctour_lives: "\<forall>m \<in> set fctour_mains. keeps (lives s) m"
  unfolding fctour_mains_def fctour_defs list.set ball_simps
  by (intro conjI TrueI keeps_rules live_rules; simp add: uses_def)

lemma fctour_reports: "\<forall>m \<in> set fctour_mains. reports m"
  unfolding fctour_mains_def fctour_defs list.set ball_simps
  by (intro conjI reports_fc_arg reports_fc returns_rules TrueI)

end
