(* ===== verification/Fbcpp_Sql.thy ===== *)
theory Fbcpp_Sql
  imports Fbcpp_Kit
begin

text \<open>
  The fb-cpp twins about SQL and its compilation, from \<open>samples/fb-cpp\<close>: \<open>indexes.cpp\<close>,
  \<open>plans.cpp\<close>, \<open>windows.cpp\<close>, \<open>schemas.cpp\<close>, \<open>psql.cpp\<close>, \<open>profiler.cpp\<close> and
  \<open>monitoring.cpp\<close>, statement by statement.
\<close>


section \<open>indexes.cpp\<close>

definition fc_indexes_plan :: "nat \<Rightarrow> nat \<Rightarrow> string \<Rightarrow> ('s, unit) prog" where
  \<open>fc_indexes_plan att tra sql = with_Statement att tra (sql) [SetPrefetchLegacyPlan True] (\<lambda>stmt. bindP (legacyPlan stmt) (\<lambda>p.
      let p = strip_newlines p in
      block
       [say (sql @ nl @ (if p = [] then ''(no plan)'' else c_str p) @ nl @ nl)]))\<close>

definition fc_indexes_main :: "('s, int) prog" where
  \<open>fc_indexes_main = bindP (fc_argOrDefault 1 ''inet://localhost//tmp/fbhandson/indexes_fbcpp.fdb'') (\<lambda>database.
      try_fb (with_Client (\<lambda>client. with_attachOrCreate client database (\<lambda>att. seqP
       [with_Transaction att [] (\<lambda>t. block
       [att_execute att t ((''recreate table doc ('' @
        '' id integer, title varchar(60), status varchar(10), num integer)'')),
        fc_commit t]),
        with_Transaction att [] (\<lambda>t. block
       [att_execute att t ((''execute block as declare i integer = 0; begin'' @
        ''  while (i < 3000) do begin'' @
        ''    insert into doc values (:i, 'Title ' || :i,'' @
        ''      iif(mod(:i, 3) = 0, 'active', 'done'), mod(:i, 100));'' @
        ''    i = i + 1;'' @
        ''  end '' @
        ''end'')),
        fc_commit t]),
        with_Transaction att [] (\<lambda>t. block
       [att_execute att t (''create descending index doc_id_desc on doc (id)''),
        att_execute att t (''create index doc_upper_title on doc computed by (upper(title))''),
        att_execute att t ((''create index doc_active on doc (status) where status = 'active'' @ [CHR 0x27])),
        att_execute att t (''create index doc_num on doc (num)''),
        fc_commit t]),
        say (''3000 rows; indexes: descending, expression, partial, plain'' @ nl @ nl)] (
      with_Transaction att [] (\<lambda>tra. seqP
       [fc_indexes_plan att tra (''select id from doc where upper(title) = 'TITLE 5'' @ [CHR 0x27]),
        fc_indexes_plan att tra (''select id from doc where status = 'active'' @ [CHR 0x27]),
        fc_indexes_plan att tra ''select first 1 id from doc order by id desc'',
        fc_indexes_plan att tra ''select id from doc where num = 42 or id = 7'',
        fc_indexes_plan att tra (''select id from doc where title containing 'itle 12'' @ [CHR 0x27])] (
      with_Statement att tra ((''select count(*) from doc where title containing 'itle 12'' @ [CHR 0x27])) [] (\<lambda>count. seqP
       [ignore (fc_execute count tra)] (
      bindP (int_or FInt64 count 0 0) (\<lambda>c1.
      returning
       [say (''CONTAINING is correct but unindexed: matched '' @ show_int c1 @
            '' rows by scanning all 3000'' @ nl),
        fc_commit tra,
        say (''done.'' @ nl)]
       0))))))))) fc_report)\<close>


section \<open>plans.cpp\<close>

definition fc_plans_showPlan :: "nat \<Rightarrow> nat \<Rightarrow> string \<Rightarrow> ('s, unit) prog" where
  \<open>fc_plans_showPlan att tra sql = seqP
       [say (''== '' @ sql @ nl)] (
      with_Statement att tra (sql) [SetPrefetchLegacyPlan True, SetPrefetchPlan True] (\<lambda>stmt. bindP (legacyPlan stmt) (\<lambda>legacy.
      bindP (detailedPlan stmt) (\<lambda>detailed.
      let legacy = strip_newlines legacy in
      block
       [say (''legacy:  '' @ (c_str legacy) @ nl @ ''detailed:'' @ (c_str detailed) @ nl @ nl)]))))\<close>

definition fc_plans_main :: "('s, int) prog" where
  \<open>fc_plans_main = bindP (fc_argOrDefault 1 ''inet://localhost//tmp/fbhandson/plans_fbcpp.fdb'') (\<lambda>database.
      try_fb (with_Client (\<lambda>client. with_attachOrCreate client database (\<lambda>att. seqP
       [with_Transaction att [] (\<lambda>tra. block
       [stmt_exec att tra ((''RECREATE TABLE dept (id INT NOT NULL PRIMARY KEY,'' @
        '' name VARCHAR(20))'')),
        stmt_exec att tra ((''RECREATE TABLE emp (id INT NOT NULL PRIMARY KEY,'' @
        '' dept_id INT, salary INT, name VARCHAR(20))'')),
        fc_commitRetaining tra,
        stmt_exec att tra ((''EXECUTE BLOCK AS DECLARE i INT = 1; BEGIN'' @ nl @
        ''  WHILE (i <= 20) DO BEGIN'' @ nl @
        ''    INSERT INTO dept VALUES (:i, 'dept ' || :i); i = i + 1;'' @ nl @
        ''  END'' @ nl @
        ''  i = 1;'' @ nl @
        ''  WHILE (i <= 2000) DO BEGIN'' @ nl @
        ''    INSERT INTO emp VALUES (:i, MOD(:i, 20) + 1,'' @ nl @
        ''        1000 + MOD(:i * 37, 500), 'emp ' || :i); i = i + 1;'' @ nl @
        ''  END'' @ nl @
        ''END'')),
        fc_commit tra]),
        with_Transaction att [] (\<lambda>tra. block
       [fc_plans_showPlan att tra ''SELECT name FROM emp WHERE dept_id = 5'',
        stmt_exec att tra (''CREATE INDEX emp_dept ON emp (dept_id)''),
        fc_commit tra])] (
      with_Transaction att [] (\<lambda>tra. returning
       [say (''-- CREATE INDEX emp_dept ON emp (dept_id) --'' @ nl @ nl),
        fc_plans_showPlan att tra ''SELECT name FROM emp WHERE dept_id = 5'',
        fc_plans_showPlan att tra ''SELECT name FROM emp WHERE id = 42'',
        fc_plans_showPlan att tra ((''SELECT e.name, d.name FROM emp e'' @
      '' JOIN dept d ON e.dept_id = d.id ORDER BY e.salary'')),
        fc_plans_showPlan att tra ''SELECT COUNT(*) FROM emp a JOIN emp b ON a.salary = b.salary'',
        fc_commit tra,
        say (''done.'' @ nl)]
       0))))) fc_report)\<close>


section \<open>windows.cpp\<close>

definition fc_windows_print :: "nat \<Rightarrow> nat \<Rightarrow> string \<Rightarrow> ('s, unit) prog" where
  \<open>fc_windows_print att tra sql = with_Statement att tra (sql) [] (\<lambda>stmt. bindP (outputDescriptors stmt) (\<lambda>descs.
      block
       [for_each descs (\<lambda>d. block
       [say (ljust 14 (c_str (d_alias d)) @ '' '')]),
        say nl,
        for_each descs (\<lambda>d. block
       [say (ljust 14 (replicate (length (d_alias d)) (CHR ''-'')) @ '' '')]),
        say nl,
        for_rows stmt tra (block
       [for_each [0..<length descs] (\<lambda>i. bindP (str_or stmt i ''<null>'') (\<lambda>c1.
      block
       [say (ljust 14 c1 @ '' '')])),
        say nl])]))\<close>

definition fc_windows_main :: "('s, int) prog" where
  \<open>fc_windows_main = bindP (fc_argOrDefault 1 ''inet://localhost//tmp/fbhandson/windows_fbcpp.fdb'') (\<lambda>database.
      try_fb (with_Client (\<lambda>client. with_attachOrCreate client database (\<lambda>att. seqP
       [with_Transaction att [] (\<lambda>ddl. block
       [try_Database (block
       [stmt_exec att ddl (''DROP TABLE sales'')]) (\<lambda>_. ret ()),
        stmt_exec att ddl ((''CREATE TABLE sales (id INT PRIMARY KEY, region VARCHAR(10),'' @
        '' amount NUMERIC(10,2))'')),
        fc_commit ddl])] (
      with_Transaction att [] (\<lambda>tra. seqP
       [for_each [''(1,'East',100)'', ''(2,'East',200)'', ''(3,'East',150)'', ''(4,'West',300)'', ''(5,'West',250)'', ''(6,'West',400)''] (\<lambda>r. block
       [stmt_exec att tra ((''INSERT INTO sales VALUES '' @ r))])] (
      let winSql = (''SELECT region, amount,'' @
      '' ROW_NUMBER() OVER (PARTITION BY region ORDER BY amount) AS rn,'' @
      '' RANK() OVER (ORDER BY amount DESC) AS overall_rank,'' @
      '' SUM(amount) OVER (PARTITION BY region ORDER BY id'' @
      ''   ROWS BETWEEN UNBOUNDED PRECEDING AND CURRENT ROW) AS running_total,'' @
      '' LAG(amount) OVER (PARTITION BY region ORDER BY id) AS prev_amount'' @
      '' FROM sales'') in
      returning
       [say (''== window functions =='' @ nl),
        fc_windows_print att tra winSql,
        with_Statement att tra (winSql) [SetPrefetchLegacyPlan True] (\<lambda>stmt. bindP (legacyPlan stmt) (\<lambda>c1.
      block
       [say (nl @ ''plan:'' @ (c_str c1) @ nl)])),
        say (nl @ ''== aggregates: FILTER / LISTAGG / STDDEV_POP =='' @ nl),
        fc_windows_print att tra ((''SELECT region, COUNT(*) AS n,'' @
      '' COUNT(*) FILTER (WHERE amount > 150) AS big_sales,'' @
      '' CAST(LISTAGG(amount, ',') WITHIN GROUP (ORDER BY amount)'' @
      ''   AS VARCHAR(60)) AS amounts,'' @
      '' CAST(STDDEV_POP(amount) AS NUMERIC(10,2)) AS stddev'' @
      '' FROM sales GROUP BY region'')),
        say (nl @ ''== PERCENTILE_CONT median / hypothetical RANK(175) =='' @ nl),
        fc_windows_print att tra ((''SELECT region,'' @
      '' PERCENTILE_CONT(0.5) WITHIN GROUP (ORDER BY amount) AS median,'' @
      '' RANK(175) WITHIN GROUP (ORDER BY amount) AS rank_of_175'' @
      '' FROM sales GROUP BY region'')),
        say (nl @ ''== FB6 frame EXCLUDE CURRENT ROW (neighbours' average) =='' @ nl),
        fc_windows_print att tra ((''SELECT id, amount,'' @
      '' CAST(AVG(amount) OVER (ORDER BY id'' @
      ''   ROWS BETWEEN 1 PRECEDING AND 1 FOLLOWING'' @
      ''   EXCLUDE CURRENT ROW) AS NUMERIC(10,2)) AS neighbour_avg'' @
      '' FROM sales'')),
        fc_commit tra,
        say (nl @ ''done.'' @ nl)]
       0)))))) fc_report)\<close>


section \<open>schemas.cpp\<close>

definition fc_schemas_one :: "nat \<Rightarrow> nat \<Rightarrow> string \<Rightarrow> ('s, string) prog" where
  \<open>fc_schemas_one att tra sql = with_Statement att tra (sql) [] (\<lambda>stmt. seqP
       [ignore (fc_execute stmt tra)] (
      string_or stmt 0 ''<null>''))\<close>

definition fc_schemas_ctxPath :: "nat \<Rightarrow> nat \<Rightarrow> ('s, string) prog" where
  \<open>fc_schemas_ctxPath att tra = fc_schemas_one att tra ''SELECT RDB$GET_CONTEXT('SYSTEM','SEARCH_PATH') FROM RDB$DATABASE''\<close>

definition fc_schemas_main :: "('s, int) prog" where
  \<open>fc_schemas_main = bindP (fc_argOrDefault 1 ''inet://localhost//tmp/fbhandson/schemas_fbcpp.fdb'') (\<lambda>database.
      try_fb (with_Client (\<lambda>client. with_attachOrCreate client database (\<lambda>att. seqP
       [with_Transaction att [] (\<lambda>ddl. block
       [for_each [''DROP PROCEDURE APP.WHICH_ONE'', ''DROP TABLE PUBLIC.CUSTOMERS'', ''DROP TABLE APP.CUSTOMERS'', ''DROP SCHEMA APP''] (\<lambda>s. block
       [try_Database (block
       [stmt_exec att ddl (s)]) (\<lambda>_. ret ())]),
        stmt_exec att ddl (''CREATE SCHEMA APP''),
        stmt_exec att ddl (''CREATE TABLE PUBLIC.CUSTOMERS (ID INT, ORIGIN VARCHAR(20))''),
        stmt_exec att ddl (''CREATE TABLE APP.CUSTOMERS    (ID INT, ORIGIN VARCHAR(20))''),
        fc_commit ddl])] (
      with_Transaction att [] (\<lambda>tra. seqP
       [stmt_exec att tra (''INSERT INTO PUBLIC.CUSTOMERS VALUES (1, 'from PUBLIC')''),
        stmt_exec att tra (''INSERT INTO APP.CUSTOMERS    VALUES (2, 'from APP')''),
        say ''schemas in RDB$SCHEMAS      : '',
        with_Statement att tra (''SELECT TRIM(RDB$SCHEMA_NAME) FROM RDB$SCHEMAS ORDER BY 1'') [] (\<lambda>s. block
       [for_rows s tra (bindP (str_deref s 0) (\<lambda>c1.
      block
       [say (c1 @ ''  '')]))])] (
      bindP (fc_schemas_ctxPath att tra) (\<lambda>c1.
      seqP
       [say (nl @ ''default search path         : '' @ (c_str c1) @ nl),
        say (nl @ ''SELECT ORIGIN FROM CUSTOMERS, as the path changes:'' @ nl)] (
      bindP (fc_schemas_one att tra ''SELECT ORIGIN FROM CUSTOMERS'') (\<lambda>c2.
      seqP
       [say (''  path PUBLIC,SYSTEM        -> '' @ (c_str c2) @ nl),
        stmt_exec att tra (''SET SEARCH_PATH TO APP, PUBLIC'')] (
      bindP (fc_schemas_one att tra ''SELECT ORIGIN FROM CUSTOMERS'') (\<lambda>c3.
      seqP
       [say (''  path APP,PUBLIC           -> '' @ (c_str c3) @ nl),
        stmt_exec att tra (''SET SEARCH_PATH TO APP'')] (
      bindP (fc_schemas_ctxPath att tra) (\<lambda>c4.
      seqP
       [say (nl @ ''SET SEARCH_PATH TO APP      -> '' @ (c_str c4) @ ''   (SYSTEM auto-appended)'' @ nl),
        stmt_exec att tra (''SET SEARCH_PATH TO APP, PUBLIC''),
        stmt_exec att tra ((''CREATE PROCEDURE WHICH_ONE RETURNS (SRC VARCHAR(20)) AS '' @
      ''BEGIN SELECT ORIGIN FROM CUSTOMERS INTO :SRC; SUSPEND; END'')),
        fc_commit tra] (
      with_Transaction att [] (\<lambda>tra2. seqP
       [say (nl @ ''procedure created with path APP,PUBLIC (lands in APP, binds APP.CUSTOMERS)'' @ nl),
        stmt_exec att tra2 (''SET SEARCH_PATH TO PUBLIC''),
        say (''  after SET SEARCH_PATH TO PUBLIC:'' @ nl)] (
      bindP (fc_schemas_one att tra2 ''SELECT ORIGIN FROM CUSTOMERS'') (\<lambda>c1.
      seqP
       [say (''    direct SELECT ... FROM CUSTOMERS -> '' @ (c_str c1) @ nl)] (
      bindP (fc_schemas_one att tra2 ''SELECT SRC FROM APP.WHICH_ONE'') (\<lambda>c2.
      seqP
       [say (''    SELECT SRC FROM APP.WHICH_ONE    -> '' @ (c_str c2) @ ''   <- unmoved'' @ nl)] (
      bindP (fc_schemas_one att tra2 ((''SELECT TRIM(RDB$DEPENDED_ON_SCHEMA_NAME) || '.' || TRIM(RDB$DEPENDED_ON_NAME)'' @
        '' FROM RDB$DEPENDENCIES WHERE RDB$DEPENDENT_NAME = 'WHICH_ONE'' @ [CHR 0x27]))) (\<lambda>c3.
      returning
       [say (''    RDB$DEPENDENCIES records         -> '' @ (c_str c3) @ nl),
        with_Statement att tra2 (''SELECT COUNT(*) FROM CUSTOMERS'') [SetPrefetchLegacyPlan True] (\<lambda>s. bindP (legacyPlan s) (\<lambda>c1.
      block
       [say (nl @ ''plan for unqualified SELECT :'' @ (c_str c1) @ nl)])),
        fc_commit tra2,
        say (nl @ ''done.'' @ nl)]
       0))))))))))))))))))))) fc_report)\<close>


section \<open>psql.cpp\<close>

definition fc_psql_main :: "('s, int) prog" where
  \<open>fc_psql_main = bindP (fc_argOrDefault 1 ''inet://localhost//tmp/fbhandson/psql_fbcpp.fdb'') (\<lambda>database.
      try_fb (with_Client (\<lambda>client. with_attachOrCreate client database (\<lambda>att. with_Transaction att [] (\<lambda>tra. seqP
       [stmt_exec att tra ((''CREATE OR ALTER PROCEDURE hire (p_name VARCHAR(30),'' @
      '' p_salary NUMERIC(10,2)) RETURNS (new_id INTEGER) AS BEGIN END'')),
        stmt_exec att tra ((''CREATE OR ALTER PROCEDURE raises (pct NUMERIC(5,2))'' @
      '' RETURNS (id INTEGER, name VARCHAR(30), new_salary NUMERIC(10,2))'' @
      '' AS BEGIN END'')),
        fc_commitRetaining tra,
        stmt_exec att tra ((''RECREATE TABLE emp (id INT GENERATED BY DEFAULT AS'' @
      '' IDENTITY PRIMARY KEY, name VARCHAR(30), salary NUMERIC(10,2))'')),
        stmt_exec att tra (''RECREATE TABLE audit_log (logged_at TIMESTAMP, what VARCHAR(60))''),
        stmt_exec att tra ((''CREATE OR ALTER EXCEPTION low_salary 'salary below minimum'' @ [CHR 0x27])),
        fc_commitRetaining tra,
        stmt_exec att tra ((''CREATE OR ALTER PROCEDURE hire (p_name VARCHAR(30), p_salary NUMERIC(10,2))'' @ nl @
      ''RETURNS (new_id INTEGER) AS'' @ nl @
      ''BEGIN'' @ nl @
      ''  IF (p_salary < 1000) THEN EXCEPTION low_salary;'' @ nl @
      ''  INSERT INTO emp (name, salary) VALUES (:p_name, :p_salary)'' @ nl @
      ''    RETURNING id INTO :new_id;'' @ nl @
      ''END'')),
        stmt_exec att tra ((''CREATE OR ALTER TRIGGER emp_bi BEFORE INSERT ON emp AS'' @ nl @
      ''BEGIN'' @ nl @
      ''  INSERT INTO audit_log VALUES (CURRENT_TIMESTAMP,'' @ nl @
      ''    'insert emp ' || COALESCE(NEW.name, '?'));'' @ nl @
      ''END'')),
        stmt_exec att tra ((''CREATE OR ALTER PROCEDURE raises (pct NUMERIC(5,2))'' @ nl @
      ''RETURNS (id INTEGER, name VARCHAR(30), new_salary NUMERIC(10,2)) AS'' @ nl @
      ''BEGIN'' @ nl @
      ''  FOR SELECT id, name, salary FROM emp INTO :id, :name, :new_salary DO'' @ nl @
      ''  BEGIN'' @ nl @
      ''    new_salary = new_salary * (1 + pct / 100);'' @ nl @
      ''    SUSPEND;'' @ nl @                       
      ''  END'' @ nl @
      ''END'')),
        fc_commitRetaining tra,
        for_each [''EXECUTE PROCEDURE hire('Ada', 5000)'', ''EXECUTE PROCEDURE hire('Grace', 6000)''] (\<lambda>call. with_Statement att tra (call) [] (\<lambda>stmt. seqP
       [ignore (fc_execute stmt tra)] (
      bindP (int_or FInt32 stmt 0 (- 1)) (\<lambda>c1.
      bindP (stmtType stmt) (\<lambda>c2.
      block
       [say (ljust 42 call @ '' -> NEW_ID = '' @ show_int c1 @ ''   ['' @
            (if c2 = ''EXEC_PROCEDURE'' then ''type=EXEC_PROCEDURE'' else ''type=?'') @ '']'' @ nl)])))))] (
      with_Statement att tra (''SELECT COUNT(*) FROM audit_log'') [] (\<lambda>audits. seqP
       [ignore (fc_execute audits tra)] (
      bindP (int_or FInt64 audits 0 0) (\<lambda>c1.
      seqP
       [say (''audit_log rows (trigger emp_bi):              '' @ show_int c1 @ nl),
        say (nl @ ''SELECT * FROM raises(10):'' @ nl)] (
      with_Statement att tra (''SELECT id, name, new_salary FROM raises(10) ORDER BY id'') [] (\<lambda>sel. returning
       [for_rows sel tra (bindP (int_or FInt32 sel 0 (- 1)) (\<lambda>c1.
      bindP (str_or sel 1 ''?'') (\<lambda>c2.
      bindP (str_or sel 2 ''?'') (\<lambda>c3.
      block
       [say (ljust 2 (show_int c1) @ '' '' @ ljust 5 c2 @ '' '' @ c3 @ nl)])))),
        say (nl @ ''EXECUTE PROCEDURE hire('Poorpay', 500) ->'' @ nl),
        try_Database (with_Statement att tra (''EXECUTE PROCEDURE hire('Poorpay', 500)'') [] (\<lambda>stmt. block
       [ignore (fc_execute stmt tra)])) (\<lambda>e. bindP (getErrorCode e) (\<lambda>c1.
      bindP (what e) (\<lambda>c2.
      block
       [say (''(gds '' @ show_int c1 @ '' = isc_except)'' @ nl @ c2 @ nl)]))),
        fc_commit tra,
        say (''done.'' @ nl)]
       0)))))))))) fc_report)\<close>


section \<open>profiler.cpp\<close>

definition fc_profiler_main :: "('s, int) prog" where
  \<open>fc_profiler_main = bindP (fc_argOrDefault 1 ''inet://localhost//tmp/fbhandson/profiler_fbcpp.fdb'') (\<lambda>database.
      try_fb (with_Client (\<lambda>client. with_attachOrCreate client database (\<lambda>att. with_Transaction att [] (\<lambda>tra. seqP
       [try_Database (block
       [att_execute att tra (''drop procedure hotspot'')]) (\<lambda>_. ret ()),
        try_Database (block
       [att_execute att tra (''drop table nums'')]) (\<lambda>_. ret ()),
        att_execute att tra (''create table nums (id int primary key, val int)''),
        fc_commitRetaining tra,
        att_execute att tra ((''execute block as declare n int = 0; begin '' @
      ''  while (n < 5000) do begin '' @
      ''    insert into nums values (:n, mod(:n, 97)); n = n + 1; end end'')),
        att_execute att tra ((''create procedure hotspot returns (total bigint) as'' @ nl @
      ''  declare i int = 0;'' @ nl @
      ''  declare x int;'' @ nl @
      ''begin'' @ nl @
      ''  total = 0;'' @ nl @
      ''  while (i < 20000) do'' @ nl @
      ''  begin'' @ nl @
      ''    select val from nums where id = mod(:i, 5000) into :x;'' @ nl @
      ''    total = total + coalesce(:x, 0);'' @ nl @
      ''    i = i + 1;'' @ nl @
      ''  end'' @ nl @
      ''  suspend;'' @ nl @
      ''end'')),
        fc_commitRetaining tra] (
      bindP (scalar_int_or FInt64 att tra (''select rdb$profiler.start_session('fb-cpp hands-on') from rdb$database'') (- 1)) (\<lambda>profileId.
      seqP
       [ignore (fc_queryInt FInt64 att tra (''select count(*) from nums a join nums b on b.id = a.val'')),
        ignore (fc_queryInt FInt64 att tra (''select total from hotspot'')),
        att_execute att tra (''execute procedure rdb$profiler.finish_session(true)''),
        fc_commit tra] (
      with_Transaction att [] (\<lambda>read. seqP
       [say (''profile session '' @ show_int profileId @ '' finished and flushed'' @ nl @ nl),
        say (''record sources of the join (PLG$PROF_RECORD_SOURCE_STATS_VIEW):'' @ nl),
        say (ljust 58 (''ACCESS_PATH'') @ '' '' @ rjust 5 (''OPENS'') @ '' '' @
            rjust 8 (''FETCHES'') @ '' '' @ rjust 13 (''TOTAL_NS'') @ nl)] (
      with_Statement att read ((''select lpad('' @ [CHR 0x27, CHR 0x27] @ '', level * 2) || cast(access_path as varchar(120)), '' @
      ''       open_counter, fetch_counter, '' @
      ''       open_fetch_total_elapsed_time '' @
      ''from plg$profiler.plg$prof_record_source_stats_view '' @
      ''where profile_id = ? and sql_text containing 'join nums' '' @
      ''order by cursor_id, record_source_id'')) [] (\<lambda>rs. seqP
       [do_call (Fc (FcStmt rs (FcSetInt64 0 profileId))),
        for_rows rs read (bindP (str_or rs 0 []) (\<lambda>c1.
      bindP (int_or FInt64 rs 1 0) (\<lambda>c2.
      bindP (int_or FInt64 rs 2 0) (\<lambda>c3.
      bindP (int_or FInt64 rs 3 0) (\<lambda>c4.
      block
       [say (ljust 58 c1 @ '' '' @ rjust 5 (show_int c2) @ '' '' @ rjust 8 (show_int c3) @
            '' '' @ rjust 13 (show_int c4) @ nl)]))))),
        say (nl @ ''hotspot procedure, per PSQL line (PLG$PROF_PSQL_STATS_VIEW):'' @ nl),
        say (rjust 4 (''LINE'') @ '' '' @ rjust 6 (''COLUMN'') @ '' '' @ rjust 7 (''COUNTER'') @
            '' '' @ rjust 12 (''TOTAL_NS'') @ '' '' @ rjust 8 (''AVG_NS'') @ nl)] (
      with_Statement att read ((''select line_num, column_num, counter, '' @
      ''       total_elapsed_time, avg_elapsed_time '' @
      ''from plg$profiler.plg$prof_psql_stats_view '' @
      ''where profile_id = ? and routine_name = 'HOTSPOT' '' @
      ''order by total_elapsed_time desc'')) [] (\<lambda>psql. returning
       [do_call (Fc (FcStmt psql (FcSetInt64 0 profileId))),
        for_rows psql read (bindP (int_or FInt32 psql 0 (- 1)) (\<lambda>c1.
      bindP (int_or FInt32 psql 1 (- 1)) (\<lambda>c2.
      bindP (int_or FInt64 psql 2 0) (\<lambda>c3.
      bindP (int_or FInt64 psql 3 0) (\<lambda>c4.
      bindP (int_or FInt64 psql 4 0) (\<lambda>c5.
      block
       [say (rjust 4 (show_int c1) @ '' '' @ rjust 6 (show_int c2) @ '' '' @
            rjust 7 (show_int c3) @ '' '' @ rjust 12 (show_int c4) @ '' '' @
            rjust 8 (show_int c5) @ nl)])))))),
        fc_commit read,
        say (nl @ ''done.'' @ nl)]
       0)))))))))))) fc_report)\<close>


section \<open>monitoring.cpp\<close>

definition fc_monitoring_DB :: string where
  \<open>fc_monitoring_DB = ''inet://localhost//tmp/fbhandson/monitoring_fbcpp.fdb''\<close>

definition fc_monitoring_COUNTERS :: string where
  \<open>fc_monitoring_COUNTERS = (''SELECT R.MON$RECORD_SEQ_READS, R.MON$RECORD_IDX_READS, R.MON$RECORD_INSERTS, '' @
  ''       I.MON$PAGE_FETCHES, I.MON$PAGE_READS '' @
  ''FROM MON$ATTACHMENTS A '' @
  ''JOIN MON$RECORD_STATS R ON R.MON$STAT_ID = A.MON$STAT_ID '' @
  ''JOIN MON$IO_STATS I     ON I.MON$STAT_ID = A.MON$STAT_ID '' @
  ''WHERE A.MON$ATTACHMENT_ID = CURRENT_CONNECTION'')\<close>

definition fc_monitoring_showCounters :: "nat \<Rightarrow> nat \<Rightarrow> ('s, unit) prog" where
  \<open>fc_monitoring_showCounters att tra = with_Statement att tra (fc_monitoring_COUNTERS) [] (\<lambda>stmt. seqP
       [ignore (fc_execute stmt tra)] (
      bindP (int_or FInt64 stmt 0 (- 1)) (\<lambda>c1.
      bindP (int_or FInt64 stmt 1 (- 1)) (\<lambda>c2.
      bindP (int_or FInt64 stmt 2 (- 1)) (\<lambda>c3.
      bindP (int_or FInt64 stmt 3 (- 1)) (\<lambda>c4.
      bindP (int_or FInt64 stmt 4 (- 1)) (\<lambda>c5.
      block
       [say (''seq_reads '' @ show_int c1 @ ''   idx_reads '' @ show_int c2 @ ''   inserts '' @
            show_int c3 @ ''   fetches '' @ show_int c4 @ ''   reads '' @ show_int c5 @ nl)])))))))\<close>

definition fc_monitoring_main :: "('s, int) prog" where
  \<open>fc_monitoring_main = bindP (fc_argOrDefault 1 fc_monitoring_DB) (\<lambda>database.
      try_fb (with_Client (\<lambda>client. with_attachOrCreate client database (\<lambda>att. seqP
       [with_Transaction att [] (\<lambda>tra. block
       [try_Database (block
       [stmt_exec att tra (''DROP TABLE MON_WORK'')]) (\<lambda>_. ret ()),
        stmt_exec att tra (''CREATE TABLE MON_WORK (ID INT NOT NULL PRIMARY KEY, VAL INT)''),
        fc_commitRetaining tra,
        stmt_exec att tra ((''EXECUTE BLOCK AS DECLARE I INT = 0; BEGIN '' @
        ''  WHILE (I < 10000) DO BEGIN INSERT INTO MON_WORK VALUES (:I, :I); I = I + 1; END '' @
        ''END'')),
        fc_commit tra])] (
      with_Transaction att [] (\<lambda>tra. seqP
       [say (''== MON$DATABASE: transaction markers =='' @ nl)] (
      with_Statement att tra ((''SELECT MON$OLDEST_TRANSACTION, MON$OLDEST_ACTIVE, MON$NEXT_TRANSACTION, '' @
      ''       MON$PAGE_BUFFERS FROM MON$DATABASE'')) [] (\<lambda>markers. seqP
       [ignore (fc_execute markers tra)] (
      bindP (str_or markers 0 ''?'') (\<lambda>c1.
      bindP (str_or markers 1 ''?'') (\<lambda>c2.
      bindP (str_or markers 2 ''?'') (\<lambda>c3.
      bindP (str_or markers 3 ''?'') (\<lambda>c4.
      seqP
       [say (''OIT '' @ c1 @ ''   OAT '' @ c2 @ ''   NEXT '' @ c3 @ ''   page buffers '' @ c4 @ nl),
        say (nl @ ''== MON$ATTACHMENTS -> MON$TRANSACTIONS -> MON$STATEMENTS (me) =='' @ nl)] (
      with_Statement att tra ((''SELECT A.MON$ATTACHMENT_ID, A.MON$USER, T.MON$TRANSACTION_ID, '' @
      ''       S.MON$STATE, CAST(SUBSTRING(S.MON$SQL_TEXT FROM 1 FOR 40) AS VARCHAR(40)) AS SQL_HEAD '' @
      ''FROM MON$ATTACHMENTS A '' @
      ''JOIN MON$TRANSACTIONS T ON T.MON$ATTACHMENT_ID = A.MON$ATTACHMENT_ID '' @
      ''JOIN MON$STATEMENTS S   ON S.MON$TRANSACTION_ID = T.MON$TRANSACTION_ID '' @
      ''WHERE A.MON$ATTACHMENT_ID = CURRENT_CONNECTION'')) [] (\<lambda>chain. seqP
       [for_rows chain tra (bindP (str_or chain 0 ''?'') (\<lambda>c1.
      bindP (str_or chain 1 ''?'') (\<lambda>c2.
      bindP (str_or chain 2 ''?'') (\<lambda>c3.
      bindP (str_or chain 3 ''?'') (\<lambda>c4.
      bindP (str_or chain 4 ''?'') (\<lambda>c5.
      block
       [say (''att '' @ c1 @ ''   user '' @ c2 @ ''   tx '' @ c3 @ ''   state '' @ c4 @
            ''   sql: '' @ c5 @ nl)])))))),
        say (nl @ ''== my counters (snapshot 1) =='' @ nl),
        fc_monitoring_showCounters att tra,
        say (nl @ ''... running workload: SELECT COUNT(*) full scan + indexed lookup ...'' @ nl)] (
      with_Statement att tra (''SELECT COUNT(*) FROM MON_WORK'') [] (\<lambda>scan. seqP
       [ignore (fc_execute scan tra)] (
      with_Statement att tra (''SELECT VAL FROM MON_WORK WHERE ID = 4242'') [] (\<lambda>point. seqP
       [ignore (fc_execute point tra)] (
      bindP (str_or scan 0 ''?'') (\<lambda>c1.
      bindP (int_or FInt32 point 0 (- 1)) (\<lambda>c2.
      seqP
       [say (''count = '' @ c1 @ '', point = '' @ show_int c2 @ nl),
        say (nl @ ''== same transaction, re-queried: STILL snapshot 1 =='' @ nl),
        fc_monitoring_showCounters att tra,
        fc_commit tra] (
      with_Transaction att [] (\<lambda>tra2. returning
       [say (nl @ ''== new transaction: fresh snapshot, workload now visible =='' @ nl),
        fc_monitoring_showCounters att tra2,
        fc_commit tra2,
        say (nl @ ''done.'' @ nl)]
       0))))))))))))))))))))))) fc_report)\<close>


section \<open>Lifetimes and reports\<close>

lemma live_fcsql [live_rules]:
  "(FAttachment, att) \<in> set s \<Longrightarrow> (FTransaction, tra) \<in> set s \<Longrightarrow> keeps (lives s) (fc_indexes_plan att tra sql)"
  "(FAttachment, att) \<in> set s \<Longrightarrow> (FTransaction, tra) \<in> set s \<Longrightarrow> keeps (lives s) (fc_plans_showPlan att tra sql)"
  "(FAttachment, att) \<in> set s \<Longrightarrow> (FTransaction, tra) \<in> set s \<Longrightarrow> keeps (lives s) (fc_windows_print att tra sql)"
  "(FAttachment, att) \<in> set s \<Longrightarrow> (FTransaction, tra) \<in> set s \<Longrightarrow> keeps (lives s) (fc_schemas_one att tra sql)"
  "(FAttachment, att) \<in> set s \<Longrightarrow> (FTransaction, tra) \<in> set s \<Longrightarrow> keeps (lives s) (fc_schemas_ctxPath att tra)"
  "(FAttachment, att) \<in> set s \<Longrightarrow> (FTransaction, tra) \<in> set s \<Longrightarrow> keeps (lives s) (fc_monitoring_showCounters att tra)"
  unfolding fc_indexes_plan_def fc_plans_showPlan_def fc_windows_print_def fc_schemas_one_def fc_schemas_ctxPath_def fc_monitoring_showCounters_def
  by (intro keeps_rules live_rules; simp add: uses_def)+

definition fcsql_mains :: "('s, int) prog list" where
  "fcsql_mains = [fc_indexes_main, fc_plans_main, fc_windows_main, fc_schemas_main, fc_psql_main, fc_profiler_main, fc_monitoring_main]"

lemmas fcsql_defs = fc_indexes_main_def fc_plans_main_def fc_windows_main_def fc_schemas_main_def fc_psql_main_def fc_profiler_main_def fc_monitoring_main_def

lemma fcsql_lives: "\<forall>m \<in> set fcsql_mains. keeps (lives s) m"
  unfolding fcsql_mains_def fcsql_defs list.set ball_simps
  by (intro conjI TrueI keeps_rules live_rules; simp add: uses_def)

lemma fcsql_reports: "\<forall>m \<in> set fcsql_mains. reports m"
  unfolding fcsql_mains_def fcsql_defs list.set ball_simps
  by (intro conjI reports_fc_arg reports_fc returns_rules TrueI)

end
