(* ===== verification/Fbcpp_Timing.thy ===== *)
theory Fbcpp_Timing
  imports Fbcpp_Kit Samples_Timing
begin

text \<open>
  The fb-cpp twins that measure: \<open>stmt_cache.cpp\<close>, \<open>request_lifecycle.cpp\<close> and
  \<open>embedded_demo.cpp\<close> from \<open>samples/fb-cpp\<close>, on the clock and the \<open>double\<close>s of \<open>Samples_Timing\<close>.
\<close>


section \<open>stmt_cache.cpp\<close>

definition fc_stmt_cache_HEAVY :: string where
  \<open>fc_stmt_cache_HEAVY = (''SELECT COUNT(*) FROM t a'' @
  '' JOIN t b ON a.id = b.id JOIN t c ON b.id = c.id'' @
  '' JOIN t d ON c.id = d.id JOIN t e ON d.id = e.id'' @
  '' JOIN t f ON e.id = f.id WHERE a.id > 0'')\<close>

definition fc_stmt_cache_prepareOnce :: "nat \<Rightarrow> nat \<Rightarrow> string \<Rightarrow> ('s, unit) prog" where
  \<open>fc_stmt_cache_prepareOnce att tra sql = with_Statement att tra sql [] (\<lambda>stmt. ret ())\<close>

text \<open>\<open>sql.replace(sql.find("> 0"), 3, "> " + std::to_string(i))\<close>\<close>

definition fc_stmt_cache_literal :: "nat \<Rightarrow> string option" where
  \<open>fc_stmt_cache_literal i =
     map_option (\<lambda>p. take p fc_stmt_cache_HEAVY @ ''> '' @ show_nat i @ drop (p + 3) fc_stmt_cache_HEAVY)
       (find_sub ''> 0'' fc_stmt_cache_HEAVY)\<close>

definition fc_stmt_cache_main :: "('s, int) prog" where
  \<open>fc_stmt_cache_main = bindP (fc_argOrDefault 1 ''inet://localhost//tmp/fbhandson/stmt_cache_fbcpp.fdb'') (\<lambda>database.
      try_fb (with_Client (\<lambda>client. with_attachOrCreate client database (\<lambda>att. seqP
       [with_Transaction att [] (\<lambda>setup. block
       [stmt_exec att setup (''RECREATE TABLE t (id INT NOT NULL PRIMARY KEY)''),
        fc_commitRetaining setup,
        stmt_exec att setup ((''EXECUTE BLOCK AS DECLARE i INT = 1; BEGIN WHILE (i <= 50) DO'' @
        '' BEGIN INSERT INTO t VALUES (:i); i = i + 1; END END'')),
        fc_commit setup])] (
      with_Transaction att [] (\<lambda>tra. seqP
       [fc_stmt_cache_prepareOnce att tra fc_stmt_cache_HEAVY] (
      bindP (ms (for_each [0..<100] (\<lambda>i. fc_stmt_cache_prepareOnce att tra fc_stmt_cache_HEAVY))) (\<lambda>t1.
      seqP
       [say (''1. identical text            '' @ rjust 3 (show_int 100) @ '' prepares: '' @
            rjust 6 (fixed 1 t1) @ '' ms  ('' @ fixed 2 (dbl (t1 / 100)) @
            '' ms/prepare) - hits'' @ nl)] (
      bindP (ms (for_each [0..<100] (\<lambda>i.
              fc_stmt_cache_prepareOnce att tra (fc_stmt_cache_HEAVY @ replicate (i + 1) (CHR '' ''))))) (\<lambda>t2.
      seqP
       [say (''2. + i trailing spaces       '' @ rjust 3 (show_int 100) @ '' prepares: '' @
            rjust 6 (fixed 1 t2) @ '' ms  ('' @ fixed 2 (dbl (t2 / 100)) @
            '' ms/prepare) - misses'' @ nl)] (
      bindP (ms (for_each [0..<100] (\<lambda>i. bindP (throwing ''basic_string::replace'' (fc_stmt_cache_literal i)) (\<lambda>sql.
      block
       [fc_stmt_cache_prepareOnce att tra sql])))) (\<lambda>t3.
      seqP
       [say (''3. distinct literal          '' @ rjust 3 (show_int 100) @ '' prepares: '' @
            rjust 6 (fixed 1 t3) @ '' ms  ('' @ fixed 2 (dbl (t3 / 100)) @
            '' ms/prepare) - misses'' @ nl)] (
      bindP (collect [0..<100] (\<lambda>i. with_Transaction att [] (\<lambda>ddl. seqP
       [stmt_exec att ddl (''RECREATE TABLE unrelated (x INT)''),
        fc_commit ddl] (
      ms (fc_stmt_cache_prepareOnce att tra fc_stmt_cache_HEAVY))))) (\<lambda>ts.
      let t4 = sum_dbl ts in
      returning
       [say (''4. identical text after DDL  '' @ rjust 3 (show_int 100) @ '' prepares: '' @
            rjust 6 (fixed 1 t4) @ '' ms  ('' @ fixed 2 (dbl (t4 / 100)) @
            '' ms/prepare) - misses'' @ nl),
        fc_commit tra]
       0))))))))))))) fc_report)\<close>


section \<open>request_lifecycle.cpp\<close>

definition fc_request_lifecycle_sample :: "nat \<Rightarrow> ('s, Stats) prog" where
  \<open>fc_request_lifecycle_sample att = with_Transaction att [] (\<lambda>t. with_Statement att t ((''SELECT i.MON$PAGE_FETCHES, i.MON$PAGE_MARKS, i.MON$PAGE_WRITES,'' @
    ''       r.MON$RECORD_INSERTS'' @
    '' FROM MON$ATTACHMENTS a'' @
    '' JOIN MON$IO_STATS i ON a.MON$STAT_ID = i.MON$STAT_ID'' @
    '' JOIN MON$RECORD_STATS r ON a.MON$STAT_ID = r.MON$STAT_ID'' @
    '' WHERE a.MON$ATTACHMENT_ID = CURRENT_CONNECTION'')) [] (\<lambda>stmt. seqP
       [ignore (fc_execute stmt t)] (
      bindP (int_or FInt64 stmt 0 0) (\<lambda>n0.
      bindP (int_or FInt64 stmt 1 0) (\<lambda>n1.
      bindP (int_or FInt64 stmt 2 0) (\<lambda>n2.
      bindP (int_or FInt64 stmt 3 0) (\<lambda>n3.
      returning
       [fc_commit t]
       (\<lparr>fetches = n0, marks = n1, writes = n2, recIns = n3\<rparr>))))))))\<close>

definition fc_request_lifecycle_main :: "('s, int) prog" where
  \<open>fc_request_lifecycle_main = bindP (fc_argOrDefault 1 ''inet://localhost//tmp/fbhandson/request_lifecycle_fbcpp.fdb'') (\<lambda>database.
      try_fb (with_Client (\<lambda>client. with_attachOrCreate client database (\<lambda>att. seqP
       [try_Database (with_Transaction att [] (\<lambda>t. block
       [stmt_exec att t (''DROP TABLE trace_demo''),
        fc_commit t])) (\<lambda>_. ret ())] (
      bindP (fc_request_lifecycle_sample att) (\<lambda>s0.
      with_Transaction att [] (\<lambda>tra. bindP (steady_now) (\<lambda>t0.
      with_Statement att tra ((''CREATE TABLE trace_demo (id INT NOT NULL PRIMARY KEY,'' @
      '' name VARCHAR(30))'')) [] (\<lambda>stmt. bindP (since t0) (\<lambda>c1.
      bindP (stmtType stmt) (\<lambda>c2.
      seqP
       [say (''prepare  '' @ rjust 6 (fixed 2 c1) @ '' ms   statement type = '' @
            (if c2 = ''DDL'' then ''DDL'' else ''?'') @ nl)] (
      bindP (steady_now) (\<lambda>t1.
      seqP
       [ignore (fc_execute stmt tra)] (
      bindP (since t1) (\<lambda>tExec.
      bindP (fc_request_lifecycle_sample att) (\<lambda>s1.
      bindP (long_sub (recIns s1) (recIns s0)) (\<lambda>c3.
      bindP (long_sub (marks s1) (marks s0)) (\<lambda>c4.
      seqP
       [say (''execute  '' @ rjust 6 (fixed 2 tExec) @ '' ms   catalog record inserts: +'' @
            show_int c3 @ '', page marks: +'' @ show_int c4 @ nl)] (
      with_Statement att tra ((''SELECT COUNT(*) FROM RDB$RELATIONS'' @
      '' WHERE RDB$RELATION_NAME = 'TRACE_DEMO'' @ [CHR 0x27])) [] (\<lambda>count. seqP
       [ignore (fc_execute count tra)] (
      bindP (int_or FInt64 count 0 0) (\<lambda>c1.
      seqP
       [say (''         in this tx:  RDB$RELATIONS has TRACE_DEMO = '' @ show_int c1 @ nl)] (
      bindP (steady_now) (\<lambda>t2.
      seqP
       [fc_commit tra] (
      bindP (since t2) (\<lambda>tCommit.
      bindP (fc_request_lifecycle_sample att) (\<lambda>s2.
      bindP (long_sub (writes s2) (writes s1)) (\<lambda>c2.
      bindP (long_sub (fetches s2) (fetches s0)) (\<lambda>c3.
      returning
       [say (''commit   '' @ rjust 6 (fixed 2 tCommit) @ '' ms   page writes: +'' @
            show_int c2 @ ''  (fetches: +'' @ show_int c3 @ '' over the whole trip)'' @ nl),
        say (''done.'' @ nl)]
       0)))))))))))))))))))))))))))) fc_report)\<close>


section \<open>embedded_demo.cpp\<close>

definition fc_embedded_demo_mapped :: "string \<Rightarrow> ('s, bool) prog" where
  \<open>fc_embedded_demo_mapped frag = bindP (ask_void (Os (ReadFile ''/proc/self/maps''))) (\<lambda>f.
      ret (\<not> r_null f \<and> mapped_in (chars (r_b f)) frag))\<close>

definition fc_embedded_demo_printMapped :: "string \<Rightarrow> ('s, unit) prog" where
  \<open>fc_embedded_demo_printMapped when = bindP (fc_embedded_demo_mapped (''libfbclient'')) (\<lambda>c1.
      bindP (fc_embedded_demo_mapped (''libEngine14'')) (\<lambda>c2.
      block
       [say (when @ '': libfbclient mapped='' @ (if c1 then ''yes'' else ''no'') @
            '', libEngine14 mapped='' @ (if c2 then ''yes'' else ''no'') @ nl)]))\<close>

definition fc_embedded_demo_attachMs :: "nat \<Rightarrow> string \<Rightarrow> ('s, double) prog" where
  \<open>fc_embedded_demo_attachMs client database = bindP (steady_now) (\<lambda>t0.
      seqP
       [bindP (fc_defaultOptions) (\<lambda>opts.
      with_Attachment client database opts (\<lambda>att. ret ()))] (
      bindP (steady_now) (\<lambda>t1.
      ret (elapsed t0 t1))))\<close>

definition fc_embedded_demo_main :: "('s, int) prog" where
  \<open>fc_embedded_demo_main = bindP (fc_argOrDefault 1 ''/tmp/fbhandson/embedded_fbcpp.fdb'') (\<lambda>localDb.
      bindP (fc_argOrDefault 2 ''inet://localhost/employee'') (\<lambda>remoteDb.
      try_fb (seqP
       [fc_embedded_demo_printMapped (''before Client{}    '')] (
      with_Client (\<lambda>client. seqP
       [fc_embedded_demo_printMapped (''after  Client{}    '')] (
      with_attachOrCreate client localDb (\<lambda>att. seqP
       [fc_embedded_demo_printMapped (''after  local attach''),
        say nl] (
      with_Transaction att [] (\<lambda>tra. seqP
       [try_Database (block
       [att_execute att tra (''drop table gadgets'')]) (\<lambda>_. ret ()),
        att_execute att tra (''create table gadgets (id int primary key, name varchar(20))''),
        fc_commitRetaining tra,
        att_execute att tra (''insert into gadgets values (1, 'sprocket')''),
        att_execute att tra (''insert into gadgets values (2, 'flange')''),
        att_execute att tra (''insert into gadgets values (3, 'grommet')''),
        fc_commitRetaining tra] (
      with_Statement att tra ((''select count(*), max(name), '' @
      ''       rdb$get_context('SYSTEM', 'NETWORK_PROTOCOL'), '' @
      ''       a.mon$server_pid '' @
      ''from gadgets, mon$attachments a '' @
      ''where a.mon$attachment_id = current_connection '' @
      ''group by 3, 4'')) [] (\<lambda>stmt. seqP
       [ignore (fc_execute stmt tra)] (
      bindP (int_or FInt64 stmt 0 0) (\<lambda>c1.
      bindP (str_or stmt 1 ''<null>'') (\<lambda>c2.
      bindP (str_or stmt 2 ''<null: in-process>'') (\<lambda>c3.
      seqP
       [say (''rows='' @ show_int c1 @ ''  max(name)='' @ c2 @ ''  NETWORK_PROTOCOL='' @ c3 @ nl)] (
      bindP (int_or FInt32 stmt 3 (- 1)) (\<lambda>c4.
      bindP (getpid) (\<lambda>c5.
      seqP
       [say (''engine pid='' @ show_int c4 @ '', my pid='' @ show_int c5 @ '' '' @
            [CHR 0xE2, CHR 0x80, CHR 0x94] @ '' the 'server' is this process'' @ nl @ nl),
        fc_commit tra,
        ignore (fc_embedded_demo_attachMs client localDb),
        ignore (fc_embedded_demo_attachMs client remoteDb)] (
      bindP (collect [0..<5] (\<lambda>i. bindP (fc_embedded_demo_attachMs client localDb) (\<lambda>l.
      bindP (fc_embedded_demo_attachMs client remoteDb) (\<lambda>r.
      ret (l, r))))) (\<lambda>runs.
      let emb = sum_dbl (map fst runs) in
      let rem = sum_dbl (map snd runs) in
      returning
       [say (''attach+detach avg over '' @ show_int 5 @ '' runs:'' @ nl),
        say (''    embedded  '' @ ljust 38 (c_str localDb) @ '' '' @
            rjust 7 (fixed 2 (dbl (emb / 5))) @ '' ms'' @ nl),
        say (''    remote    '' @ ljust 38 (c_str remoteDb) @ '' '' @
            rjust 7 (fixed 2 (dbl (rem / 5))) @ '' ms'' @ nl),
        say (''done.'' @ nl)]
       0)))))))))))))))))) fc_report))\<close>


section \<open>Lifetimes and reports\<close>

lemma live_clock [live_rules]:
  "keeps (lives s) steady_now" "keeps (lives s) (since t0)" "keeps (lives s) (long_sub a b)"
  "keeps (lives s) f \<Longrightarrow> keeps (lives s) (ms f)"
  unfolding steady_now_def since_def long_sub_def ms_def os_int_def
  by (intro keeps_rules live_rules; simp)+

lemma live_fctiming [live_rules]:
  "(FAttachment, att) \<in> set s \<Longrightarrow> (FTransaction, tra) \<in> set s \<Longrightarrow> keeps (lives s) (fc_stmt_cache_prepareOnce att tra sql)"
  "(FAttachment, att) \<in> set s \<Longrightarrow> keeps (lives s) (fc_request_lifecycle_sample att)"
  "keeps (lives s) (fc_embedded_demo_mapped frag)"
  "keeps (lives s) (fc_embedded_demo_printMapped when)"
  "(FClient, client) \<in> set s \<Longrightarrow> keeps (lives s) (fc_embedded_demo_attachMs client database)"
  unfolding fc_stmt_cache_prepareOnce_def fc_request_lifecycle_sample_def fc_embedded_demo_mapped_def fc_embedded_demo_printMapped_def fc_embedded_demo_attachMs_def
  by (intro keeps_rules live_rules; simp add: uses_def)+

definition fctiming_mains :: "('s, int) prog list" where
  "fctiming_mains = [fc_stmt_cache_main, fc_request_lifecycle_main, fc_embedded_demo_main]"

lemmas fctiming_defs = fc_stmt_cache_main_def fc_request_lifecycle_main_def fc_embedded_demo_main_def

lemma fctiming_lives: "\<forall>m \<in> set fctiming_mains. keeps (lives s) m"
  unfolding fctiming_mains_def fctiming_defs list.set ball_simps
  by (intro conjI TrueI keeps_rules live_rules; simp add: uses_def)

lemma fctiming_reports: "\<forall>m \<in> set fctiming_mains. reports m"
  unfolding fctiming_mains_def fctiming_defs list.set ball_simps
  by (intro conjI reports_fc_arg reports_fc returns_rules TrueI)


section \<open>The texts of stmt_cache.cpp\<close>

text \<open>The twin prepares the same texts as \<open>samples/cpp/stmt_cache.cpp\<close>, so what
  \<open>Samples_Timing\<close> shows of them holds of it.\<close>

lemma fc_stmt_cache_HEAVY_eq: "fc_stmt_cache_HEAVY = HEAVY"
  by (simp add: fc_stmt_cache_HEAVY_def HEAVY_def)

lemma fc_stmt_cache_literal_eq: "fc_stmt_cache_literal = literal_of"
  by (rule ext) (simp add: fc_stmt_cache_literal_def literal_of_def fc_stmt_cache_HEAVY_eq)

end
