(* ===== verification/Fbcpp_Sessions.thy ===== *)
theory Fbcpp_Sessions
  imports Fbcpp_Kit
begin

text \<open>
  The fb-cpp twins about sessions, the catalog and monitoring: \<open>metadata_cache.cpp\<close>,
  \<open>gc_sweep.cpp\<close>, \<open>security.cpp\<close>, \<open>catalog.cpp\<close>, \<open>intl.cpp\<close> and \<open>memory_pools.cpp\<close> from
  \<open>samples/fb-cpp\<close>.
\<close>


section \<open>metadata_cache.cpp\<close>

definition fc_metadata_cache_tryQuery :: "string \<Rightarrow> nat \<Rightarrow> nat \<Rightarrow> string \<Rightarrow> ('s, unit) prog" where
  \<open>fc_metadata_cache_tryQuery who att tra sql = block
       [try_Database (with_Statement att tra (sql) [] (\<lambda>stmt. seqP
       [ignore (fc_execute stmt tra)] (
      bindP (str_or stmt 0 ''<null>'') (\<lambda>c1.
      block
       [say (who @ '': '' @ sql @ '' -> '' @ c1 @ nl)])))) (\<lambda>e. bindP (what e) (\<lambda>msg.
      let msg = map (\<lambda>c. if c = CHR 0x0A then CHR '' '' else c) msg in
      block
       [say (who @ '': '' @ sql @ '' -> ERROR: '' @ (c_str msg) @ nl)]))]\<close>

definition fc_metadata_cache_main :: "('s, int) prog" where
  \<open>fc_metadata_cache_main = bindP (fc_argOrDefault 1 ''inet://localhost//tmp/fbhandson/mdc_fbcpp.fdb'') (\<lambda>database.
      try_fb (with_Client (\<lambda>client. with_attachOrCreate client database (\<lambda>A. bindP (fc_defaultOptions) (\<lambda>opts.
      with_Attachment client database opts (\<lambda>B. seqP
       [with_Transaction A [] (\<lambda>t. block
       [att_execute A t (''recreate table t (a integer)''),
        fc_commit t]),
        with_Transaction A [] (\<lambda>t. block
       [att_execute A t (''insert into t values (1)''),
        fc_commit t]),
        say (''== 1. uncommitted ALTER: visible to creator only =='' @ nl)] (
      with_Transaction A [] (\<lambda>aDdl. seqP
       [att_execute A aDdl (''alter table t add e integer''),
        fc_metadata_cache_tryQuery (''A (same tx)  '') A aDdl (''select e from t''),
        with_Transaction B [] (\<lambda>bTra. block
       [fc_metadata_cache_tryQuery (''B            '') B bTra (''select e from t''),
        fc_commit bTra]),
        say (nl @ ''== 2. committed ALTER: seen even inside B's open SNAPSHOT tx =='' @ nl)] (
      with_Transaction B [SetIsolationLevel ''SNAPSHOT''] (\<lambda>bSnap. seqP
       [fc_metadata_cache_tryQuery (''B (snapshot) '') B bSnap (''select count(*) from t''),
        fc_commit aDdl,
        with_Transaction A [] (\<lambda>t. block
       [att_execute A t (''alter table t add d integer''),
        fc_commit t]),
        fc_metadata_cache_tryQuery (''B (same  tx) '') B bSnap (''select d from t''),
        say (''   (records are snapshot-isolated; metadata is read-committed '' @
            [CHR 0xE2, CHR 0x80, CHR 0x94] @ nl @
            ''    the new statement was prepared against the chain's current head)'' @ nl),
        fc_commit bSnap,
        say (nl @ ''== 3. two uncommitted DDLs on one object =='' @ nl)] (
      with_Transaction A [] (\<lambda>aDdl2. seqP
       [att_execute A aDdl2 (''alter table t add f integer'')] (
      with_Transaction B [] (\<lambda>bTra. seqP
       [try_Database (block
       [att_execute B bTra (''alter table t add g integer''),
        say (''B: ALTER unexpectedly succeeded'' @ nl)]) (\<lambda>e. bindP (getErrorCode e) (\<lambda>c1.
      bindP (what e) (\<lambda>c2.
      block
       [say (''B: ALTER failed (gds '' @ show_int c1 @ ''):'' @ nl @ c2 @ nl)]))),
        fc_rollback bTra,
        fc_rollback aDdl2,
        say (nl @ ''== 4. RDB$FORMATS after the committed DDL =='' @ nl)] (
      with_Transaction A [] (\<lambda>t. with_Statement A t ((''select count(*) from rdb$formats f '' @
      ''join rdb$relations r on f.rdb$relation_id = r.rdb$relation_id '' @
      ''where r.rdb$relation_name = 'T'' @ [CHR 0x27])) [] (\<lambda>cnt. seqP
       [ignore (fc_execute cnt t)] (
      bindP (int_or FInt64 cnt 0 0) (\<lambda>c1.
      seqP
       [say (''formats stored for T: '' @ show_int c1 @
            '' (T has lived through that many shapes)'' @ nl)] (
      with_Statement A t (''select a, e, d from t'') [] (\<lambda>row. returning
       [say (''A E      D'' @ nl @ ''- ------ ------'' @ nl),
        for_rows row t (bindP (str_or row 0 ''<null>'') (\<lambda>c1.
      bindP (str_or row 1 ''<null>'') (\<lambda>c2.
      bindP (str_or row 2 ''<null>'') (\<lambda>c3.
      block
       [say (ljust 1 c1 @ '' '' @ ljust 6 c2 @ '' '' @ ljust 6 c3 @ nl)])))),
        fc_commit t,
        say (''done.'' @ nl)]
       0)))))))))))))))))))) fc_report)\<close>


section \<open>gc_sweep.cpp\<close>

definition fc_gc_sweep_DEFAULT_DB :: string where
  \<open>fc_gc_sweep_DEFAULT_DB = ''inet://localhost//tmp/fbhandson/gc_sweep_fbcpp.fdb''\<close>

definition fc_gc_sweep_showStats :: "nat \<Rightarrow> string \<Rightarrow> ('s, unit) prog" where
  \<open>fc_gc_sweep_showStats att label = with_Transaction att [] (\<lambda>t. bindP (first_row att t ((''select r.MON$RECORD_UPDATES, r.MON$RECORD_IMGC, '' @
    ''       r.MON$RECORD_PURGES, r.MON$RECORD_EXPUNGES, '' @
    ''       r.MON$BACKVERSION_READS '' @
    ''from MON$RECORD_STATS r join MON$DATABASE d using (MON$STAT_ID)'')) []) (\<lambda>s0.
      bindP (throwing ''bad optional access'' s0) (\<lambda>s.
      block
       [say (ljust 34 label @ '' upd='' @ ljust 4 (show_int (member s 0)) @ '' imgc='' @
            ljust 3 (show_int (member s 1)) @ '' purges='' @ ljust 3 (show_int (member s 2)) @
            '' expunges='' @ ljust 3 (show_int (member s 3)) @ '' backreads='' @
            show_int (member s 4) @ nl),
        fc_commit t])))\<close>

definition fc_gc_sweep_showCounters :: "nat \<Rightarrow> string \<Rightarrow> ('s, unit) prog" where
  \<open>fc_gc_sweep_showCounters att label = with_Transaction att [] (\<lambda>t. bindP (first_row att t ((''select MON$OLDEST_TRANSACTION, MON$OLDEST_ACTIVE, MON$OLDEST_SNAPSHOT, '' @
    ''       MON$NEXT_TRANSACTION, MON$SWEEP_INTERVAL from MON$DATABASE'')) []) (\<lambda>c0.
      bindP (throwing ''bad optional access'' c0) (\<lambda>c.
      block
       [say (ljust 34 label @ '' OIT='' @ show_int (member c 0) @ '' OAT='' @
            show_int (member c 1) @ '' OST='' @ show_int (member c 2) @ '' Next='' @
            show_int (member c 3) @ '' (sweep interval '' @ show_int (member c 4) @ '')'' @
            nl),
        fc_commit t])))\<close>

definition fc_gc_sweep_readVal :: "nat \<Rightarrow> nat \<Rightarrow> ('s, int) prog" where
  \<open>fc_gc_sweep_readVal att t = scalar_int_or FInt32 att t (''select val from gctest where id = 1'') (- 1)\<close>

definition fc_gc_sweep_main :: "('s, int) prog" where
  \<open>fc_gc_sweep_main = bindP (fc_argOrDefault 1 fc_gc_sweep_DEFAULT_DB) (\<lambda>database.
      try_fb (with_Client (\<lambda>client. with_attachOrCreate client database (\<lambda>writer. bindP (fc_defaultOptions) (\<lambda>opts.
      with_Attachment client database opts (\<lambda>pinner. seqP
       [with_Transaction writer [] (\<lambda>ddl. seqP
       [try_Database (block
       [att_execute writer ddl (''drop table gctest'')]) (\<lambda>_. ret ()),
        fc_commit ddl] (
      with_Transaction writer [] (\<lambda>ddl2. seqP
       [att_execute writer ddl2 (''create table gctest (id int primary key, val int)''),
        fc_commit ddl2] (
      with_Transaction writer [] (\<lambda>ins. block
       [att_execute writer ins (''insert into gctest values (1, 0)''),
        fc_commit ins])))))] (
      with_Transaction pinner [SetIsolationLevel ''SNAPSHOT''] (\<lambda>snap. bindP (fc_gc_sweep_readVal pinner snap) (\<lambda>c1.
      seqP
       [say (''pinned SNAPSHOT reads val = '' @ show_int c1 @ nl),
        fc_gc_sweep_showStats writer (''before updates:''),
        with_Transaction writer [] (\<lambda>prep. with_Statement writer prep (''update gctest set val = ? where id = 1'') [] (\<lambda>upd. block
       [fc_commit prep,
        for_each [1..<13] (\<lambda>i. with_Transaction writer [] (\<lambda>t. block
       [do_call (Fc (FcStmt upd (FcSetInt32 0 (int i)))),
        ignore (fc_execute upd t),
        fc_commit t]))])),
        fc_gc_sweep_showStats writer (''after 12 updates (snapshot open):'')] (
      bindP (fc_gc_sweep_readVal pinner snap) (\<lambda>c2.
      returning
       [say (''pinned SNAPSHOT still reads val = '' @ show_int c2 @ nl),
        fc_commit snap,
        with_Transaction writer [] (\<lambda>t. bindP (fc_gc_sweep_readVal writer t) (\<lambda>c1.
      block
       [say (''snapshot released; new reader sees val = '' @ show_int c1 @ nl),
        fc_commit t])),
        os_do (SleepMs 1500),
        fc_gc_sweep_showStats writer (''after release + scan + 1.5s:''),
        with_Transaction writer [] (\<lambda>t. seqP
       [att_execute writer t (''delete from gctest where id = 1''),
        fc_commit t] (
      with_Transaction writer [] (\<lambda>t2. block
       [ignore (fc_queryInt FInt64 writer t2 (''select count(*) from gctest'')),
        fc_commit t2]))),
        os_do (SleepMs 1500),
        fc_gc_sweep_showStats writer (''after DELETE + scan + 1.5s:''),
        fc_gc_sweep_showCounters writer (''header counters before rollback:''),
        with_Transaction writer [SetIsolationLevel ''SNAPSHOT'', SetNoAutoUndo True] (\<lambda>t. block
       [att_execute writer t (''insert into gctest values (2, 0)''),
        fc_rollback t]),
        fc_gc_sweep_showCounters writer (''after no_auto_undo rollback:''),
        say (''run 'gfix -sweep' (or wait for OAT-OIT > interval) to move the OIT past the stump.'' @
            nl)]
       0)))))))))) fc_report)\<close>


section \<open>security.cpp\<close>

definition fc_security_DSN :: string where
  \<open>fc_security_DSN = ''inet://localhost//tmp/fbhandson/security_fbcpp.fdb''\<close>

definition fc_security_TMP_USER :: string where
  \<open>fc_security_TMP_USER = ''FBCPP_USER''\<close>

definition fc_security_TMP_PASS :: string where
  \<open>fc_security_TMP_PASS = ''Hands0nPw''\<close>

definition fc_security_execIgnore :: "nat \<Rightarrow> string \<Rightarrow> ('s, unit) prog" where
  \<open>fc_security_execIgnore att sql = block
       [try_Database (with_Transaction att [] (\<lambda>t. block
       [att_execute att t (sql),
        fc_commit t])) (\<lambda>_. ret ())]\<close>

definition fc_security_whoAmI :: "nat \<Rightarrow> nat \<Rightarrow> string \<Rightarrow> ('s, unit) prog" where
  \<open>fc_security_whoAmI att tra label = with_Statement att tra ((''select trim(mon$user), mon$auth_method, mon$wire_crypt_plugin, mon$remote_protocol,'' @
    ''       trim(coalesce(current_role, 'NONE'))'' @
    ''  from mon$attachments where mon$attachment_id = current_connection'')) [] (\<lambda>s. seqP
       [ignore (fc_execute s tra)] (
      bindP (str_or s 0 ''?'') (\<lambda>c1.
      bindP (str_or s 1 ''?'') (\<lambda>c2.
      bindP (str_or s 2 ''?'') (\<lambda>c3.
      bindP (str_or s 3 ''?'') (\<lambda>c4.
      bindP (str_or s 4 ''?'') (\<lambda>c5.
      block
       [say (ljust 22 label @ '' user='' @ c1 @ '' auth='' @ c2 @ '' wirecrypt='' @ c3 @
            '' protocol='' @ c4 @ '' role='' @ c5 @ nl)])))))))\<close>

definition fc_security_visibleAttachments :: "nat \<Rightarrow> nat \<Rightarrow> ('s, int) prog" where
  \<open>fc_security_visibleAttachments att tra = scalar_int_or FInt64 att tra (''select count(*) from mon$attachments where mon$system_flag = 0'') (- 1)\<close>

definition fc_security_main :: "('s, int) prog" where
  \<open>fc_security_main = try_fb (with_Client (\<lambda>client. with_attachOrCreate client fc_security_DSN (\<lambda>admin. seqP
       [with_Transaction admin [] (\<lambda>t. block
       [fc_security_whoAmI admin t (''admin attachment:''),
        fc_commit t]),
        fc_security_execIgnore admin (''drop user FBCPP_USER using plugin Srp''),
        fc_security_execIgnore admin (''drop role FBCPP_MONITOR''),
        with_Transaction admin [] (\<lambda>t. block
       [att_execute admin t (''create user FBCPP_USER password 'Hands0nPw' using plugin Srp''),
        fc_commit t]),
        with_Transaction admin [] (\<lambda>t. block
       [att_execute admin t (''create role FBCPP_MONITOR set system privileges to MONITOR_ANY_ATTACHMENT''),
        att_execute admin t (''grant FBCPP_MONITOR to user FBCPP_USER''),
        fc_commit t])] (
      with_Transaction admin [] (\<lambda>tra. seqP
       [say (nl @ ''SEC$USERS (the security database, through the virtual view):'' @ nl)] (
      with_Statement admin tra ((''select trim(sec$user_name), trim(sec$plugin), sec$admin'' @
      ''  from sec$users order by 1'')) [] (\<lambda>users. seqP
       [say (''    '' @ ljust 16 (''USER'') @ '' '' @ ljust 8 (''PLUGIN'') @ '' '' @ (''ADMIN'') @ nl),
        for_rows users tra (bindP (str_or users 0 ''?'') (\<lambda>c1.
      bindP (str_or users 1 ''?'') (\<lambda>c2.
      bindP (bool_or users 2 False) (\<lambda>c3.
      block
       [say (''    '' @ ljust 16 c1 @ '' '' @ ljust 8 c2 @ '' '' @
            (if c3 then ''TRUE'' else ''FALSE'') @ nl)]))))] (
      bindP (fc_security_visibleAttachments admin tra) (\<lambda>c1.
      returning
       [say (nl @ ''admin sees '' @ show_int c1 @ '' user attachments in MON$ATTACHMENTS'' @ nl),
        with_Attachment client fc_security_DSN [SetUserName fc_security_TMP_USER, SetPassword fc_security_TMP_PASS] (\<lambda>plain. with_Transaction plain [] (\<lambda>t2. seqP
       [fc_security_whoAmI plain t2 (''user, no role:'')] (
      bindP (fc_security_visibleAttachments plain t2) (\<lambda>c1.
      block
       [say (''  -> sees '' @ show_int c1 @ '' attachment(s): only its own'' @ nl),
        fc_commit t2])))),
        with_Attachment client fc_security_DSN [SetUserName fc_security_TMP_USER, SetPassword fc_security_TMP_PASS, SetRole ''FBCPP_MONITOR''] (\<lambda>monitor. with_Transaction monitor [] (\<lambda>t3. seqP
       [fc_security_whoAmI monitor t3 (''user + role:'')] (
      bindP (fc_security_visibleAttachments monitor t3) (\<lambda>c1.
      block
       [say (''  -> sees '' @ show_int c1 @ '' attachments: MONITOR_ANY_ATTACHMENT at work'' @ nl),
        fc_commit t3])))),
        say (nl @ ''failed login (wrong password) produces:'' @ nl),
        try_Database (with_Attachment client fc_security_DSN [SetUserName fc_security_TMP_USER, SetPassword ''wrong-password''] (\<lambda>bad. ret ())) (\<lambda>e. bindP (getErrorCode e) (\<lambda>c1.
      bindP (what e) (\<lambda>c2.
      block
       [say (''    gds '' @ show_int c1 @ '' (isc_login):'' @ nl @ ''    '' @ c2 @ nl)]))),
        fc_commit tra,
        with_Transaction admin [] (\<lambda>t. block
       [att_execute admin t (''drop user FBCPP_USER using plugin Srp''),
        att_execute admin t (''drop role FBCPP_MONITOR''),
        fc_commit t]),
        say (nl @ ''temporary user and role dropped. done.'' @ nl)]
       0))))))))) fc_report\<close>


section \<open>catalog.cpp\<close>

text \<open>One line of \<open>printQuery\<close>: a blank between two columns, a newline after the last.\<close>

definition fc_catalog_line :: "nat list \<Rightarrow> string list \<Rightarrow> string" where
  \<open>fc_catalog_line w vs = concat (map (\<lambda>c. ljust (w ! c) (c_str (vs ! c)) @
      (if c + 1 < length w then '' '' else nl)) [0..<length w])\<close>

text \<open>The text \<open>printQuery\<close> prints; the widths are those of \<open>fb_sample.h\<close>, with \<open>r[c]\<close> checked.\<close>

definition fc_catalog_table :: "Table \<Rightarrow> string option" where
  \<open>fc_catalog_table t = map_option (\<lambda>w. fc_catalog_line w (names t) @
      fc_catalog_line w (map (\<lambda>n. replicate n (CHR ''-'')) w) @
      concat (map (fc_catalog_line w) (rows t)))
    (all_some (map (column_width t) [0..<length (names t)]))\<close>

definition fc_catalog_printQuery :: "nat \<Rightarrow> nat \<Rightarrow> string \<Rightarrow> string list \<Rightarrow> ('s, unit) prog" where
  \<open>fc_catalog_printQuery att tra sql columns = with_Statement att tra sql [] (\<lambda>stmt. bindP (fetch_rows stmt tra (length columns)) (\<lambda>rs.
      bindP (checked ''vector index'' (fc_catalog_table \<lparr>names = columns, rows = rs\<rparr>)) (\<lambda>text.
      block
       [say text])))\<close>

definition fc_catalog_queryValue :: "nat \<Rightarrow> nat \<Rightarrow> string \<Rightarrow> ('s, string) prog" where
  \<open>fc_catalog_queryValue att tra sql = with_Statement att tra (sql) [] (\<lambda>stmt. seqP
       [ignore (fc_execute stmt tra)] (
      string_or stmt 0 ''<null>''))\<close>

definition fc_catalog_hdrPages :: "byte list \<Rightarrow> nat" where
  \<open>fc_catalog_hdrPages f = (case le_read 4 f 28 of Some n \<Rightarrow> n | None \<Rightarrow> 0)\<close>

definition fc_catalog_main :: "('s, int) prog" where
  \<open>fc_catalog_main = bindP (fc_argOrDefault 1 ''inet://localhost//tmp/fbhandson/catalog_fbcpp.fdb'') (\<lambda>database.
      bindP (fc_argOrDefault 2 ''/tmp/fbhandson/catalog_fbcpp.fdb'') (\<lambda>localFile.
      try_fb (with_Client (\<lambda>client. seqP
       [try_FbCpp (bindP (fc_defaultOptions) (\<lambda>opts.
      with_Attachment client database opts (\<lambda>old. block
       [do_call (Fc (FcAtt old FcDropDatabase))]))) (\<lambda>_. ret ())] (
      bindP (fc_defaultOptions) (\<lambda>opts.
      with_Attachment client database (opts @ [SetCreateDatabase True]) (\<lambda>att. with_Transaction att [] (\<lambda>tra. seqP
       [say (''-- 1. fixed relation ids (relations.h declaration order) --'' @ nl),
        fc_catalog_printQuery att tra ((''select rdb$relation_id, trim(rdb$relation_name) '' @
      ''from rdb$relations where rdb$relation_id in (0, 1, 2, 6) order by 1'')) [''ID'', ''NAME''],
        say (nl @
            ''-- 2. RDB$PAGES describing relation 0 (itself) and relation 6 (RDB$RELATIONS) --'' @
            nl),
        fc_catalog_printQuery att tra ((''select rdb$page_number, rdb$relation_id, rdb$page_sequence, rdb$page_type '' @
      ''from rdb$pages where rdb$relation_id in (0, 6) '' @
      ''order by rdb$relation_id, rdb$page_type, rdb$page_number'')) [''RDB$PAGE_NUMBER'', ''RDB$RELATION_ID'', ''RDB$PAGE_SEQUENCE'', ''RDB$PAGE_TYPE'']] (
      bindP (ask_void (Os (ReadFile localFile))) (\<lambda>f.
      seqP
       [(if r_null f then ret () else
              say (nl @ ''hdr_PAGES (page 0, offset 28) = '' @
            show_nat (fc_catalog_hdrPages (r_b f)) @
            ''  <- matches the (relation 0, type 4) row above'' @ nl)),
        say (nl @ ''-- 3. formats as code: zero stored formats, yet a full catalog --'' @ nl),
        fc_catalog_printQuery att tra ((''select (select count(*) from rdb$formats), '' @
      ''       (select count(*) from rdb$relations where rdb$system_flag = 1), '' @
      ''       (select count(*) from rdb$relation_fields r join rdb$relations rel '' @
      ''          on r.rdb$relation_name = rel.rdb$relation_name '' @
      ''          and r.rdb$schema_name = rel.rdb$schema_name '' @
      ''        where rel.rdb$system_flag = 1) '' @
      ''from rdb$database'')) [''FORMATS_ROWS'', ''SYS_RELATIONS'', ''SYS_FIELDS''],
        fc_commit tra,
        say (nl @ ''-- 4. user DDL writes formats into the catalog --'' @ nl),
        with_Transaction att [] (\<lambda>t. block
       [att_execute att t (''create table t1 (a integer)''),
        fc_commit t]),
        with_Transaction att [] (\<lambda>t. block
       [att_execute att t (''alter table t1 add b varchar(10)''),
        fc_commit t])] (
      with_Transaction att [] (\<lambda>tra2. seqP
       [fc_catalog_printQuery att tra2 ((''select rdb$relation_id, rdb$format, octet_length(rdb$descriptor) '' @
      ''from rdb$formats order by rdb$relation_id, rdb$format'')) [''RDB$RELATION_ID'', ''RDB$FORMAT'', ''DESCRIPTOR_BYTES'']] (
      bindP (fc_catalog_queryValue att tra2 ((''select rdb$relation_id from rdb$relations '' @
        ''where rdb$relation_name = 'T1'' @ [CHR 0x27]))) (\<lambda>c1.
      returning
       [say (nl @ ''(relation id of T1: '' @ (c_str c1) @ '' '' @
            [CHR 0xE2, CHR 0x80, CHR 0x94] @
            '' the first user id; system tables still contribute no rows)'' @ nl),
        fc_commit tra2,
        say (''done.'' @ nl)]
       0)))))))))))) fc_report))\<close>


section \<open>intl.cpp\<close>

definition fc_intl_one :: "nat \<Rightarrow> nat \<Rightarrow> string \<Rightarrow> ('s, string) prog" where
  \<open>fc_intl_one att tra sql = with_Statement att tra (sql) [] (\<lambda>stmt. seqP
       [ignore (fc_execute stmt tra)] (
      string_or stmt 0 ''<null>''))\<close>

definition fc_intl_hexdump :: "string \<Rightarrow> string \<Rightarrow> ('s, unit) prog" where
  \<open>fc_intl_hexdump label v = block
       [say (''  '' @ ljust 16 label @ '' len='' @ rjust 2 (show_nat (length v)) @ ''  ''),
        for_each v (\<lambda>c. block
       [say (zjust 2 (show_HEX (of_char c)) @ '' '')]),
        say (''  "'' @ (c_str v) @ ''"'' @ nl)]\<close>

text \<open>The immediately invoked lambda that attaches or creates.\<close>

definition fc_intl_attach :: "nat \<Rightarrow> string \<Rightarrow> ('s, nat) prog" where
  \<open>fc_intl_attach client database =
    try_FbCpp (bindP (fc_defaultOptions) (\<lambda>o1.
      handle_of (Fc (FcAttachment client database (o1 @ [SetConnectionCharSet ''UTF8'']))))) (\<lambda>e. bindP (fc_defaultOptions) (\<lambda>o2.
      handle_of (Fc (FcAttachment client database (o2 @ [SetConnectionCharSet ''UTF8'', SetCreateDatabase True])))))\<close>

definition fc_intl_main :: "('s, int) prog" where
  \<open>fc_intl_main = bindP (fc_argOrDefault 1 ''inet://localhost//tmp/fbhandson/intl_fbcpp.fdb'') (\<lambda>database.
      try_fb (with_Client (\<lambda>client. fc_scope FAttachment (fc_intl_attach client database) (\<lambda>att. seqP
       [with_Transaction att [] (\<lambda>ddl. block
       [try_Database (block
       [stmt_exec att ddl (''DROP TABLE t'')]) (\<lambda>_. ret ()),
        stmt_exec att ddl ((''CREATE TABLE t ('' @
        ''  name_ci_ai VARCHAR(30) CHARACTER SET UTF8 COLLATE UNICODE_CI_AI,'' @
        ''  name_bin   VARCHAR(30) CHARACTER SET UTF8 COLLATE UCS_BASIC,'' @
        ''  name_win   VARCHAR(30) CHARACTER SET WIN1252)'')),
        fc_commit ddl])] (
      with_Transaction att [] (\<lambda>tra. seqP
       [for_each [(''Caf'' @ [CHR 0xC3, CHR 0xA9]), ''CAFE'', ''cafe''] (\<lambda>v. block
       [stmt_exec att tra (((''INSERT INTO t VALUES ('' @ [CHR 0x27]) @ v @ ([CHR 0x27] @ '','' @ [CHR 0x27]) @ v @ ([CHR 0x27] @ '','' @ [CHR 0x27]) @ v @ ([CHR 0x27] @ '')'')))])] (
      bindP (fc_intl_one att tra ((''SELECT COUNT(*) FROM t WHERE name_ci_ai = 'cafe'' @ [CHR 0x27]))) (\<lambda>c1.
      seqP
       [say (''rows matching 'cafe' with UNICODE_CI_AI : '' @ (c_str c1) @ nl)] (
      bindP (fc_intl_one att tra ((''SELECT COUNT(*) FROM t WHERE name_bin = 'cafe'' @ [CHR 0x27]))) (\<lambda>c2.
      seqP
       [say (''rows matching 'cafe' with UCS_BASIC     : '' @ (c_str c2) @ nl)] (
      bindP (fc_intl_one att tra ((''SELECT UPPER('caf'' @ [CHR 0xC3, CHR 0xA9] @ '' '' @ [CHR 0xC3, CHR 0xA8] @ [CHR 0xC3, CHR 0xB1] @ '' '' @ [CHR 0xC3, CHR 0x9F] @ [CHR 0x27] @ '') FROM RDB$DATABASE''))) (\<lambda>c3.
      seqP
       [say (''UPPER('caf'' @ [CHR 0xC3, CHR 0xA9] @ '' '' @ [CHR 0xC3, CHR 0xA8] @
            [CHR 0xC3, CHR 0xB1] @ '' '' @ [CHR 0xC3, CHR 0x9F] @ [CHR 0x27] @
            '')                      : '' @ (c_str c3) @ nl @ nl),
        say ''ORDER BY name_ci_ai: '',
        with_Statement att tra (''SELECT name_ci_ai FROM t ORDER BY name_ci_ai'') [] (\<lambda>s. block
       [for_rows s tra (bindP (str_deref s 0) (\<lambda>c1.
      block
       [say (c1 @ ''  '')]))]),
        say (nl @ ''ORDER BY name_bin  : ''),
        with_Statement att tra (''SELECT name_bin FROM t ORDER BY name_bin'') [] (\<lambda>s. block
       [for_rows s tra (bindP (str_deref s 0) (\<lambda>c1.
      block
       [say (c1 @ ''  '')]))]),
        say (''   (binary: uppercase codepoints first)'' @ nl @ nl),
        fc_commit tra] (
      bindP (fc_defaultOptions) (\<lambda>opts.
      with_Attachment client database (opts @ [SetConnectionCharSet ''NONE'']) (\<lambda>none. returning
       [say (''SELECT name_win FROM t WHERE name_bin = 'Caf'' @ [CHR 0xC3, CHR 0xA9] @
            [CHR 0x27] @ '' '' @ [CHR 0xE2, CHR 0x80, CHR 0x94] @
            '' same row, two connections:'' @ nl),
        with_Transaction att [] (\<lambda>t1. bindP (fc_intl_one att t1 (''SELECT name_win FROM t WHERE name_bin = 'Caf'' @ [CHR 0xC3, CHR 0xA9] @ [CHR 0x27])) (\<lambda>c1.
      block
       [fc_intl_hexdump (''lc_ctype=UTF8:'') c1,
        fc_commit t1])),
        with_Transaction none [] (\<lambda>t2. bindP (fc_intl_one none t2 (''SELECT name_win FROM t WHERE name_bin = 'Caf'' @ [CHR 0xC3, CHR 0xA9] @ [CHR 0x27])) (\<lambda>c1.
      block
       [fc_intl_hexdump (''lc_ctype=NONE:'') c1,
        fc_commit t2])),
        say (''  -> the column stores E9 (WIN1252); the UTF8 connection receives the'' @ nl @
            ''     transliterated C3 A9, the NONE connection the raw stored byte.'' @ nl),
        say (nl @ ''done.'' @ nl)]
       0)))))))))))))) fc_report)\<close>


section \<open>memory_pools.cpp\<close>

definition fc_memory_pools_DEFAULT_DB :: string where
  \<open>fc_memory_pools_DEFAULT_DB = ''inet://localhost//tmp/fbhandson/memory_pools_fbcpp.fdb''\<close>

definition fc_memory_pools_levelSummary :: "nat \<Rightarrow> ('s, unit) prog" where
  \<open>fc_memory_pools_levelSummary att = with_Transaction att [] (\<lambda>t. with_Statement att t ((''select MON$STAT_GROUP, count(*), sum(MON$MEMORY_USED), '' @
    ''       sum(MON$MEMORY_ALLOCATED), '' @
    ''       count(nullif(MON$MEMORY_ALLOCATED, 0)) '' @
    ''from MON$MEMORY_USAGE group by 1 order by 1'')) [] (\<lambda>stmt. seqP
       [say (''stat_group (0=db 1=att 2=tra 3=stmt 5=cmp)  pools  used  allocated  with_own_extents'' @
            nl)] (
      bindP (outputDescriptors stmt) (\<lambda>cols.
      let cols_names = map (\<lambda>d. if d_alias d = [] then d_name d else d_alias d) cols in
      bindP (fetch_rows stmt t (length cols)) (\<lambda>rs.
      block
       [print \<lparr>names = cols_names, rows = rs\<rparr>,
        fc_commit t])))))\<close>

definition fc_memory_pools_poolRow :: "nat \<Rightarrow> string \<Rightarrow> string \<Rightarrow> int option \<Rightarrow> ('s, unit) prog" where
  \<open>fc_memory_pools_poolRow att label sql key = with_Transaction att [] (\<lambda>t. bindP (first_row att t sql (case key of Some i \<Rightarrow> [i] | None \<Rightarrow> [])) (\<lambda>r.
      block
       [(case r of Some u \<Rightarrow>
        say (''  '' @ ljust 24 label @ '' used='' @ ljust 10 (show_int (member u 0)) @
            '' allocated='' @ show_int (member u 1) @ nl) | None \<Rightarrow> ret ()),
        fc_commit t]))\<close>

definition fc_memory_pools_main :: "('s, int) prog" where
  \<open>fc_memory_pools_main = bindP (fc_argOrDefault 1 fc_memory_pools_DEFAULT_DB) (\<lambda>database.
      try_fb (with_Client (\<lambda>client. with_attachOrCreate client database (\<lambda>worker. bindP (fc_defaultOptions) (\<lambda>opts.
      with_Attachment client database opts (\<lambda>monitor. seqP
       [with_Transaction worker [] (\<lambda>t. seqP
       [att_execute worker t (''recreate table t (id int, pad varchar(200))''),
        fc_commit t] (
      with_Transaction worker [] (\<lambda>fill. block
       [att_execute worker fill ((''execute block as declare i int = 0; begin'' @
        ''  while (i < 3000) do begin'' @
        ''    insert into t values (:i, rpad('x', 200, 'x')); i = i + 1;'' @
        ''  end '' @
        ''end'')),
        fc_commit fill]))),
        say (''-- per-level summary (note used > 0 with allocated = 0: parent redirection)'' @ nl),
        fc_memory_pools_levelSummary monitor] (
      with_Transaction worker [] (\<lambda>t. bindP (fc_queryInt FInt64 worker t (''select current_connection from rdb$database'')) (\<lambda>att0.
      bindP (throwing ''bad optional access'' att0) (\<lambda>att.
      bindP (fc_queryInt FInt64 worker t (''select current_transaction from rdb$database'')) (\<lambda>tra0.
      bindP (throwing ''bad optional access'' tra0) (\<lambda>tra.
      let attSql = (''select MON$MEMORY_USED, MON$MEMORY_ALLOCATED from MON$MEMORY_USAGE '' @
      ''join MON$ATTACHMENTS using (MON$STAT_ID) where MON$ATTACHMENT_ID = ?'') in
      let traSql = (''select MON$MEMORY_USED, MON$MEMORY_ALLOCATED from MON$MEMORY_USAGE '' @
      ''join MON$TRANSACTIONS using (MON$STAT_ID) where MON$TRANSACTION_ID = ?'') in
      returning
       [say (nl @ ''-- worker's pool chain (before the update)'' @ nl),
        fc_memory_pools_poolRow monitor (''database pool:'') ((''select MON$MEMORY_USED, MON$MEMORY_ALLOCATED from MON$MEMORY_USAGE '' @
      ''join MON$DATABASE using (MON$STAT_ID)'')) None,
        fc_memory_pools_poolRow monitor (''worker attachment pool:'') attSql (Some att),
        fc_memory_pools_poolRow monitor (''worker transaction pool:'') traSql (Some tra),
        att_execute worker t (''update t set pad = rpad('y', 200, 'y')''),
        say (nl @ ''-- after an uncommitted 3000-row UPDATE in that transaction'' @ nl),
        fc_memory_pools_poolRow monitor (''worker attachment pool:'') attSql (Some att),
        fc_memory_pools_poolRow monitor (''worker transaction pool:'') traSql (Some tra),
        fc_rollback t,
        say (nl @ ''-- after rollback (transaction pool destroyed with its undo log)'' @ nl),
        fc_memory_pools_poolRow monitor (''worker attachment pool:'') attSql (Some att)]
       0))))))))))) fc_report)\<close>


section \<open>Lifetimes and reports\<close>

lemma live_fcsess [live_rules]:
  "(FAttachment, att) \<in> set s \<Longrightarrow> (FTransaction, tra) \<in> set s \<Longrightarrow> keeps (lives s) (fc_metadata_cache_tryQuery who att tra sql)"
  "(FAttachment, att) \<in> set s \<Longrightarrow> keeps (lives s) (fc_gc_sweep_showStats att label)"
  "(FAttachment, att) \<in> set s \<Longrightarrow> keeps (lives s) (fc_gc_sweep_showCounters att label)"
  "(FAttachment, att) \<in> set s \<Longrightarrow> (FTransaction, t) \<in> set s \<Longrightarrow> keeps (lives s) (fc_gc_sweep_readVal att t)"
  "(FAttachment, att) \<in> set s \<Longrightarrow> keeps (lives s) (fc_security_execIgnore att sql)"
  "(FAttachment, att) \<in> set s \<Longrightarrow> (FTransaction, tra) \<in> set s \<Longrightarrow> keeps (lives s) (fc_security_whoAmI att tra label)"
  "(FAttachment, att) \<in> set s \<Longrightarrow> (FTransaction, tra) \<in> set s \<Longrightarrow> keeps (lives s) (fc_security_visibleAttachments att tra)"
  "(FAttachment, att) \<in> set s \<Longrightarrow> (FTransaction, tra) \<in> set s \<Longrightarrow> keeps (lives s) (fc_catalog_printQuery att tra sql columns)"
  "(FAttachment, att) \<in> set s \<Longrightarrow> (FTransaction, tra) \<in> set s \<Longrightarrow> keeps (lives s) (fc_catalog_queryValue att tra sql)"
  "(FAttachment, att) \<in> set s \<Longrightarrow> (FTransaction, tra) \<in> set s \<Longrightarrow> keeps (lives s) (fc_intl_one att tra sql)"
  "keeps (lives s) (fc_intl_hexdump label v)"
  "(FClient, client) \<in> set s \<Longrightarrow> makes s FAttachment (fc_intl_attach client database)"
  "(FAttachment, att) \<in> set s \<Longrightarrow> keeps (lives s) (fc_memory_pools_levelSummary att)"
  "(FAttachment, att) \<in> set s \<Longrightarrow> keeps (lives s) (fc_memory_pools_poolRow att label sql key)"
  unfolding fc_metadata_cache_tryQuery_def fc_gc_sweep_showStats_def fc_gc_sweep_showCounters_def fc_gc_sweep_readVal_def fc_security_execIgnore_def fc_security_whoAmI_def fc_security_visibleAttachments_def fc_catalog_printQuery_def fc_catalog_queryValue_def fc_intl_one_def fc_intl_hexdump_def fc_intl_attach_def fc_memory_pools_levelSummary_def fc_memory_pools_poolRow_def
  by (intro keeps_rules live_rules; simp add: uses_def)+

definition fcsess_mains :: "('s, int) prog list" where
  "fcsess_mains = [fc_metadata_cache_main, fc_gc_sweep_main, fc_security_main, fc_catalog_main, fc_intl_main, fc_memory_pools_main]"

lemmas fcsess_defs = fc_metadata_cache_main_def fc_gc_sweep_main_def fc_security_main_def fc_catalog_main_def fc_intl_main_def fc_memory_pools_main_def

lemma fcsess_lives: "\<forall>m \<in> set fcsess_mains. keeps (lives s) m"
  unfolding fcsess_mains_def fcsess_defs list.set ball_simps
  by (intro conjI TrueI keeps_rules live_rules; simp add: uses_def)

lemma fcsess_reports: "\<forall>m \<in> set fcsess_mains. reports m"
  unfolding fcsess_mains_def fcsess_defs list.set ball_simps
  by (intro conjI reports_fc_arg reports_fc returns_rules TrueI)

end
