(* ===== verification/Fbcpp_Types.thy ===== *)
theory Fbcpp_Types
  imports Fbcpp_Kit
begin

text \<open>
  The fb-cpp twins about types and errors: \<open>temporal.cpp\<close>, \<open>migration.cpp\<close>, \<open>types.cpp\<close> and
  \<open>parser_errors.cpp\<close> from \<open>samples/fb-cpp\<close>.  A 128-bit integer of Boost is a mathematical
  integer, a time stamp the list of the members the sample reads.  Shown of \<open>parser_errors.cpp\<close>:
  its walk over a status vector counts the clusters of each type.
\<close>


section \<open>temporal.cpp\<close>

definition fc_temporal_one :: "nat \<Rightarrow> nat \<Rightarrow> string \<Rightarrow> ('s, string) prog" where
  \<open>fc_temporal_one att tra sql = with_Statement att tra (sql) [] (\<lambda>stmt. seqP
       [ignore (fc_execute stmt tra)] (
      string_or stmt 0 ''<null>''))\<close>

definition fc_temporal_main :: "('s, int) prog" where
  \<open>fc_temporal_main = bindP (fc_argOrDefault 1 ''inet://localhost//tmp/fbhandson/temporal_fbcpp.fdb'') (\<lambda>database.
      try_fb (with_Client (\<lambda>client. with_attachOrCreate client database (\<lambda>att. with_Transaction att [] (\<lambda>tra. with_Statement att tra ((''SELECT TIMESTAMP '2026-07-18 12:00:00 America/New_York','' @
      ''       TIMESTAMP '2026-07-18 12:00:00 -05:00' FROM RDB$DATABASE'')) [] (\<lambda>s. seqP
       [ignore (fc_execute s tra),
        for_each [0..<2] (\<lambda>i. bindP (fc_value FOpaqueTimestampTz s i) (\<lambda>wire.
      bindP (fc_value FTimestampTz s i) (\<lambda>decoded.
      block
       [say ((if i = 0 then ''named-zone'' else ''offset'') @ '' literal:'' @ nl),
        say (''  on the wire : UTC days='' @ show_int (member (r_ints wire) 0) @ '' time='' @
            show_nat (nat (member (r_ints wire) 1)) @ ''  zone id='' @
            show_nat (nat (member (r_ints wire) 2)) @ nl),
        say (''  decoded     : '' @ zjust_int 4 (member (r_ints decoded) 0) @ ''-'' @
            zjust 2 (show_nat (nat (member (r_ints decoded) 1))) @ ''-'' @
            zjust 2 (show_nat (nat (member (r_ints decoded) 2))) @ '' '' @
            zjust_int 2 (member (r_ints decoded) 3) @ '':'' @
            zjust_int 2 (member (r_ints decoded) 4) @ '' UTC, zone "'' @
            (c_str (r_s decoded)) @ ''"'' @ nl)])))] (
      bindP (fc_temporal_one att tra ((''SELECT TIMESTAMP '2026-01-18 12:00:00 America/New_York'' @ [CHR 0x27] @
      '' AT TIME ZONE 'Etc/UTC' FROM RDB$DATABASE''))) (\<lambda>c1.
      seqP
       [say (nl @ ''NY 12:00 in UTC, winter: '' @ (c_str c1) @ nl)] (
      bindP (fc_temporal_one att tra ((''SELECT TIMESTAMP '2026-07-18 12:00:00 America/New_York'' @ [CHR 0x27] @
      '' AT TIME ZONE 'Etc/UTC' FROM RDB$DATABASE''))) (\<lambda>c2.
      seqP
       [say (''NY 12:00 in UTC, summer: '' @ (c_str c2) @ nl)] (
      bindP (fc_temporal_one att tra ((''SELECT IIF(TIME '10:00:00 -02:00' = TIME '09:00:00 -03:00','' @
      '' 'EQUAL', 'different') FROM RDB$DATABASE''))) (\<lambda>c3.
      seqP
       [say (''10:00 -02:00 = 09:00 -03:00 ? '' @ (c_str c3) @ nl)] (
      bindP (fc_temporal_one att tra (''SELECT RDB$GET_CONTEXT('SYSTEM','SESSION_TIMEZONE') FROM RDB$DATABASE'')) (\<lambda>c4.
      bindP (fc_temporal_one att tra (''SELECT CAST(CURRENT_TIMESTAMP AS VARCHAR(50)) FROM RDB$DATABASE'')) (\<lambda>c5.
      seqP
       [say (nl @ ''session zone: '' @ (c_str c4) @ ''   CURRENT_TIMESTAMP: '' @ (c_str c5) @ nl),
        stmt_exec att tra ((''SET TIME ZONE 'Asia/Tokyo'' @ [CHR 0x27]))] (
      bindP (fc_temporal_one att tra (''SELECT RDB$GET_CONTEXT('SYSTEM','SESSION_TIMEZONE') FROM RDB$DATABASE'')) (\<lambda>c6.
      bindP (fc_temporal_one att tra (''SELECT CAST(CURRENT_TIMESTAMP AS VARCHAR(50)) FROM RDB$DATABASE'')) (\<lambda>c7.
      returning
       [say (''session zone: '' @ (c_str c6) @ ''     CURRENT_TIMESTAMP: '' @ (c_str c7) @ nl),
        fc_commit tra,
        say (nl @ ''done.'' @ nl)]
       0))))))))))))))))) fc_report)\<close>


section \<open>migration.cpp\<close>

text \<open>The enumerators of \<open>DescriptorOriginalType\<close> have the values the library gives them.\<close>

definition fc_migration_typeName :: "header_values \<Rightarrow> nat \<Rightarrow> string" where
  \<open>fc_migration_typeName h t = (
    if t = enum_val h (''DescriptorOriginalType::TEXT'') then ''SQL_TEXT (CHAR)'' else
    if t = enum_val h (''DescriptorOriginalType::VARYING'') then ''SQL_VARYING (VARCHAR)'' else
    if t = enum_val h (''DescriptorOriginalType::SHORT'') then ''SQL_SHORT'' else
    if t = enum_val h (''DescriptorOriginalType::LONG'') then ''SQL_LONG'' else
    if t = enum_val h (''DescriptorOriginalType::INT64'') then ''SQL_INT64'' else
    if t = enum_val h (''DescriptorOriginalType::INT128'') then ''SQL_INT128'' else
    if t = enum_val h (''DescriptorOriginalType::DOUBLE'') then ''SQL_DOUBLE'' else
    if t = enum_val h (''DescriptorOriginalType::DEC16'') then ''SQL_DEC16 (DECFLOAT 16)'' else
    if t = enum_val h (''DescriptorOriginalType::DEC34'') then ''SQL_DEC34 (DECFLOAT 34)'' else
    if t = enum_val h (''DescriptorOriginalType::TIMESTAMP'') then ''SQL_TIMESTAMP'' else
    if t = enum_val h (''DescriptorOriginalType::TIMESTAMP_TZ'') then ''SQL_TIMESTAMP_TZ'' else
    if t = enum_val h (''DescriptorOriginalType::BOOLEAN'') then ''SQL_BOOLEAN'' else
    if t = enum_val h (''DescriptorOriginalType::BLOB'') then ''SQL_BLOB'' else
    ''?'')\<close>

definition fc_migration_main :: "('s, int) prog" where
  \<open>fc_migration_main = bindP (fc_argOrDefault 1 ''inet://localhost//tmp/fbhandson/migration_fbcpp.fdb'') (\<lambda>database.
      try_fb (with_Client (\<lambda>client. with_attachOrCreate client database (\<lambda>att. with_Transaction att [] (\<lambda>tra. seqP
       [try_Database (block
       [stmt_exec att tra (''DROP TABLE TYPE_PROBE'')]) (\<lambda>_. ret ()),
        stmt_exec att tra ((''CREATE TABLE TYPE_PROBE ('' @
      ''  C_INT128 INT128,'' @
      ''  C_NUM    NUMERIC(38,8),'' @           
      ''  C_DEC    DECFLOAT(34),'' @
      ''  C_TSTZ   TIMESTAMP WITH TIME ZONE,'' @
      ''  C_BOOL   BOOLEAN,'' @
      ''  C_UUID   CHAR(16) CHARACTER SET OCTETS,'' @
      ''  C_VC     VARCHAR(20))'')),
        fc_commitRetaining tra,
        stmt_exec att tra ((''INSERT INTO TYPE_PROBE VALUES ('' @
      ''  170141183460469231731687303715884105727,'' @      
      ''  123456789012345678901234567890.12345678,'' @
      ''  1.234567890123456789012345678901234E+10,'' @
      ''  TIMESTAMP '2026-07-21 12:00:00 Europe/Bucharest','' @
      ''  TRUE, GEN_UUID(), 'na'' @ [CHR 0xC3, CHR 0xAF] @ ''ve '' @ [CHR 0xC3, CHR 0xBC] @ ''tf8 text')'')),
        fc_commitRetaining tra,
        say (''output Descriptors of SELECT * FROM TYPE_PROBE:'' @ nl @ nl),
        say (ljust 8 (''column'') @ '' '' @ rjust 6 (''code'') @ '' '' @ ljust 24 (''wire type'') @
            '' '' @ rjust 6 (''length'') @ '' '' @ rjust 5 (''scale'') @ nl)] (
      with_Statement att tra (''SELECT * FROM TYPE_PROBE'') [] (\<lambda>sel. bindP (outputDescriptors sel) (\<lambda>descs.
      seqP
       [for_each descs (\<lambda>d. bindP (headers) (\<lambda>h.
      block
       [say (ljust 8 (c_str (d_name d)) @ '' '' @ rjust 6 (show_nat (d_type d)) @ '' '' @
            ljust 24 (fc_migration_typeName h (d_type d)) @ '' '' @
            rjust 6 (show_nat (d_length d)) @ '' '' @ rjust 5 (show_int (d_scale d)) @ nl)])),
        say (nl @ ''same row, every column through getString():'' @ nl @ nl),
        ignore (fc_execute sel tra),
        for_each (enumerate 0 [''C_INT128'', ''C_NUM'', ''C_DEC'', ''C_TSTZ'', ''C_BOOL'']) (\<lambda>(i, name). bindP (str_or sel i ''<null>'') (\<lambda>c1.
      block
       [say (''  '' @ ljust 8 name @ '' = '' @ c1 @ nl)]))] (
      bindP (str_or sel 6 ''<null>'') (\<lambda>c1.
      seqP
       [say (''  '' @ ljust 8 (''C_VC'') @ '' = '' @ c1 @ nl),
        with_Statement att tra (''SELECT UUID_TO_CHAR(C_UUID) FROM TYPE_PROBE'') [] (\<lambda>uuid. seqP
       [ignore (fc_execute uuid tra)] (
      bindP (str_deref uuid 0) (\<lambda>c1.
      block
       [say (''  '' @ ljust 8 (''C_UUID'') @ '' = '' @ c1 @ ''   (rendered via UUID_TO_CHAR)'' @ nl)])))] (
      bindP (fc_value FInt128 sel 0) (\<lambda>big.
      returning
       [say (nl @ ''C_INT128 as a native 128-bit integer: '' @ (show_int (r_n big)) @ nl),
        say (''  round-trips through Boost.Multiprecision, no text involved'' @ nl),
        fc_commit tra,
        say (nl @ ''done.'' @ nl)]
       0))))))))))) fc_report)\<close>


section \<open>types.cpp\<close>

definition fc_types_typeName :: "header_values \<Rightarrow> nat \<Rightarrow> string" where
  \<open>fc_types_typeName h t = (
    if t = enum_val h (''DescriptorOriginalType::VARYING'') then ''VARYING (VARCHAR)'' else
    if t = enum_val h (''DescriptorOriginalType::BOOLEAN'') then ''BOOLEAN'' else
    if t = enum_val h (''DescriptorOriginalType::INT128'') then ''INT128'' else
    if t = enum_val h (''DescriptorOriginalType::DEC34'') then ''DEC34 (DECFLOAT(34))'' else
    if t = enum_val h (''DescriptorOriginalType::TIMESTAMP_TZ'') then ''TIMESTAMP_TZ'' else
    if t = enum_val h (''DescriptorOriginalType::INT64'') then ''INT64 (BIGINT/NUMERIC)'' else
    ''(other)'')\<close>

definition fc_types_main :: "('s, int) prog" where
  \<open>fc_types_main = bindP (fc_argOrDefault 1 ''inet://localhost//tmp/fbhandson/types_fbcpp.fdb'') (\<lambda>database.
      try_fb (with_Client (\<lambda>client. with_attachOrCreate client database (\<lambda>att. seqP
       [for_each [''DROP TABLE showcase'', ''DROP DOMAIN d_email''] (\<lambda>sql. with_Transaction att [] (\<lambda>t. block
       [try_Database (block
       [stmt_exec att t (sql),
        fc_commit t]) (\<lambda>_. block
       [fc_rollback t])])),
        with_Transaction att [] (\<lambda>ddl. block
       [stmt_exec att ddl (''CREATE DOMAIN d_email AS VARCHAR(60) CHECK (VALUE LIKE '%@%')''),
        stmt_exec att ddl ((''CREATE TABLE showcase ('' @
        ''  flag  BOOLEAN,'' @
        ''  big   INT128,'' @
        ''  money DECFLOAT(34),'' @
        ''  born  TIMESTAMP WITH TIME ZONE,'' @
        ''  mail  d_email)'')),
        fc_commit ddl])] (
      with_Transaction att [] (\<lambda>tra. seqP
       [stmt_exec att tra ((''INSERT INTO showcase VALUES ('' @
      ''  TRUE,'' @
      ''  170141183460469231731687303715884105727,'' @    
      ''  0.1,'' @                      
      ''  TIMESTAMP '2026-07-21 12:00:00 Europe/Bucharest','' @  
      ''  'user@example.com')'')),
        try_Database (block
       [stmt_exec att tra (''INSERT INTO showcase (mail) VALUES ('not-an-address')''),
        say (''BUG: domain CHECK did not fire'' @ nl)]) (\<lambda>e. bindP (getErrorCode e) (\<lambda>c1.
      bindP (what e) (\<lambda>c2.
      block
       [say (''domain CHECK rejected 'not-an-address' (gds '' @ show_int c1 @ ''):'' @ nl @
            ''    '' @ (first_line c2) @ nl @ nl)])))] (
      with_Statement att tra (''SELECT * FROM showcase'') [] (\<lambda>sel. seqP
       [say (''column  wire type (Descriptor.originalType)'' @ nl),
        say (''------  -----------------------------------'' @ nl)] (
      bindP (outputDescriptors sel) (\<lambda>descs.
      seqP
       [for_each descs (\<lambda>d. bindP (headers) (\<lambda>h.
      block
       [say (ljust 7 (c_str (d_name d)) @ '' '' @ show_nat (d_type d) @ '' = '' @
            (fc_types_typeName h (d_type d)) @ nl)])),
        ignore (fc_execute sel tra)] (
      bindP (fc_value FBool sel 0) (\<lambda>flag.
      seqP
       [say (nl @ ''flag  : '' @ (if r_n flag \<noteq> 0 then ''true'' else ''false'') @
            ''   (C++ bool)'' @ nl)] (
      bindP (fc_value FInt128 sel 1) (\<lambda>big.
      seqP
       [say (''big   : '' @ (show_int (r_n big)) @ nl),
        say (''        == (1 << 127) - 1 computed in Boost? '' @
            (if r_n big = 2 ^ 127 - 1 then ''yes'' else ''NO'') @ nl)] (
      bindP (fc_value FDecFloat34 sel 2) (\<lambda>money.
      bindP (dec_show (r_s money)) (\<lambda>c1.
      bindP (dec_eq (r_s money) ''0.1'') (\<lambda>c2.
      seqP
       [say (''money : '' @ c1 @ ''   == exactly 0.1? '' @ (if c2 then ''yes'' else ''NO'') @ nl)] (
      bindP (fc_value FTimestampTz sel 3) (\<lambda>born.
      bindP (str_deref sel 3) (\<lambda>c3.
      seqP
       [say (''born  : '' @ c3 @ nl),
        say (''        zone = "'' @ (c_str (r_s born)) @ ''", UTC instant = '' @
            zjust_int 4 (member (r_ints born) 0) @ ''-'' @
            zjust 2 (show_nat (nat (member (r_ints born) 1))) @ ''-'' @
            zjust 2 (show_nat (nat (member (r_ints born) 2))) @ '' '' @
            zjust_int 2 (member (r_ints born) 3) @ '':'' @
            zjust_int 2 (member (r_ints born) 4) @ nl)] (
      bindP (str_deref sel 4) (\<lambda>c4.
      returning
       [say (''mail  : '' @ c4 @ nl),
        fc_commit tra,
        say (nl @ ''done.'' @ nl)]
       0)))))))))))))))))))))) fc_report)\<close>


section \<open>parser_errors.cpp\<close>

definition fc_parser_errors_typeName :: "string \<Rightarrow> string" where
  \<open>fc_parser_errors_typeName t = (
    if t = ''SELECT'' then ''SELECT'' else
    if t = ''INSERT'' then ''INSERT'' else
    if t = ''UPDATE'' then ''UPDATE'' else
    if t = ''DDL'' then ''DDL'' else
    ''other'')\<close>

text \<open>
  The walk over the status vector: a cluster is a type and one value, or two for
  \<open>isc_arg_cstring\<close>; the counters are those of gds codes, strings and numbers.
\<close>

function fc_parser_errors_count :: "header_values \<Rightarrow> int list \<Rightarrow> nat \<times> nat \<times> nat \<Rightarrow> nat \<times> nat \<times> nat" where
  "fc_parser_errors_count h v (gds, strings, numbers) =
     (if 1 < length v \<and> hd v \<noteq> arg_val h isc_arg_end
      then fc_parser_errors_count h (drop (if hd v = arg_val h isc_arg_cstring then 3 else 2) v)
        (if hd v = arg_val h isc_arg_gds then (gds + 1, strings, numbers)
         else if hd v = arg_val h isc_arg_string then (gds, strings + 1, numbers)
         else if hd v = arg_val h isc_arg_number then (gds, strings, numbers + 1)
         else (gds, strings, numbers))
      else (gds, strings, numbers))"
  by pat_completeness auto
termination by (relation "measure (\<lambda>(h, v, c). length v)") auto

declare fc_parser_errors_count.simps [simp del]

definition fc_parser_errors_tryPrepare :: "nat \<Rightarrow> nat \<Rightarrow> string \<Rightarrow> ('s, unit) prog" where
  \<open>fc_parser_errors_tryPrepare att tra sql = block
       [say (''---- '' @ sql @ nl),
        try_Database (with_Statement att tra (sql) [] (\<lambda>stmt. bindP (stmtType stmt) (\<lambda>c1.
      bindP (inputDescriptors stmt) (\<lambda>c2.
      bindP (outputDescriptors stmt) (\<lambda>c3.
      seqP
       [say (''  parsed OK: type='' @ (fc_parser_errors_typeName c1) @ '', input params='' @
            show_nat (length c2) @ '', output columns='' @ show_nat (length c3) @ nl)] (
      bindP (inputDescriptors stmt) (\<lambda>ps.
      block
       [for_each ps (\<lambda>p. block
       [say (''    param: sqltype='' @ show_nat (d_type p) @ '', length='' @ show_nat (d_length p) @ nl)])]))))))) (\<lambda>e. bindP (getErrors e) (\<lambda>v.
      bindP (headers) (\<lambda>h.
      let n = fc_parser_errors_count h v (0, 0, 0) in
      bindP (getErrorCode e) (\<lambda>c1.
      bindP (what e) (\<lambda>c2.
      block
       [say (''  prepare failed: getErrorCode()='' @ show_int c1 @ ''; getErrors() holds '' @
            show_nat (fst n) @ '' gds codes, '' @ show_nat (fst (snd n)) @ '' strings, '' @
            show_nat (snd (snd n)) @ '' numbers'' @ nl @ c2 @ nl)])))))]\<close>

definition fc_parser_errors_main :: "('s, int) prog" where
  \<open>fc_parser_errors_main = bindP (fc_argOrDefault 1 ''inet://localhost/employee'') (\<lambda>database.
      try_fb (with_Client (\<lambda>client. bindP (fc_defaultOptions) (\<lambda>opts.
      with_Attachment client database opts (\<lambda>att. with_Transaction att [] (\<lambda>tra. returning
       [fc_parser_errors_tryPrepare att tra (''SELECT first_name FROM employee WHERE emp_no = ?''),
        fc_parser_errors_tryPrepare att tra (''SELECT FIRST 1 emp_no FROM employee''),
        fc_parser_errors_tryPrepare att tra (''SELECT first FROM (SELECT 1 AS first FROM rdb$database)''),
        fc_parser_errors_tryPrepare att tra (''SELEC 1 FROM rdb$database''),
        fc_parser_errors_tryPrepare att tra ((''SELECT emp_no'' @ nl @ ''FROM employee'' @ nl @ ''WHERE ORDER BY 1'')),
        fc_parser_errors_tryPrepare att tra ((''SELECT frst_name'' @ nl @ ''FROM employee'')),
        fc_commit tra,
        say (''done.'' @ nl)]
       0))))) fc_report)\<close>


section \<open>Lifetimes and reports\<close>

lemma live_fctypes [live_rules]:
  "(FAttachment, att) \<in> set s \<Longrightarrow> (FTransaction, tra) \<in> set s \<Longrightarrow> keeps (lives s) (fc_temporal_one att tra sql)"
  "(FAttachment, att) \<in> set s \<Longrightarrow> (FTransaction, tra) \<in> set s \<Longrightarrow> keeps (lives s) (fc_parser_errors_tryPrepare att tra sql)"
  unfolding fc_temporal_one_def fc_parser_errors_tryPrepare_def
  by (intro keeps_rules live_rules; simp add: uses_def)+

definition fctypes_mains :: "('s, int) prog list" where
  "fctypes_mains = [fc_temporal_main, fc_migration_main, fc_types_main, fc_parser_errors_main]"

lemmas fctypes_defs = fc_temporal_main_def fc_migration_main_def fc_types_main_def fc_parser_errors_main_def

lemma fctypes_lives: "\<forall>m \<in> set fctypes_mains. keeps (lives s) m"
  unfolding fctypes_mains_def fctypes_defs list.set ball_simps
  by (intro conjI TrueI keeps_rules live_rules; simp add: uses_def)

lemma fctypes_reports: "\<forall>m \<in> set fctypes_mains. reports m"
  unfolding fctypes_mains_def fctypes_defs list.set ball_simps
  by (intro conjI reports_fc_arg reports_fc returns_rules TrueI)


section \<open>Status vectors\<close>

text \<open>
  The documented layout of a status vector: clusters, then \<open>isc_arg_end\<close>.  A \<open>isc_arg_cstring\<close>
  cluster has a length and an address; every other cluster one value.
\<close>

datatype cluster = Cluster int int | CString int int

fun cluster_tag :: "header_values \<Rightarrow> cluster \<Rightarrow> int" where
  "cluster_tag h (Cluster t x) = t"
| "cluster_tag h (CString n a) = arg_val h isc_arg_cstring"

fun put_cluster :: "header_values \<Rightarrow> cluster \<Rightarrow> int list" where
  "put_cluster h (Cluster t x) = [t, x]"
| "put_cluster h (CString n a) = [arg_val h isc_arg_cstring, n, a]"

definition status_vector :: "header_values \<Rightarrow> cluster list \<Rightarrow> int list" where
  "status_vector h cs = concat (map (put_cluster h) cs) @ [arg_val h isc_arg_end]"

definition proper :: "header_values \<Rightarrow> cluster \<Rightarrow> bool" where
  "proper h c \<longleftrightarrow> (case c of
     Cluster t x \<Rightarrow> t \<noteq> arg_val h isc_arg_end \<and> t \<noteq> arg_val h isc_arg_cstring
   | CString n a \<Rightarrow> arg_val h isc_arg_cstring \<noteq> arg_val h isc_arg_end)"

definition tagged :: "header_values \<Rightarrow> isc_arg \<Rightarrow> cluster list \<Rightarrow> nat" where
  "tagged h t cs = length (filter (\<lambda>c. cluster_tag h c = arg_val h t) cs)"

lemma count_vector:
  assumes "\<forall>c \<in> set cs. proper h c" and "arg_val h isc_arg_gds \<noteq> arg_val h isc_arg_string"
    and "arg_val h isc_arg_gds \<noteq> arg_val h isc_arg_number" and "arg_val h isc_arg_string \<noteq> arg_val h isc_arg_number"
  shows "fc_parser_errors_count h (status_vector h cs) (g, s, n) =
    (g + tagged h isc_arg_gds cs, s + tagged h isc_arg_string cs, n + tagged h isc_arg_number cs)"
  using assms(1)
proof (induction cs arbitrary: g s n)
  case Nil
  show ?case by (simp add: fc_parser_errors_count.simps status_vector_def tagged_def)
next
  case (Cons c cs)
  have IH: "fc_parser_errors_count h (status_vector h cs) (g', s', n') =
      (g' + tagged h isc_arg_gds cs, s' + tagged h isc_arg_string cs, n' + tagged h isc_arg_number cs)" for g' s' n'
    using Cons by simp
  have "proper h c" using Cons.prems by simp
  then show ?case
  proof (cases c)
    case (Cluster t x)
    have vec: "status_vector h (c # cs) = t # x # status_vector h cs"
      using Cluster by (simp add: status_vector_def)
    show ?thesis unfolding vec
      by (subst fc_parser_errors_count.simps)
        (use \<open>proper h c\<close> assms(2-) in \<open>simp add: IH tagged_def Cluster proper_def\<close>)
  next
    case (CString m a)
    have vec: "status_vector h (c # cs) = arg_val h isc_arg_cstring # m # a # status_vector h cs"
      using CString by (simp add: status_vector_def)
    show ?thesis unfolding vec
      by (subst fc_parser_errors_count.simps)
        (use \<open>proper h c\<close> assms(2-) in \<open>simp add: IH tagged_def CString proper_def\<close>)
  qed
qed

definition arg_headers :: header_values where
  "arg_headers = \<lparr>xpb_val = (\<lambda>_. 0), info_val = (\<lambda>_. 0), sql_val = (\<lambda>_. 0), blr_val = (\<lambda>_. 0),
     arg_val = (\<lambda>t. case t of isc_arg_end \<Rightarrow> 0 | isc_arg_gds \<Rightarrow> 1 | isc_arg_string \<Rightarrow> 2
       | isc_arg_cstring \<Rightarrow> 3 | isc_arg_number \<Rightarrow> 4), enum_val = (\<lambda>_. 0), isc_portable_integer = (\<lambda>_. 0)\<rparr>"

text \<open>
  C25.  The loop of \<open>parser_errors.cpp\<close> over \<open>getErrors()\<close> ends on every vector, and on a
  status vector it counts exactly the gds codes, the strings and the numbers in it: it steps over
  the three-word \<open>isc_arg_cstring\<close> clusters and stops at \<open>isc_arg_end\<close>.
\<close>

theorem errors_counted:
  assumes "\<forall>c \<in> set cs. proper h c" and "arg_val h isc_arg_gds \<noteq> arg_val h isc_arg_string"
    and "arg_val h isc_arg_gds \<noteq> arg_val h isc_arg_number" and "arg_val h isc_arg_string \<noteq> arg_val h isc_arg_number"
  shows "fc_parser_errors_count h (status_vector h cs) (0, 0, 0) =
    (tagged h isc_arg_gds cs, tagged h isc_arg_string cs, tagged h isc_arg_number cs)"
  using count_vector [OF assms] by simp

theorem errors_counted_witness:
  "fc_parser_errors_count arg_headers [1, 335544569, 3, 5, 4711, 4, - 104, 1, 335544634, 0] (0, 0, 0) = (2, 0, 1)"
  using errors_counted [of "[Cluster 1 335544569, CString 5 4711, Cluster 4 (- 104), Cluster 1 335544634]" arg_headers]
  by (simp add: proper_def status_vector_def tagged_def arg_headers_def)

end
