(* ===== verification/Fbcpp_Processes.thy ===== *)
theory Fbcpp_Processes
  imports Fbcpp_Kit Samples_Sessions
begin

text \<open>
  The fb-cpp twins that start processes: \<open>careful_writes.cpp\<close> and \<open>page_cache.cpp\<close> from
  \<open>samples/fb-cpp\<close>.  As in \<open>Samples_Sessions\<close>, every process is a run of the same \<open>main\<close> with other
  arguments; after \<open>fork\<close> a run goes on as the parent or as the child, by the answer.
\<close>


section \<open>careful_writes.cpp\<close>

definition fc_careful_writes_DEFAULT_DB :: string where
  \<open>fc_careful_writes_DEFAULT_DB = ''/tmp/fbhandson/careful_writes_fbcpp.fdb''\<close>

definition fc_careful_writes_fileSize :: "string \<Rightarrow> ('s, int) prog" where
  \<open>fc_careful_writes_fileSize path = bindP (ask_void (Os (FileSize path))) (\<lambda>st.
      ret (if r_null st then - 1 else r_n st))\<close>

definition fc_careful_writes_writer :: "string \<Rightarrow> ('s, int) prog" where
  \<open>fc_careful_writes_writer dbFile = with_Client (\<lambda>client. with_attachOrCreate client dbFile (\<lambda>att. with_Transaction att [] (\<lambda>ddl. seqP
       [att_execute att ddl (''create table cw (id int, tag varchar(30))''),
        fc_commit ddl] (
      with_Transaction att [] (\<lambda>marker. seqP
       [att_execute att marker (''insert into cw values (1, 'committed-marker')''),
        fc_commit marker] (
      bindP (getpid) (\<lambda>c1.
      seqP
       [say (''[writer '' @ show_int c1 @ ''] marker row committed (forced writes on)'' @ nl)] (
      with_Transaction att [] (\<lambda>victim. returning
       [att_execute att victim ((''execute block as declare i int = 0; begin'' @
    ''  while (i < 500000) do begin'' @
    ''    insert into cw values (:i + 1000, 'uncommitted'); i = i + 1;'' @
    ''  end '' @
    ''end'')),
        say (''[writer] bulk insert finished uncommitted; waiting for SIGKILL'' @ nl),
        os_do Pause]
       0)))))))))\<close>

text \<open>
  The wait for the file to grow: at most \<open>n\<close> more polls of 50 ms; \<open>base\<close> is the first
  positive size seen.
\<close>

primrec fc_careful_writes_watch :: "string \<Rightarrow> int \<Rightarrow> nat \<Rightarrow> int \<Rightarrow> ('s, unit) prog" where
  \<open>fc_careful_writes_watch dbFile pid 0 base = ret ()\<close>
| \<open>fc_careful_writes_watch dbFile pid (Suc n) base =
    bindP (os_do (SleepMs 50)) (\<lambda>_.
    bindP (fc_careful_writes_fileSize dbFile) (\<lambda>sz.
    let base = (if base < 0 \<and> sz > 0 then sz else base) in
    if base > 0 \<and> sz > base + 2 * 1024 * 1024
    then say (''file grew '' @ show_int base @ '' -> '' @ show_int sz @
      '' bytes; SIGKILL to engine pid '' @ show_int pid @ nl)
    else fc_careful_writes_watch dbFile pid n base))\<close>

definition fc_careful_writes_spawn :: "string \<Rightarrow> ('s, int) prog" where
  \<open>fc_careful_writes_spawn dbFile = bindP (os_int Fork) (\<lambda>pid.
      returning
       [if pid = 0
    then (bindP (arg_at 0) (\<lambda>self.
      bindP (ask_void (Os (ExecFile [self, ''--writer'', dbFile]))) (\<lambda>r.
      (if r_null r then fail (Exit 127) else fail (Exit (r_n r))))))
    else ret ()]
       pid)\<close>

definition fc_careful_writes_main :: "('s, int) prog" where
  \<open>fc_careful_writes_main = bindP (arguments) (\<lambda>av.
      let childMode = (length av > 1 \<and> c_str (av ! 1) = ''--writer'') in
      bindP (fc_argOrDefault (if childMode then 2 else 1) fc_careful_writes_DEFAULT_DB) (\<lambda>dbFile.
      try_fb (if childMode then fc_careful_writes_writer dbFile
      else (seqP
       [os_do (Unlink dbFile),
        setenv ''FIREBIRD'' ''/opt/firebird'' False] (
      bindP (fc_careful_writes_spawn dbFile) (\<lambda>pid.
      seqP
       [fc_careful_writes_watch dbFile pid 600 (- 1),
        os_do (Kill pid),
        os_do (WaitPid pid)] (
      bindP (os_int ClockNs) (\<lambda>t0.
      with_Client (\<lambda>client. bindP (fc_defaultOptions) (\<lambda>opts.
      with_Attachment client dbFile opts (\<lambda>att. with_Transaction att [] (\<lambda>t. bindP (scalar_int_or FInt64 att t ((''select count(*) from cw where tag = 'committed-marker'' @ [CHR 0x27])) (- 1)) (\<lambda>committed.
      bindP (scalar_int_or FInt64 att t ((''select count(*) from cw where tag = 'uncommitted'' @ [CHR 0x27])) (- 1)) (\<lambda>uncommitted.
      bindP (os_int ClockNs) (\<lambda>t1.
      returning
       [fc_commit t,
        say (''re-attach + both counts took '' @ show_int (millis_between t0 t1) @ '' ms'' @ nl),
        say (''committed marker rows : '' @ show_int committed @ ''   <- survived the crash'' @ nl),
        say (''uncommitted rows      : '' @ show_int uncommitted @
            ''   <- rolled back by visibility, not replay'' @ nl)]
       0))))))))))))) fc_report))\<close>


section \<open>page_cache.cpp\<close>

definition fc_page_cache_SRV_DB :: string where
  \<open>fc_page_cache_SRV_DB = ''inet://localhost//tmp/fbhandson/page_cache_srv_fbcpp.fdb''\<close>

definition fc_page_cache_EMB_DB :: string where
  \<open>fc_page_cache_EMB_DB = ''/tmp/fbhandson/page_cache_emb_fbcpp.fdb''\<close>

definition fc_page_cache_SANDBOX :: string where
  \<open>fc_page_cache_SANDBOX = ''/tmp/fbhandson/fbemb_fbcpp''\<close>

definition fc_page_cache_ROUNDS :: nat where
  \<open>fc_page_cache_ROUNDS = 300\<close>

definition fc_page_cache_initDb :: "string \<Rightarrow> ('s, int) prog" where
  \<open>fc_page_cache_initDb conn = with_Client (\<lambda>client. with_attachOrCreate client conn (\<lambda>att. seqP
       [with_Transaction att [] (\<lambda>t. block
       [try_Database (block
       [att_execute att t (''drop table t'')]) (\<lambda>_. ret ()),
        fc_commit t])] (
      with_Transaction att [] (\<lambda>ddl. seqP
       [att_execute att ddl (''create table t (id int primary key, v int)''),
        fc_commit ddl] (
      with_Transaction att [] (\<lambda>ins. returning
       [att_execute att ins (''insert into t values (1, 0)''),
        att_execute att ins (''insert into t values (2, 0)''),
        fc_commit ins]
       0))))))\<close>

definition fc_page_cache_worker :: "string \<Rightarrow> string \<Rightarrow> ('s, int) prog" where
  \<open>fc_page_cache_worker conn rowId = with_Client (\<lambda>client. bindP (fc_defaultOptions) (\<lambda>opts.
      with_Attachment client conn opts (\<lambda>att. let update = ''update t set v = v + 1 where id = '' @ rowId in
      seqP
       [for_each [0..<fc_page_cache_ROUNDS] (\<lambda>i. with_Transaction att [] (\<lambda>t. block
       [att_execute att t (update),
        fc_commit t]))] (
      with_Transaction att [] (\<lambda>t. bindP (first_row att t ((''select MON$PAGE_FETCHES, MON$PAGE_READS, MON$PAGE_WRITES '' @
    ''from MON$IO_STATS join MON$ATTACHMENTS using (MON$STAT_ID) '' @
    ''where MON$ATTACHMENT_ID = CURRENT_CONNECTION'')) []) (\<lambda>io0.
      bindP (throwing ''bad optional access'' io0) (\<lambda>io.
      bindP (getpid) (\<lambda>c1.
      returning
       [say (''  worker pid '' @ ljust 6 (show_int c1) @ '' row '' @ rowId @ '': '' @
            show_int (int fc_page_cache_ROUNDS) @ '' commits | page fetches='' @
            ljust 6 (show_int (member io 0)) @ '' reads='' @
            ljust 4 (show_int (member io 1)) @ '' writes='' @ show_int (member io 2) @ nl),
        fc_commit t]
       0))))))))\<close>

definition fc_page_cache_check :: "string \<Rightarrow> ('s, int) prog" where
  \<open>fc_page_cache_check conn = with_Client (\<lambda>client. bindP (fc_defaultOptions) (\<lambda>opts.
      with_Attachment client conn opts (\<lambda>att. with_Transaction att [] (\<lambda>t. with_Statement att t (''select id, v from t order by id'') [] (\<lambda>stmt. returning
       [for_rows stmt t (bindP (int_or FInt32 stmt 0 (- 1)) (\<lambda>c1.
      bindP (int_or FInt32 stmt 1 (- 1)) (\<lambda>c2.
      block
       [say (''  final: id='' @ show_int c1 @ '' v='' @ show_int c2 @ '' (expected '' @
            show_int (int fc_page_cache_ROUNDS) @ '')'' @ nl)]))),
        fc_commit t]
       0)))))\<close>

definition fc_page_cache_run :: "string \<Rightarrow> string list \<Rightarrow> ('s, unit) prog" where
  \<open>fc_page_cache_run self args = bindP (os_int Fork) (\<lambda>pid.
      block
       [if pid = 0
    then (bindP (ask_void (Os (ExecFile (self # args)))) (\<lambda>r.
      (if r_null r then fail (Exit 127) else fail (Exit (r_n r)))))
    else ret ()])\<close>

definition fc_page_cache_await :: "('s, unit) prog" where
  \<open>fc_page_cache_await = loopP (\<lambda>u. bindP (os_int WaitAny) (\<lambda>pid.
      ret (if pid > 0 then Inl u else Inr u))) ()\<close>

text \<open>The seven calls that both phases of \<open>main\<close> make.\<close>

definition fc_page_cache_phase :: "string \<Rightarrow> string \<Rightarrow> ('s, unit) prog" where
  \<open>fc_page_cache_phase self conn = block
       [fc_page_cache_run self [''--init'', conn],
        fc_page_cache_await,
        fc_page_cache_run self [''--worker'', conn, ''1''],
        fc_page_cache_run self [''--worker'', conn, ''2''],
        fc_page_cache_await,
        fc_page_cache_run self [''--check'', conn],
        fc_page_cache_await]\<close>

definition fc_page_cache_sandbox :: "('s, unit) prog" where
  \<open>fc_page_cache_sandbox = seqP
       [os_do (Mkdir fc_page_cache_SANDBOX),
        for_each [''plugins'', ''intl'', ''tzdata'', ''firebird.msg'', ''security6.fdb'']
      (\<lambda>f. os_do (Symlink (''/opt/firebird/'' @ f) (fc_page_cache_SANDBOX @ ''/'' @ f)))] (
      bindP (ask_void (Os (WriteFile (fc_page_cache_SANDBOX @ ''/firebird.conf'') (''ServerMode = SuperClassic'' @ nl)))) (\<lambda>r.
      block
       [if r_null r then fail (UB ''fputs to a null FILE'') else ret (),
        setenv ''FIREBIRD'' fc_page_cache_SANDBOX True,
        os_do (Unlink fc_page_cache_EMB_DB)]))\<close>

definition fc_page_cache_main :: "('s, int) prog" where
  \<open>fc_page_cache_main =
    try_fb (bindP (arguments) (\<lambda>av.
      (if length av > 2 \<and> c_str (av ! 1) = ''--init'' then fc_page_cache_initDb (av ! 2)
      else if length av > 3 \<and> c_str (av ! 1) = ''--worker'' then fc_page_cache_worker (av ! 2) (av ! 3)
      else if length av > 2 \<and> c_str (av ! 1) = ''--check'' then fc_page_cache_check (av ! 2)
      else (seqP
       [say (''phase 1: two client processes, ONE SuperServer shared cache'' @ nl)] (
      bindP (arg_at 0) (\<lambda>self.
      returning
       [fc_page_cache_phase self fc_page_cache_SRV_DB,
        fc_page_cache_sandbox,
        say (''phase 2: two EMBEDDED engine processes, PRIVATE page caches'' @ nl),
        fc_page_cache_phase self fc_page_cache_EMB_DB,
        say (''same workload '' @ [CHR 0xE2, CHR 0x80, CHR 0x94] @
            '' the private caches paid for coherency in disk I/O.'' @ nl)]
       0)))))) fc_report\<close>


section \<open>Lifetimes and reports\<close>

lemma live_arg_at [live_rules]: "keeps (lives s) (arg_at n)"
  unfolding arg_at_def by (intro keeps_rules live_rules)

lemma live_fileSize [live_rules]: "keeps (lives s) (fc_careful_writes_fileSize f)"
  unfolding fc_careful_writes_fileSize_def by (intro keeps_rules live_rules) simp

lemma live_watch [live_rules]: "keeps (lives s) (fc_careful_writes_watch f pid n base)"
proof (induction n arbitrary: base)
  case 0
  show ?case unfolding fc_careful_writes_watch.simps by (rule keeps_ret)
next
  case (Suc n)
  then show ?case unfolding fc_careful_writes_watch.simps by (intro keeps_rules live_rules)
qed

lemma live_fcproc [live_rules]:
  "keeps (lives s) (fc_careful_writes_writer dbFile)"
  "keeps (lives s) (fc_careful_writes_spawn dbFile)"
  "keeps (lives s) (fc_page_cache_initDb conn)"
  "keeps (lives s) (fc_page_cache_worker conn rowId)"
  "keeps (lives s) (fc_page_cache_check conn)"
  "keeps (lives s) (fc_page_cache_run self args)"
  "keeps (lives s) (fc_page_cache_await)"
  "keeps (lives s) (fc_page_cache_phase self conn)"
  "keeps (lives s) (fc_page_cache_sandbox)"
  unfolding fc_careful_writes_writer_def fc_careful_writes_spawn_def fc_page_cache_initDb_def fc_page_cache_worker_def fc_page_cache_check_def fc_page_cache_run_def fc_page_cache_await_def fc_page_cache_phase_def fc_page_cache_sandbox_def
  by (intro keeps_rules live_rules; simp add: uses_def)+

definition fcproc_mains :: "('s, int) prog list" where
  "fcproc_mains = [fc_careful_writes_main, fc_page_cache_main]"

lemmas fcproc_defs = fc_careful_writes_main_def fc_page_cache_main_def

lemma fcproc_lives: "\<forall>m \<in> set fcproc_mains. keeps (lives s) m"
  unfolding fcproc_mains_def fcproc_defs list.set ball_simps
  by (intro conjI TrueI keeps_rules live_rules; simp add: uses_def)

lemma fcproc_reports: "\<forall>m \<in> set fcproc_mains. reports m"
  unfolding fcproc_mains_def fcproc_defs list.set ball_simps fc_careful_writes_writer_def fc_page_cache_initDb_def fc_page_cache_worker_def fc_page_cache_check_def
  by (intro conjI reports_fc_arg reports_bind_total [OF arguments_total] reports_Let reports_fc returns_rules TrueI; simp)


text \<open>The twin watches the file and reaps its children with the same code.\<close>

lemma fc_watch_eq: "fc_careful_writes_watch = careful_writes_watch"
proof (intro ext)
  fix f pid n base and e :: "'s env" and w
  show "fc_careful_writes_watch f pid n base e w = careful_writes_watch f pid n base e w"
    by (induction n arbitrary: base e w)
      (simp_all add: fc_careful_writes_fileSize_def careful_writes_fileSize_def bindP_def Let_def
        split: option.split prod.split outcome.split)
qed

lemma fc_await_eq: "fc_page_cache_await = await"
  by (simp add: fc_page_cache_await_def await_def)

end
