(* ===== verification/Fbcpp_Streams.thy ===== *)
theory Fbcpp_Streams
  imports Fbcpp_Kit Blob_Info Blr_Decoder Ods_Header Service_Streams
begin

text \<open>
  The fb-cpp twins with blobs, services and decoders: \<open>backup.cpp\<close>, \<open>services.cpp\<close>,
  \<open>blobs.cpp\<close>, \<open>blr.cpp\<close> and \<open>ods_header.cpp\<close> from \<open>samples/fb-cpp\<close>.  The wrapper decodes the service
  stream and calls back line by line; the decoders of blob information, BLR and pages are those of
  the samples in \<open>samples/cpp\<close>.
\<close>


section \<open>Blobs and services\<close>

definition with_Blob_create :: "nat \<Rightarrow> nat \<Rightarrow> fc_opt list \<Rightarrow> (nat \<Rightarrow> ('s, 'a) prog) \<Rightarrow> ('s, 'a) prog" where
  "with_Blob_create att tra opts body = fc_scope FBlob (handle_of (Fc (FcBlobCreate att tra opts))) body"

definition with_Blob_open ::
  "nat \<Rightarrow> nat \<Rightarrow> int \<Rightarrow> fc_opt list \<Rightarrow> (nat \<Rightarrow> ('s, 'a) prog) \<Rightarrow> ('s, 'a) prog"
where
  "with_Blob_open att tra bid opts body = fc_scope FBlob (handle_of (Fc (FcBlobOpen att tra bid opts))) body"

definition with_BackupManager :: "nat \<Rightarrow> fc_opt list \<Rightarrow> (nat \<Rightarrow> ('s, 'a) prog) \<Rightarrow> ('s, 'a) prog" where
  "with_BackupManager client opts body =
     fc_scope FBackupManager (handle_of (Fc (FcBackupManager client opts))) body"

definition fc_serviceOptions :: "('s, fc_opt list) prog" where
  "fc_serviceOptions =
     bindP (envOr ''ISC_USER'' ''SYSDBA'') (\<lambda>u.
     bindP (envOr ''ISC_PASSWORD'' ''masterkey'') (\<lambda>p.
     ret [SetServer ''localhost'', SetUserName u, SetPassword p]))"

definition blob_id :: "nat \<Rightarrow> ('s, int) prog" where
  "blob_id blob = bindP (ask (Fc (FcBlob blob FcGetId))) (\<lambda>r. ret (r_n r))"

definition blob_length :: "nat \<Rightarrow> ('s, nat) prog" where
  "blob_length blob = number_of (Fc (FcBlob blob FcGetLength))"

text \<open>\<open>stmt.getBlobId(i).value()\<close> throws on an empty optional.\<close>

definition blobId_value :: "nat \<Rightarrow> nat \<Rightarrow> ('s, int) prog" where
  "blobId_value stmt i = bindP (ask (Fc (FcStmt stmt (FcGet FBlobId i)))) (\<lambda>r.
     throwing ''bad optional access'' (if r_null r then None else Some (r_n r)))"

text \<open>A call whose status the caller tests, with its answer.\<close>

definition ask_both :: "call \<Rightarrow> ('s, status option \<times> reply) prog" where
  "ask_both c = (\<lambda>e w. case fb e c (server w) of ((st, r), s') \<Rightarrow>
     Some (Ok (st, r), w\<lparr>server := s', log := (c, st, r) # log w\<rparr>))"

text \<open>\<open>svc.backup(options.setVerboseOutput(f))\<close>: \<open>f\<close> runs once per line; the number of lines is what
  a callback that counts them has counted.\<close>

definition fc_service_lines :: "nat \<Rightarrow> fc_svc_call \<Rightarrow> (string \<Rightarrow> ('s, unit) prog) \<Rightarrow> ('s, nat) prog" where
  \<open>fc_service_lines svc action f = seqP
       [do_call (Fc (FcSvc svc action))] (
      loopP (\<lambda>n. bindP (ask (Fc (FcSvc svc FcCallback))) (\<lambda>r.
      (if r_null r then ret (Inr n) else (returning
       [f (r_s r)]
       (Inl (Suc n)))))) 0)\<close>

definition fc_service_run :: "nat \<Rightarrow> fc_svc_call \<Rightarrow> (string \<Rightarrow> ('s, unit) prog) \<Rightarrow> ('s, unit) prog" where
  \<open>fc_service_run svc action f = ignore (fc_service_lines svc action f)\<close>


section \<open>backup.cpp\<close>

definition fc_backup_DB_SRC :: string where
  \<open>fc_backup_DB_SRC = ''inet://localhost//tmp/fbhandson/backup_fbcpp.fdb''\<close>

definition fc_backup_SRC_PATH :: string where
  \<open>fc_backup_SRC_PATH = ''/tmp/fbhandson/backup_fbcpp.fdb''\<close>

definition fc_backup_FBK :: string where
  \<open>fc_backup_FBK = ''/tmp/fbhandson/backup_fbcpp.fbk''\<close>

definition fc_backup_RES_PATH :: string where
  \<open>fc_backup_RES_PATH = ''/tmp/fbhandson/backup_fbcpp_restored.fdb''\<close>

definition fc_backup_DB_REST :: string where
  \<open>fc_backup_DB_REST = ''inet://localhost//tmp/fbhandson/backup_fbcpp_restored.fdb''\<close>

definition fc_backup_gbakLine :: "string \<Rightarrow> ('s, unit) prog" where
  \<open>fc_backup_gbakLine line = block
       [say (''  gbak> '' @ (c_str line) @ nl)]\<close>

definition fc_backup_main :: "('s, int) prog" where
  \<open>fc_backup_main = bindP (fc_argOrDefault 1 fc_backup_DB_SRC) (\<lambda>database.
      try_fb (with_Client (\<lambda>client. with_attachOrCreate client database (\<lambda>att. seqP
       [with_Transaction att [] (\<lambda>tra. block
       [try_Database (block
       [stmt_exec att tra (''DROP TABLE BR_ITEMS'')]) (\<lambda>_. ret ()),
        stmt_exec att tra (''CREATE TABLE BR_ITEMS (ID INT NOT NULL PRIMARY KEY, NAME VARCHAR(30))''),
        fc_commitRetaining tra,
        stmt_exec att tra (''INSERT INTO BR_ITEMS VALUES (1, 'alpha')''),
        stmt_exec att tra (''INSERT INTO BR_ITEMS VALUES (2, 'beta')''),
        stmt_exec att tra (''INSERT INTO BR_ITEMS VALUES (3, 'gamma')''),
        fc_commit tra]),
        say (''source ready: BR_ITEMS with 3 rows'' @ nl)] (
      bindP (fc_serviceOptions) (\<lambda>sopts.
      with_BackupManager client sopts (\<lambda>mgr. seqP
       [say (nl @ ''== backup: '' @ fc_backup_SRC_PATH @ '' -> '' @ fc_backup_FBK @ '' =='' @ nl),
        fc_service_run mgr (FcBackup [SetDatabase fc_backup_SRC_PATH, SetBackupFile fc_backup_FBK]) fc_backup_gbakLine,
        say (nl @ ''== restore: '' @ fc_backup_FBK @ '' -> '' @ fc_backup_RES_PATH @ '' =='' @ nl),
        fc_service_run mgr (FcRestore [SetDatabase fc_backup_RES_PATH, SetBackupFile fc_backup_FBK, SetReplace True]) fc_backup_gbakLine] (
      bindP (fc_defaultOptions) (\<lambda>opts.
      with_Attachment client fc_backup_DB_REST opts (\<lambda>rdb. with_Transaction rdb [] (\<lambda>rtra. with_Statement rdb rtra (''SELECT COUNT(*), MAX(NAME) FROM BR_ITEMS'') [] (\<lambda>check. seqP
       [ignore (fc_execute check rtra)] (
      bindP (str_or check 0 ''?'') (\<lambda>c1.
      bindP (str_or check 1 ''?'') (\<lambda>c2.
      returning
       [say (nl @ ''restored database says: '' @ c1 @ '' rows, max name = '' @ c2 @ nl),
        fc_commit rtra,
        say (''done.'' @ nl)]
       0)))))))))))))) fc_report)\<close>


section \<open>services.cpp\<close>

text \<open>
  The version query on the raw service handle, through a \<open>CheckStatusWrapper\<close>: the status is
  tested by the sample, and disposed only when no exception is thrown.
\<close>

definition fc_services_version :: "nat \<Rightarrow> ('s, unit) prog" where
  \<open>fc_services_version svc = bindP (handle_of (Master GetStatus)) (\<lambda>status.
      bindP (ask_both (Svc svc (SvcQuery [isc_info_svc_server_version] 1024))) (\<lambda>r.
      seqP
       [if fst r \<noteq> None then fail (FbException (fc_exception ''service version query failed'')) else ret ()] (
      bindP (headers) (\<lambda>h.
      let results = fit 1024 (r_b (snd r)) in
      block
       [(if unat (results ! 0) = info_val h isc_info_svc_server_version
    then (bindP (checked ''results'' (le_read 2 results 1)) (\<lambda>len.
      bindP (checked ''results'' (prec_str results 3 (int len))) (\<lambda>text.
      block
       [say (''server version: '' @ text @ nl)]))) else ret ()),
        do_void (StatusDispose status)]))))\<close>

definition fc_services_main :: "('s, int) prog" where
  \<open>fc_services_main = bindP (fc_argOrDefault 1 ''/tmp/fbhandson/services_fbcpp.fdb'') (\<lambda>dbPath.
      bindP (fc_argOrDefault 2 ''/tmp/fbhandson/services_fbcpp.fbk'') (\<lambda>bkPath.
      let dsn = ''inet://localhost/'' @ dbPath in
      try_fb (with_Client (\<lambda>client. seqP
       [with_attachOrCreate client dsn (\<lambda>att. with_Transaction att [] (\<lambda>tra. block
       [try_Database (block
       [att_execute att tra (''create table t (id int, v varchar(20))'')]) (\<lambda>_. ret ()),
        fc_commit tra]))] (
      bindP (fc_serviceOptions) (\<lambda>sopts.
      with_BackupManager client sopts (\<lambda>svc. seqP
       [fc_services_version svc,
        say (''backup started (verbose) '' @ [CHR 0xE2, CHR 0x80, CHR 0x94] @
            '' gbak lines via the callback:'' @ nl)] (
      bindP (fc_service_lines svc (FcBackup [SetDatabase dbPath, SetBackupFile bkPath]) (\<lambda>line. block
       [say (''  '' @ (c_str line) @ nl)])) (\<lambda>lines.
      returning
       [say (''done: '' @ show_int (int lines) @ '' gbak lines streamed through the callback'' @ nl),
        say (''the file '' @ bkPath @ '' now exists on the SERVER, owned by the server's user'' @ nl)]
       0))))))) fc_report))\<close>


section \<open>blobs.cpp\<close>

text \<open>\<open>infoValue\<close> is, word for word, the function of \<open>samples/cpp/blobs.cpp\<close>.\<close>

definition fc_blobs_infoValue :: "header_values \<Rightarrow> byte list \<Rightarrow> nat \<Rightarrow> info_item \<Rightarrow> int option" where
  "fc_blobs_infoValue h buf len item =
     infoValue_at (info_val h isc_info_end) buf len (of_nat (info_val h item)) 0"

definition fc_blobs_segments :: "string list" where
  \<open>fc_blobs_segments = [''first segment'', ''second, longer segment'', ''third'']\<close>

text \<open>
  \<open>n = blob.readSegment(span{buf, 63}); buf[n] = 0;\<close> on a \<open>char[64]\<close>: the terminating zero fits when
  the library keeps to the span.
\<close>

definition fc_blobs_readBuf :: "nat \<Rightarrow> ('s, byte list) prog" where
  \<open>fc_blobs_readBuf blob = bindP (ask (Fc (FcBlob blob (FcReadSegment 63)))) (\<lambda>r.
      checked ''buf[n]'' (if length (r_b r) \<le> 63 then Some (r_b r) else None))\<close>

definition fc_blobs_readSegments :: "nat \<Rightarrow> ('s, unit) prog" where
  \<open>fc_blobs_readSegments blob =
    ignore (loopP (\<lambda>n. bindP (fc_blobs_readBuf blob) (\<lambda>seg.
      (if length seg > 0
      then (returning
       [say (''  readSegment #'' @ show_nat (Suc n) @ '': '' @
            rjust 2 (show_nat (length seg)) @ '' bytes  "'' @ (c_str (chars seg)) @ ''"'' @
            nl)]
       (Inl (Suc n)))
      else ret (Inr ())))) 0)\<close>

definition fc_blobs_main :: "('s, int) prog" where
  \<open>fc_blobs_main = bindP (fc_argOrDefault 1 ''inet://localhost//tmp/fbhandson/blobs_fbcpp.fdb'') (\<lambda>database.
      try_fb (with_Client (\<lambda>client. with_attachOrCreate client database (\<lambda>att. seqP
       [with_Transaction att [] (\<lambda>t. block
       [att_execute att t ((''recreate table docs ('' @
        '' id integer primary key,'' @
        '' note blob sub_type text character set utf8,'' @
        '' data blob sub_type binary)'')),
        fc_commit t])] (
      with_Transaction att [] (\<lambda>tra. with_Blob_create att tra [] (\<lambda>note. seqP
       [for_each fc_blobs_segments (\<lambda>seg. do_call (Fc (FcBlob note (FcWriteSegment (bytes_of seg))))),
        do_call (Fc (FcBlob note FcBlobClose)),
        say (''wrote 3 segments into a new text blob'' @ nl)] (
      with_Statement att tra (''insert into docs (id, note) values (?, ?)'') [] (\<lambda>ins. seqP
       [do_call (Fc (FcStmt ins (FcSetInt32 0 (int 1))))] (
      bindP (blob_id note) (\<lambda>noteId.
      seqP
       [do_call (Fc (FcStmt ins (FcSetBlobId 1 noteId))),
        ignore (fc_execute ins tra)] (
      with_Statement att tra (''select note from docs where id = 1'') [] (\<lambda>sel. seqP
       [ignore (fc_execute sel tra)] (
      bindP (blobId_value sel 0) (\<lambda>blob1.
      with_Blob_open att tra blob1 [] (\<lambda>readBack. seqP
       [fc_blobs_readSegments readBack] (
      bindP (blob_length readBack) (\<lambda>len.
      seqP
       [say (''Blob::getLength() = '' @ show_nat len @ '' bytes'' @ nl)] (
      bindP (ask (Fc (FcBlob readBack (FcBlobInfo [isc_info_blob_num_segments, isc_info_blob_max_segment,
                      isc_info_blob_type] 64)))) (\<lambda>r.
      bindP (headers) (\<lambda>h.
      let info = fit 64 (r_b r) in
      bindP (checked ''info read'' (fc_blobs_infoValue h info 64 isc_info_blob_num_segments)) (\<lambda>v1.
      bindP (checked ''info read'' (fc_blobs_infoValue h info 64 isc_info_blob_max_segment)) (\<lambda>v2.
      bindP (checked ''info read'' (fc_blobs_infoValue h info 64 isc_info_blob_type)) (\<lambda>v3.
      seqP
       [say (''raw getInfo via getHandle(): '' @ show_int v1 @ '' segments, longest '' @
            show_int v2 @ '', type '' @ show_int v3 @ '' (0=segmented)'' @ nl),
        do_call (Fc (FcBlob readBack FcBlobClose))] (
      with_Blob_create att tra [SetBlobType ''STREAM''] (\<lambda>stream. seqP
       [for_each fc_blobs_segments (\<lambda>s. do_call (Fc (FcBlob stream (FcWrite (bytes_of s))))),
        do_call (Fc (FcBlob stream FcBlobClose))] (
      with_Statement att tra (''insert into docs (id, data) values (?, ?)'') [] (\<lambda>ins2. seqP
       [do_call (Fc (FcStmt ins2 (FcSetInt32 0 (int 2))))] (
      bindP (blob_id stream) (\<lambda>streamId.
      seqP
       [do_call (Fc (FcStmt ins2 (FcSetBlobId 1 streamId))),
        ignore (fc_execute ins2 tra)] (
      with_Statement att tra (''select data from docs where id = 2'') [] (\<lambda>sel2. seqP
       [ignore (fc_execute sel2 tra)] (
      bindP (blobId_value sel2 0) (\<lambda>blob2.
      with_Blob_open att tra blob2 [SetBlobType ''STREAM''] (\<lambda>stream2. bindP (fc_blobs_readBuf stream2) (\<lambda>buf.
      seqP
       [say (nl @ ''stream twin: readSegment returned '' @ show_nat (length buf) @
            '' bytes in one chunk  "'' @ (c_str (chars buf)) @ ''"'' @ nl),
        do_call (Fc (FcBlob stream2 (FcSeek ''FROM_BEGIN'' 35)))] (
      bindP (fc_blobs_readBuf stream2) (\<lambda>buf2.
      seqP
       [say (''seek(FROM_BEGIN, 35) then read: "'' @ (c_str (chars buf2)) @ ''"'' @ nl),
        do_call (Fc (FcBlob stream2 FcBlobClose)),
        say (nl @ ''-- column subtypes (RDB$FIELDS) --'' @ nl)] (
      with_Statement att tra ((''select trim(rf.rdb$field_name), f.rdb$field_sub_type, trim(cs.rdb$character_set_name) '' @
      ''from rdb$relation_fields rf '' @
      ''join rdb$fields f on rf.rdb$field_source = f.rdb$field_name '' @
      ''left join rdb$character_sets cs '' @
      ''  on f.rdb$character_set_id = cs.rdb$character_set_id '' @
      ''where rf.rdb$relation_name = 'DOCS' and f.rdb$field_type = 261 '' @
      ''order by 1'')) [] (\<lambda>sub. seqP
       [say (''FIELD SUBTYPE CHARSET'' @ nl @ ''----- ------- -------'' @ nl),
        for_rows sub tra (bindP (str_or sub 0 ''<null>'') (\<lambda>c1.
      bindP (str_or sub 1 ''<null>'') (\<lambda>c2.
      bindP (str_or sub 2 ''<null>'') (\<lambda>c3.
      block
       [say (ljust 5 c1 @ '' '' @ ljust 7 c2 @ '' '' @ c3 @ nl)])))),
        att_execute att tra ((''insert into docs (id, note) values (3, '' @
      ''blob_append(cast('' @ [CHR 0x27, CHR 0x27] @ '' as blob sub_type text), 'part1-', 'part2-', 'part3'))'')),
        say (nl @ ''-- BLOB_APPEND result --'' @ nl)] (
      with_Statement att tra ((''select id, octet_length(note), char_length(note), cast(note as varchar(50)) '' @
      ''from docs where id = 3'')) [] (\<lambda>ba. seqP
       [ignore (fc_execute ba tra),
        say (''ID OCTETS CHARS CONTENT'' @ nl @ ''-- ------ ----- -----------------'' @ nl)] (
      bindP (str_or ba 0 ''?'') (\<lambda>c1.
      bindP (str_or ba 1 ''?'') (\<lambda>c2.
      bindP (str_or ba 2 ''?'') (\<lambda>c3.
      bindP (str_or ba 3 ''?'') (\<lambda>c4.
      returning
       [say (ljust 2 c1 @ '' '' @ ljust 6 c2 @ '' '' @ ljust 5 c3 @ '' '' @ c4 @ nl),
        fc_commit tra,
        say (''done.'' @ nl)]
       0)))))))))))))))))))))))))))))))))))))))))))))) fc_report)\<close>


section \<open>blr.cpp\<close>

definition fc_blr_fetchBlob :: "nat \<Rightarrow> nat \<Rightarrow> string \<Rightarrow> ('s, byte list) prog" where
  \<open>fc_blr_fetchBlob att tra sql = with_Statement att tra sql [] (\<lambda>stmt. bindP (fc_execute stmt tra) (\<lambda>row.
      seqP
       [if \<not> row then fail (FbException (fc_exception ''no row'')) else ret ()] (
      bindP (ask (Fc (FcStmt stmt (FcGet FBlobId 0)))) (\<lambda>r.
      seqP
       [if r_null r then fail (FbException (fc_exception ''null blob'')) else ret ()] (
      with_Blob_open att tra (r_n r) [] (\<lambda>blob. bindP (blob_length blob) (\<lambda>n.
      bindP (ask (Fc (FcBlob blob (FcRead n)))) (\<lambda>b.
      ret (fit n (r_b b))))))))))\<close>

text \<open>
  \<open>hexDump\<close>, \<open>expr\<close> and the decoding statements of \<open>main\<close> are, word for word, those of
  \<open>samples/cpp/blr.cpp\<close>.
\<close>

definition fc_blr_hexDump :: "byte list \<Rightarrow> nat \<Rightarrow> string" where
  "fc_blr_hexDump b limit = hexDump b limit"

definition fc_blr_expr :: "header_values \<Rightarrow> byte list \<Rightarrow> nat \<Rightarrow> nat \<Rightarrow> (string \<times> nat) option" where
  "fc_blr_expr h b p depth = expr h b p depth"

definition fc_blr_computed :: "header_values \<Rightarrow> byte list \<Rightarrow> string option" where
  \<open>fc_blr_computed h b =
    (case rd b 0 of None \<Rightarrow> None
     | Some v \<Rightarrow>
        (case fc_blr_expr h b 1 1 of None \<Rightarrow> None
         | Some sp \<Rightarrow>
            Some ((((if unat v = blr_val h blr_version5 then ''blr_version5'' else ''unexpected version!'')) @
            nl @ (fst sp) @
            ((if snd sp < length b \<and> unat (b ! snd sp) = blr_val h blr_eoc
               then ''blr_eoc'' else ''(no blr_eoc?)'')) @
            nl))))\<close>

definition fc_blr_main :: "('s, int) prog" where
  \<open>fc_blr_main = bindP (fc_argOrDefault 1 ''inet://localhost/employee'') (\<lambda>database.
      try_fb (with_Client (\<lambda>client. bindP (fc_defaultOptions) (\<lambda>opts.
      with_Attachment client database opts (\<lambda>att. with_Transaction att [] (\<lambda>tra. seqP
       [say (''== computed column EMPLOYEE.FULL_NAME '' @ [CHR 0xE2, CHR 0x80, CHR 0x94] @
            '' RDB$FIELDS.RDB$COMPUTED_BLR'' @ nl)] (
      bindP (fc_blr_fetchBlob att tra ((''SELECT f.RDB$COMPUTED_BLR FROM RDB$FIELDS f'' @
              '' JOIN RDB$RELATION_FIELDS rf ON f.RDB$FIELD_NAME = rf.RDB$FIELD_SOURCE'' @
              '' WHERE rf.RDB$RELATION_NAME = 'EMPLOYEE'' @ [CHR 0x27] @
              '' AND rf.RDB$FIELD_NAME = 'FULL_NAME'' @ [CHR 0x27]))) (\<lambda>blr.
      seqP
       [say (fc_blr_hexDump blr 64)] (
      bindP (headers) (\<lambda>h.
      bindP (checked ''BLR read'' (fc_blr_computed h blr)) (\<lambda>text.
      seqP
       [say text,
        say (nl @ ''== procedure GET_EMP_PROJ '' @ [CHR 0xE2, CHR 0x80, CHR 0x94] @
            '' RDB$PROCEDURES.RDB$PROCEDURE_BLR'' @ nl)] (
      bindP (fc_blr_fetchBlob att tra ((''SELECT RDB$PROCEDURE_BLR FROM RDB$PROCEDURES'' @
              '' WHERE RDB$PROCEDURE_NAME = 'GET_EMP_PROJ'' @ [CHR 0x27]))) (\<lambda>blr2.
      seqP
       [say (fc_blr_hexDump blr2 32)] (
      bindP (checked ''BLR read'' (blr_procedure h blr2)) (\<lambda>text2.
      returning
       [say text2,
        fc_commit tra]
       0)))))))))))))) fc_report)\<close>


section \<open>ods_header.cpp\<close>

text \<open>
  The half that reads the file (the readers, \<open>pageTypeName\<close>, the header page and the census) is,
  word for word, that of \<open>samples/cpp/ods_header.cpp\<close>.
\<close>

definition fc_ods_header_main :: "('s, int) prog" where
  \<open>fc_ods_header_main = bindP (fc_argOrDefault 1 ''inet://localhost//tmp/fbhandson/ods_fbcpp.fdb'') (\<lambda>database.
      bindP (fc_argOrDefault 2 ''/tmp/fbhandson/ods_fbcpp.fdb'') (\<lambda>localFile.
      try_fb (with_Client (\<lambda>client. seqP
       [with_attachOrCreate client database (\<lambda>att. seqP
       [for_each [0..<3] (\<lambda>i. with_Transaction att [] (\<lambda>t. with_Statement att t (''select 1 from rdb$database'') [] (\<lambda>s. block
       [ignore (fc_execute s t),
        fc_commit t])))] (
      with_Transaction att [] (\<lambda>tra. with_Statement att tra ((''select mon$page_size, mon$ods_major, mon$ods_minor,'' @
                ''       mon$oldest_transaction, mon$oldest_active,'' @
                ''       mon$oldest_snapshot, mon$next_transaction '' @
                ''from mon$database'')) [] (\<lambda>mon. seqP
       [ignore (fc_execute mon tra),
        say (''-- server's view (MON$DATABASE) --'' @ nl)] (
      bindP (str_or mon 0 ''?'') (\<lambda>c1.
      bindP (str_or mon 1 ''?'') (\<lambda>c2.
      bindP (str_or mon 2 ''?'') (\<lambda>c3.
      bindP (str_or mon 3 ''?'') (\<lambda>c4.
      bindP (str_or mon 4 ''?'') (\<lambda>c5.
      bindP (str_or mon 5 ''?'') (\<lambda>c6.
      bindP (str_or mon 6 ''?'') (\<lambda>c7.
      block
       [say (''page_size '' @ c1 @ '', ODS '' @ c2 @ ''.'' @ c3 @ '', OIT '' @ c4 @
            '', OAT '' @ c5 @ '', OST '' @ c6 @ '', next '' @ c7 @ nl),
        fc_commit tra]))))))))))))] (
      bindP (ask_void (Os (ReadFile localFile))) (\<lambda>f.
      (if r_null f then (returning
       [say_err (localFile @ '': '' @ (r_s f) @ nl)]
       1)
        else ods_census localFile (r_b f)))))) fc_report))\<close>


section \<open>Lifetimes and reports\<close>

lemma tame_raw [simp]:
  "tame (Master m) s" "tame (StatusDispose h) s" "tame (Svc h v) s"
  by (auto simp: tame_def live_step_def)

lemma live_handle_of: "tame c s \<Longrightarrow> keeps (lives s) (handle_of c)"
  unfolding handle_of_def by (intro keeps_rules live_rules)

lemma live_ask_both [live_rules]: "tame c s \<Longrightarrow> keeps (lives s) (ask_both c)"
  by (rule keepsI) (auto simp: ask_both_def lives_def tame_def split: prod.splits)

lemma live_stream_scopes [live_rules]:
  "(FAttachment, a) \<in> set s \<Longrightarrow> (FTransaction, t) \<in> set s
     \<Longrightarrow> (\<And>h. keeps (lives ((FBlob, h) # s)) (b1 h)) \<Longrightarrow> keeps (lives s) (with_Blob_create a t o1 b1)"
  "(FAttachment, a) \<in> set s \<Longrightarrow> (FTransaction, t) \<in> set s
     \<Longrightarrow> (\<And>h. keeps (lives ((FBlob, h) # s)) (b2 h)) \<Longrightarrow> keeps (lives s) (with_Blob_open a t i o2 b2)"
  "(FClient, cl) \<in> set s \<Longrightarrow> (\<And>h. keeps (lives ((FBackupManager, h) # s)) (b3 h))
     \<Longrightarrow> keeps (lives s) (with_BackupManager cl o3 b3)"
  unfolding with_Blob_create_def with_Blob_open_def with_BackupManager_def
  by (rule live_fc_scope, rule makes_ctor; simp add: constructs_def uses_def)+

lemma live_stream_values [live_rules]:
  "keeps (lives s) fc_serviceOptions"
  "(FBlob, b) \<in> set s \<Longrightarrow> keeps (lives s) (blob_id b)"
  "(FBlob, b) \<in> set s \<Longrightarrow> keeps (lives s) (blob_length b)"
  "(FStatement, st) \<in> set s \<Longrightarrow> keeps (lives s) (blobId_value st i)"
  "(FBackupManager, v) \<in> set s \<Longrightarrow> (\<And>l. keeps (lives s) (f l)) \<Longrightarrow> keeps (lives s) (fc_service_lines v c f)"
  "(FBackupManager, v) \<in> set s \<Longrightarrow> (\<And>l. keeps (lives s) (f l)) \<Longrightarrow> keeps (lives s) (fc_service_run v c f)"
  unfolding fc_serviceOptions_def envOr_def blob_id_def blob_length_def blobId_value_def fc_service_run_def
    fc_service_lines_def
  by (intro keeps_rules live_rules; simp add: uses_def)+

lemma live_services_version [live_rules]: "keeps (lives s) (fc_services_version svc)"
  unfolding fc_services_version_def by (intro keeps_rules live_rules live_handle_of; simp)

lemma live_readBuf [live_rules]: "(FBlob, b) \<in> set s \<Longrightarrow> keeps (lives s) (fc_blobs_readBuf b)"
  unfolding fc_blobs_readBuf_def by (intro keeps_rules live_rules; simp)

lemma live_readSegments [live_rules]: "(FBlob, b) \<in> set s \<Longrightarrow> keeps (lives s) (fc_blobs_readSegments b)"
  unfolding fc_blobs_readSegments_def by (intro keeps_rules live_rules)

lemma live_ods_census [live_rules]: "keeps (lives s) (ods_census path f)"
proof -
  have "keeps (lives s) (run_census f n)" for n
    by (rule keepsI) (auto simp: run_census_def)
  then show ?thesis unfolding ods_census_def by (intro keeps_rules live_rules)
qed

lemma live_fetchBlob [live_rules]:
  "(FAttachment, a) \<in> set s \<Longrightarrow> (FTransaction, t) \<in> set s \<Longrightarrow> keeps (lives s) (fc_blr_fetchBlob a t sql)"
  unfolding fc_blr_fetchBlob_def by (intro keeps_rules live_rules; simp add: uses_def)

lemma returns_ok_streams [returns_rules]:
  "(\<And>h. returns_ok (body h)) \<Longrightarrow> returns_ok (with_Blob_create a t o1 body)"
  "(\<And>h. returns_ok (body h)) \<Longrightarrow> returns_ok (with_Blob_open a t i o2 body)"
  "(\<And>h. returns_ok (body h)) \<Longrightarrow> returns_ok (with_BackupManager cl o3 body)"
  unfolding with_Blob_create_def with_Blob_open_def with_BackupManager_def
  by (rule returns_ok_fc_scope; assumption)+

lemma live_fcstream [live_rules]:
  "keeps (lives s) (fc_backup_gbakLine line)"
  unfolding fc_backup_gbakLine_def
  by (intro keeps_rules live_rules; simp add: uses_def)+

definition fcstream_mains :: "('s, int) prog list" where
  "fcstream_mains = [fc_backup_main, fc_services_main, fc_blobs_main, fc_blr_main, fc_ods_header_main]"

lemmas fcstream_defs = fc_backup_main_def fc_services_main_def fc_blobs_main_def fc_blr_main_def fc_ods_header_main_def

lemma fcstream_lives: "\<forall>m \<in> set fcstream_mains. keeps (lives s) m"
  unfolding fcstream_mains_def fcstream_defs list.set ball_simps
  by (intro conjI TrueI keeps_rules live_rules; simp add: uses_def)

lemma fcstream_reports: "\<forall>m \<in> set fcstream_mains. reports m"
  unfolding fcstream_mains_def fcstream_defs list.set ball_simps ods_census_def
  by (intro conjI reports_fc_arg reports_bind_total [OF arguments_total] reports_Let reports_fc returns_rules TrueI; simp)

end
