(* ===== verification/Fbcpp_Events.thy ===== *)
theory Fbcpp_Events
  imports Fbcpp_Kit
begin

text \<open>
  \<open>samples/fb-cpp/events.cpp\<close>: an \<open>EventListener\<close> whose dispatcher thread adds to a counter that
  \<open>main\<close> waits on.  The class \<open>Delivered\<close> is modelled twice: as the calls of \<open>main\<close>, where a look at
  the counter sees what the dispatcher has added since the last one, and as the interleaving of
  the two threads step by step.  Of the interleaving is shown that the mutex is held by one thread
  at a time and that no delivery is lost or counted twice.
\<close>


section \<open>events.cpp\<close>

definition with_EventListener :: "nat \<Rightarrow> string list \<Rightarrow> (nat \<Rightarrow> ('s, 'a) prog) \<Rightarrow> ('s, 'a) prog" where
  "with_EventListener att evs body = fc_scope FListener (handle_of (Fc (FcEventListener att evs))) body"

text \<open>\<open>Delivered::add\<close>, run by the dispatcher once per event.\<close>

definition fc_events_add :: "32 word \<Rightarrow> nat \<Rightarrow> 32 word" where
  "fc_events_add count n = count + of_nat n"

text \<open>What \<open>main\<close> finds in \<open>count\<close> when it holds the mutex.\<close>

definition fc_events_look :: "nat \<Rightarrow> 32 word \<Rightarrow> ('s, 32 word) prog" where
  \<open>fc_events_look listener count = bindP (ask_void (Fc (FcListener listener FcDispatch))) (\<lambda>r.
      ret (foldl fc_events_add count (r_ns r)))\<close>

text \<open>
  \<open>Delivered::take\<close>: \<open>wait_for\<close> with a predicate tests it, waits, and tests it once more after the
  timeout; the counter is read and reset under the mutex.
\<close>

definition fc_events_take :: "nat \<Rightarrow> nat \<Rightarrow> 32 word \<Rightarrow> ('s, 32 word) prog" where
  \<open>fc_events_take listener timeoutMs count =
    loopP (\<lambda>c. bindP (fc_events_look listener c) (\<lambda>c1.
      (if c1 \<noteq> 0 then ret (Inr c1)
      else (bindP (ask_void (Fc (FcListener listener (FcWait timeoutMs)))) (\<lambda>r.
      (if r_n r \<noteq> 0 then ret (Inl c1)
        else (bindP (fc_events_look listener c1) (\<lambda>c2.
      ret (Inr c2))))))))) count\<close>

text \<open>Part 1 of \<open>main\<close>: a rolled back post; the value is \<open>rc\<close>.\<close>

definition fc_events_rollback :: "nat \<Rightarrow> nat \<Rightarrow> ('s, int) prog" where
  \<open>fc_events_rollback postAtt listener = with_Transaction postAtt [] (\<lambda>tra. seqP
       [att_execute postAtt tra (''execute block as begin post_event 'demo_event'; end''),
        fc_rollback tra] (
      bindP (fc_events_take listener 1500 0) (\<lambda>got.
      returning
       [say (''after POST_EVENT + ROLLBACK: delivered count = '' @ show_nat (unat got) @
            ''  '' @
            (if got = 0 then ''(correct - rollback swallows posts)'' else ''(UNEXPECTED)'') @ nl)]
       (if got \<noteq> 0 then 1 else 0))))\<close>

text \<open>Part 2: three posts and a commit.\<close>

definition fc_events_commit :: "nat \<Rightarrow> nat \<Rightarrow> int \<Rightarrow> ('s, int) prog" where
  \<open>fc_events_commit postAtt listener rc = with_Transaction postAtt [] (\<lambda>tra. seqP
       [att_execute postAtt tra ((''execute block as begin'' @
        '' post_event 'demo_event'; post_event 'demo_event'; post_event 'demo_event'; end'')),
        say (''3 x POST_EVENT executed, not yet committed - waiting briefly...'' @ nl)] (
      bindP (fc_events_take listener 1000 0) (\<lambda>early.
      seqP
       [say (''before COMMIT: delivered count = '' @ show_nat (unat early) @ ''  '' @
            (if early = 0 then ''(correct - delivery is commit-time)'' else ''(UNEXPECTED)'') @
            nl),
        fc_commit tra] (
      bindP (fc_events_take listener 3000 0) (\<lambda>got.
      returning
       [say (''after COMMIT: delivered count = '' @ show_nat (unat got) @ ''  '' @
            (if got = 3 then ''(correct - one delivery, count 3)'' else ''(UNEXPECTED)'') @ nl)]
       (if early \<noteq> 0 \<or> got \<noteq> 3 then 1 else rc))))))\<close>

definition fc_events_main :: "('s, int) prog" where
  \<open>fc_events_main = bindP (fc_argOrDefault 1 ''inet://localhost//tmp/fbhandson/events_fbcpp.fdb'') (\<lambda>database.
      try_fb (with_Client (\<lambda>client. with_attachOrCreate client database (\<lambda>listenAtt. bindP (fc_defaultOptions) (\<lambda>opts.
      with_Attachment client database opts (\<lambda>postAtt. with_EventListener listenAtt [''demo_event''] (\<lambda>listener. seqP
       [say (''listener registered for 'demo_event' (baseline consumed by EventListener)'' @ nl)] (
      bindP (fc_events_rollback postAtt listener) (\<lambda>rc1.
      bindP (fc_events_commit postAtt listener rc1) (\<lambda>rc.
      returning
       [do_call (Fc (FcListener listener FcStop)),
        say (if rc = 0 then ((''PASS'' @ nl)) else ((''FAIL'' @ nl)))]
       rc))))))))) fc_report)\<close>


section \<open>Lifetimes and exit codes\<close>

lemma live_EventListener [live_rules]:
  "(FAttachment, a) \<in> set s \<Longrightarrow> (\<And>h. keeps (lives ((FListener, h) # s)) (b h))
     \<Longrightarrow> keeps (lives s) (with_EventListener a ns b)"
  unfolding with_EventListener_def
  by (rule live_fc_scope, rule makes_ctor; simp add: constructs_def uses_def)

lemma live_events_take [live_rules]:
  "(FListener, l) \<in> set s \<Longrightarrow> keeps (lives s) (fc_events_take l n c)"
  unfolding fc_events_take_def fc_events_look_def by (intro keeps_rules live_rules; simp)

lemma live_events_parts [live_rules]:
  "(FAttachment, a) \<in> set s \<Longrightarrow> (FListener, l) \<in> set s \<Longrightarrow> keeps (lives s) (fc_events_rollback a l)"
  "(FAttachment, a) \<in> set s \<Longrightarrow> (FListener, l) \<in> set s \<Longrightarrow> keeps (lives s) (fc_events_commit a l rc)"
  unfolding fc_events_rollback_def fc_events_commit_def
  by (intro keeps_rules live_rules; simp add: uses_def)+

lemma live_events_main: "keeps (lives s) fc_events_main"
  unfolding fc_events_main_def by (intro keeps_rules live_rules; simp add: uses_def)


section \<open>The two threads\<close>

text \<open>
  Every step a thread takes on \<open>Delivered\<close>: acquiring and releasing \<open>m\<close>, adding, waiting on \<open>cv\<close>
  (which releases the mutex while asleep), waking up or timing out, reading the counter and
  resetting it.  \<open>posted\<close> and \<open>reported\<close> are what \<open>add\<close> was given and what \<open>take\<close> has returned.
\<close>

datatype owner = Dispatcher | Taker

datatype dpc = DIdle | DWant "32 word" | DHold "32 word" | DDone

datatype tpc = TIdle | TWant | THold | TAsleep | TLate | TLast | TRead "32 word" | TReset "32 word"

record delivered =
  mutex :: "owner option"
  count :: "32 word"
  dpc :: dpc
  tpc :: tpc
  posted :: "32 word"
  reported :: "32 word"

inductive dstep :: "delivered \<Rightarrow> delivered \<Rightarrow> bool" where
  d_call: "dpc s = DIdle \<Longrightarrow> dstep s (s\<lparr>dpc := DWant n\<rparr>)"
| d_lock: "dpc s = DWant n \<Longrightarrow> mutex s = None \<Longrightarrow> dstep s (s\<lparr>mutex := Some Dispatcher, dpc := DHold n\<rparr>)"
| d_add: "dpc s = DHold n \<Longrightarrow> dstep s (s\<lparr>count := count s + n, posted := posted s + n, dpc := DDone\<rparr>)"
| d_unlock: "dpc s = DDone \<Longrightarrow> dstep s (s\<lparr>mutex := None, dpc := DIdle\<rparr>)"
| t_call: "tpc s = TIdle \<Longrightarrow> dstep s (s\<lparr>tpc := TWant\<rparr>)"
| t_lock: "tpc s = TWant \<Longrightarrow> mutex s = None \<Longrightarrow> dstep s (s\<lparr>mutex := Some Taker, tpc := THold\<rparr>)"
| t_wait: "tpc s = THold \<Longrightarrow> count s = 0 \<Longrightarrow> dstep s (s\<lparr>mutex := None, tpc := TAsleep\<rparr>)"
| t_wake: "tpc s = TAsleep \<Longrightarrow> dstep s (s\<lparr>tpc := TWant\<rparr>)"
| t_timeout: "tpc s = TAsleep \<Longrightarrow> dstep s (s\<lparr>tpc := TLate\<rparr>)"
| t_relock: "tpc s = TLate \<Longrightarrow> mutex s = None \<Longrightarrow> dstep s (s\<lparr>mutex := Some Taker, tpc := TLast\<rparr>)"
| t_read: "tpc s = THold \<Longrightarrow> count s \<noteq> 0 \<Longrightarrow> dstep s (s\<lparr>tpc := TRead (count s)\<rparr>)"
| t_last: "tpc s = TLast \<Longrightarrow> dstep s (s\<lparr>tpc := TRead (count s)\<rparr>)"
| t_reset: "tpc s = TRead g \<Longrightarrow> dstep s (s\<lparr>count := 0, tpc := TReset g\<rparr>)"
| t_return: "tpc s = TReset g \<Longrightarrow> dstep s (s\<lparr>mutex := None, reported := reported s + g, tpc := TIdle\<rparr>)"

definition dinit :: delivered where
  "dinit = \<lparr>mutex = None, count = 0, dpc = DIdle, tpc = TIdle, posted = 0, reported = 0\<rparr>"

definition dholds :: "delivered \<Rightarrow> bool" where
  "dholds s \<longleftrightarrow> (case dpc s of DHold n \<Rightarrow> True | DDone \<Rightarrow> True | _ \<Rightarrow> False)"

definition tholds :: "delivered \<Rightarrow> bool" where
  "tholds s \<longleftrightarrow> (case tpc s of THold \<Rightarrow> True | TLast \<Rightarrow> True | TRead g \<Rightarrow> True | TReset g \<Rightarrow> True | _ \<Rightarrow> False)"

definition in_hand :: "delivered \<Rightarrow> 32 word" where
  "in_hand s = (case tpc s of TReset g \<Rightarrow> g | _ \<Rightarrow> 0)"

definition dinv :: "delivered \<Rightarrow> bool" where
  "dinv s \<longleftrightarrow> (dholds s \<longleftrightarrow> mutex s = Some Dispatcher) \<and> (tholds s \<longleftrightarrow> mutex s = Some Taker) \<and>
     reported s + in_hand s + count s = posted s \<and> (\<forall>g. tpc s = TRead g \<longrightarrow> g = count s)"

lemmas dinv_defs = dinv_def dholds_def tholds_def in_hand_def

lemma dinv_step: "dstep s s' \<Longrightarrow> dinv s \<Longrightarrow> dinv s'"
  by (induction rule: dstep.induct)
    (auto simp: dinv_defs algebra_simps split: dpc.splits tpc.splits)

lemma dinv_reach: "dstep\<^sup>*\<^sup>* dinit s \<Longrightarrow> dinv s"
  by (induction rule: rtranclp_induct) (auto simp: dinv_step, simp add: dinv_defs dinit_def)

text \<open>What the dispatcher has handed over, read off the log.\<close>

definition handed :: "nat \<Rightarrow> event \<Rightarrow> 32 word" where
  "handed l ev = (case ev of (c, st, r) \<Rightarrow>
     if c = Fc (FcListener l FcDispatch) then sum_list (map of_nat (r_ns r)) else 0)"

definition handed_over :: "nat \<Rightarrow> 's world \<Rightarrow> 32 word" where
  "handed_over l w = sum_list (map (handed l) (log w))"

lemma foldl_add: "foldl fc_events_add c ns = c + sum_list (map of_nat ns)"
  by (induction ns arbitrary: c) (simp_all add: fc_events_add_def algebra_simps)

lemma look_sees:
  "hoare (\<lambda>w. c = k + handed_over l w) (fc_events_look l c) (\<lambda>c' w. c' = k + handed_over l w) (\<lambda>_ _. True)"
  by (rule hoareI) (auto simp: fc_events_look_def bindP_def ask_void_def ret_def foldl_add handed_over_def
      handed_def algebra_simps split: prod.splits)

lemma wait_sees:
  "hoare (\<lambda>w. c = k + handed_over l w) (ask_void (Fc (FcListener l (FcWait t))))
    (\<lambda>_ w. c = k + handed_over l w) (\<lambda>_ _. True)"
  by (rule hoareI) (auto simp: ask_void_def handed_over_def handed_def split: prod.splits)

lemma take_sees:
  "hoare (\<lambda>w. c = k + handed_over l w) (fc_events_take l t c) (\<lambda>got w. got = k + handed_over l w) (\<lambda>_ _. True)"
  unfolding fc_events_take_def
proof (rule hoare_loopP [where I = "\<lambda>c w. c = k + handed_over l w"])
  fix c
  show "hoare (\<lambda>w. c = k + handed_over l w)
      (bindP (fc_events_look l c) (\<lambda>c1. if c1 \<noteq> 0 then ret (Inr c1)
         else bindP (ask_void (Fc (FcListener l (FcWait t)))) (\<lambda>r. if r_n r \<noteq> 0 then ret (Inl c1)
           else bindP (fc_events_look l c1) (\<lambda>c2. ret (Inr c2)))))
      (\<lambda>r w. case r of Inl c \<Rightarrow> c = k + handed_over l w | Inr got \<Rightarrow> got = k + handed_over l w) (\<lambda>_ _. True)"
    by (intro hoare_bindP [OF look_sees] hoare_bindP [OF wait_sees] hoare_if hoare_ret) auto
qed


section \<open>Properties\<close>

text \<open>
  C33.  In every interleaving of the dispatcher thread with \<open>take\<close>, whatever the mutex and the
  condition variable do: at most one thread holds the mutex, and whenever no \<open>take\<close> is under way
  the counts that \<open>take\<close> has returned and the count still there add up to what was posted (as
  32-bit unsigned numbers).  No delivery is lost or counted twice.
\<close>

theorem delivered_conserved:
  assumes "dstep\<^sup>*\<^sup>* dinit s"
  shows "\<not> (dholds s \<and> tholds s) \<and> (tpc s = TIdle \<longrightarrow> reported s + count s = posted s)"
  using dinv_reach [OF assms] by (auto simp: dinv_defs)

lemma delivered_run:
  "dstep\<^sup>*\<^sup>* dinit \<lparr>mutex = None, count = 2, dpc = DIdle, tpc = TIdle, posted = 5, reported = 3\<rparr>"
proof -
  let ?S = "\<lambda>m c d t p r. \<lparr>mutex = m, count = c, dpc = d, tpc = t, posted = p, reported = r\<rparr> :: delivered"
  let ?D = "Some Dispatcher" and ?T = "Some Taker"
  have sleep: "dstep\<^sup>*\<^sup>* dinit (?S None 0 DIdle TAsleep 0 0)" unfolding dinit_def
    using t_call [of "?S None 0 DIdle TIdle 0 0"] t_lock [of "?S None 0 DIdle TWant 0 0"]
      t_wait [of "?S ?T 0 DIdle THold 0 0"]
    by (simp add: rtranclp.rtrancl_into_rtrancl)
  have first: "dstep\<^sup>*\<^sup>* (?S None 0 DIdle TAsleep 0 0) (?S None 3 DIdle TAsleep 3 0)"
    using d_call [of "?S None 0 DIdle TAsleep 0 0" 3] d_lock [of "?S None 0 (DWant 3) TAsleep 0 0" 3]
      d_add [of "?S ?D 0 (DHold 3) TAsleep 0 0" 3] d_unlock [of "?S ?D 3 DDone TAsleep 3 0"]
    by (simp add: rtranclp.rtrancl_into_rtrancl)
  have taken: "dstep\<^sup>*\<^sup>* (?S None 3 DIdle TAsleep 3 0) (?S None 0 DIdle TIdle 3 3)"
    using t_wake [of "?S None 3 DIdle TAsleep 3 0"] t_lock [of "?S None 3 DIdle TWant 3 0"]
      t_read [of "?S ?T 3 DIdle THold 3 0"] t_reset [of "?S ?T 3 DIdle (TRead 3) 3 0" 3]
      t_return [of "?S ?T 0 DIdle (TReset 3) 3 0" 3]
    by (simp add: rtranclp.rtrancl_into_rtrancl)
  have second: "dstep\<^sup>*\<^sup>* (?S None 0 DIdle TIdle 3 3) (?S None 2 DIdle TIdle 5 3)"
    using d_call [of "?S None 0 DIdle TIdle 3 3" 2] d_lock [of "?S None 0 (DWant 2) TIdle 3 3" 2]
      d_add [of "?S ?D 0 (DHold 2) TIdle 3 3" 2] d_unlock [of "?S ?D 2 DDone TIdle 5 3"]
    by (simp add: rtranclp.rtrancl_into_rtrancl)
  show ?thesis using sleep first taken second by (meson rtranclp_trans)
qed

theorem delivered_conserved_witness:
  "(3 :: 32 word) + 2 = 5 \<and> \<not> (dholds \<lparr>mutex = None, count = 2, dpc = DIdle, tpc = TIdle, posted = 5, reported = 3\<rparr> \<and>
     tholds \<lparr>mutex = None, count = 2, dpc = DIdle, tpc = TIdle, posted = 5, reported = 3\<rparr>)"
  using delivered_conserved [OF delivered_run] by simp

end
