(* ===== verification/Fbcpp_Pool.thy ===== *)
theory Fbcpp_Pool
  imports Fbcpp_Kit Double_Text
begin

text \<open>
  \<open>numerics.cpp\<close> and \<open>pooling.cpp\<close> from \<open>samples/fb-cpp\<close>: typed values as the wrapper delivers them,
  and the client-side pool, whose leases are attachments that go back to the pool.  The lease of
  \<open>third\<close> is optional and assigned twice; dereferencing it while it is empty is undefined.
\<close>


section \<open>numerics.cpp\<close>

text \<open>A \<open>double\<close> in an answer: the mantissa and the binary exponent of the number it stands for.\<close>

definition double_value :: "reply \<Rightarrow> double" where
  "double_value r = of_int (member (r_ints r) 0) * 2 powi (member (r_ints r) 1)"

text \<open>The statement that has to fail, with what is printed when it does not.\<close>

definition fc_numerics_trap :: "nat \<Rightarrow> nat \<Rightarrow> string \<Rightarrow> string \<Rightarrow> string \<Rightarrow> string \<Rightarrow> ('s, unit) prog" where
  \<open>fc_numerics_trap att tra sql bug label rest = try_Database (with_Statement att tra sql [] (\<lambda>s. block
       [ignore (fc_execute s tra),
        say bug])) (\<lambda>e. bindP (getErrorCode e) (\<lambda>c1.
      bindP (what e) (\<lambda>c2.
      block
       [say (label @ '': gds '' @ show_int c1 @ '' '' @ [CHR 0xE2, CHR 0x80, CHR 0x94] @
            '' '' @ (first_line c2) @ nl @ rest)])))\<close>

text \<open>\<open>double(raw.value) * 1e-4\<close>\<close>

definition fc_numerics_value :: "int \<Rightarrow> double" where
  "fc_numerics_value raw = dbl (dbl (of_int raw) * dbl (1 / 10000))"

definition fc_numerics_exact :: "nat \<Rightarrow> nat \<Rightarrow> ('s, unit) prog" where
  \<open>fc_numerics_exact att tra = with_Statement att tra ((''SELECT (CAST(0.1 AS DOUBLE PRECISION) + 0.2) - 0.3,'' @
      ''       (CAST(0.1 AS DECFLOAT(34)) + 0.2) - 0.3 FROM RDB$DATABASE'')) [] (\<lambda>s. seqP
       [ignore (fc_execute s tra)] (
      bindP (fc_value FDouble s 0) (\<lambda>binary.
      bindP (fc_value FDecFloat34 s 1) (\<lambda>decimal.
      seqP
       [say (''(0.1+0.2)-0.3 in DOUBLE PRECISION : '' @ general 17 (double_value binary) @
            ''   (a C++ double)'' @ nl)] (
      bindP (dec_show (r_s decimal)) (\<lambda>c1.
      bindP (dec_eq (r_s decimal) ''0'') (\<lambda>c2.
      block
       [say (''(0.1+0.2)-0.3 in DECFLOAT(34)     : '' @ c1 @ ''   == 0 in C++? '' @
            (if c2 then ''yes'' else ''NO'') @ nl @ nl)])))))))\<close>

definition fc_numerics_wire :: "nat \<Rightarrow> nat \<Rightarrow> ('s, unit) prog" where
  \<open>fc_numerics_wire att tra = with_Statement att tra (''SELECT CAST(12345.6789 AS NUMERIC(18,4)) FROM RDB$DATABASE'') [] (\<lambda>s. bindP (outputDescriptors s) (\<lambda>descs.
      bindP (checked ''getOutputDescriptors()[0]'' (if descs = [] then None else Some (hd descs))) (\<lambda>d.
      bindP (headers) (\<lambda>h.
      seqP
       [say (''NUMERIC(18,4) Descriptor: type='' @ show_nat (d_type d) @ '' ('' @
            (if d_type d = enum_val h (''DescriptorOriginalType::INT64'') then ''SQL_INT64'' else ''?'') @
            ''), length='' @ show_nat (d_length d) @ '', scale='' @ show_int (d_scale d) @
            nl),
        ignore (fc_execute s tra)] (
      bindP (fc_value FScaledInt64 s 0) (\<lambda>raw.
      let value = member (r_ints raw) 0 in
      let scale = member (r_ints raw) 1 in
      block
       [say (''getScaledInt64()        : value='' @ show_int value @ ''  scale='' @ show_int scale @ nl),
        say (''value = raw * 10^scale  : '' @ show_int value @ '' * 10^'' @ show_int scale @
            '' = '' @ fixed 4 (fc_numerics_value value) @ nl @ nl)]))))))\<close>

definition fc_numerics_main :: "('s, int) prog" where
  \<open>fc_numerics_main = bindP (fc_argOrDefault 1 ''inet://localhost//tmp/fbhandson/numerics_fbcpp.fdb'') (\<lambda>database.
      try_fb (with_Client (\<lambda>client. with_attachOrCreate client database (\<lambda>att. with_Transaction att [] (\<lambda>tra. returning
       [fc_numerics_exact att tra,
        fc_numerics_wire att tra,
        with_Statement att tra ((''SELECT CAST(170141183460469231731687303715884105727 AS INT128)'' @
                '' FROM RDB$DATABASE'')) [] (\<lambda>s. seqP
       [ignore (fc_execute s tra)] (
      bindP (fc_value FInt128 s 0) (\<lambda>big.
      block
       [say (''INT128 max  : '' @ (show_int (r_n big)) @ ''   (a Boost.Multiprecision int128)'' @ nl)]))),
        fc_numerics_trap att tra ((''SELECT CAST(170141183460469231731687303715884105727 AS INT128) + 1'' @
              '' FROM RDB$DATABASE'')) ((''BUG: overflow not detected'' @ nl)) (''INT128 max+1'') (nl),
        fc_numerics_trap att tra (''SELECT CAST(1 AS DECFLOAT(16)) / 0 FROM RDB$DATABASE'')
              ((''BUG: default trap did not fire'' @ nl)) (''1/0 with default traps '') ([]),
        stmt_exec att tra (''SET DECFLOAT TRAPS TO''),
        with_Statement att tra (''SELECT CAST(1 AS DECFLOAT(16)) / 0 FROM RDB$DATABASE'') [] (\<lambda>s. seqP
       [ignore (fc_execute s tra)] (
      bindP (str_deref s 0) (\<lambda>c1.
      block
       [say (''1/0 with traps cleared : '' @ c1 @ nl)]))),
        fc_commit tra,
        say (nl @ ''done.'' @ nl)]
       0)))) fc_report)\<close>


section \<open>pooling.cpp\<close>

definition with_AttachmentPool ::
  "nat \<Rightarrow> string \<Rightarrow> fc_opt list \<Rightarrow> (nat \<Rightarrow> ('s, 'a) prog) \<Rightarrow> ('s, 'a) prog"
where
  "with_AttachmentPool client database opts body =
     fc_scope FPool (handle_of (Fc (FcAttachmentPool client database opts))) body"

text \<open>\<open>PooledAttachment a = pool.acquire();\<close>\<close>

definition with_acquired :: "nat \<Rightarrow> (nat \<Rightarrow> ('s, 'a) prog) \<Rightarrow> ('s, 'a) prog" where
  "with_acquired pool body = fc_scope FAttachment (handle_of (Fc (FcPool pool FcAcquire))) body"

text \<open>\<open>pool.tryAcquire()\<close>, and the scope of the optional it returns.\<close>

definition tryAcquire :: "nat \<Rightarrow> ('s, nat option) prog" where
  "tryAcquire pool = bindP (ask (Fc (FcPool pool FcTryAcquire))) (\<lambda>r.
     ret (if r_null r then None else Some (r_h r)))"

definition with_lease :: "nat option \<Rightarrow> ('s, 'a) prog \<Rightarrow> ('s, 'a) prog" where
  "with_lease o1 body = (case o1 of None \<Rightarrow> body
     | Some h \<Rightarrow> scoped body (do_void (Fc (FcDestroy FAttachment h))))"

definition pool_count :: "nat \<Rightarrow> fc_pool_call \<Rightarrow> ('s, nat) prog" where
  "pool_count pool c = number_of (Fc (FcPool pool c))"

definition lease_release :: "nat \<Rightarrow> ('s, unit) prog" where
  "lease_release h = do_call (Fc (FcAtt h FcLeaseRelease))"

definition fc_pooling_poolState :: "nat \<Rightarrow> nat \<Rightarrow> string \<Rightarrow> ('s, unit) prog" where
  \<open>fc_pooling_poolState att tra moment = with_Statement att tra ((''select rdb$get_context('SYSTEM', 'EXT_CONN_POOL_SIZE'),'' @
      ''       rdb$get_context('SYSTEM', 'EXT_CONN_POOL_LIFETIME'),'' @
      ''       rdb$get_context('SYSTEM', 'EXT_CONN_POOL_IDLE_COUNT'),'' @
      ''       rdb$get_context('SYSTEM', 'EXT_CONN_POOL_ACTIVE_COUNT')'' @
      '' from rdb$database'')) [] (\<lambda>s. seqP
       [ignore (fc_execute s tra)] (
      bindP (str_or s 0 ''?'') (\<lambda>c1.
      bindP (str_or s 1 ''?'') (\<lambda>c2.
      bindP (str_or s 2 ''?'') (\<lambda>c3.
      bindP (str_or s 3 ''?'') (\<lambda>c4.
      block
       [say (ljust 18 moment @ '' size='' @ c1 @ '' lifetime='' @ c2 @ ''s idle='' @ c3 @
            '' active='' @ c4 @ nl)]))))))\<close>

definition fc_pooling_block :: "string \<Rightarrow> string \<Rightarrow> string \<Rightarrow> string" where
  \<open>fc_pooling_block external user password =
    ((''execute block returns (idle varchar(10), active varchar(10)) as'' @ nl @
      ''  declare i int = 0;'' @ nl @
      ''  declare v int;'' @ nl @
      ''begin'' @ nl @
      ''  while (i < 3) do'' @ nl @
      ''  begin'' @ nl @
      ''    execute statement 'select 1 from rdb$database'' @ [CHR 0x27] @ nl @
      ''      on external '' @ [CHR 0x27])) @ external @ (([CHR 0x27] @ nl @
      ''      as user '' @ [CHR 0x27])) @ user @ (([CHR 0x27] @
      '' password '' @ [CHR 0x27])) @ password @ (([CHR 0x27] @ nl @
      ''      into :v;'' @ nl @
      ''    i = i + 1;'' @ nl @
      ''  end'' @ nl @
      ''  idle   = rdb$get_context('SYSTEM', 'EXT_CONN_POOL_IDLE_COUNT');'' @ nl @
      ''  active = rdb$get_context('SYSTEM', 'EXT_CONN_POOL_ACTIVE_COUNT');'' @ nl @
      ''  suspend;'' @ nl @
      ''end''))\<close>

text \<open>What follows the second \<open>tryAcquire\<close>, with the lease in \<open>third\<close>.\<close>

definition fc_pooling_served :: "nat \<Rightarrow> nat \<Rightarrow> nat \<Rightarrow> ('s, int) prog" where
  \<open>fc_pooling_served pool a third = with_Transaction third [] (\<lambda>t. bindP (scalar_int_or FInt64 third t (''select current_connection from rdb$database'') (- 1)) (\<lambda>id.
      returning
       [say (''released one:      3rd acquire served, CURRENT_CONNECTION = '' @ show_int id @ nl),
        fc_commit t,
        lease_release third,
        lease_release a,
        do_call (Fc (FcPool pool FcPoolClose)),
        say (''done.'' @ nl)]
       0))\<close>

text \<open>
  \<open>third = pool.tryAcquire();\<close> with what \<open>third\<close> held before: an empty optional takes the lease, a
  lease is assigned the new one, and an empty answer ends the lease; \<open>third->get()\<close> comes next.
\<close>

definition fc_pooling_reassign :: "nat \<Rightarrow> nat \<Rightarrow> nat option \<Rightarrow> nat option \<Rightarrow> ('s, int) prog" where
  "fc_pooling_reassign pool a third next =
     (case third of
        None \<Rightarrow> (case next of None \<Rightarrow> fail (UB ''third->get()'')
          | Some h \<Rightarrow> with_lease (Some h) (fc_pooling_served pool a h))
      | Some h1 \<Rightarrow> (case next of
            None \<Rightarrow> bindP (do_void (Fc (FcDestroy FAttachment h1))) (\<lambda>_. fail (UB ''third->get()''))
          | Some h2 \<Rightarrow> bindP (scoped (do_call (Fc (FcAtt h1 (FcLeaseAssign h2))))
                (do_void (Fc (FcDestroy FAttachment h2)))) (\<lambda>_. fc_pooling_served pool a h1)))"

text \<open>From the first \<open>tryAcquire\<close> to the end.\<close>

definition fc_pooling_third :: "nat \<Rightarrow> nat \<Rightarrow> nat \<Rightarrow> int \<Rightarrow> nat option \<Rightarrow> ('s, int) prog" where
  \<open>fc_pooling_third pool a b t0 third = bindP (os_int ClockNs) (\<lambda>t1.
      seqP
       [say (''asked for a 3rd:   '' @
            (if third \<noteq> None then ''served (UNEXPECTED)'' else ''timed out'') @
            '' after '' @ show_int (millis_between t0 t1) @ '' ms (pool exhausted)'' @ nl),
        lease_release b] (
      bindP (tryAcquire pool) (fc_pooling_reassign pool a third)))\<close>

definition fc_pooling_exhaust :: "nat \<Rightarrow> nat \<Rightarrow> nat \<Rightarrow> ('s, int) prog" where
  \<open>fc_pooling_exhaust pool a b = bindP (os_int ClockNs) (\<lambda>t0.
      bindP (tryAcquire pool) (\<lambda>third. with_lease third (fc_pooling_third pool a b t0 third)))\<close>

definition fc_pooling_inbound :: "nat \<Rightarrow> string \<Rightarrow> ('s, int) prog" where
  \<open>fc_pooling_inbound client database = bindP (fc_defaultOptions) (\<lambda>opts.
      with_AttachmentPool client database [SetAttachmentOptions opts, SetMaxSize 2,
      SetAcquireTimeout 300, SetSessionResetOnRelease True] (\<lambda>pool. with_acquired pool (\<lambda>a. with_acquired pool (\<lambda>b. bindP (pool_count pool FcPoolSize) (\<lambda>c1.
      bindP (pool_count pool FcAvailableCount) (\<lambda>c2.
      bindP (pool_count pool FcInUseCount) (\<lambda>c3.
      seqP
       [say (nl @ ''took 2 of max 2:   total='' @ show_nat c1 @ '' available='' @ show_nat c2 @
            '' inUse='' @ show_nat c3 @ nl)] (
      fc_pooling_exhaust pool a b))))))))\<close>

definition fc_pooling_main :: "('s, int) prog" where
  \<open>fc_pooling_main = bindP (fc_argOrDefault 1 ''inet://localhost//tmp/fbhandson/pooling_fbcpp.fdb'') (\<lambda>database.
      bindP (fc_argOrDefault 2 database) (\<lambda>external.
      try_fb (with_Client (\<lambda>client. with_attachOrCreate client database (\<lambda>att. with_Transaction att [] (\<lambda>tra. seqP
       [att_execute att tra (''alter external connections pool set size 5''),
        att_execute att tra (''alter external connections pool set lifetime 30 second''),
        fc_commitRetaining tra,
        fc_pooling_poolState att tra (''before:'')] (
      bindP (envOr ''ISC_USER'' (''SYSDBA'')) (\<lambda>user.
      bindP (envOr ''ISC_PASSWORD'' (''masterkey'')) (\<lambda>password.
      with_Statement att tra (fc_pooling_block external user password) [] (\<lambda>inS. seqP
       [ignore (fc_execute inS tra)] (
      bindP (str_or inS 0 ''?'') (\<lambda>c1.
      bindP (str_or inS 1 ''?'') (\<lambda>c2.
      seqP
       [say (ljust 18 (''inside the block:'') @ '' idle='' @ c1 @ '' active='' @ c2 @
            ''   (3 calls, 1 outbound connection)'' @ nl),
        fc_commit tra] (
      with_Transaction att [] (\<lambda>tra2. seqP
       [fc_pooling_poolState att tra2 (''after commit:''),
        att_execute att tra2 (''alter external connections pool clear all''),
        fc_pooling_poolState att tra2 (''after CLEAR ALL:''),
        fc_commit tra2] (
      fc_pooling_inbound client database)))))))))))))) fc_report))\<close>


section \<open>Lifetimes and reports\<close>

lemma live_pool_calls [live_rules]:
  "(FPool, p) \<in> set s \<Longrightarrow> keeps (lives s) (pool_count p c)" if "c \<noteq> FcAcquire" "c \<noteq> FcTryAcquire"
proof -
  assume "(FPool, p) \<in> set s"
  then have "tame (Fc (FcPool p c)) s"
    using that by (cases c) (auto simp: tame_def live_step_def uses_def constructs_def)
  then show "keeps (lives s) (pool_count p c)"
    unfolding pool_count_def by (intro live_rules)
qed

lemma tame_pool [simp]:
  "tame (Fc (FcPool p FcPoolClose)) s \<longleftrightarrow> (FPool, p) \<in> set s"
  by (auto simp: tame_def live_step_def uses_def constructs_def)

lemma live_envOr [live_rules]: "keeps (lives s) (envOr x d)"
  unfolding envOr_def by (intro keeps_rules live_rules)

lemma live_lease_release [live_rules]: "(FAttachment, h) \<in> set s \<Longrightarrow> keeps (lives s) (lease_release h)"
  unfolding lease_release_def by (intro live_rules) (simp add: uses_def)

lemma live_pool_scopes [live_rules]:
  "(FClient, cl) \<in> set s \<Longrightarrow> (\<And>h. keeps (lives ((FPool, h) # s)) (b1 h))
     \<Longrightarrow> keeps (lives s) (with_AttachmentPool cl d o1 b1)"
  "(FPool, p) \<in> set s \<Longrightarrow> (\<And>h. keeps (lives ((FAttachment, h) # s)) (b2 h))
     \<Longrightarrow> keeps (lives s) (with_acquired p b2)"
  unfolding with_AttachmentPool_def with_acquired_def
  by (rule live_fc_scope, rule makes_ctor; simp add: constructs_def uses_def)+

text \<open>What an optional lease adds to the stack.\<close>

definition lease_stack :: "nat option \<Rightarrow> (fc_kind \<times> nat) list \<Rightarrow> (fc_kind \<times> nat) list" where
  "lease_stack o1 s = (case o1 of None \<Rightarrow> s | Some h \<Rightarrow> (FAttachment, h) # s)"

lemma live_tryAcquire:
  assumes "(FPool, p) \<in> set s"
  shows "hoare (lives s) (tryAcquire p) (\<lambda>o1. lives (lease_stack o1 s)) (\<lambda>_. lives s)"
  by (rule hoareI) (use assms in \<open>auto simp: tryAcquire_def bindP_def ask_def ret_def lives_def Let_def
      live_step_def uses_def constructs_def lease_stack_def split: prod.splits option.splits\<close>)

lemma live_with_lease:
  assumes "keeps (lives (lease_stack o1 s)) body"
  shows "hoare (lives (lease_stack o1 s)) (with_lease o1 body) (\<lambda>_. lives s) (\<lambda>_. lives s)"
proof (cases o1)
  case None
  then show ?thesis using assms by (simp add: with_lease_def lease_stack_def keeps_def)
next
  case (Some h)
  then have "hoare (lives ((FAttachment, h) # s)) body
      (\<lambda>_. lives ((FAttachment, h) # s)) (\<lambda>_. lives ((FAttachment, h) # s))"
    using assms by (simp add: lease_stack_def keeps_def)
  from hoare_scoped [OF this live_destroy live_destroy] show ?thesis
    using Some by (simp add: with_lease_def lease_stack_def)
qed

lemma live_served [live_rules]:
  "(FPool, p) \<in> set s \<Longrightarrow> (FAttachment, a) \<in> set s \<Longrightarrow> (FAttachment, h) \<in> set s
     \<Longrightarrow> keeps (lives s) (fc_pooling_served p a h)"
  unfolding fc_pooling_served_def by (intro keeps_rules live_rules; simp)

lemma live_reassign:
  assumes "(FPool, p) \<in> set s" and "(FAttachment, a) \<in> set s"
  shows "hoare (lives (lease_stack again (lease_stack third s))) (fc_pooling_reassign p a third again)
    (\<lambda>_. lives (lease_stack third s)) (\<lambda>_. lives (lease_stack third s))"
proof (cases third)
  case None
  show ?thesis
  proof (cases again)
    case (Some h)
    have "keeps (lives (lease_stack (Some h) s)) (fc_pooling_served p a h)"
      using assms by (intro live_served) (simp_all add: lease_stack_def)
    from live_with_lease [OF this] show ?thesis
      using None Some by (simp add: fc_pooling_reassign_def lease_stack_def)
  qed (use None in \<open>auto simp: fc_pooling_reassign_def intro: hoare_fail\<close>)
next
  case (Some h1)
  show ?thesis
  proof (cases again)
    case None
    have "hoare (lives ((FAttachment, h1) # s)) (do_void (Fc (FcDestroy FAttachment h1)))
        (\<lambda>_. lives s) (\<lambda>_. lives ((FAttachment, h1) # s))"
      by (rule live_destroy)
    then show ?thesis using Some None
      by (auto simp: fc_pooling_reassign_def lease_stack_def intro!: hoare_bindP hoare_fail)
  next
    case (Some h2)
    let ?s = "(FAttachment, h1) # s"
    have "keeps (lives ((FAttachment, h2) # ?s)) (do_call (Fc (FcAtt h1 (FcLeaseAssign h2))))"
      by (intro live_rules) (simp add: uses_def)
    then have "hoare (lives ((FAttachment, h2) # ?s)) (scoped (do_call (Fc (FcAtt h1 (FcLeaseAssign h2))))
        (do_void (Fc (FcDestroy FAttachment h2)))) (\<lambda>_. lives ?s) (\<lambda>_. lives ?s)"
      unfolding keeps_def by (rule hoare_scoped) (rule live_destroy)+
    moreover have "hoare (lives ?s) (fc_pooling_served p a h1) (\<lambda>_. lives ?s) (\<lambda>_. lives ?s)"
      using assms by (intro live_served [unfolded keeps_def]) simp_all
    ultimately show ?thesis using \<open>third = Some h1\<close> Some
      by (auto simp: fc_pooling_reassign_def lease_stack_def intro!: hoare_bindP)
  qed
qed

lemma live_third:
  assumes "(FPool, p) \<in> set s" and "(FAttachment, a) \<in> set s" and "(FAttachment, b) \<in> set s"
  shows "keeps (lives (lease_stack third s)) (fc_pooling_third p a b t0 third)"
proof -
  let ?s = "lease_stack third s"
  have mem: "(FPool, p) \<in> set ?s" "(FAttachment, b) \<in> set ?s"
    using assms by (auto simp: lease_stack_def split: option.split)
  have rest: "keeps (lives ?s) (bindP (tryAcquire p) (fc_pooling_reassign p a third))"
    unfolding keeps_def
    by (rule hoare_bindP [OF live_tryAcquire [OF mem(1)] live_reassign [OF assms(1,2)]])
  show ?thesis unfolding fc_pooling_third_def by (rule rest mem keeps_rules live_rules)+
qed

lemma live_exhaust [live_rules]:
  assumes "(FPool, p) \<in> set s" and "(FAttachment, a) \<in> set s" and "(FAttachment, b) \<in> set s"
  shows "keeps (lives s) (fc_pooling_exhaust p a b)"
proof -
  have rest: "keeps (lives s) (bindP (tryAcquire p) (\<lambda>third. with_lease third (fc_pooling_third p a b t0 third)))" for t0
    unfolding keeps_def
    by (rule hoare_bindP [OF live_tryAcquire [OF assms(1)] live_with_lease [OF live_third [OF assms]]])
  show ?thesis unfolding fc_pooling_exhaust_def by (rule rest keeps_rules live_rules)+
qed

lemma live_inbound [live_rules]: "(FClient, cl) \<in> set s \<Longrightarrow> keeps (lives s) (fc_pooling_inbound cl d)"
  unfolding fc_pooling_inbound_def by (intro keeps_rules live_rules; simp)

lemma returns_ok_pool [returns_rules]:
  "(\<And>h. returns_ok (body h)) \<Longrightarrow> returns_ok (with_AttachmentPool cl d o1 body)"
  "(\<And>h. returns_ok (body h)) \<Longrightarrow> returns_ok (with_acquired p body)"
  unfolding with_AttachmentPool_def with_acquired_def by (rule returns_ok_fc_scope; assumption)+

lemma returns_ok_lease [returns_rules]: "returns_ok body \<Longrightarrow> returns_ok (with_lease o1 body)"
  unfolding with_lease_def by (auto intro: returns_ok_scoped err_destroy split: option.split)

lemma returns_ok_pooling [returns_rules]: "returns_ok (fc_pooling_inbound cl d)"
proof -
  have s: "returns_ok (fc_pooling_served p a h)" for p a h
    unfolding fc_pooling_served_def by (intro returns_rules)
  have "returns_ok (fc_pooling_reassign p a third again)" for p a third again
    unfolding fc_pooling_reassign_def by (cases third; cases again) (auto intro!: returns_rules s)
  then show ?thesis
    unfolding fc_pooling_inbound_def fc_pooling_exhaust_def fc_pooling_third_def by (intro returns_rules)
qed

lemma live_fcpool [live_rules]:
  "(FAttachment, att) \<in> set s \<Longrightarrow> (FTransaction, tra) \<in> set s \<Longrightarrow> keeps (lives s) (fc_numerics_trap att tra sql bug label rest)"
  "(FAttachment, att) \<in> set s \<Longrightarrow> (FTransaction, tra) \<in> set s \<Longrightarrow> keeps (lives s) (fc_numerics_exact att tra)"
  "(FAttachment, att) \<in> set s \<Longrightarrow> (FTransaction, tra) \<in> set s \<Longrightarrow> keeps (lives s) (fc_numerics_wire att tra)"
  "(FAttachment, att) \<in> set s \<Longrightarrow> (FTransaction, tra) \<in> set s \<Longrightarrow> keeps (lives s) (fc_pooling_poolState att tra moment)"
  unfolding fc_numerics_trap_def fc_numerics_exact_def fc_numerics_wire_def fc_pooling_poolState_def
  by (intro keeps_rules live_rules; simp add: uses_def)+

definition fcpool_mains :: "('s, int) prog list" where
  "fcpool_mains = [fc_numerics_main, fc_pooling_main]"

lemmas fcpool_defs = fc_numerics_main_def fc_pooling_main_def

lemma fcpool_lives: "\<forall>m \<in> set fcpool_mains. keeps (lives s) m"
  unfolding fcpool_mains_def fcpool_defs list.set ball_simps
  by (intro conjI TrueI keeps_rules live_rules; simp add: uses_def)

lemma fcpool_reports: "\<forall>m \<in> set fcpool_mains. reports m"
  unfolding fcpool_mains_def fcpool_defs list.set ball_simps
  by (intro conjI reports_fc_arg reports_fc returns_rules TrueI)

end
