(* ===== verification/Thread_Runs.thy ===== *)
theory Thread_Runs
  imports Sample_Kit "HOL-Library.Multiset"
begin

text \<open>
  Programs with several threads.  A program of the runtime is one thread; the operations of
  \<open>std::thread\<close> and of atomic variables are calls.  An execution of several threads is one log in
  which every call carries the number of its thread: the calls of each thread, with the answers
  they got, are a run of that thread's program; a thread calls only between the \<open>SpawnThread\<close> and
  the \<open>JoinThread\<close> of the main thread; and a read of a shared variable returns the value written
  last.  Nothing is assumed about the order otherwise, nor about the server.

  Shown for every execution: interfaces are counted thread by thread, and a variable that the main
  thread sets before it starts a thread and reads after it has joined it has the value the thread
  left in it.
\<close>


section \<open>Threads and atomic variables in a program\<close>

text \<open>\<open>std::thread t(...)\<close>; a thread that cannot be created is a \<open>std::system_error\<close>.\<close>

definition spawn :: "nat \<Rightarrow> int list \<Rightarrow> string list \<Rightarrow> ('s, unit) prog" where
  "spawn i ns ss = bindP (ask_void (Os (SpawnThread i ns ss))) (\<lambda>r.
     if r_null r then fail (Terminate ''std::system_error'') else ret ())"

definition join :: "nat \<Rightarrow> ('s, unit) prog" where
  "join i = os_do (JoinThread i)"

text \<open>
  The scope of a \<open>std::thread\<close> up to its \<open>join\<close>: an exception that leaves it destroys a joinable
  thread, which is \<open>std::terminate\<close>.
\<close>

definition joinable :: "('s, 'a) prog \<Rightarrow> ('s, 'a) prog" where
  "joinable m = try_fb m (\<lambda>_. fail (Terminate ''joinable thread destroyed''))"

text \<open>The function of a thread: an exception that leaves it is \<open>std::terminate\<close> as well.\<close>

definition thread :: "('s, unit) prog \<Rightarrow> ('s, unit) prog" where
  "thread m = try_fb m (\<lambda>_. fail (Terminate ''exception in a thread''))"

definition load :: "string \<Rightarrow> ('s, int) prog" where
  "load x = os_int (AtomicLoad x)"

definition store :: "string \<Rightarrow> int \<Rightarrow> ('s, unit) prog" where
  "store x v = os_do (AtomicStore x v)"

text \<open>\<open>if (v > x) x = v;\<close> on an atomic \<open>x\<close>: a read and a write.\<close>

definition raise_to :: "string \<Rightarrow> int \<Rightarrow> ('s, unit) prog" where
  "raise_to x v = bindP (load x) (\<lambda>old. if v > old then store x v else ret ())"

lemmas thread_defs = spawn_def join_def joinable_def thread_def load_def store_def raise_to_def


section \<open>Executions\<close>

text \<open>A log of several threads, newest call first; thread 0 is the main thread.\<close>

type_synonym tlog = "(nat \<times> event) list"

definition of_thread :: "nat \<Rightarrow> tlog \<Rightarrow> event list" where
  "of_thread t G = map snd (filter (\<lambda>te. fst te = t) G)"

lemma of_thread_simps [simp]:
  "of_thread t [] = []"
  "of_thread t ((u, ev) # G) = (if u = t then ev # of_thread t G else of_thread t G)"
  by (simp_all add: of_thread_def)

text \<open>The answers of a log, as a server that gives them in order.\<close>

type_synonym answers = "(status option \<times> reply) list"

definition no_reply :: reply where
  "no_reply = \<lparr>r_h = 0, r_n = 0, r_s = [], r_b = [], r_ns = [], r_descs = [], r_ints = [],
     r_code = RESULT_NO_DATA, r_null = True\<rparr>"

definition replaying :: "header_values \<Rightarrow> string list \<Rightarrow> answers env" where
  "replaying h av = \<lparr>fb = (\<lambda>c s. case s of [] \<Rightarrow> ((None, no_reply), []) | a # s' \<Rightarrow> (a, s')),
     hdr = h, argv = av\<rparr>"

definition start_world :: "(string \<Rightarrow> string option) \<Rightarrow> (kind \<Rightarrow> nat \<Rightarrow> nat option) \<Rightarrow> nat \<Rightarrow> answers \<Rightarrow> answers world" where
  "start_world env cs n s = \<lparr>server = s, log = [], out = [], err = [], environ = env, cells = cs, fresh = n\<rparr>"

text \<open>The memory of the process that a thread starts with: the environment and the cells.\<close>

record process =
  p_hdr :: header_values
  p_argv :: "string list"
  p_environ :: "string \<Rightarrow> string option"
  p_cells :: "kind \<Rightarrow> nat \<Rightarrow> nat option"
  p_fresh :: nat

text \<open>A call of thread \<open>t\<close> that succeeds without data.\<close>

definition told :: "nat \<Rightarrow> call \<Rightarrow> nat \<times> event" where
  "told t c = (t, c, None, no_reply)"

text \<open>\<open>L\<close> is the log of a run of \<open>m\<close> that ends with \<open>r\<close>.\<close>

definition performs :: "process \<Rightarrow> (answers, 'a) prog \<Rightarrow> event list \<Rightarrow> 'a outcome \<Rightarrow> bool" where
  "performs p m L r \<longleftrightarrow>
     (case m (replaying (p_hdr p) (p_argv p))
         (start_world (p_environ p) (p_cells p) (p_fresh p) (rev (map snd L))) of
        None \<Rightarrow> False | Some (r', w') \<Rightarrow> r' = r \<and> log w' = L)"

lemma performsE:
  assumes "performs p m L r"
  obtains e w w' where "m e w = Some (r, w')" "log w' = L" "log w = []"
    "environ w = p_environ p" "cells w = p_cells p" "fresh w = p_fresh p"
  using assms unfolding performs_def start_world_def
  by (auto split: option.splits prod.splits)

lemma performs_hoare:
  assumes "performs p m L (Ok a)" and "hoare P m Q E"
    and "\<And>w. log w = [] \<Longrightarrow> cells w = p_cells p \<Longrightarrow> P w"
  shows "\<exists>w'. log w' = L \<and> Q a w'"
  using assms(1) by (rule performsE) (use assms(2,3) in \<open>auto dest: hoareD_Ok\<close>)

text \<open>A program in one environment.\<close>

definition at_env :: "'s env \<Rightarrow> ('s, 'a) prog \<Rightarrow> ('s, 'a) prog" where
  "at_env e m = (\<lambda>_ w. m e w)"

lemma at_env_simps:
  "at_env e (bindP m f) = bindP (at_env e m) (\<lambda>a. at_env e (f a))"
  "at_env e (try_fb m h) = try_fb (at_env e m) (\<lambda>s. at_env e (h s))"
  "at_env e headers = ret (hdr e)"
  by (simp_all add: fun_eq_iff at_env_def bindP_def try_fb_def headers_def ret_def)

lemma at_env_block: "at_env e (block (m # xs)) = bindP (at_env e m) (\<lambda>_. at_env e (block xs))"
  by (simp add: at_env_simps)

lemma at_env_hoare: "hoare P m Q E \<Longrightarrow> hoare P (at_env e m) Q E"
  unfolding hoare_def at_env_def by blast

lemma at_env_loopP:
  assumes "\<And>a. hoare (I a) (at_env e (body a)) (\<lambda>x w. case x of Inl a' \<Rightarrow> I a' w | Inr b \<Rightarrow> Q b w) E"
  shows "hoare (I a) (at_env e (loopP body a)) Q E"
proof (rule hoareI)
  fix e' w r w' assume I: "I a w" and run: "at_env e (loopP body a) e' w = Some (r, w')"
  have run: "loopP body a e w = Some (r, w')" using run by (simp add: at_env_def)
  show "post Q E r w'"
  proof (rule loopP_run [where J = I, OF _ I run])
    fix a w r w' assume Ia: "I a w" and "body a e w = Some (r, w')"
    then have "at_env e (body a) e w = Some (r, w')" by (simp add: at_env_def)
    from hoareD [OF assms Ia this]
    show "case r of Ok x \<Rightarrow> (case x of Inl a' \<Rightarrow> I a' w' | Inr b \<Rightarrow> post Q E (Ok b) w')
        | Fail x \<Rightarrow> post Q E (Fail x) w'"
      by (auto split: outcome.splits sum.splits)
  qed
qed

lemma performs_at:
  assumes "performs p m L (Ok a)" and "hoare P (at_env (replaying (p_hdr p) (p_argv p)) m) Q E"
    and "\<And>w. log w = [] \<Longrightarrow> cells w = p_cells p \<Longrightarrow> P w"
  shows "\<exists>w'. log w' = L \<and> Q a w'"
proof -
  have "performs p (at_env (replaying (p_hdr p) (p_argv p)) m) L (Ok a)"
    using assms(1) by (simp add: performs_def at_env_def)
  then show ?thesis using assms(2,3) by (rule performs_hoare)
qed

text \<open>
  Where the main thread is with thread \<open>i\<close>: 0 before it is started, 1 while it runs, 2 after the
  join.
\<close>

fun phase :: "nat \<Rightarrow> event list \<Rightarrow> nat" where
  "phase i [] = 0"
| "phase i (ev # L) = (case fst ev of
     Os oc \<Rightarrow> (case oc of
         SpawnThread j ns ss \<Rightarrow> if j = i \<and> \<not> r_null (snd (snd ev)) then 1 else phase i L
       | JoinThread j \<Rightarrow> if j = i then 2 else phase i L | _ \<Rightarrow> phase i L)
   | _ \<Rightarrow> phase i L)"

fun bracketed :: "tlog \<Rightarrow> bool" where
  "bracketed [] = True"
| "bracketed (te # G) = (bracketed G \<and>
     (case fst te of 0 \<Rightarrow> True | Suc i \<Rightarrow> phase i (of_thread 0 G) = 1))"

text \<open>The value of an atomic variable after a log, and that every read returns it.\<close>

fun atomic :: "string \<Rightarrow> int \<Rightarrow> event list \<Rightarrow> int" where
  "atomic x v [] = v"
| "atomic x v (ev # L) = (case fst ev of
     Os oc \<Rightarrow> (case oc of AtomicStore y u \<Rightarrow> if y = x then u else atomic x v L | _ \<Rightarrow> atomic x v L)
   | _ \<Rightarrow> atomic x v L)"

fun coherent :: "string \<Rightarrow> int \<Rightarrow> event list \<Rightarrow> bool" where
  "coherent x v [] = True"
| "coherent x v (ev # L) = (coherent x v L \<and>
     (fst ev = Os (AtomicLoad x) \<longrightarrow> r_n (snd (snd ev)) = atomic x v L))"

text \<open>The same for a string that threads share.\<close>

fun shared :: "string \<Rightarrow> event list \<Rightarrow> string" where
  "shared x [] = []"
| "shared x (ev # L) = (case fst ev of
     Os oc \<Rightarrow> (case oc of SharedWrite y t \<Rightarrow> if y = x then t else shared x L
       | SharedAppend y t \<Rightarrow> if y = x then shared x L @ t else shared x L
       | _ \<Rightarrow> shared x L)
   | _ \<Rightarrow> shared x L)"

fun reads_shared :: "event list \<Rightarrow> bool" where
  "reads_shared [] = True"
| "reads_shared (ev # L) = (reads_shared L \<and> (case fst ev of
     Os oc \<Rightarrow> (case oc of SharedRead x \<Rightarrow> r_s (snd (snd ev)) = shared x L | _ \<Rightarrow> True)
   | _ \<Rightarrow> True))"

text \<open>
  An execution of a main thread \<open>m\<close> that ends with \<open>r\<close>, in which every thread that was started
  returned.  \<open>T\<close> gives the function of a thread from its number and what it captured.
\<close>

definition execution ::
  "process \<Rightarrow> (answers, 'a) prog \<Rightarrow> (nat \<Rightarrow> int list \<Rightarrow> string list \<Rightarrow> (answers, unit) prog)
     \<Rightarrow> 'a outcome \<Rightarrow> tlog \<Rightarrow> bool"
where
  "execution p m T r G \<longleftrightarrow> performs p m (of_thread 0 G) r \<and> bracketed G \<and>
     (\<forall>x. coherent x 0 (map snd G)) \<and> reads_shared (map snd G) \<and>
     (\<forall>(t, ev) \<in> set G. \<forall>i ns ss. t = 0 \<longrightarrow> fst ev = Os (SpawnThread i ns ss) \<longrightarrow> \<not> r_null (snd (snd ev)) \<longrightarrow>
        performs p (T i ns ss) (of_thread (Suc i) G) (Ok ()))"

lemma executionD:
  assumes "execution p m T r G"
  shows "performs p m (of_thread 0 G) r" "bracketed G" "coherent x 0 (map snd G)"
  using assms by (auto simp: execution_def)


lemma phase_spawned:
  "phase i L = 1 \<Longrightarrow> \<exists>ns ss st r. (Os (SpawnThread i ns ss), st, r) \<in> set L \<and> \<not> r_null r"
proof (induction L)
  case (Cons ev L)
  obtain c st r where ev: "ev = (c, st, r)" by (cases ev)
  show ?case
  proof (cases "\<exists>ns ss. c = Os (SpawnThread i ns ss) \<and> \<not> r_null r")
    case False
    then have "phase i L = 1"
      using Cons.prems by (simp add: ev split: call.splits os_call.splits if_splits)
    then show ?thesis using Cons.IH by auto
  qed (auto simp: ev)
qed simp

lemma bracketed_spawned:
  assumes "bracketed G" and "of_thread (Suc i) G \<noteq> []"
  obtains ns ss st r where "(0, Os (SpawnThread i ns ss), st, r) \<in> set G" "\<not> r_null r"
proof -
  have "\<exists>ns ss st r. (0, Os (SpawnThread i ns ss), st, r) \<in> set G \<and> \<not> r_null r"
    using assms
  proof (induction G)
    case (Cons te G)
    obtain t ev where te: "te = (t, ev)" by (cases te)
    show ?case
    proof (cases "t = Suc i")
      case True
      then have "phase i (of_thread 0 G) = 1" using Cons.prems te by simp
      then obtain ns ss st r where "(Os (SpawnThread i ns ss), st, r) \<in> set (of_thread 0 G)" "\<not> r_null r"
        using phase_spawned by blast
      then show ?thesis by (force simp: of_thread_def)
    qed (use Cons te in auto)
  qed simp
  then show thesis using that by blast
qed

lemma execution_thread:
  assumes "execution p m T r G" and "of_thread (Suc i) G \<noteq> []"
  obtains ns ss where "performs p (T i ns ss) (of_thread (Suc i) G) (Ok ())"
proof -
  obtain ns ss st r' where "(0, Os (SpawnThread i ns ss), st, r') \<in> set G" "\<not> r_null r'"
    using bracketed_spawned [OF executionD(2) [OF assms(1)] assms(2)] by blast
  then show thesis using that assms(1) unfolding execution_def by fastforce
qed


text \<open>The threads that write a variable.\<close>

definition owned :: "string \<Rightarrow> nat set \<Rightarrow> tlog \<Rightarrow> bool" where
  "owned x U G \<longleftrightarrow> (\<forall>(t, ev) \<in> set G. \<forall>u. fst ev = Os (AtomicStore x u) \<longrightarrow> t \<in> U)"

lemma owned_Cons: "owned x U ((t, ev) # G) \<longleftrightarrow> owned x U G \<and> (\<forall>u. fst ev = Os (AtomicStore x u) \<longrightarrow> t \<in> U)"
  by (auto simp: owned_def)

text \<open>What a thread has started, and what it has read from a variable.\<close>

fun spawned :: "event list \<Rightarrow> (nat \<times> int list \<times> string list) list" where
  "spawned [] = []"
| "spawned (ev # L) = (case fst ev of
     Os oc \<Rightarrow> (case oc of
         SpawnThread i ns ss \<Rightarrow> if r_null (snd (snd ev)) then spawned L else (i, ns, ss) # spawned L
       | _ \<Rightarrow> spawned L)
   | _ \<Rightarrow> spawned L)"

fun loaded :: "string \<Rightarrow> event list \<Rightarrow> int list" where
  "loaded x [] = []"
| "loaded x (ev # L) = (if fst ev = Os (AtomicLoad x) then r_n (snd (snd ev)) # loaded x L else loaded x L)"

lemma loaded_in: "v \<in> set (loaded x L) \<Longrightarrow> \<exists>st r. (Os (AtomicLoad x), st, r) \<in> set L \<and> v = r_n r"
  by (induction L) (auto split: if_splits, blast)

lemma spawned_in:
  "(i, ns, ss) \<in> set (spawned L) \<longleftrightarrow> (\<exists>st r. (Os (SpawnThread i ns ss), st, r) \<in> set L \<and> \<not> r_null r)"
proof (induction L)
  case (Cons ev L)
  obtain c st r where ev: "ev = (c, st, r)" by (cases ev)
  show ?case
  proof (cases "\<exists>j ms ts. c = Os (SpawnThread j ms ts)")
    case False
    then have "spawned (ev # L) = spawned L" by (simp add: ev split: call.splits os_call.splits)
    then show ?thesis using Cons False by (auto simp: ev)
  qed (use Cons in \<open>fastforce simp: ev split: if_splits\<close>)
qed simp

lemma execution_spawned:
  assumes "execution p m T r G" and "(i, ns, ss) \<in> set (spawned (of_thread 0 G))"
  shows "performs p (T i ns ss) (of_thread (Suc i) G) (Ok ())"
proof -
  obtain st r' where "(Os (SpawnThread i ns ss), st, r') \<in> set (of_thread 0 G)" "\<not> r_null r'"
    using assms(2) by (auto simp: spawned_in)
  then have "(0, Os (SpawnThread i ns ss), st, r') \<in> set G" by (force simp: of_thread_def)
  then show ?thesis using assms(1) \<open>\<not> r_null r'\<close> unfolding execution_def by fastforce
qed

lemma execution_tids:
  assumes "execution p m T r G" and "(t, ev) \<in> set G"
  shows "t = 0 \<or> (\<exists>i ns ss. t = Suc i \<and> (i, ns, ss) \<in> set (spawned (of_thread 0 G)))"
proof (cases t)
  case (Suc i)
  then have "ev \<in> set (of_thread (Suc i) G)" using assms(2) by (force simp: of_thread_def)
  then have "of_thread (Suc i) G \<noteq> []" by auto
  then obtain ns ss st r where "(0, Os (SpawnThread i ns ss), st, r) \<in> set G" "\<not> r_null r"
    using bracketed_spawned [OF executionD(2) [OF assms(1)]] by blast
  then have "(i, ns, ss) \<in> set (spawned (of_thread 0 G))"
    unfolding spawned_in by (force simp: of_thread_def)
  then show ?thesis using Suc by blast
qed simp

text \<open>With one thread beside the main thread, everything happens in one of the two.\<close>

lemma two_threads:
  assumes "execution p m T r G" and "spawned (of_thread 0 G) = [(i, ns, ss)]"
  shows "fst ` set G \<subseteq> {0, Suc i}"
  using execution_tids [OF assms(1)] assms(2) by fastforce

lemma owned_two: "fst ` set G \<subseteq> U \<Longrightarrow> owned x U G"
  by (force simp: owned_def)

lemma concat_two:
  assumes "fst ` set G \<subseteq> {0, Suc i}"
  shows "mset (concat (map f (map snd G)))
    = mset (concat (map f (of_thread 0 G))) + mset (concat (map f (of_thread (Suc i) G)))"
  using assms by (induction G) auto

text \<open>A variable that one thread alone writes is coherent for it.\<close>

lemma private_coherent:
  assumes "coherent x v (map snd G)" and "owned x {t} G"
  shows "coherent x v (of_thread t G) \<and> atomic x v (of_thread t G) = atomic x v (map snd G)"
  using assms
proof (induction G)
  case (Cons te G)
  obtain u c st r where te: "te = (u, c, st, r)" by (cases te)
  have IH: "coherent x v (of_thread t G)" "atomic x v (of_thread t G) = atomic x v (map snd G)"
    using Cons te by (auto simp: owned_Cons)
  show ?case
  proof (cases "\<exists>y. c = Os (AtomicStore x y)")
    case True
    then show ?thesis using IH Cons.prems te by (auto simp: owned_Cons)
  next
    case False
    then have "atomic x v ((c, sr) # L) = atomic x v L" for sr L
      by (auto split: call.splits os_call.splits)
    then show ?thesis using IH Cons.prems te by auto
  qed
qed simp


text \<open>The values a thread writes to a variable.\<close>

fun stored :: "string \<Rightarrow> event list \<Rightarrow> int list" where
  "stored x [] = []"
| "stored x (ev # L) = (case fst ev of
     Os oc \<Rightarrow> (case oc of AtomicStore y u \<Rightarrow> if y = x then u # stored x L else stored x L | _ \<Rightarrow> stored x L)
   | _ \<Rightarrow> stored x L)"

definition no_store :: "string \<Rightarrow> call \<Rightarrow> bool" where
  "no_store x c \<longleftrightarrow> (case c of Os oc \<Rightarrow> (case oc of AtomicStore y u \<Rightarrow> y \<noteq> x | _ \<Rightarrow> True) | _ \<Rightarrow> True)"

lemma stored_in: "(Os (AtomicStore x u), sr) \<in> set L \<Longrightarrow> u \<in> set (stored x L)"
  by (induction L) (auto split: call.splits os_call.splits)

lemma owned_main:
  assumes "fst ` set G \<subseteq> {0, Suc i}" and "stored x (of_thread (Suc i) G) = []"
  shows "owned x {0} G"
proof -
  have "t = 0" if te: "(t, c, st, r) \<in> set G" and c: "c = Os (AtomicStore x u)" for t c st r u
  proof (rule ccontr)
    assume "t \<noteq> 0"
    then have "t = Suc i" using assms(1) te by force
    then have "(c, st, r) \<in> set (of_thread (Suc i) G)" using te by (force simp: of_thread_def)
    then show False using stored_in c assms(2) by fastforce
  qed
  then show ?thesis by (auto simp: owned_def)
qed


text \<open>
  A variable that the main thread sets to 0 and later to other values: a thread that has read
  something else than 0 reads one of the others from then on.
\<close>

definition seen :: "string \<Rightarrow> event list \<Rightarrow> event list \<Rightarrow> bool" where
  "seen x M W \<longleftrightarrow> (\<forall>ys u zs. loaded x W = ys @ u # zs \<longrightarrow> u \<noteq> 0 \<longrightarrow> insert u (set ys) \<subseteq> set (butlast (stored x M)))"

lemma atomic_stored: "atomic x v L = (case stored x L of [] \<Rightarrow> v | u # us \<Rightarrow> u)"
  by (induction L) (auto split: call.splits os_call.splits)

lemma stored_owned: "owned x {t} G \<Longrightarrow> stored x (map snd G) = stored x (of_thread t G)"
  by (induction G) (auto simp: owned_Cons split: call.splits os_call.splits)

lemma stored_suffix: "stored x (ev # L) = stored x L \<or> (\<exists>u. stored x (ev # L) = u # stored x L)"
  by (auto split: call.splits os_call.splits)

lemma hd_butlast: "ks \<noteq> [] \<Longrightarrow> last ks = 0 \<Longrightarrow> hd ks \<noteq> (0 :: int) \<or> butlast ks \<noteq> [] \<Longrightarrow> hd ks \<in> set (butlast ks)"
  by (cases ks) (auto split: if_splits)

lemma seen_later:
  assumes "coherent x 0 (map snd G)" and "owned x {0} G" and "i > 0"
    and "stored x (of_thread 0 G) \<noteq> [] \<Longrightarrow> last (stored x (of_thread 0 G)) = 0"
  shows "seen x (of_thread 0 G) (of_thread i G)"
  using assms
proof (induction G)
  case Nil
  show ?case by (simp add: seen_def)
next
  case (Cons te G)
  obtain t c st r where te: "te = (t, c, st, r)" by (cases te)
  let ?K = "stored x (of_thread 0 G)" and ?K' = "stored x (of_thread 0 (te # G))"
  have suf: "?K' = ?K \<or> (\<exists>u. ?K' = u # ?K)" using stored_suffix by (simp add: te del: stored.simps) 
  have zero: "last ?K = 0" if "?K \<noteq> []" using suf Cons.prems(4) that by fastforce
  have own: "owned x {0} G" using Cons.prems(2) by (simp add: te owned_Cons)
  have IH: "seen x (of_thread 0 G) (of_thread i G)"
    using Cons.IH Cons.prems(1,3) own zero by simp
  have mono: "set (butlast ?K) \<subseteq> set (butlast ?K')" using suf by auto
  show ?case
  proof (cases "t = i \<and> c = Os (AtomicLoad x)")
    case False
    then have "loaded x (of_thread i (te # G)) = loaded x (of_thread i G)" by (auto simp: te)
    then show ?thesis using IH mono unfolding seen_def by (metis subset_trans)
  next
    case True
    then have K': "?K' = ?K" using \<open>i > 0\<close> by (simp add: te)
    have "r_n r = atomic x 0 (map snd G)" using Cons.prems(1) True by (simp add: te)
    then have v: "r_n r = (if ?K = [] then 0 else hd ?K)"
      using stored_owned [OF own] by (simp add: atomic_stored split: list.splits)
    have new: "r_n r \<in> set (butlast ?K)" if "r_n r \<noteq> 0 \<or> butlast ?K \<noteq> []"
      using v that zero hd_butlast [of ?K] by (auto split: if_splits)
    have W: "loaded x (of_thread i (te # G)) = r_n r # loaded x (of_thread i G)" using True by (simp add: te)
    show ?thesis
      unfolding seen_def K' W
    proof (intro allI impI)
      fix ys u zs assume eq: "r_n r # loaded x (of_thread i G) = ys @ u # zs" and u: "u \<noteq> (0 :: int)"
      show "insert u (set ys) \<subseteq> set (butlast ?K)"
      proof (cases ys)
        case Nil
        then show ?thesis using eq u new by simp
      next
        case (Cons y ys')
        then have old: "insert u (set ys') \<subseteq> set (butlast ?K)"
          using eq IH u unfolding seen_def by auto
        then have "butlast ?K \<noteq> []" by auto
        then show ?thesis using old new Cons eq by simp
      qed
    qed
  qed
qed


section \<open>Counting interfaces over the threads\<close>

lemma sum_threads:
  assumes "finite U" and "fst ` set G \<subseteq> U"
  shows "sum_list (map g (map snd G)) = (\<Sum>t\<in>U. sum_list (map g (of_thread t G)))"
  using assms(2)
proof (induction G)
  case (Cons te G)
  obtain u ev where te: "te = (u, ev)" by (cases te)
  have "(\<Sum>t\<in>U. sum_list (map g (of_thread t (te # G))))
      = (\<Sum>t\<in>U. (if u = t then g ev else 0) + sum_list (map g (of_thread t G)))"
    by (rule sum.cong) (auto simp: te)
  also have "\<dots> = g ev + (\<Sum>t\<in>U. sum_list (map g (of_thread t G)))"
    using Cons.prems assms(1) by (simp add: sum.distrib te)
  finally show ?case using Cons by (simp add: te)
qed simp


section \<open>Handing a variable over\<close>

text \<open>
  The discipline of the main thread: it writes \<open>x\<close> only before thread \<open>i\<close> is started and reads it
  only after the join; the thread is started and joined once.
\<close>

fun tidy :: "string \<Rightarrow> nat \<Rightarrow> event list \<Rightarrow> bool" where
  "tidy x i [] = True"
| "tidy x i (ev # L) = (tidy x i L \<and> (case fst ev of
     Os oc \<Rightarrow> (case oc of
         AtomicStore y u \<Rightarrow> y = x \<longrightarrow> phase i L = 0
       | AtomicLoad y \<Rightarrow> y = x \<longrightarrow> phase i L = 2
       | SpawnThread j ns ss \<Rightarrow> j = i \<longrightarrow> phase i L = 0
       | JoinThread j \<Rightarrow> j = i \<longrightarrow> phase i L = 1
       | _ \<Rightarrow> True)
   | _ \<Rightarrow> True))"

text \<open>An event that is none of the four leaves phase, value and discipline alone.\<close>

definition idle :: "string \<Rightarrow> nat \<Rightarrow> call \<Rightarrow> bool" where
  "idle x i c \<longleftrightarrow> (case c of Os oc \<Rightarrow> (case oc of AtomicStore y u \<Rightarrow> y \<noteq> x | AtomicLoad y \<Rightarrow> y \<noteq> x
     | SpawnThread j ns ss \<Rightarrow> j \<noteq> i | JoinThread j \<Rightarrow> j \<noteq> i | _ \<Rightarrow> True) | _ \<Rightarrow> True)"

lemma idle_step:
  assumes "idle x i c"
  shows "phase i ((c, sr) # L) = phase i L" "atomic x v ((c, sr) # L) = atomic x v L"
    "tidy x i ((c, sr) # L) \<longleftrightarrow> tidy x i L" "coherent x v ((c, sr) # L) \<longleftrightarrow> coherent x v L"
  using assms by (auto simp: idle_def split: call.splits os_call.splits)

lemma active_call:
  "\<not> idle x i c \<Longrightarrow> (\<exists>u. c = Os (AtomicStore x u)) \<or> c = Os (AtomicLoad x)
     \<or> (\<exists>ns ss. c = Os (SpawnThread i ns ss)) \<or> c = Os (JoinThread i)"
  by (auto simp: idle_def split: call.splits os_call.splits)

text \<open>What holds at every point of an execution whose main thread keeps the discipline.\<close>

definition handed :: "string \<Rightarrow> nat \<Rightarrow> int \<Rightarrow> tlog \<Rightarrow> bool" where
  "handed x i v G \<longleftrightarrow>
     (let M = of_thread 0 G; W = of_thread (Suc i) G; v0 = atomic x v M
      in (phase i M = 0 \<longrightarrow> W = []) \<and> atomic x v (map snd G) = atomic x v0 W \<and> coherent x v0 W \<and>
         (\<forall>st r. (Os (AtomicLoad x), st, r) \<in> set M \<longrightarrow> phase i M = 2 \<and> r_n r = atomic x v0 W))"

lemma handed_step:
  assumes "handed x i v G" and "bracketed (te # G)" and "coherent x v (map snd (te # G))"
    and "tidy x i (of_thread 0 (te # G))" and "owned x {0, Suc i} (te # G)"
  shows "handed x i v (te # G)"
proof -
  obtain t c st r where te: "te = (t, c, st, r)" by (cases te)
  consider "idle x i c" | "t \<noteq> 0" "t \<noteq> Suc i" | (main) "\<not> idle x i c" "t = 0"
    | (thr) "\<not> idle x i c" "t = Suc i" by blast
  then show ?thesis
  proof cases
    case 1
    then have "c \<noteq> Os (AtomicLoad x)" by (auto simp: idle_def)
    then show ?thesis using 1 assms(1,2)
      by (auto simp: te handed_def Let_def idle_step simp del: phase.simps atomic.simps coherent.simps)
  next
    case 2
    then have "\<And>u. c \<noteq> Os (AtomicStore x u)" using assms(5) by (auto simp: te owned_Cons)
    then have "atomic x v (map snd (te # G)) = atomic x v (map snd G)"
      by (auto simp: te split: call.splits os_call.splits)
    then show ?thesis using 2 assms(1) by (simp add: te handed_def Let_def)
  next
    case main
    then show ?thesis using assms active_call [OF main(1)]
      by (auto simp: te handed_def Let_def)
  next
    case thr
    have "phase i (of_thread 0 G) = 1" using assms(2) thr by (simp add: te)
    then show ?thesis using thr assms active_call [OF thr(1)]
      by (auto simp: te handed_def Let_def)
  qed
qed

lemma handover:
  assumes "bracketed G" and "coherent x v (map snd G)" and "tidy x i (of_thread 0 G)"
    and "owned x {0, Suc i} G"
  shows "handed x i v G"
  using assms
proof (induction G)
  case Nil
  show ?case by (simp add: handed_def)
next
  case (Cons te G)
  obtain t ev where te: "te = (t, ev)" by (cases te)
  have "tidy x i (of_thread 0 G)" using Cons.prems(3) by (auto simp: te split: if_splits)
  then have "handed x i v G" using Cons te by (auto simp: owned_Cons)
  then show ?case using Cons.prems by (rule handed_step)
qed

lemma handover_load:
  assumes "execution p m T r G" and "tidy x i (of_thread 0 G)" and "owned x {0, Suc i} G"
    and "(0, Os (AtomicLoad x), st, rp) \<in> set G"
  shows "r_n rp = atomic x (atomic x 0 (of_thread 0 G)) (of_thread (Suc i) G)"
    "coherent x (atomic x 0 (of_thread 0 G)) (of_thread (Suc i) G)"
proof -
  have "handed x i 0 G" using handover executionD(2,3) [OF assms(1)] assms(2,3) by blast
  moreover have "(Os (AtomicLoad x), st, rp) \<in> set (of_thread 0 G)"
    using assms(4) by (force simp: of_thread_def)
  ultimately show "r_n rp = atomic x (atomic x 0 (of_thread 0 G)) (of_thread (Suc i) G)"
    "coherent x (atomic x 0 (of_thread 0 G)) (of_thread (Suc i) G)"
    unfolding handed_def Let_def by blast+
qed


section \<open>Views of the log that only system calls change\<close>

text \<open>
  The discipline above is kept by everything that makes no call on threads and atomic variables, so
  by every operation of \<open>fb_sample.h\<close>.  The calls that it makes:
\<close>

definition plain :: "call \<Rightarrow> bool" where
  "plain c \<longleftrightarrow> (case c of Os oc \<Rightarrow> False | Svc h m \<Rightarrow> False
     | Xpb h m \<Rightarrow> (case m of InsertInt t v \<Rightarrow> t \<noteq> isc_spb_trc_id | _ \<Rightarrow> True) | _ \<Rightarrow> True)"

locale os_view =
  fixes f :: "event list \<Rightarrow> 'v" and quiet :: "call \<Rightarrow> bool"
  assumes quiet_call: "quiet c \<Longrightarrow> f ((c, st, r) # L) = f L"
    and quiet_plain: "plain c \<Longrightarrow> quiet c"
begin

lemma view: "world_view (\<lambda>w. f (log w)) quiet"
  by unfold_locales (simp_all add: quiet_call)

lemmas leaves = world_view.leaf_rules [OF view]

lemma keeps_cells:
  "keeps (\<lambda>w. f (log w) = v) (set_cell k i a)" "keeps (\<lambda>w. f (log w) = v) new_cell"
  by (rule keepsI, auto simp: run_simps)+

lemmas rules = keeps_rules leaves keeps_cells

lemma quiet_calls [simp]:
  "quiet (Master a1)" "quiet (StatusDispose h)" "quiet (StatusWarnings h)" "quiet (Xpb h (InsertTag t))"
  "quiet (Xpb h (InsertString t s))" "t \<noteq> isc_spb_trc_id \<Longrightarrow> quiet (Xpb h (InsertInt t n))"
  "quiet (Xpb h GetBuffer)" "quiet (Xpb h XpbDispose)"
  "quiet (Prov h a3)" "quiet (Att h a4)" "quiet (Tra h a5)" "quiet (Stmt h a6)" "quiet (Meta h a7)"
  "quiet (Builder h a8)" "quiet (Curs h a9)" "quiet (Blob h a10)"
  "quiet (Events h a12)" "quiet (Isc a13)" "quiet (Fc a14)"
  by (rule quiet_plain; simp add: plain_def)+

lemma keeps_db:
  "keeps (\<lambda>w. f (log w) = v) (attach db d)" "keeps (\<lambda>w. f (log w) = v) (attachOrCreate db d)"
  "keeps (\<lambda>w. f (log w) = v) (start_tpb db t)" "keeps (\<lambda>w. f (log w) = v) (exec db tra sql)"
  "keeps (\<lambda>w. f (log w) = v) (query db tra sql)" "keeps (\<lambda>w. f (log w) = v) (queryValue db tra sql)"
  "keeps (\<lambda>w. f (log w) = v) (commit tra)" "keeps (\<lambda>w. f (log w) = v) (commitRetaining tra)"
  "keeps (\<lambda>w. f (log w) = v) (rollback tra)" "keeps (\<lambda>w. f (log w) = v) (prepare db tra sql b)"
  "keeps (\<lambda>w. f (log w) = v) (getPlan stmt b)" "keeps (\<lambda>w. f (log w) = v) (formatStatus n st)"
  "keeps (\<lambda>w. f (log w) = v) (report st)" "keeps (\<lambda>w. f (log w) = v) (detach db)"
  "keeps (\<lambda>w. f (log w) = v) (print t')" "keeps (\<lambda>w. f (log w) = v) (argOrDefault n s)"
  "keeps (\<lambda>w. f (log w) = v) (att_of db)" "keeps (\<lambda>w. f (log w) = v) (Db_destroy db)"
  "keeps (\<lambda>w. f (log w) = v) Db_new" "keeps (\<lambda>w. f (log w) = v) defaultUser"
  "keeps (\<lambda>w. f (log w) = v) defaultPassword" "keeps (\<lambda>w. f (log w) = v) (makeDpb db u pw cs)"
  unfolding attach_def attach_as_def attachDatabase_def attachOrCreate_def createDatabase_def makeDpb_def
    defaultUser_def defaultPassword_def start_tpb_def exec_def query_def queryValue_def cell_at_def
    coerce_columns_def fetch_all_def fetch_row_def commit_def commitRetaining_def rollback_def prepare_def
    getPlan_def formatStatus_def report_def detach_def print_def argOrDefault_def att_of_def Db_destroy_def
    Db_new_def
  by (intro rules; simp)+

lemma keeps_os:
  "quiet (Os c) \<Longrightarrow> keeps (\<lambda>w. f (log w) = v) (os_do c)"
  "quiet (Os c) \<Longrightarrow> keeps (\<lambda>w. f (log w) = v) (os_int c)"
  unfolding os_do_def os_int_def by (intro rules; assumption)+

lemma keeps_with_Db: "(\<And>db. keeps (\<lambda>w. f (log w) = v) (b db)) \<Longrightarrow> keeps (\<lambda>w. f (log w) = v) (with_Db b)"
  unfolding with_Db_def by (intro rules keeps_db)

lemmas all_rules = rules keeps_db keeps_os keeps_with_Db

end

text \<open>The state of the handover of \<open>x\<close> by the main thread.\<close>

definition stage :: "string \<Rightarrow> nat \<Rightarrow> event list \<Rightarrow> bool \<times> nat \<times> int" where
  "stage x i L = (tidy x i L, phase i L, atomic x 0 L)"

interpretation stages: os_view "stage x i" "idle x i" for x i
  by unfold_locales
    (auto simp: stage_def idle_step idle_def plain_def simp del: phase.simps atomic.simps tidy.simps split: call.splits)

lemma stage_calls:
  "hoare (\<lambda>w. stage x i (log w) = (True, 0, v)) (store x u) (\<lambda>_ w. stage x i (log w) = (True, 0, u)) E1"
  "hoare (\<lambda>w. stage x i (log w) = (True, 0, v)) (spawn i ns ss) (\<lambda>_ w. stage x i (log w) = (True, 1, v)) E2"
  "hoare (\<lambda>w. stage x i (log w) = (True, 1, v)) (join i) (\<lambda>_ w. stage x i (log w) = (True, 2, v)) E3"
  "hoare (\<lambda>w. stage x i (log w) = (True, 2, v)) (load x) (\<lambda>_ w. stage x i (log w) = (True, 2, v)) E4"
  by (rule hoareI, auto simp: thread_defs os_do_def os_int_def do_void_def ignore_def bindP_def run_simps
      stage_def split: if_splits)+


abbreviation at_stage :: "string \<Rightarrow> nat \<Rightarrow> nat \<Rightarrow> int \<Rightarrow> 's world \<Rightarrow> bool" where
  "at_stage x i n v \<equiv> \<lambda>w. stage x i (world.log w) = (True, n, v)"


lemma skip_keeps: "keeps I m \<Longrightarrow> hoare I m (\<lambda>_. I) (\<lambda>_ _. True)"
  unfolding keeps_def by (erule hoare_weaken) auto

lemma hoare_disj: "hoare P m Q E \<Longrightarrow> hoare P' m Q E \<Longrightarrow> hoare (\<lambda>w. P w \<or> P' w) m Q E"
  by (auto simp: hoare_def)

lemma hoare_block_Cons:
  "hoare P m (\<lambda>_. R) E \<Longrightarrow> hoare R (block xs) Q E \<Longrightarrow> hoare P (block (m # xs)) Q E"
  unfolding block.simps by (rule hoare_bindP)

lemma hoare_block_Nil: "hoare P (block []) (\<lambda>_. P) E"
  by (simp add: hoare_ret)

lemma hoare_False: "hoare (\<lambda>_. False) m Q E"
  by (rule hoareI) simp

lemma hoare_ex: "(\<And>x. hoare (P x) m Q E) \<Longrightarrow> hoare (\<lambda>w. \<exists>x. P x w) m Q E"
  by (auto simp: hoare_def)

lemma hoare_conj_pre: "(A \<Longrightarrow> hoare P m Q E) \<Longrightarrow> hoare (\<lambda>w. A \<and> P w) m Q E"
  by (auto simp: hoare_def)

lemma post_triv: "post (\<lambda>_ _. True) (\<lambda>_ _. True) r w"
  by (cases r) simp_all

lemma hoare_triv: "hoare P m (\<lambda>_ _. True) (\<lambda>_ _. True)"
  by (rule hoareI) (rule post_triv)

lemma skip_to: "keeps I m \<Longrightarrow> (\<And>w. I w \<Longrightarrow> J w) \<Longrightarrow> hoare I m (\<lambda>_. I) (\<lambda>_. J)"
  unfolding keeps_def by (erule hoare_weaken) auto

lemma keeps_any:
  assumes "\<And>v. keeps (\<lambda>w. f w = v) m"
  shows "hoare (\<lambda>w. J (f w)) m (\<lambda>_ w. J (f w)) (\<lambda>_ _. True)"
proof (rule hoareI)
  fix e w r w' assume "J (f w)" and run: "m e w = Some (r, w')"
  then show "post (\<lambda>_ w. J (f w)) (\<lambda>_ _. True) r w'"
    using hoareD [OF skip_keeps [OF assms] refl run] by (auto elim: post_mono)
qed

lemma hoare_joinable: "hoare P m Q (\<lambda>_ _. True) \<Longrightarrow> hoare P (joinable m) Q (\<lambda>_ _. True)"
  unfolding joinable_def by (erule hoare_try_fb) (rule hoare_fail, simp)

interpretation stores: os_view "stored x" "no_store x" for x
  by unfold_locales (auto simp: no_store_def plain_def split: call.splits os_call.splits)


section \<open>Attachments of all threads\<close>

text \<open>
  The contract of a program with threads: the main thread and every thread give back the
  attachments they open.
\<close>

locale attached_threads =
  fixes m :: "(answers, 'a) prog" and T :: "nat \<Rightarrow> int list \<Rightarrow> string list \<Rightarrow> (answers, unit) prog"
  assumes main_att: "\<And>b. att_triple b {} {} m {}"
    and thread_att: "\<And>b i ns ss. att_triple b {} {} (T i ns ss) {}"
begin

lemma performs_balanced:
  assumes "performs p m' L (Ok a)" and "\<And>b. att_triple b {} {} m' {}" and "p_cells p KAtt = Map.empty"
  shows "sum_list (map (gain KAtt) L) = 0"
proof -
  obtain e w w' where run: "m' e w = Some (Ok a, w')" and L: "log w' = L" "log w = []"
    and c: "cells w = p_cells p"
    using assms(1) by (rule performsE)
  have "bal (gain KAtt) w' = bal (gain KAtt) w"
    using att_balanced(1) [OF assms(2) _ run] c assms(3) by simp
  then show ?thesis by (simp add: bal_def L)
qed

lemma all_detached:
  assumes ex: "execution p m T (Ok a) G" and "p_cells p KAtt = Map.empty"
  shows "sum_list (map (gain KAtt) (map snd G)) = 0"
proof -
  have "sum_list (map (gain KAtt) (of_thread t G)) = 0" for t
  proof (cases t)
    case 0
    then show ?thesis using performs_balanced [OF executionD(1) [OF ex] main_att assms(2)] by simp
  next
    case (Suc i)
    show ?thesis
    proof (cases "of_thread t G = []")
      case False
      then obtain ns ss where "performs p (T i ns ss) (of_thread t G) (Ok ())"
        using execution_thread [OF ex, of i] Suc by blast
      then show ?thesis by (rule performs_balanced [OF _ thread_att assms(2)])
    qed simp
  qed
  then show ?thesis using sum_threads [of "fst ` set G" G "gain KAtt"] by simp
qed

end

end
