(* ===== verification/Samples_Threads.thy ===== *)
theory Samples_Threads
  imports Thread_Runs Samples_Timing Service_Streams
begin

text \<open>
  The samples with client threads: \<open>threading.cpp\<close>, \<open>lock_manager.cpp\<close>, \<open>sorting.cpp\<close>, \<open>trace.cpp\<close>
  and \<open>parallel_workers.cpp\<close>.  \<open><sample>_main\<close> is the main thread, \<open><sample>_threads\<close> gives the
  function of each other thread from its number and what it captures; together they are executions
  in the sense of \<open>Thread_Runs\<close>.

  Shown for every execution: all attachments of all threads are given back; the transactions of the
  deadlock are rolled back once each; the maxima that \<open>sorting.cpp\<close> prints are those of its
  watcher's readings; \<open>trace.cpp\<close> stops a session that the stream announced, and does not end when
  the stream announces none.
\<close>


section \<open>threading.cpp\<close>

definition threading_DEFAULT_DB :: string where
  \<open>threading_DEFAULT_DB = ''inet://localhost//tmp/fbhandson/threading.fdb''\<close>

definition countThreads :: "string \<Rightarrow> ('s, nat) prog" where
  \<open>countThreads pid = bindP (ask_void (Os (Opendir (c_str (''/proc/'' @ pid @ ''/task''))))) (\<lambda>d.
      (if r_null d then ret 0
    else (bindP (loopP (\<lambda>n. bindP (ask_void (Os (Readdir (r_h d)))) (\<lambda>e.
      ret (if r_null e then Inr n
          else Inl (if r_s e \<noteq> [] \<and> hd (r_s e) = CHR ''.'' then n else Suc n)))) 0) (\<lambda>n.
      returning
       [os_do (Closedir (r_h d))]
       n))))\<close>

definition threading_worker :: "string \<Rightarrow> ('s, unit) prog" where
  \<open>threading_worker dbName = with_Db (\<lambda>w. seqP
       [attach w dbName] (
      bindP (start w) (\<lambda>wt.
      block
       [ignore (queryValue w wt (''select count(*) from t'')),
        commit wt,
        os_do (SleepMs 2000)])))\<close>

definition threading_threads :: "nat \<Rightarrow> int list \<Rightarrow> string list \<Rightarrow> ('s, unit) prog" where
  "threading_threads i ns ss = thread (threading_worker (hd ss))"

text \<open>The part of \<open>main\<close> that runs beside the workers, up to the last join.\<close>

definition threading_beside :: "Db \<Rightarrow> string \<Rightarrow> string \<Rightarrow> ('s, unit) prog" where
  \<open>threading_beside db dbName pid = seqP
       [for_each [1..<12] (\<lambda>i. spawn i [] [dbName]),
        os_do (SleepMs 1000)] (
      bindP (start db) (\<lambda>t.
      bindP (queryValue db t (''select count(*) from MON$ATTACHMENTS where MON$SYSTEM_FLAG = 0'')) (\<lambda>users.
      bindP (queryValue db t (''select count(distinct MON$SERVER_PID) from MON$ATTACHMENTS'')) (\<lambda>pids.
      seqP
       [commit t] (
      bindP (countThreads pid) (\<lambda>c1.
      block
       [say (''with 12 extra attachments: '' @ show_int (int c1) @ '' threads | '' @
            (c_str users) @ '' user attachments, '' @ (c_str pids) @
            '' distinct server pid'' @ nl),
        for_each [0..<12] (\<lambda>i. join i)]))))))\<close>

definition threading_main :: "('s, int) prog" where
  \<open>threading_main = bindP (argOrDefault 1 threading_DEFAULT_DB) (\<lambda>dbName.
      try_fb (with_Db (\<lambda>db. seqP
       [attachOrCreate db dbName] (
      bindP (start db) (\<lambda>t.
      seqP
       [quietly (exec db t (''recreate table t (id int primary key, v int)'')),
        commit t] (
      bindP (start db) (\<lambda>t2.
      seqP
       [exec db t2 (''update or insert into t values (1, 0) matching (id)''),
        commit t2] (
      bindP (start db) (\<lambda>t3.
      bindP (queryValue db t3 ((''select MON$SERVER_PID from MON$ATTACHMENTS '' @
          ''where MON$ATTACHMENT_ID = current_connection''))) (\<lambda>pid.
      seqP
       [commit t3] (
      bindP (countThreads pid) (\<lambda>c1.
      seqP
       [say (''engine process: pid '' @ (c_str pid) @ '', '' @ show_int (int c1) @
            '' threads (1 attachment open)'' @ nl),
        spawn 0 [] [dbName],
        joinable (threading_beside db dbName pid),
        os_do (SleepMs 1000)] (
      bindP (countThreads pid) (\<lambda>c2.
      seqP
       [say (''after they detach:        '' @ show_int (int c2) @
            '' threads (pooled, not destroyed)'' @ nl)] (
      bindP (start db) (\<lambda>t4.
      bindP (query db t4 ((''select MON$ATTACHMENT_ID, MON$SYSTEM_FLAG, trim(MON$USER), '' @
          ''       coalesce(MON$REMOTE_PROCESS, '<internal>') '' @
          ''from MON$ATTACHMENTS order by MON$ATTACHMENT_ID''))) (\<lambda>sys.
      returning
       [print sys,
        commit t4]
       0)))))))))))))))) report)\<close>


section \<open>lock_manager.cpp\<close>

definition lock_manager_DEFAULT_DB :: string where
  \<open>lock_manager_DEFAULT_DB = ''inet://localhost//tmp/fbhandson/lock_manager.fdb''\<close>

text \<open>\<open>duration<double>(clk::now() - t0).count()\<close>\<close>

definition seconds :: "int \<Rightarrow> int \<Rightarrow> double" where
  "seconds t0 t1 = dbl (dbl (of_int (t1 - t0)) / 1000000000)"

definition secondsSince :: "int \<Rightarrow> ('s, double) prog" where
  "secondsSince t0 = bindP steady_now (\<lambda>t1. ret (seconds t0 t1))"

definition setTransaction :: "Db \<Rightarrow> string \<Rightarrow> ('s, nat) prog" where
  "setTransaction db sql = bindP (att_of db) (\<lambda>a. handle_of (Att a (ExecuteStart (c_str sql))))"

definition probe :: "Db \<Rightarrow> string \<Rightarrow> string \<Rightarrow> ('s, unit) prog" where
  \<open>probe db label sql = bindP (steady_now) (\<lambda>t0.
      try_fb (bindP (setTransaction db sql) (\<lambda>t.
      bindP (secondsSince t0) (\<lambda>c1.
      block
       [say (ljust 16 label @ '' granted after '' @ fixed 3 c1 @ '' s'' @ nl),
        commit t]))) (\<lambda>e. bindP (formatStatus 256 e) (\<lambda>buf.
      bindP (secondsSince t0) (\<lambda>c1.
      block
       [say (ljust 16 label @ '' failed after '' @ fixed 3 c1 @ '' s: '' @ (first_line buf) @ nl)]))))\<close>

text \<open>The thread that ends the reservation, through a status nobody reads.\<close>

definition releaser :: "nat \<Rightarrow> ('s, unit) prog" where
  \<open>releaser hold = seqP
       [os_do (SleepMs 2000)] (
      bindP (ask_void (Master GetStatus)) (\<lambda>st.
      block
       [ignore (ask_check (Tra hold Commit)),
        do_void (StatusDispose (r_h st)),
        say (''holder: committed (2 s later) -> lock released'' @ nl)]))\<close>

definition crossA :: "nat \<Rightarrow> nat \<Rightarrow> int \<Rightarrow> ('s, unit) prog" where
  \<open>crossA att ta t0 = try_fb (do_call (Att att (Execute ta (''update t1 set v = v + 1 where id = 2'')))) (\<lambda>e. bindP (formatStatus 256 e) (\<lambda>buf.
      bindP (secondsSince t0) (\<lambda>c1.
      block
       [say (''deadlock: A failed after '' @ fixed 1 c1 @ '' s: '' @ (first_line buf) @ nl),
        store ''aVictim'' 1,
        rollback ta])))\<close>

definition lock_manager_threads :: "nat \<Rightarrow> int list \<Rightarrow> string list \<Rightarrow> ('s, unit) prog" where
  "lock_manager_threads i ns ss = thread
     (if i = 0 then releaser (nat (hd ns)) else crossA (nat (hd ns)) (nat (ns ! 1)) (ns ! 2))"

text \<open>B's side of the cross, and the join.\<close>

definition crossB :: "Db \<Rightarrow> nat \<Rightarrow> int \<Rightarrow> ('s, unit) prog" where
  \<open>crossB b tb t0 = block
       [os_do (SleepMs 300),
        try_fb (seqP
       [exec b tb (''update t1 set v = v + 1 where id = 1'')] (
      bindP (secondsSince t0) (\<lambda>c1.
      block
       [say (''deadlock: B's update proceeded after '' @ fixed 1 c1 @ '' s (A was the victim)'' @ nl)]))) (\<lambda>e. bindP (formatStatus 256 e) (\<lambda>buf.
      bindP (secondsSince t0) (\<lambda>c1.
      block
       [say (''deadlock: B failed after '' @ fixed 1 c1 @ '' s: '' @ (first_line buf) @ nl),
        store ''bVictim'' 1,
        rollback tb]))),
        join 1]\<close>

text \<open>Act two: the deadlock and what is left to roll back after it.\<close>

definition deadlock :: "Db \<Rightarrow> Db \<Rightarrow> ('s, unit) prog" where
  \<open>deadlock a b = bindP (start a) (\<lambda>ta.
      bindP (start b) (\<lambda>tb.
      seqP
       [exec a ta (''update t1 set v = v + 1 where id = 1''),
        exec b tb (''update t1 set v = v + 1 where id = 2''),
        store ''aVictim'' 0,
        store ''bVictim'' 0] (
      bindP (steady_now) (\<lambda>t0.
      bindP (att_of a) (\<lambda>att.
      seqP
       [spawn 1 [int att, int ta, t0] [],
        joinable (crossB b tb t0)] (
      bindP (load ''aVictim'') (\<lambda>aVictim.
      seqP
       [if aVictim = 0 then rollback ta else ret ()] (
      bindP (load ''bVictim'') (\<lambda>bVictim.
      block
       [if bVictim = 0 then rollback tb else ret ()])))))))))\<close>

definition lock_manager_main :: "('s, int) prog" where
  \<open>lock_manager_main = bindP (argOrDefault 1 lock_manager_DEFAULT_DB) (\<lambda>dbName.
      try_fb (with_Db (\<lambda>a. with_Db (\<lambda>b. seqP
       [attachOrCreate a dbName,
        attach b dbName] (
      bindP (start a) (\<lambda>ddl.
      seqP
       [quietly (exec a ddl (''drop table t1'')),
        commit ddl] (
      bindP (start a) (\<lambda>ddl2.
      seqP
       [exec a ddl2 (''create table t1 (id int primary key, v int)''),
        commit ddl2] (
      bindP (start a) (\<lambda>ddl3.
      seqP
       [exec a ddl3 (''insert into t1 values (1, 0)''),
        exec a ddl3 (''insert into t1 values (2, 0)''),
        commit ddl3] (
      bindP (setTransaction a (''SET TRANSACTION WAIT RESERVING t1 FOR PROTECTED WRITE'')) (\<lambda>hold.
      returning
       [say (''holder: t1 reserved FOR PROTECTED WRITE (LCK_relation at LCK_EX)'' @ nl),
        probe b (''NO WAIT:'') (''SET TRANSACTION NO WAIT RESERVING t1 FOR PROTECTED WRITE''),
        probe b (''LOCK TIMEOUT 3:'') (''SET TRANSACTION LOCK TIMEOUT 3 RESERVING t1 FOR PROTECTED WRITE''),
        spawn 0 [int hold] [],
        joinable (block
       [probe b (''WAIT:'') (''SET TRANSACTION WAIT RESERVING t1 FOR PROTECTED WRITE''),
        join 0]),
        say (''building deadlock: A updates row 1, B updates row 2, then cross...'' @ nl),
        deadlock a b,
        say (''the wait is DeadlockTimeout (10 s default): the cycle sat undetected until the scan.'' @
            nl)]
       0))))))))))) report)\<close>


section \<open>sorting.cpp\<close>

text \<open>\<open>snprintf(cmd, sizeof cmd, ...)\<close> into a \<open>char[256]\<close>.\<close>

definition scratch_cmd :: "int \<Rightarrow> string" where
  \<open>scratch_cmd pid = take 255 (''sudo -n find /proc/'' @ show_int pid @
            ''/fd -lname '*fb_sort*' -print0 2>/dev/null | xargs -0 -r sudo -n stat -L -c %s 2>/dev/null'')\<close>

definition long_add :: "int \<Rightarrow> int \<Rightarrow> ('s, int) prog" where
  "long_add a b = checked ''long overflow''
     (if - (2 ^ 63) \<le> a + b \<and> a + b < 2 ^ 63 then Some (a + b) else None)"

text \<open>The \<open>fscanf\<close> loop: the total and the number of the sizes read.\<close>

definition scan_sizes :: "nat \<Rightarrow> ('s, int \<times> int) prog" where
  \<open>scan_sizes p = loopP (\<lambda>tf. bindP (ask_void (Os (ScanLong p))) (\<lambda>s.
      (if r_null s then ret (Inr tf)
    else (bindP (long_add (fst tf) (r_n s)) (\<lambda>total.
      ret (Inl (total, snd tf + 1))))))) (0, 0)\<close>

definition sampleScratch :: "int \<Rightarrow> ('s, unit) prog" where
  \<open>sampleScratch pid = bindP (ask_void (Os (Popen (scratch_cmd pid)))) (\<lambda>p.
      (if r_null p then ret ()
    else (bindP (scan_sizes (r_h p)) (\<lambda>tf.
      block
       [os_do (Pclose (r_h p)),
        raise_to ''peakScratch'' (fst tf),
        raise_to ''peakFiles'' (snd tf)]))))\<close>

definition memSql :: string where
  \<open>memSql = (''select m.mon$memory_allocated from mon$database d '' @
    ''join mon$memory_usage m on m.mon$stat_id = d.mon$stat_id'')\<close>

text \<open>The loop of the watcher, and the watcher.\<close>

definition watch_loop :: "Db \<Rightarrow> int \<Rightarrow> ('s, unit) prog" where
  \<open>watch_loop mon pid = loopP (\<lambda>_. bindP (load ''running'') (\<lambda>run.
      (if run = 0 then ret (Inr ())
    else (seqP
       [sampleScratch pid] (
      bindP (start mon) (\<lambda>t.
      bindP (queryValue mon t memSql) (\<lambda>v.
      returning
       [commit t,
        raise_to ''peakMem'' (atol (c_str v))]
       (Inl ())))))))) ()\<close>

definition watcher :: "string \<Rightarrow> int \<Rightarrow> ('s, unit) prog" where
  \<open>watcher database pid = with_Db (\<lambda>mon. block
       [attach mon database,
        watch_loop mon pid,
        detach mon])\<close>

definition sorting_threads :: "nat \<Rightarrow> int list \<Rightarrow> string list \<Rightarrow> ('s, unit) prog" where
  "sorting_threads i ns ss = thread (watcher (hd ss) (hd ns))"

text \<open>The part that runs beside the watcher; \<open>stmt->getPlan(...) + 1\<close> skips one character.\<close>

definition sorting_beside :: "Db \<Rightarrow> nat \<Rightarrow> string \<Rightarrow> string \<Rightarrow> ('s, string) prog" where
  \<open>sorting_beside db i label sql = bindP (start db) (\<lambda>tra.
      bindP (prepare db tra sql False) (\<lambda>stmt.
      bindP (getPlan stmt False) (\<lambda>p.
      bindP (checked ''plan'' (case p of None \<Rightarrow> None | Some t \<Rightarrow> if t = [] then None else Some (tl t))) (\<lambda>plan.
      seqP
       [say (nl @ label @ nl @ ''  '' @ plan @ nl)] (
      bindP (queryValue db tra sql) (\<lambda>top.
      returning
       [commit tra,
        do_call (Stmt stmt StmtFree),
        store ''running'' 0,
        join i]
       top))))))\<close>

text \<open>One iteration of the loop over the cases; the thread of case \<open>i\<close> has the number \<open>i\<close>.\<close>

definition sorting_case :: "Db \<Rightarrow> string \<Rightarrow> int \<Rightarrow> int \<Rightarrow> nat \<Rightarrow> string \<Rightarrow> string \<Rightarrow> ('s, unit) prog" where
  \<open>sorting_case db database pid memIdle i label sql = seqP
       [store ''peakMem'' 0,
        store ''peakFiles'' 0,
        store ''peakScratch'' 0,
        store ''running'' 1,
        spawn i [pid] [database]] (
      bindP (joinable (sorting_beside db i label sql)) (\<lambda>top.
      seqP
       [say (''  top row id = '' @ (c_str top) @ nl)] (
      bindP (load ''peakFiles'') (\<lambda>files.
      bindP (load ''peakScratch'') (\<lambda>scratch.
      seqP
       [say (''  peak fb_sort_* scratch: '' @ show_int files @ '' file(s), '' @
            show_int scratch @ '' bytes'' @ nl)] (
      bindP (load ''peakMem'') (\<lambda>mem.
      bindP (load ''peakMem'') (\<lambda>mem2.
      bindP (long_sub mem2 memIdle) (\<lambda>over.
      block
       [say (''  peak database MON$MEMORY_ALLOCATED: '' @ show_int mem @ '' bytes (+'' @
            show_int over @ '' over idle)'' @ nl)])))))))))\<close>

definition sorting_main :: "('s, int) prog" where
  \<open>sorting_main = bindP (argOrDefault 1 (''inet://localhost//tmp/fbhandson/sorting.fdb'')) (\<lambda>database.
      try_fb (with_Db (\<lambda>db. seqP
       [attachOrCreate db database] (
      bindP (start db) (\<lambda>tra.
      seqP
       [exec db tra (''recreate table bulk (id integer, pad varchar(400) character set ascii)''),
        commit tra] (
      bindP (start db) (\<lambda>tra2.
      seqP
       [exec db tra2 ((''execute block as declare i integer = 0; begin'' @
          ''  while (i < 200000) do begin'' @
          ''    insert into bulk values (:i, rpad(uuid_to_char(gen_uuid()), 400, 'x'));'' @
          ''    i = i + 1;'' @
          ''  end '' @
          ''end'')),
        commit tra2,
        say (''bulk: 200000 rows, 400-byte ASCII key -> ~82 MB of sort data'' @ nl)] (
      bindP (start db) (\<lambda>tra3.
      bindP (queryValue db tra3 ((''select mon$server_pid from mon$attachments '' @
          ''where mon$attachment_id = current_connection''))) (\<lambda>p.
      bindP (queryValue db tra3 memSql) (\<lambda>m.
      let pid = atol (c_str p) in
      let memIdle = atol (c_str m) in
      returning
       [commit tra3,
        say (''server pid '' @ show_int pid @ '', database memory allocated while idle: '' @
            show_int memIdle @ '' bytes'' @ nl),
        sorting_case db database pid memIdle 0 (''big sort (200k rows, ~82 MB)'')
          (''select first 1 id from bulk order by pad desc''),
        sorting_case db database pid memIdle 1 (''small sort (20k rows, ~8 MB)'')
          (''select first 1 id from bulk where mod(id, 10) = 0 order by pad desc''),
        detach db,
        say (nl @ ''done.'' @ nl)]
       0)))))))))) report)\<close>


section \<open>trace.cpp\<close>

definition trace_DB :: string where
  \<open>trace_DB = ''inet://localhost//tmp/fbhandson/trace.fdb''\<close>

definition SRV :: string where
  \<open>SRV = ''localhost:service_mgr''\<close>

definition TRACE_CFG :: string where
  \<open>TRACE_CFG = (''database = /tmp/fbhandson/trace.fdb'' @ nl @
    ''{'' @ nl @
    ''  enabled = true'' @ nl @
    ''  log_connections = true'' @ nl @
    ''  log_transactions = true'' @ nl @
    ''  log_statement_finish = true'' @ nl @
    ''  print_plan = true'' @ nl @
    ''  print_perf = true'' @ nl @
    ''  time_threshold = 0'' @ nl @
    ''}'' @ nl)\<close>

definition attachSvc :: "nat \<Rightarrow> ('s, nat) prog" where
  "attachSvc prov = spb_attach prov SRV"

text \<open>One line out of the 4096 bytes of an answer; \<open>Some None\<close> is the end of the stream.\<close>

definition line_of :: "header_values \<Rightarrow> byte list \<Rightarrow> string option option" where
  "line_of h buf =
     (if unat (buf ! 0) \<noteq> info_val h isc_info_svc_line then Some None
      else (case le_read 2 buf 1 of None \<Rightarrow> None
        | Some len \<Rightarrow> (case slice buf 3 len of None \<Rightarrow> None
            | Some t \<Rightarrow> Some (if len = 0 then None else Some (chars t)))))"

definition nextLine :: "nat \<Rightarrow> ('s, string option) prog" where
  \<open>nextLine svc = bindP (ask (Svc svc (SvcQuery [isc_info_svc_line] 4096))) (\<lambda>r.
      bindP (headers) (\<lambda>h.
      checked ''line'' (line_of h (fit 4096 (r_b r)))))\<close>

text \<open>
  \<open>sscanf\<close> with a format of literal characters, white space and one \<open>%d\<close> converts the number when
  the text before it matches; what follows the number does not matter to the result.
\<close>

definition isspace :: "char \<Rightarrow> bool" where
  "isspace c \<longleftrightarrow> c \<in> {CHR '' '', CHR 0x09, CHR 0x0A, CHR 0x0B, CHR 0x0C, CHR 0x0D}"

fun scan_prefix :: "string \<Rightarrow> string \<Rightarrow> string option" where
  "scan_prefix [] s = Some s"
| "scan_prefix (c # f) s =
     (if isspace c then scan_prefix f (dropWhile isspace s)
      else (case s of [] \<Rightarrow> None | x # s' \<Rightarrow> if x = c then scan_prefix f s' else None))"

definition scan_int :: "string \<Rightarrow> int option" where
  "scan_int s =
     (let t = dropWhile isspace s; neg = (t \<noteq> [] \<and> hd t = CHR ''-'');
          u = (if t \<noteq> [] \<and> (hd t = CHR ''-'' \<or> hd t = CHR ''+'') then tl t else t);
          ds = takeWhile (\<lambda>c. c \<in> set ''0123456789'') u
      in if ds = [] then None else Some (if neg then - int (read_dec ds) else int (read_dec ds)))"

definition session_id :: "string \<Rightarrow> int option" where
  \<open>session_id line = (case scan_prefix (''Trace session ID '') (c_str line) of None \<Rightarrow> None
     | Some s \<Rightarrow> scan_int s)\<close>

text \<open>A number that \<open>int\<close> cannot hold makes the conversion undefined.\<close>

definition int_range :: "int \<Rightarrow> ('s, int) prog" where
  "int_range n = checked ''%d'' (if - (2 ^ 31) \<le> n \<and> n < 2 ^ 31 then Some n else None)"

text \<open>The marker query of the worker, the wait for the id, and the stop.\<close>

definition trace_marker :: "('s, unit) prog" where
  \<open>trace_marker = try_fb (with_Db (\<lambda>db. seqP
       [attach db trace_DB] (
      bindP (start db) (\<lambda>tra.
      bindP (queryValue db tra (''SELECT COUNT(*) FROM RDB$RELATIONS /* traced! */'')) (\<lambda>v.
      block
       [say (''[worker] marker query says: '' @ (c_str v) @ nl),
        commit tra]))))) (\<lambda>e. ignore (report e))\<close>

definition await_id :: "('s, unit) prog" where
  \<open>await_id = loopP (\<lambda>_. bindP (load ''sessionId'') (\<lambda>id.
      (if id \<noteq> 0 then ret (Inr ())
    else (returning
       [os_do (SleepMs 50)]
       (Inl ()))))) ()\<close>

definition trace_lines :: "nat \<Rightarrow> (string \<Rightarrow> ('s, unit) prog) \<Rightarrow> ('s, unit) prog" where
  \<open>trace_lines svc f = loopP (\<lambda>_. bindP (nextLine svc) (\<lambda>l.
      (case l of None \<Rightarrow> ret (Inr ()) | Some line \<Rightarrow> (returning
       [f line]
       (Inl ()))))) ()\<close>

definition trace_stop :: "nat \<Rightarrow> ('s, unit) prog" where
  \<open>trace_stop prov = try_fb (bindP (ask_void (Master GetStatus)) (\<lambda>st2.
      bindP (attachSvc prov) (\<lambda>svcB.
      bindP (handle_of (Master (GetXpbBuilder SPB_START))) (\<lambda>stop.
      seqP
       [do_call (Xpb stop (InsertTag isc_action_svc_trace_stop))] (
      bindP (load ''sessionId'') (\<lambda>id.
      seqP
       [do_call (Xpb stop (InsertInt isc_spb_trc_id id))] (
      bindP (ask (Xpb stop GetBuffer)) (\<lambda>b.
      block
       [do_call (Svc svcB (SvcStart (r_b b))),
        do_void (Xpb stop XpbDispose),
        trace_lines svcB (\<lambda>line. block
       [say (''[stop ] '' @ (c_str line) @ nl)]),
        do_call (Svc svcB SvcDetach),
        do_void (StatusDispose (r_h st2))])))))))) (\<lambda>e. ignore (report e))\<close>

definition trace_worker :: "nat \<Rightarrow> ('s, unit) prog" where
  \<open>trace_worker prov = block
       [os_do (SleepMs 800),
        trace_marker,
        os_do (SleepMs 1200),
        await_id,
        trace_stop prov]\<close>

definition trace_threads :: "nat \<Rightarrow> int list \<Rightarrow> string list \<Rightarrow> ('s, unit) prog" where
  "trace_threads i ns ss = thread (trace_worker (nat (hd ns)))"

definition trace_line :: "string \<Rightarrow> ('s, unit) prog" where
  \<open>trace_line line = seqP
       [say (''[trace] '' @ (c_str line) @ nl)] (
      (case session_id line of None \<Rightarrow> ret () | Some n \<Rightarrow> (bindP (int_range n) (\<lambda>id.
      block
       [store ''sessionId'' id]))))\<close>

definition trace_main :: "('s, int) prog" where
  \<open>trace_main = try_fb (seqP
       [with_Db (\<lambda>db. attachOrCreate db trace_DB)] (
      bindP (ask_void (Master GetStatus)) (\<lambda>st.
      bindP (ask_void (Master GetDispatcher)) (\<lambda>prov.
      bindP (attachSvc (r_h prov)) (\<lambda>svcA.
      returning
       [service_start svcA (\<lambda>start. [do_call (Xpb start (InsertTag isc_action_svc_trace_start)),
        do_call (Xpb start (InsertString isc_spb_trc_name (''hands-on''))),
        do_call (Xpb start (InsertString isc_spb_trc_cfg TRACE_CFG))]),
        store ''sessionId'' 0,
        spawn 0 [int (r_h prov)] [],
        joinable (block
       [trace_lines svcA trace_line,
        join 0]),
        do_call (Svc svcA SvcDetach),
        do_void (Prov (r_h prov) ProvRelease),
        do_void (StatusDispose (r_h st)),
        say (''done.'' @ nl)]
       0))))) report\<close>


section \<open>parallel_workers.cpp\<close>

definition parallel_ROOT :: string where
  \<open>parallel_ROOT = ''/tmp/fbhandson/fbroot-parallel''\<close>

definition makeRoot :: "string \<Rightarrow> ('s, unit) prog" where
  \<open>makeRoot dir = seqP
       [os_do (Mkdir dir),
        for_each [''plugins'', ''intl'', ''firebird.msg'', ''tzdata'', ''plugins.conf'', ''databases.conf'']
      (\<lambda>f. os_do (Symlink (''/opt/firebird/'' @ f) (dir @ ''/'' @ f)))] (
      bindP (ask_void (Os (WriteFile (dir @ ''/firebird.conf'')
      ((''ServerMode = Super'' @ nl @ ''ParallelWorkers = 4'' @ nl @ ''MaxParallelWorkers = 8'' @ nl))))) (\<lambda>r.
      block
       [if r_null r then fail (UB ''fputs to a null FILE'') else ret ()]))\<close>

definition knobs :: "Db \<Rightarrow> nat \<Rightarrow> ('s, string) prog" where
  \<open>knobs db tra = bindP (queryValue db tra ((''select rdb$config_value from rdb$config '' @
      ''where rdb$config_name = 'ParallelWorkers'' @ [CHR 0x27]))) (\<lambda>a.
      bindP (queryValue db tra ((''select rdb$config_value from rdb$config '' @
      ''where rdb$config_name = 'MaxParallelWorkers'' @ [CHR 0x27]))) (\<lambda>b.
      ret (''ParallelWorkers = '' @ a @ '', MaxParallelWorkers = '' @ b)))\<close>

text \<open>The warning in the status vector of the attach; \<open>w[3]\<close> and \<open>w[5]\<close> are read only when it is there.\<close>

definition warning_at :: "int list \<Rightarrow> nat \<Rightarrow> ('s, int) prog" where
  "warning_at w i = checked ''warnings'' (if i < length w then Some (w ! i) else None)"

definition par_warning :: "int list \<Rightarrow> ('s, unit) prog" where
  \<open>par_warning w = bindP (headers) (\<lambda>h.
      bindP (warning_at w 0) (\<lambda>w0.
      (if w0 = arg_val h isc_arg_warning
    then (bindP (warning_at w 1) (\<lambda>w1.
      (if w1 = arg_val h isc_bad_par_workers
      then (bindP (warning_at w 3) (\<lambda>w3.
      bindP (warning_at w 5) (\<lambda>w5.
      block
       [say (''    warning isc_bad_par_workers: wrong parallel workers value '' @ show_int w3 @
            '', valid range are from 1 to '' @ show_int w5 @ nl)]))) else ret ()))) else ret ())))\<close>

definition parallel_remote :: "string \<Rightarrow> ('s, unit) prog" where
  \<open>parallel_remote remoteDb = with_Db (\<lambda>db. seqP
       [with_Db (\<lambda>first. attachOrCreate first remoteDb)] (
      bindP (defaultUser) (\<lambda>user.
      bindP (defaultPassword) (\<lambda>password.
      bindP (makeDpb db user password (''UTF8'')) (\<lambda>dpb.
      seqP
       [do_call (Xpb dpb (InsertInt isc_dpb_parallel_workers 4)),
        attachDatabase db remoteDb dpb,
        do_void (Xpb dpb XpbDispose),
        say (''[A] server attach, isc_dpb_parallel_workers = 4'' @ nl)] (
      bindP (ask_void (StatusWarnings (db_status db))) (\<lambda>w.
      seqP
       [par_warning (r_ints w)] (
      bindP (start db) (\<lambda>tra.
      bindP (knobs db tra) (\<lambda>c1.
      block
       [say (''    server config: '' @ (c_str c1) @ '' -> request clamped, 0 extra workers'' @ nl @ nl),
        commit tra]))))))))))\<close>

definition row_cell :: "string list \<Rightarrow> nat \<Rightarrow> ('s, string) prog" where
  "row_cell r i = checked ''r[i]'' (if i < length r then Some (r ! i) else None)"

text \<open>The loop of the poller, and the poller.\<close>

definition poll_loop :: "Db \<Rightarrow> ('s, unit) prog" where
  \<open>poll_loop mon = loopP (\<lambda>_. bindP (load ''stop'') (\<lambda>stop.
      (if stop \<noteq> 0 then ret (Inr ())
    else (bindP (start mon) (\<lambda>t.
      bindP (queryValue mon t ((''select count(*) from mon$attachments '' @
        ''where mon$user = '<Worker>'' @ [CHR 0x27]))) (\<lambda>v.
      let n = atoi (c_str v) in
      bindP (load ''maxSeen'') (\<lambda>seen.
      returning
       [(if n > seen then (seqP
       [store ''maxSeen'' n,
        os_do (SharedWrite ''roster'' [])] (
      bindP (query mon t ((''select trim(mon$user), mon$system_flag '' @
          ''from mon$attachments order by mon$attachment_id''))) (\<lambda>tab.
      for_each (rows tab) (\<lambda>r. bindP (row_cell r 0) (\<lambda>c0.
      bindP (row_cell r 1) (\<lambda>c1.
      block
       [os_do (SharedAppend ''roster'' (''        '' @ c0 @ ''  (system_flag '' @ c1 @ ('')'' @ nl)))])))))) else ret ()),
        commit t,
        os_do (SleepMs 20)]
       (Inl ())))))))) ()\<close>

definition poller :: "string \<Rightarrow> ('s, unit) prog" where
  \<open>poller embeddedDb = quietly (with_Db (\<lambda>mon. block
       [attach mon embeddedDb,
        poll_loop mon]))\<close>

definition parallel_threads :: "nat \<Rightarrow> int list \<Rightarrow> string list \<Rightarrow> ('s, unit) prog" where
  "parallel_threads i ns ss = thread (poller (hd ss))"

text \<open>The index build beside the poller.\<close>

definition parallel_build :: "Db \<Rightarrow> nat \<Rightarrow> string \<Rightarrow> ('s, unit) prog" where
  \<open>parallel_build db tra embeddedDb = seqP
       [store ''maxSeen'' 0,
        store ''stop'' 0,
        os_do (SharedWrite ''roster'' []),
        spawn 0 [] [embeddedDb]] (
      bindP (joinable (bindP (steady_now) (\<lambda>t0.
      seqP
       [exec db tra (''create index ix_parade on parade (val)''),
        commitRetaining tra] (
      bindP (since t0) (\<lambda>ms.
      returning
       [store ''stop'' 1,
        join 0]
       ms))))) (\<lambda>ms.
      bindP (load ''maxSeen'') (\<lambda>seen.
      seqP
       [say (''    create index: '' @ fixed 0 ms @ '' ms; max '<Worker>' attachments seen: '' @
            show_int seen @ nl)] (
      bindP (ask_void (Os (SharedRead ''roster''))) (\<lambda>roster.
      block
       [say (''    MON$ATTACHMENTS at the widest moment:'' @ nl @ (c_str (r_s roster)))])))))\<close>

definition parallel_workers_main :: "('s, int) prog" where
  \<open>parallel_workers_main = seqP
       [setenv ''FIREBIRD'' parallel_ROOT True,
        makeRoot parallel_ROOT] (
      bindP (argOrDefault 1 (''inet://localhost//tmp/fbhandson/parallel.fdb'')) (\<lambda>remoteDb.
      bindP (argOrDefault 2 (''/tmp/fbhandson/par_embedded.fdb'')) (\<lambda>embeddedDb.
      try_fb (seqP
       [parallel_remote remoteDb] (
      with_Db (\<lambda>db. seqP
       [attachOrCreate db embeddedDb] (
      bindP (start db) (\<lambda>tra.
      seqP
       [say (''[B] embedded attach, FIREBIRD='' @ parallel_ROOT @ nl)] (
      bindP (knobs db tra) (\<lambda>c1.
      seqP
       [say (''    engine config: '' @ (c_str c1) @ nl),
        quietly (exec db tra (''drop table parade'')),
        exec db tra (''create table parade (id int, val varchar(200))''),
        commitRetaining tra,
        exec db tra ((''execute block as declare n int = 0; begin '' @
          ''  while (n < 200000) do begin '' @
          ''    insert into parade values (:n, '' @
          ''      uuid_to_char(gen_uuid()) || uuid_to_char(gen_uuid()) || '' @
          ''      uuid_to_char(gen_uuid()) || uuid_to_char(gen_uuid()) || '' @
          ''      uuid_to_char(gen_uuid())); '' @
          ''    n = n + 1; '' @
          ''  end end'')),
        commitRetaining tra] (
      bindP (queryValue db tra ((''select count(*) from rdb$pages p join rdb$relations r '' @
            ''  on p.rdb$relation_id = r.rdb$relation_id '' @
            ''where r.rdb$relation_name = 'PARADE' and p.rdb$page_type = 4''))) (\<lambda>c2.
      seqP
       [say (''    parade table: 200000 rows of 180 incompressible bytes, '' @ (c_str c2) @
            '' pointer pages'' @ nl),
        parallel_build db tra embeddedDb] (
      bindP (queryValue db tra ((''select count(*) from mon$attachments '' @
            ''where mon$user = '<Worker>'' @ [CHR 0x27]))) (\<lambda>c3.
      returning
       [say (''    after build: workers stay pooled (idle timeout 60 s): '' @ (c_str c3) @ nl),
        commit tra,
        say (''done.'' @ nl)]
       0))))))))))) report)))\<close>


section \<open>Interfaces\<close>

lemma okd_joinable [okd_rules]: "okd k m n \<Longrightarrow> okd k (joinable m) n"
  unfolding joinable_def
  by (rule okdI) (auto elim!: try_fb_SomeE simp: fail_def dest: okdD)

lemma okd_thread_calls [okd_rules]:
  "okd k (spawn i ns ss) 0" "okd k (join i) 0" "okd k (load x) 0" "okd k (store x v) 0"
  unfolding spawn_def join_def load_def store_def
  by ((rule okd_eq, (rule okd_rules | simp)+)[1])+

lemma okd_threading [okd_rules]: "okd k (countThreads pid) 0" "okd k (threading_beside db d pid) 0"
  unfolding threading_beside_def countThreads_def
  by ((rule okd_eq, (rule okd_rules | simp)+)[1])+

lemma okd_sorting [okd_rules]:
  "okd k (long_sub x y) 0" "okd k (sorting_beside db i l sql) 0" "okd k (sorting_case db d pid mi i l sql) 0"
  unfolding sorting_case_def sorting_beside_def long_sub_def
  by ((rule okd_eq, (rule okd_rules | simp add: delta_simps)+)[1])+

lemma okd_trace [okd_rules]:
  "okd k (nextLine svc) 0" "(\<And>l. okd k (f l) 0) \<Longrightarrow> okd k (trace_lines svc f) 0" "okd k (trace_line l) 0"
  "okd k (attachSvc prov) (if k = KSvc then 1 else 0)"
  unfolding trace_lines_def nextLine_def trace_line_def attachSvc_def int_range_def
  by ((rule okd_eq, (rule okd_rules | assumption | simp add: delta_simps)+)[1])+

lemma okd_parallel [okd_rules]:
  "okd k (makeRoot d) 0" "okd k (knobs db tra) 0" "okd k (par_warning w) 0" "okd k (parallel_build db tra d) 0"
  unfolding parallel_build_def par_warning_def warning_at_def knobs_def makeRoot_def
  by ((rule okd_eq, (rule okd_rules | simp add: delta_simps)+)[1])+

lemma okd_remote: "k \<notin> {KStatus, KProv, KAtt} \<Longrightarrow> okd k (parallel_remote d) 0"
  unfolding parallel_remote_def
  by (rule okd_eq, (rule okd_with_Db okd_attachOrCreate okd_rules | assumption | simp add: delta_simps)+)

lemma att_joinable [att_rules]:
  "keeps (\<lambda>w. att_view w = v) m \<Longrightarrow> keeps (\<lambda>w. att_view w = v) (joinable m)"
  unfolding joinable_def by (intro quiet_rules)

lemma att_thread_calls [att_rules]:
  "keeps (\<lambda>w. att_view w = v) (spawn i ns ss)" "keeps (\<lambda>w. att_view w = v) (join i)"
  "keeps (\<lambda>w. att_view w = v) (load x)" "keeps (\<lambda>w. att_view w = v) (store x u)"
  "keeps (\<lambda>w. att_view w = v) (raise_to x u)"
  unfolding thread_defs by (intro quiet_rules att_rules; simp)+

lemma att_threads [att_rules]:
  "keeps (\<lambda>w. att_view w = v) (countThreads pid)" "keeps (\<lambda>w. att_view w = v) (threading_beside db d pid)"
  "keeps (\<lambda>w. att_view w = v) (setTransaction db sql)" "keeps (\<lambda>w. att_view w = v) (probe db l sql)"
  "keeps (\<lambda>w. att_view w = v) (releaser h)" "keeps (\<lambda>w. att_view w = v) (crossA a ta t0)"
  "keeps (\<lambda>w. att_view w = v) (crossB db tb t0)" "keeps (\<lambda>w. att_view w = v) (deadlock db db')"
  unfolding deadlock_def threading_beside_def countThreads_def probe_def setTransaction_def releaser_def crossA_def
    crossB_def secondsSince_def
  by (intro quiet_rules att_rules; simp add: delta_simps)+

lemma att_sorting [att_rules]:
  "keeps (\<lambda>w. att_view w = v) (sampleScratch pid)" "keeps (\<lambda>w. att_view w = v) (watch_loop db pid)"
  "keeps (\<lambda>w. att_view w = v) (sorting_case db d pid mi i l sql)"
  unfolding sampleScratch_def scan_sizes_def long_add_def watch_loop_def sorting_case_def sorting_beside_def
  by (intro quiet_rules att_rules; simp add: delta_simps)+

lemma att_trace [att_rules]:
  "keeps (\<lambda>w. att_view w = v) (nextLine svc)"
  "(\<And>l. keeps (\<lambda>w. att_view w = v) (f l)) \<Longrightarrow> keeps (\<lambda>w. att_view w = v) (trace_lines svc f)"
  "keeps (\<lambda>w. att_view w = v) (trace_line l)" "keeps (\<lambda>w. att_view w = v) (attachSvc prov)"
  "keeps (\<lambda>w. att_view w = v) await_id" "keeps (\<lambda>w. att_view w = v) (trace_stop prov)"
  unfolding trace_stop_def await_id_def trace_lines_def nextLine_def trace_line_def attachSvc_def int_range_def
    report_def formatStatus_def
  by (intro quiet_rules att_rules; simp add: delta_simps)+

lemma att_parallel [att_rules]:
  "keeps (\<lambda>w. att_view w = v) (makeRoot d)" "keeps (\<lambda>w. att_view w = v) (knobs db tra)"
  "keeps (\<lambda>w. att_view w = v) (par_warning ws)" "keeps (\<lambda>w. att_view w = v) (poll_loop db)"
  "keeps (\<lambda>w. att_view w = v) (parallel_build db tra d)"
  unfolding parallel_build_def par_warning_def warning_at_def knobs_def makeRoot_def poll_loop_def row_cell_def
  by (intro quiet_rules att_rules; simp add: delta_simps)+

lemma att_first: "N \<subseteq> S \<Longrightarrow> att_triple b S N (with_Db (\<lambda>db. attachOrCreate db d)) N"
  by (rule att_with_Db, rule att_weaken [OF att_attachOrCreate [where N = "insert (db_att db) N" for db]]) auto

lemma att_first_block: "N \<subseteq> S \<Longrightarrow> att_triple b S N (block [with_Db (\<lambda>db. attachOrCreate db d)]) N"
  by (rule att_block_Cons [OF att_first], assumption, rule att_block_Nil) simp

lemma att_remote: "att_triple b S {} (parallel_remote d) {}"
  unfolding parallel_remote_def
  by (rule att_with_Db_nested, rule att_seqP [OF att_first_block], simp)
    (rule att_attachDatabase att_flow
    | (rule att_quiet, (intro quiet_rules att_rules; simp add: delta_simps))
    | (rule att_leaf, (intro quiet_rules att_rules; simp add: delta_simps), simp) | simp)+

definition thread_mains :: "('s, int) prog list" where
  "thread_mains = [threading_main, sorting_main, trace_main, parallel_workers_main]"

lemmas thread_main_defs = threading_main_def lock_manager_main_def sorting_main_def trace_main_def
  parallel_workers_main_def

lemma nothrow_root: "nothrow (makeRoot d)" "nothrow (setenv x y b)"
proof -
  have each: "nothrow (for_each xs f)" if "\<And>x. nothrow (f x)" for xs :: "string list" and f
    by (induction xs) (auto intro!: nothrow_rules that)
  have ub: "nothrow (fail (UB t))" for t by (simp add: nothrow_def fail_def)
  show "nothrow (makeRoot d)"
    unfolding makeRoot_def os_do_def by (intro nothrow_rules each ub)
  show "nothrow (setenv x y b)" by (simp add: nothrow_def setenv_def)
qed

lemma reports_seqP: "nothrow (block xs) \<Longrightarrow> reports m \<Longrightarrow> reports (seqP xs m)"
  unfolding seqP_def by (rule reports_bind_nothrow)

lemma threads_reports: "\<forall>m \<in> set (lock_manager_main # thread_mains). reports m"
  unfolding thread_mains_def thread_main_defs list.set ball_simps
  by (intro conjI reports_seqP nothrow_rules nothrow_root reports_arg reports_try returns_rules TrueI)

lemma okd0_seqP: "okd k (block xs) 0 \<Longrightarrow> okd0 k m \<Longrightarrow> okd0 k (seqP xs m)"
  unfolding seqP_def by (rule okd0_bindP)

lemma okd_root_block: "okd k (block [setenv x y b, makeRoot d]) 0"
  by (rule okd_eq, (rule okd_rules | simp)+)

lemma threads_okd: "k \<notin> {KStatus, KProv, KAtt} \<Longrightarrow> \<forall>m \<in> set thread_mains. okd0 k m"
  unfolding thread_mains_def thread_main_defs list.set ball_simps
  by (rule conjI TrueI okd0_arg okd0_seqP okd0_main okd_with_Db okd_attachOrCreate okd_remote okd_root_block okd_rules
    | assumption | simp add: delta_simps)+

lemma threads_att: "\<forall>m \<in> set (lock_manager_main # thread_mains). att_triple b {} {} m {}"
  unfolding thread_mains_def thread_main_defs list.set ball_simps
  by (rule conjI TrueI subset_refl att_first [OF empty_subsetI] att_remote att_flow att_with_Db_nested
    | (rule att_quiet, (intro quiet_rules att_rules; simp add: delta_simps))
    | (rule att_leaf, (intro quiet_rules att_rules; simp add: delta_simps), simp) | simp)+


section \<open>Attachments of all threads\<close>

text \<open>Each sample as its main thread and its other threads.\<close>

definition threaded_samples ::
  "((answers, int) prog \<times> (nat \<Rightarrow> int list \<Rightarrow> string list \<Rightarrow> (answers, unit) prog)) list"
where
  "threaded_samples = [(threading_main, threading_threads), (lock_manager_main, lock_manager_threads),
     (sorting_main, sorting_threads), (trace_main, trace_threads), (parallel_workers_main, parallel_threads)]"

lemma att_thread: "att_triple b {} {} m {} \<Longrightarrow> att_triple b {} {} (thread m) {}"
  unfolding thread_def by (rule att_try) (auto intro: att_fail)

lemma att_bodies:
  "att_triple b {} {} (threading_worker d) {}" "att_triple b {} {} (watcher d pid) {}"
  "att_triple b {} {} trace_marker {}" "att_triple b {} {} (poller d) {}"
  unfolding threading_worker_def watcher_def trace_marker_def poller_def ignore_def
  by (rule att_flow
    | (rule att_quiet, (intro quiet_rules att_rules; simp add: delta_simps))
    | (rule att_leaf, (intro quiet_rules att_rules; simp add: delta_simps), simp) | simp)+

lemma att_trace_worker: "att_triple b {} {} (trace_worker prov) {}"
  unfolding trace_worker_def
  by (rule att_bodies att_flow | (rule att_quiet, (intro quiet_rules att_rules; simp add: delta_simps)) | simp)+

interpretation threading: attached_threads threading_main threading_threads
  by unfold_locales (use threads_att in \<open>auto simp: threading_threads_def thread_mains_def intro: att_thread att_bodies\<close>)

lemma att_lock_threads: "att_triple b {} {} (lock_manager_threads i ns ss) {}"
  unfolding lock_manager_threads_def by (rule att_thread, rule att_quiet) (intro keeps_rules att_rules)

interpretation lock_manager: attached_threads lock_manager_main lock_manager_threads
  by unfold_locales (use threads_att in \<open>auto intro: att_lock_threads\<close>)

interpretation sorting: attached_threads sorting_main sorting_threads
  by unfold_locales (use threads_att in \<open>auto simp: sorting_threads_def thread_mains_def intro: att_thread att_bodies\<close>)

interpretation trace: attached_threads trace_main trace_threads
  by unfold_locales (use threads_att in \<open>auto simp: trace_threads_def thread_mains_def intro: att_thread att_trace_worker\<close>)

interpretation parallel: attached_threads parallel_workers_main parallel_threads
  by unfold_locales (use threads_att in \<open>auto simp: parallel_threads_def thread_mains_def intro: att_thread att_bodies\<close>)

end
