(* ===== verification/Thread_Claims.thy ===== *)
theory Thread_Claims
  imports Samples_Threads Db_Query
begin

text \<open>
  What the threads of \<open>samples/cpp\<close> hand to each other, for every execution: the rollbacks of the
  deadlock in \<open>lock_manager.cpp\<close>, the maxima of the watcher in \<open>sorting.cpp\<close>, and the session id in
  \<open>trace.cpp\<close>.  Each is shown from what the main thread does alone, what the other thread does
  alone, and the handover of the shared variable.
\<close>


section \<open>The deadlock\<close>

text \<open>The transactions a log starts and rolls back, newest first.\<close>

definition started_by :: "event \<Rightarrow> nat list" where
  "started_by ev = (case ev of (c, st, r) \<Rightarrow> (case c of
     Att a m \<Rightarrow> (case m of StartTransaction t \<Rightarrow> if st = None then [r_h r] else [] | _ \<Rightarrow> []) | _ \<Rightarrow> []))"

definition rolled_by :: "event \<Rightarrow> nat list" where
  "rolled_by ev = (case ev of (c, st, r) \<Rightarrow> (case c of
     Tra t m \<Rightarrow> (case m of Rollback \<Rightarrow> if st = None then [t] else [] | _ \<Rightarrow> []) | _ \<Rightarrow> []))"

text \<open>All that the two sides of the deadlock do to the transactions and to the two flags.\<close>

definition dl_view :: "event list \<Rightarrow> nat list \<times> nat list \<times> (nat \<times> int list \<times> string list) list
    \<times> int list \<times> int list \<times> int \<times> int \<times> bool" where
  "dl_view L = (concat (map started_by L), concat (map rolled_by L), spawned L, loaded ''aVictim'' L,
     loaded ''bVictim'' L, atomic ''aVictim'' 0 L, atomic ''bVictim'' 0 L, coherent ''bVictim'' 0 L)"

definition dl_quiet :: "call \<Rightarrow> bool" where
  "dl_quiet c \<longleftrightarrow> (case c of Att a m \<Rightarrow> (case m of StartTransaction t \<Rightarrow> False | _ \<Rightarrow> True)
     | Tra t m \<Rightarrow> m \<noteq> Rollback
     | Os oc \<Rightarrow> (case oc of SpawnThread i ns ss \<Rightarrow> False | AtomicLoad x \<Rightarrow> False | AtomicStore x u \<Rightarrow> False | _ \<Rightarrow> True)
     | _ \<Rightarrow> True)"

lemma dl_view_quiet: "dl_quiet c \<Longrightarrow> dl_view ((c, st, r) # L) = dl_view L"
  by (cases c) (auto simp: dl_quiet_def dl_view_def started_by_def rolled_by_def
      split: att_call.splits tra_call.splits os_call.splits)

interpretation dl: world_view "\<lambda>w. dl_view (world.log w)" dl_quiet
  by unfold_locales (simp_all add: dl_view_quiet)

abbreviation dl_at :: "_ \<Rightarrow> 's world \<Rightarrow> bool" where
  "dl_at v \<equiv> \<lambda>w. dl_view (world.log w) = v"

lemmas dl_run = dl_view_def started_by_def rolled_by_def thread_defs os_do_def os_int_def do_void_def ignore_def
  do_call_def handle_of_def bindP_def run_simps ask_def Let_def start_tpb_def att_of_def checked_def
  rollback_def

lemma dl_calls:
  "hoare (dl_at (S, R, P, A, B, va, vb, c)) (start db) (\<lambda>t. dl_at (t # S, R, P, A, B, va, vb, c)) (\<lambda>_ _. True)"
  "hoare (dl_at (S, R, P, A, B, va, vb, c)) (rollback t) (\<lambda>_. dl_at (S, t # R, P, A, B, va, vb, c))
     (\<lambda>_. dl_at (S, R, P, A, B, va, vb, c))"
  "hoare (dl_at (S, R, P, A, B, va, vb, c)) (spawn i ns ss)
     (\<lambda>_. dl_at (S, R, (i, ns, ss) # P, A, B, va, vb, c)) E2"
  "hoare (dl_at (S, R, P, A, B, va, vb, c)) (store ''aVictim'' u) (\<lambda>_. dl_at (S, R, P, A, B, u, vb, c)) E3"
  "hoare (dl_at (S, R, P, A, B, va, vb, c)) (store ''bVictim'' u) (\<lambda>_. dl_at (S, R, P, A, B, va, u, c)) E4"
  "hoare (dl_at (S, R, P, A, B, va, vb, c)) (load ''aVictim'') (\<lambda>x. dl_at (S, R, P, x # A, B, va, vb, c)) E5"
  "hoare (dl_at (S, R, P, A, B, va, vb, c)) (load ''bVictim'')
     (\<lambda>x. dl_at (S, R, P, A, x # B, va, vb, c \<and> x = vb)) E6"
  by (rule hoareI, auto simp: dl_run split: if_splits prod.splits option.splits)+

lemma dl_keeps:
  "keeps (dl_at v) (exec db tra sql)" "keeps (dl_at v) (formatStatus n st)" "keeps (dl_at v) steady_now"
  "keeps (dl_at v) (secondsSince t0)" "keeps (dl_at v) (att_of db)" "keeps (dl_at v) (join i)"
  "keeps (dl_at v) (os_do (SleepMs n))" "keeps (dl_at v) (do_call (Att a (Execute t sql)))"
  unfolding exec_def formatStatus_def steady_now_def secondsSince_def att_of_def join_def os_do_def os_int_def
  by (intro keeps_rules dl.leaf_rules; simp add: dl_quiet_def)+

text \<open>B's side: either no rollback, or one of \<open>tb\<close> with \<open>bVictim\<close> set.\<close>

lemma dl_handler:
  fixes msg :: "string \<Rightarrow> double \<Rightarrow> string"
  assumes "hoare (dl_at v) (store x 1) (\<lambda>_. dl_at v') (\<lambda>_ (_ :: 's world). True)"
    and "hoare (dl_at v') (rollback t) (\<lambda>_. dl_at v'') (\<lambda>_ (_ :: 's world). True)"
  shows "hoare (dl_at v) (bindP (formatStatus 256 e) (\<lambda>buf. bindP (secondsSince t0) (\<lambda>c1. block
      [say (msg buf c1), store x 1, rollback t]))) (\<lambda>_. dl_at v'') (\<lambda>_ (_ :: 's world). True)"
  unfolding block.simps
  by (rule hoare_bindP [OF skip_keeps [OF dl_keeps(2)]], rule hoare_bindP [OF skip_keeps [OF dl_keeps(4)]],
      rule hoare_bindP [OF skip_keeps [OF dl.keeps_say]], rule hoare_bindP [OF assms(1)],
      rule hoare_bindP [OF assms(2)]) (rule hoare_ret, simp)

lemma dl_rollback:
  "hoare (dl_at (S, R, P, A, B, va, vb, c)) (rollback t) (\<lambda>_. dl_at (S, t # R, P, A, B, va, vb, c)) (\<lambda>_ _. True)"
  by (rule hoare_weaken [OF dl_calls(2)]) auto

lemma dl_crossB:
  "hoare (dl_at (S, R, P, A, B, va, vb, c)) (joinable (crossB db tb t0))
     (\<lambda>_ w. dl_at (S, R, P, A, B, va, vb, c) w \<or> dl_at (S, tb # R, P, A, B, va, 1, c) w) (\<lambda>_ _. True)"
    (is "hoare ?P _ (\<lambda>_ w. ?P w \<or> ?P' w) _")
proof -
  let ?Q = "\<lambda>_ w. ?P w \<or> ?P' w"
  have body: "keeps ?P (seqP [exec db tb sql] (bindP (secondsSince t0) (\<lambda>c1. block [say (msg c1)])))" for sql msg
    by (intro keeps_rules dl_keeps dl.leaf_rules)
  have tried: "hoare ?P (try_fb (seqP [exec db tb sql] (bindP (secondsSince t0) (\<lambda>c1. block [say (msg c1)])))
      (\<lambda>e. bindP (formatStatus 256 e) (\<lambda>buf. bindP (secondsSince t0) (\<lambda>c1. block
        [say (m2 buf c1), store ''bVictim'' 1, rollback tb])))) ?Q (\<lambda>_ _. True)" for sql msg m2
    by (rule hoare_try_fb [OF hoare_weaken [OF body [unfolded keeps_def]] hoare_weaken [OF dl_handler [OF dl_calls(5) dl_rollback]]])
      auto
  have joined: "hoare (\<lambda>w. ?P w \<or> ?P' w) (block [join 1]) ?Q (\<lambda>_ _. True)"
  proof (rule hoare_disj)
    have k: "hoare (dl_at v) (block [join 1]) (\<lambda>_. dl_at v) (\<lambda>_ _. True)" for v
      by (intro skip_keeps keeps_rules dl_keeps)
    show "hoare ?P (block [join 1]) ?Q (\<lambda>_ _. True)" by (rule hoare_weaken [OF k]) auto
    show "hoare ?P' (block [join 1]) ?Q (\<lambda>_ _. True)" by (rule hoare_weaken [OF k]) auto
  qed
  have "hoare ?P (crossB db tb t0) ?Q (\<lambda>_ _. True)"
    unfolding crossB_def
    by (rule hoare_block_Cons [OF skip_keeps [OF dl_keeps(7)]], rule hoare_block_Cons [OF tried]) (rule joined)
  then show ?thesis
    unfolding joinable_def by (rule hoare_try_fb) (rule hoare_fail, simp)
qed

text \<open>What is left to roll back after the join, by the flags.\<close>

definition dl_done :: "nat \<Rightarrow> nat \<Rightarrow> int \<Rightarrow> int \<Rightarrow> nat list \<Rightarrow> nat list" where
  "dl_done ta tb va vb R = (if vb = 0 then [tb] else []) @ (if va = 0 then [ta] else []) @ R"

lemma dl_tail:
  "hoare (dl_at (S, R, P, [], [], va, vb, c))
     (bindP (load ''aVictim'') (\<lambda>aVictim.
      seqP [if aVictim = 0 then rollback ta else ret ()] (
      bindP (load ''bVictim'') (\<lambda>bVictim.
      block [if bVictim = 0 then rollback tb else ret ()]))))
     (\<lambda>_ w. \<exists>x y. dl_at (S, dl_done ta tb x y R, P, [x], [y], va, vb, c \<and> y = vb) w)
     (\<lambda>_ _. True)"
  (is "hoare _ _ ?Q _")
proof -
  have two: "hoare (dl_at (S, R', P, [x], [y], va, vb, c \<and> y = vb)) (block [if y = 0 then rollback tb else ret ()])
      ?Q (\<lambda>_ _. True)" if R': "R' = (if x = 0 then [ta] else []) @ R" for R' x y
  proof -
    have last: "hoare (dl_at (S, R', P, [x], [y], va, vb, c \<and> y = vb)) (block [if y = 0 then rollback tb else ret ()])
        (\<lambda>_. dl_at (S, dl_done ta tb x y R, P, [x], [y], va, vb, c \<and> y = vb)) (\<lambda>_ _. True)"
      unfolding dl_done_def R' [symmetric] by (auto intro: dl_rollback hoare_ret)
    show ?thesis by (rule hoare_weaken [OF last]) (assumption, blast, simp)
  qed
  have one: "hoare (dl_at (S, R', P, [x], [], va, vb, c))
      (bindP (load ''bVictim'') (\<lambda>bVictim. block [if bVictim = 0 then rollback tb else ret ()])) ?Q (\<lambda>_ _. True)"
    if "R' = (if x = 0 then [ta] else []) @ R" for R' x
    by (rule hoare_bindP [OF dl_calls(7)]) (rule two [OF that])
  have first: "hoare (dl_at (S, R, P, [x], [], va, vb, c)) (block [if x = 0 then rollback ta else ret ()])
      (\<lambda>_. dl_at (S, (if x = 0 then [ta] else []) @ R, P, [x], [], va, vb, c)) (\<lambda>_ _. True)" for x
    by (auto intro: dl_rollback hoare_ret)
  show ?thesis
    unfolding seqP_def
    by (rule hoare_bindP [OF dl_calls(6)], rule hoare_bindP [OF first], rule one [OF refl])
qed

text \<open>The main thread of the deadlock.\<close>

definition dl_ended :: "event list \<Rightarrow> nat \<Rightarrow> nat \<Rightarrow> nat \<Rightarrow> int \<Rightarrow> int \<Rightarrow> bool" where
  "dl_ended L att ta tb t0 x \<longleftrightarrow> concat (map started_by L) = [tb, ta] \<and>
     spawned L = [(1, [int att, int ta, t0], [])] \<and> loaded ''aVictim'' L = [x] \<and>
     (coherent ''bVictim'' 0 L \<longrightarrow>
        mset (concat (map rolled_by L)) = mset (tb # (if x = 0 then [ta] else [])))"

lemma dl_view_ended:
  assumes "\<exists>x y. dl_view L = ([tb, ta], dl_done ta tb x y R, [(1, [int att, int ta, tick], [])], [x], [y], va, vb, c \<and> y = vb)"
    and "R = [] \<and> vb = 0 \<or> R = [tb] \<and> vb = 1"
  shows "\<exists>x. dl_ended L att ta tb tick x"
  using assms by (auto simp: dl_view_def dl_done_def dl_ended_def)

lemma dl_end:
  assumes "P = [(1, [int att, int ta, tick], [])]"
  shows "hoare (\<lambda>w. dl_at ([tb, ta], [], P, [], [], 0, 0, c) w \<or> dl_at ([tb, ta], [tb], P, [], [], 0, 1, c) w)
     (bindP (load ''aVictim'') (\<lambda>aVictim.
      seqP [if aVictim = 0 then rollback ta else ret ()] (
      bindP (load ''bVictim'') (\<lambda>bVictim.
      block [if bVictim = 0 then rollback tb else ret ()]))))
     (\<lambda>_ w. \<exists>att ta tb t0 x. dl_ended (world.log w) att ta tb t0 x) (\<lambda>_ _. True)"
proof -
  have "\<exists>att ta tb t0 x. dl_ended L att ta tb t0 x"
    if "\<exists>x y. dl_view L = ([tb, ta], dl_done ta tb x y R, P, [x], [y], va, vb, c \<and> y = vb)"
      and "R = [] \<and> vb = 0 \<or> R = [tb] \<and> vb = 1" for L R va vb
    using dl_view_ended that unfolding assms by blast
  note last = this
  show ?thesis
    by (rule hoare_disj; rule hoare_weaken [OF dl_tail])
      (assumption, rule last [where R = "[]" and vb = 0], assumption, simp, simp,
       assumption, rule last [where R = "[tb]" and vb = 1], assumption, simp_all)
qed

lemma dl_main:
  "hoare (dl_at ([], [], [], [], [], 0, 0, True)) (deadlock a b)
     (\<lambda>_ w. \<exists>att ta tb t0 x. dl_ended (world.log w) att ta tb t0 x) (\<lambda>_ _. True)"
proof -
  have prepared: "hoare (dl_at (S, [], [], [], [], 0, 0, True))
      (block [exec a ta s1, exec b tb s2, store ''aVictim'' 0, store ''bVictim'' 0])
      (\<lambda>_. dl_at (S, [], [], [], [], 0, 0, True)) (\<lambda>_ _. True)" for S ta tb s1 s2
    by (rule hoare_block_Cons [OF skip_keeps [OF dl_keeps(1)]], rule hoare_block_Cons [OF skip_keeps [OF dl_keeps(1)]],
        rule hoare_block_Cons [OF dl_calls(4)], rule hoare_block_Cons [OF dl_calls(5)])
      (rule hoare_block_Nil)
  have cross: "hoare (dl_at (S, [], [], [], [], 0, 0, True)) (block [spawn 1 [int att, int ta, t0] [], joinable (crossB b tb t0)])
      (\<lambda>_ w. dl_at (S, [], [(1, [int att, int ta, t0], [])], [], [], 0, 0, True) w
        \<or> dl_at (S, [tb], [(1, [int att, int ta, t0], [])], [], [], 0, 1, True) w) (\<lambda>_ _. True)" for S att ta tb t0
    by (rule hoare_block_Cons [OF dl_calls(3)], rule hoare_block_Cons [OF dl_crossB]) (rule hoare_block_Nil)
  show ?thesis
    unfolding deadlock_def seqP_def
    by (rule hoare_bindP [OF dl_calls(1)], rule hoare_bindP [OF dl_calls(1)], rule hoare_bindP [OF prepared],
        rule hoare_bindP [OF skip_keeps [OF dl_keeps(3)]], rule hoare_bindP [OF skip_keeps [OF dl_keeps(5)]],
        rule hoare_bindP [OF cross], rule dl_end [OF refl, unfolded seqP_def])
qed

text \<open>The other thread: A's side of the cross.\<close>

lemma dl_crossA:
  "hoare (dl_at ([], [], [], [], [], 0, 0, True)) (thread (crossA att ta t0))
     (\<lambda>_ w. \<exists>x. dl_at ([], if x = 0 then [] else [ta], [], [], [], x, 0, True) w) (\<lambda>_ _. True)"
proof -
  let ?P = "dl_at ([], [], [], [], [], 0, 0, True)"
  let ?P' = "dl_at ([], [ta], [], [], [], 1, 0, True)"
  have "hoare ?P (crossA att ta t0) (\<lambda>_ w. ?P w \<or> ?P' w) (\<lambda>_ _. True)"
    unfolding crossA_def
    by (rule hoare_try_fb [OF hoare_weaken [OF dl_keeps(8) [unfolded keeps_def]]
          hoare_weaken [OF dl_handler [OF dl_calls(4) dl_rollback]]]) auto
  then have "hoare ?P (thread (crossA att ta t0)) (\<lambda>_ w. ?P w \<or> ?P' w) (\<lambda>_ _. True)"
    unfolding thread_def by (rule hoare_try_fb) (rule hoare_fail, simp)
  then show ?thesis
    by (rule hoare_weaken) (auto intro: exI [of _ 0] exI [of _ 1])
qed

text \<open>The main thread writes \<open>aVictim\<close> before the start of the other thread and reads it after the join.\<close>

lemma dl_stages:
  "hoare (at_stage ''aVictim'' 1 0 0) (deadlock a b) (\<lambda>_. at_stage ''aVictim'' 1 2 0) (\<lambda>_ _. True)"
proof -
  let ?K = "\<lambda>n v w. at_stage ''aVictim'' 1 n v w"
  have k: "keeps (?K n v) (start db)" "keeps (?K n v) (exec db t sql)" "keeps (?K n v) (store ''bVictim'' u)"
    "keeps (?K n v) steady_now" "keeps (?K n v) (att_of db)" "keeps (?K n v) (load ''bVictim'')"
    "keeps (?K n v) (block [if z then rollback t else ret ()])"
    "keeps (?K n v) (rollback t)" "keeps (?K n v) (os_do (SleepMs m))" "keeps (?K n v) (secondsSince u)"
    for n v db t sql u z m
    unfolding steady_now_def load_def store_def secondsSince_def os_int_def
    by (intro stages.all_rules; simp add: idle_def)+
  have tried: "keeps (?K n v) (try_fb (seqP [exec db tb sql] (bindP (secondsSince t0) (\<lambda>c1. block [say (msg c1)])))
      (\<lambda>e. bindP (formatStatus 256 e) (\<lambda>buf. bindP (secondsSince t0) (\<lambda>c1. block
        [say (m2 buf c1), store ''bVictim'' 1, rollback tb]))))" for n v db sql msg m2 tb t0
    by (intro k stages.all_rules)
  have cross: "hoare (?K 1 v) (joinable (crossB b tb t0)) (\<lambda>_. ?K 2 v) (\<lambda>_ _. True)" for v b tb t0
    unfolding crossB_def
    by (rule hoare_joinable, rule hoare_block_Cons [OF skip_keeps [OF k(9)]], rule hoare_block_Cons [OF skip_keeps [OF tried]],
        rule hoare_block_Cons [OF stage_calls(3)]) (rule hoare_block_Nil)
  have prepared: "hoare (?K 0 0) (block [exec a ta s1, exec b tb s2, store ''aVictim'' 0, store ''bVictim'' 0])
      (\<lambda>_. ?K 0 0) (\<lambda>_ _. True)" for ta tb s1 s2
    by (rule hoare_block_Cons [OF skip_keeps [OF k(2)]], rule hoare_block_Cons [OF skip_keeps [OF k(2)]],
        rule hoare_block_Cons [OF stage_calls(1)], rule hoare_block_Cons [OF skip_keeps [OF k(3)]]) (rule hoare_block_Nil)
  have joined: "hoare (?K 0 0) (block [spawn 1 ns [], joinable (crossB b tb t0)]) (\<lambda>_. ?K 2 0) (\<lambda>_ _. True)" for ns tb t0
    by (rule hoare_block_Cons [OF stage_calls(2)], rule hoare_block_Cons [OF cross]) (rule hoare_block_Nil)
  show ?thesis
    unfolding deadlock_def seqP_def
    by (rule hoare_bindP [OF skip_keeps [OF k(1)]], rule hoare_bindP [OF skip_keeps [OF k(1)]],
        rule hoare_bindP [OF prepared], rule hoare_bindP [OF skip_keeps [OF k(4)]],
        rule hoare_bindP [OF skip_keeps [OF k(5)]], rule hoare_bindP [OF joined], rule hoare_bindP [OF stage_calls(4)],
        rule hoare_bindP [OF skip_keeps [OF k(7)]], rule hoare_bindP [OF skip_keeps [OF k(6)]], rule skip_keeps [OF k(7)])
qed

lemma crossA_stores: "keeps (\<lambda>w. stored ''bVictim'' (world.log w) = v) (thread (crossA att ta t0))"
  unfolding thread_def crossA_def store_def secondsSince_def steady_now_def
  by (intro stores.all_rules; simp add: no_store_def)

text \<open>
  C6.  However the two sides of the deadlock interleave, and whichever of them the server
  chooses as victim: when both are done, each of the two transactions has been rolled back
  exactly once, the victim by its own handler and the other by the main thread, told by the flags.
\<close>

theorem deadlock_rolls_back:
  assumes "execution p (deadlock a b) lock_manager_threads (Ok ()) G"
  shows "mset (concat (map rolled_by (map snd G))) = mset (concat (map started_by (map snd G)))"
proof -
  let ?M = "of_thread 0 G" and ?W = "of_thread (Suc 1) G"
  have main: "performs p (deadlock a b) ?M (Ok ())" by (rule executionD(1) [OF assms])
  have "\<exists>w :: answers world. world.log w = ?M \<and> (\<exists>att ta tb t0 x. dl_ended (world.log w) att ta tb t0 x)"
    by (rule performs_hoare [OF main dl_main]) (simp add: dl_view_def)
  then obtain att ta tb t0 x where M: "dl_ended ?M att ta tb t0 x" by auto
  have "\<exists>w :: answers world. world.log w = ?M \<and> at_stage ''aVictim'' 1 2 0 w"
    by (rule performs_hoare [OF main dl_stages]) (simp add: stage_def)
  then have tidy: "tidy ''aVictim'' 1 ?M" and start: "atomic ''aVictim'' 0 ?M = 0" by (auto simp: stage_def)
  have sp: "spawned ?M = [(1, [int att, int ta, t0], [])]" and ld: "loaded ''aVictim'' ?M = [x]"
    using M by (simp_all add: dl_ended_def)
  have two: "fst ` set G \<subseteq> {0, Suc 1}" by (rule two_threads [OF assms sp])
  have "performs p (lock_manager_threads 1 [int att, int ta, t0] []) ?W (Ok ())"
    by (rule execution_spawned [OF assms]) (simp add: sp)
  then have thr: "performs p (thread (crossA att ta t0)) ?W (Ok ())"
    by (simp add: lock_manager_threads_def)
  have "\<exists>w :: answers world. world.log w = ?W \<and> (\<exists>x. dl_at ([], if x = 0 then [] else [ta], [], [], [], x, 0, True) w)"
    by (rule performs_hoare [OF thr dl_crossA]) (simp add: dl_view_def)
  then obtain y where W: "dl_view ?W = ([], if y = 0 then [] else [ta], [], [], [], y, 0, True)" by auto
  have "\<exists>w :: answers world. world.log w = ?W \<and> stored ''bVictim'' (world.log w) = []"
    by (rule performs_hoare [OF thr crossA_stores [unfolded keeps_def]]) simp
  then have b: "coherent ''bVictim'' 0 ?M"
    using private_coherent [OF executionD(3) [OF assms] owned_main [OF two]] by auto
  obtain st r where r: "(Os (AtomicLoad ''aVictim''), st, r) \<in> set ?M" "x = r_n r"
    using loaded_in [of x "''aVictim''" ?M] ld by auto
  then have "(0, Os (AtomicLoad ''aVictim''), st, r) \<in> set G" by (force simp: of_thread_def)
  from handover_load(1) [OF assms tidy owned_two [OF two] this] have "x = y"
    using r W start by (simp add: dl_view_def)
  then show ?thesis
    unfolding concat_two [OF two] using M W b by (auto simp: dl_ended_def dl_view_def)
qed

text \<open>
  A run in which the server makes A the victim while B's update waits.
\<close>

definition cross1 :: string where
  \<open>cross1 = ''update t1 set v = v + 1 where id = 1''\<close>

definition cross2 :: string where
  \<open>cross2 = ''update t1 set v = v + 1 where id = 2''\<close>

definition dl_process :: process where
  "dl_process = \<lparr>p_hdr = demo_headers, p_argv = [], p_environ = Map.empty,
     p_cells = (\<lambda>_. Map.empty)(KAtt := [4 \<mapsto> 1, 5 \<mapsto> 2]), p_fresh = 0\<rparr>"

definition dl_log :: tlog where
  "dl_log = rev
     [(0, Att 1 (StartTransaction []), None, no_reply\<lparr>r_h := 11\<rparr>),
      (0, Att 2 (StartTransaction []), None, no_reply\<lparr>r_h := 12\<rparr>),
      told 0 (Att 1 (Execute 11 cross1)), told 0 (Att 2 (Execute 12 cross2)),
      told 0 (Os (AtomicStore ''aVictim'' 0)), told 0 (Os (AtomicStore ''bVictim'' 0)), told 0 (Os ClockNs),
      (0, Os (SpawnThread 1 [1, 11, 0] []), None, no_reply\<lparr>r_null := False\<rparr>),
      told 0 (Os (SleepMs 300)),
      (2, Att 1 (Execute 11 cross2), Some [335544336], no_reply),
      told 2 (Master (FormatStatus 256 [335544336])), told 2 (Os ClockNs),
      told 2 (Os (AtomicStore ''aVictim'' 1)), told 2 (Tra 11 Rollback),
      told 0 (Att 2 (Execute 12 cross1)), told 0 (Os ClockNs), told 0 (Os (JoinThread 1)),
      (0, Os (AtomicLoad ''aVictim''), None, no_reply\<lparr>r_n := 1\<rparr>),
      told 0 (Os (AtomicLoad ''bVictim'')), told 0 (Tra 12 Rollback)]"

abbreviation dl_a :: Db where
  "dl_a \<equiv> \<lparr>db_att = 4, db_status = 8, db_prov = 9\<rparr>"

abbreviation dl_b :: Db where
  "dl_b \<equiv> \<lparr>db_att = 5, db_status = 8, db_prov = 9\<rparr>"

lemmas log_run = performs_def start_world_def replaying_def told_def thread_defs os_do_def os_int_def do_void_def
  ignore_def do_call_def handle_of_def bindP_def run_simps ask_def Let_def start_tpb_def att_of_def checked_def
  rollback_def seqP_def exec_def try_fb_def formatStatus_def secondsSince_def steady_now_def

lemma dl_main_run: "performs dl_process (deadlock dl_a dl_b) (of_thread 0 dl_log) (Ok ())"
  by (simp add: log_run dl_process_def dl_log_def deadlock_def crossB_def cross1_def cross2_def no_reply_def c_str_def)

lemma dl_thread_run: "performs dl_process (lock_manager_threads 1 [1, 11, 0] []) (of_thread 2 dl_log) (Ok ())"
  by (simp add: log_run dl_process_def dl_log_def lock_manager_threads_def crossA_def cross2_def no_reply_def)

lemma dl_execution: "execution dl_process (deadlock dl_a dl_b) lock_manager_threads (Ok ()) dl_log"
  using dl_main_run dl_thread_run
  unfolding execution_def by (simp add: dl_log_def told_def no_reply_def)

theorem deadlock_rolls_back_witness:
  "mset (concat (map rolled_by (map snd dl_log))) = {#11, 12#}"
proof -
  have "concat (map started_by (map snd dl_log)) = [12, 11]"
    by (simp add: dl_log_def told_def started_by_def)
  then show ?thesis using deadlock_rolls_back [OF dl_execution] by simp
qed


section \<open>The session id of the trace\<close>

text \<open>The ids that the lines of the stream announce, and the ids that are asked to stop.\<close>

definition ids_of :: "string \<Rightarrow> int list" where
  "ids_of line = (case session_id line of None \<Rightarrow> [] | Some n \<Rightarrow> [n])"

definition announced_by :: "header_values \<Rightarrow> event \<Rightarrow> int list" where
  "announced_by h ev = (case ev of (c, st, r) \<Rightarrow> (case c of
     Svc s m \<Rightarrow> (case m of SvcQuery items n \<Rightarrow>
        if st = None then (case line_of h (fit 4096 (r_b r)) of
            Some l \<Rightarrow> (case l of Some line \<Rightarrow> ids_of line | None \<Rightarrow> []) | None \<Rightarrow> []) else [] | _ \<Rightarrow> []) | _ \<Rightarrow> []))"

definition stopped_by :: "event \<Rightarrow> int list" where
  "stopped_by ev = (case ev of (c, st, r) \<Rightarrow> (case c of
     Xpb h m \<Rightarrow> (case m of InsertInt t v \<Rightarrow> if t = isc_spb_trc_id then [v] else [] | _ \<Rightarrow> []) | _ \<Rightarrow> []))"

text \<open>The main thread: what it stores, what the stream announced, what it started.\<close>

definition tr_view :: "header_values \<Rightarrow> event list \<Rightarrow> int list \<times> int list \<times> (nat \<times> int list \<times> string list) list" where
  "tr_view h L = (stored ''sessionId'' L, concat (map (announced_by h) L), spawned L)"

definition tr_quiet :: "call \<Rightarrow> bool" where
  "tr_quiet c \<longleftrightarrow> (case c of Svc s m \<Rightarrow> (case m of SvcQuery items n \<Rightarrow> False | _ \<Rightarrow> True)
     | Os oc \<Rightarrow> (case oc of SpawnThread i ns ss \<Rightarrow> False | AtomicStore x u \<Rightarrow> False | _ \<Rightarrow> True) | _ \<Rightarrow> True)"

interpretation tr: os_view "tr_view h" tr_quiet for h
  by unfold_locales (auto simp: tr_quiet_def plain_def tr_view_def announced_by_def
    split: call.splits svc_call.splits os_call.splits)

abbreviation tr_at :: "header_values \<Rightarrow> _ \<Rightarrow> 's world \<Rightarrow> bool" where
  "tr_at h v \<equiv> \<lambda>w. tr_view h (world.log w) = v"

lemma tr_calls:
  "hoare (tr_at h (S, A, P)) (store ''sessionId'' u) (\<lambda>_. tr_at h (u # S, A, P)) E1"
  "hoare (tr_at h (S, A, P)) (spawn i ns ss) (\<lambda>_. tr_at h (S, A, (i, ns, ss) # P)) E2"
  by (rule hoareI, auto simp: tr_view_def announced_by_def thread_defs os_do_def do_void_def ignore_def bindP_def
      run_simps split: if_splits)+

lemma tr_ask:
  "hoare (tr_at h (S, A, P)) (ask (Svc svc (SvcQuery items n)))
     (\<lambda>r. tr_at h (S, (case line_of h (fit 4096 (r_b r)) of
        Some l \<Rightarrow> (case l of Some line \<Rightarrow> ids_of line | None \<Rightarrow> []) | None \<Rightarrow> []) @ A, P)) (\<lambda>_ _. True)"
  by (rule hoareI, auto simp: tr_view_def announced_by_def run_simps ask_def Let_def
      split: option.splits prod.splits)

lemma tr_nextLine:
  "hoare (tr_at (hdr e) (S, A, P)) (at_env e (nextLine svc))
     (\<lambda>l. tr_at (hdr e) (S, (case l of None \<Rightarrow> [] | Some line \<Rightarrow> ids_of line) @ A, P)) (\<lambda>_ _. True)"
  unfolding nextLine_def at_env_simps
  by (rule hoare_bindP [OF at_env_hoare [OF tr_ask]], rule hoare_bindP [OF hoare_ret], assumption, rule at_env_hoare)
    (auto simp: checked_def split: option.splits intro!: hoare_ret hoare_fail)

lemma tr_line:
  "hoare (tr_at h (S, A, P)) (trace_line line) (\<lambda>_. tr_at h (ids_of line @ S, A, P)) (\<lambda>_ _. True)"
proof -
  have k: "hoare (tr_at h (S, A, P)) (block [say x]) (\<lambda>_. tr_at h (S, A, P)) (\<lambda>_ _. True)" for x
    by (intro skip_keeps tr.rules)
  have s: "hoare (tr_at h (S, A, P)) (bindP (int_range n) (\<lambda>id. block [store ''sessionId'' id]))
      (\<lambda>_. tr_at h (n # S, A, P)) (\<lambda>_ _. True)" for n
  proof -
    have "hoare (tr_at h (S, A, P)) (int_range n) (\<lambda>id w. id = n \<and> tr_at h (S, A, P) w) (\<lambda>_ _. True)"
      unfolding int_range_def checked_def by (auto intro!: hoare_ret hoare_fail)
    moreover have "hoare (\<lambda>w. id = n \<and> tr_at h (S, A, P) w) (block [store ''sessionId'' id])
        (\<lambda>_. tr_at h (n # S, A, P)) (\<lambda>_ _. True)" for id
      by (cases "id = n") (simp_all add: hoare_False tr_calls)
    ultimately show ?thesis by (rule hoare_bindP)
  qed
  show ?thesis
  proof (cases "session_id line")
    case None
    then show ?thesis unfolding trace_line_def seqP_def ids_of_def
      by (simp only: option.case append.simps) (rule hoare_bindP [OF k], rule hoare_ret)
  next
    case (Some n)
    then show ?thesis unfolding trace_line_def seqP_def ids_of_def
      by (simp only: option.case append.simps) (rule hoare_bindP [OF k s])
  qed
qed

lemma tr_lines:
  "hoare (\<lambda>w. \<exists>A. tr_at (hdr e) (A @ [0], A, P) w) (at_env e (trace_lines svc trace_line))
     (\<lambda>_ w. \<exists>A. tr_at (hdr e) (A @ [0], A, P) w) (\<lambda>_ _. True)"
proof -
  let ?I = "\<lambda>w. \<exists>A. tr_at (hdr e) (A @ [0], A, P) w"
  have line: "hoare (tr_at (hdr e) (A @ [0], ids_of line @ A, P)) (returning [trace_line line] (Inl ()))
      (\<lambda>_. ?I) (\<lambda>_ _. True)" for A line
    unfolding returning_def
    by (rule hoare_bindP [OF hoare_block_Cons [OF tr_line hoare_block_Nil]]) (auto intro!: hoare_ret exI [of _ "ids_of line @ A"])
  have step: "hoare (tr_at (hdr e) (A @ [0], A, P)) (at_env e (bindP (nextLine svc) (\<lambda>l. case l of None \<Rightarrow> ret (Inr ())
      | Some line \<Rightarrow> returning [trace_line line] (Inl ())))) (\<lambda>x w. case x of Inl a \<Rightarrow> ?I w | Inr b \<Rightarrow> ?I w) (\<lambda>_ _. True)" for A
    unfolding at_env_simps
    by (rule hoare_bindP [OF tr_nextLine], rule at_env_hoare) (auto split: option.splits intro!: hoare_ret line)
  then show ?thesis
    unfolding trace_lines_def by (intro at_env_loopP hoare_ex)
qed

lemma report_code: "hoare (\<lambda>_. True) (report st) (\<lambda>n _. n = 1) (\<lambda>_ _. True)"
  unfolding report_def returning_def
  by (rule hoare_bindP [OF hoare_triv], rule hoare_bindP [OF hoare_triv], rule hoare_ret) simp

lemma tr_keeps:
  "keeps (tr_at h v) (attachSvc prov)" "keeps (tr_at h v) (service_start svc (\<lambda>start.
     [do_call (Xpb start (InsertTag isc_action_svc_trace_start)),
      do_call (Xpb start (InsertString isc_spb_trc_name s1)), do_call (Xpb start (InsertString isc_spb_trc_cfg s2))]))"
  "keeps (tr_at h v) (join i)" "keeps (tr_at h v) (with_Db (\<lambda>db. attachOrCreate db d))"
  "keeps (tr_at h v) (do_call (Svc svc SvcDetach))" "keeps (tr_at h v) (do_void (Prov p ProvRelease))"
  "keeps (tr_at h v) (do_void (StatusDispose s))" "keeps (tr_at h v) (ask_void (Master m))"
  unfolding attachSvc_def spb_attach_def service_start_def join_def
  by (intro tr.all_rules; simp add: tr_quiet_def)+

lemma tr_beside:
  "hoare (tr_at (hdr e) ([0], [], P)) (at_env e (joinable (block [trace_lines svc trace_line, join 0])))
     (\<lambda>_ w. \<exists>A. tr_at (hdr e) (A @ [0], A, P) w) (\<lambda>_ _. True)"
proof -
  have "hoare (tr_at (hdr e) ([0], [], P)) (at_env e (trace_lines svc trace_line))
    (\<lambda>_ w. \<exists>A. tr_at (hdr e) (A @ [0], A, P) w) (\<lambda>_ _. True)"
    by (rule hoare_weaken [OF tr_lines]) auto
  moreover have "hoare (\<lambda>w. \<exists>A. tr_at (hdr e) (A @ [0], A, P) w) (at_env e (block [join 0]))
    (\<lambda>_ w. \<exists>A. tr_at (hdr e) (A @ [0], A, P) w) (\<lambda>_ _. True)"
    by (rule hoare_ex, rule hoare_weaken [OF at_env_hoare
          [OF hoare_block_Cons [OF tr_keeps(3) [THEN skip_keeps] hoare_block_Nil]]]) auto
  ultimately have "hoare (tr_at (hdr e) ([0], [], P)) (at_env e (block [trace_lines svc trace_line, join 0]))
    (\<lambda>_ w. \<exists>A. tr_at (hdr e) (A @ [0], A, P) w) (\<lambda>_ _. True)"
    unfolding at_env_block [of e "trace_lines svc trace_line"] by (rule hoare_bindP)
  then show ?thesis
    unfolding joinable_def at_env_simps by (rule hoare_try_fb) (rule at_env_hoare, rule hoare_fail, simp)
qed

lemma tr_last:
  "hoare (\<lambda>w. \<exists>A. tr_at h (A @ [0], A, [(0, [int prov], [])]) w)
     (block [do_call (Svc svc SvcDetach), do_void (Prov prov ProvRelease), do_void (StatusDispose st), say d])
     (\<lambda>_ w. \<exists>A prov. tr_at h (A @ [0], A, [(0, [int prov], [])]) w) (\<lambda>_ _. True)"
proof (rule hoare_ex)
  fix A
  have "hoare (tr_at h (A @ [0], A, [(0, [int prov], [])]))
    (block [do_call (Svc svc SvcDetach), do_void (Prov prov ProvRelease), do_void (StatusDispose st), say d])
    (\<lambda>_. tr_at h (A @ [0], A, [(0, [int prov], [])])) (\<lambda>_ _. True)"
    by (intro skip_keeps keeps_rules tr_keeps tr.rules)
  then show "hoare (tr_at h (A @ [0], A, [(0, [int prov], [])]))
    (block [do_call (Svc svc SvcDetach), do_void (Prov prov ProvRelease), do_void (StatusDispose st), say d])
    (\<lambda>_ w. \<exists>A prov. tr_at h (A @ [0], A, [(0, [int prov], [])]) w) (\<lambda>_ _. True)"
    by (rule hoare_weaken) auto
qed

lemma tr_main:
  "hoare (tr_at (hdr e) ([], [], [])) (at_env e trace_main)
     (\<lambda>n w. n = 0 \<longrightarrow> (\<exists>A prov. tr_at (hdr e) (A @ [0], A, [(0, [int prov], [])]) w)) (\<lambda>_ _. True)"
  unfolding trace_main_def at_env_simps seqP_def returning_def
  apply (rule hoare_try_fb [where E' = "\<lambda>_ _. True"])
   apply (rule hoare_bindP [OF at_env_hoare [OF hoare_block_Cons [OF tr_keeps(4) [THEN skip_keeps] hoare_block_Nil]]],
      rule hoare_bindP [OF tr_keeps(8) [THEN skip_keeps, THEN at_env_hoare]],
      rule hoare_bindP [OF tr_keeps(8) [THEN skip_keeps, THEN at_env_hoare]],
      rule hoare_bindP [OF tr_keeps(1) [THEN skip_keeps, THEN at_env_hoare]], rule hoare_bindP)
    apply (subst at_env_block, rule hoare_bindP [OF tr_keeps(2) [THEN skip_keeps, THEN at_env_hoare]])
    apply (subst at_env_block, rule hoare_bindP [OF at_env_hoare [OF tr_calls(1)]])
    apply (subst at_env_block, rule hoare_bindP [OF at_env_hoare [OF tr_calls(2)]])
    apply (subst at_env_block, rule hoare_bindP [OF tr_beside], rule at_env_hoare [OF tr_last])
   apply (rule at_env_hoare, rule hoare_ret, blast)
  apply (rule at_env_hoare, rule hoare_weaken [OF report_code], simp_all)
  done

text \<open>The worker: what it reads, and what it asks to stop.\<close>

definition wk_view :: "event list \<Rightarrow> int list \<times> int list" where
  "wk_view L = (loaded ''sessionId'' L, concat (map stopped_by L))"

definition wk_quiet :: "call \<Rightarrow> bool" where
  "wk_quiet c \<longleftrightarrow> (case c of Xpb h m \<Rightarrow> (case m of InsertInt t v \<Rightarrow> t \<noteq> isc_spb_trc_id | _ \<Rightarrow> True)
     | Os oc \<Rightarrow> (case oc of AtomicLoad x \<Rightarrow> False | _ \<Rightarrow> True) | _ \<Rightarrow> True)"

interpretation wk: os_view wk_view wk_quiet
  by unfold_locales (auto simp: wk_quiet_def plain_def wk_view_def stopped_by_def
    split: call.splits xpb_call.splits os_call.splits)

abbreviation wk_at :: "_ \<Rightarrow> 's world \<Rightarrow> bool" where
  "wk_at v \<equiv> \<lambda>w. wk_view (world.log w) = v"

lemma wk_calls:
  "hoare (wk_at (V, X)) (load ''sessionId'') (\<lambda>u. wk_at (u # V, X)) E1"
  "hoare (wk_at (V, X)) (do_call (Xpb h (InsertInt isc_spb_trc_id u))) (\<lambda>_. wk_at (V, u # X)) (\<lambda>_. wk_at (V, u # X))"
  by (rule hoareI, auto simp: wk_view_def stopped_by_def load_def os_int_def do_call_def ask_def Let_def ignore_def
      bindP_def run_simps split: if_splits prod.splits option.splits)+

lemma wk_keeps:
  "keeps (wk_at v) trace_marker" "keeps (wk_at v) (attachSvc prov)" "keeps (wk_at v) (os_do (SleepMs n))"
  "keeps (wk_at v) (trace_lines svc (\<lambda>line. block [say (msg line)]))"
  "keeps (wk_at v) (ignore (report st))"
  unfolding trace_marker_def attachSvc_def spb_attach_def trace_lines_def nextLine_def
  by (intro wk.all_rules; simp add: wk_quiet_def)+

text \<open>The worker has read an id, and asks only for ids it has read since.\<close>

definition asks :: "int list \<times> int list \<Rightarrow> bool" where
  "asks VX \<longleftrightarrow> (\<exists>ys u zs. fst VX = ys @ u # zs \<and> u \<noteq> 0 \<and> set (snd VX) \<subseteq> set ys)"

lemma wk_await:
  "hoare (wk_at (V, [])) await_id (\<lambda>_ w. \<exists>u zs. u \<noteq> 0 \<and> wk_at (u # zs, []) w) (\<lambda>_ _. True)"
    (is "hoare _ _ ?Q _")
proof -
  let ?I = "\<lambda>w. \<exists>V. wk_at (V, []) w"
  have again: "hoare (wk_at (V, [])) (if id \<noteq> 0 then ret (Inr ()) else returning [os_do (SleepMs 50)] (Inl ()))
      (\<lambda>x w. case x of Inl a \<Rightarrow> ?I w | Inr b \<Rightarrow> ?Q b w) (\<lambda>_ _. True)" if "V = id # V'" for V V' id
  proof (cases "id = 0")
    case True
    have "hoare (wk_at (V, [])) (returning [os_do (SleepMs 50)] (Inl ())) (\<lambda>x w. x = Inl () \<and> wk_at (V, []) w) (\<lambda>_ _. True)"
      unfolding returning_def
      by (rule hoare_bindP [OF hoare_block_Cons [OF wk_keeps(3) [THEN skip_keeps] hoare_block_Nil]]) (rule hoare_ret, simp)
    then show ?thesis unfolding True by (simp only: simp_thms if_False) (erule hoare_weaken, auto)
  next
    case False
    then show ?thesis using that by (auto intro!: hoare_ret)
  qed
  have "hoare ?I await_id ?Q (\<lambda>_ _. True)"
    unfolding await_id_def
    by (rule hoare_loopP, rule hoare_ex, rule hoare_bindP [OF wk_calls(1)]) (rule again [OF refl])
  then show ?thesis by (rule hoare_weaken) auto
qed

abbreviation asks_at :: "'s world \<Rightarrow> bool" where
  "asks_at \<equiv> \<lambda>w. asks (wk_view (world.log w))"

lemma asksI: "u \<noteq> 0 \<Longrightarrow> set X \<subseteq> set ys \<Longrightarrow> asks (ys @ u # zs, X)"
  unfolding asks_def by auto

lemma asks_ready: "u \<noteq> 0 \<Longrightarrow> wk_at (u # zs, []) w \<Longrightarrow> asks_at w"
  using asksI [of u "[]" "[]" zs] by simp

lemma asks_asked: "u \<noteq> 0 \<Longrightarrow> wk_at (v # u # zs, [v]) w \<Longrightarrow> asks_at w"
  using asksI [of u "[v]" "[v]" zs] by simp

lemma wk_stop_keeps:
  "keeps (wk_at v) (bindP (ask (Xpb stop GetBuffer)) (\<lambda>b. block
     [do_call (Svc svcB (SvcStart (r_b b))), do_void (Xpb stop XpbDispose),
      trace_lines svcB (\<lambda>line. block [say (''[stop ] '' @ (c_str line) @ nl)]),
      do_call (Svc svcB SvcDetach), do_void (StatusDispose st2)]))"
  "keeps (wk_at v) (ask_void (Master m1))" "keeps (wk_at v) (handle_of (Master m2))"
  "keeps (wk_at v) (block [do_call (Xpb stop (InsertTag isc_action_svc_trace_stop))])"
  by (intro keeps_rules wk_keeps wk.rules; simp add: wk_quiet_def)+

lemma wk_stop:
  "hoare (\<lambda>w. \<exists>u zs. u \<noteq> 0 \<and> wk_at (u # zs, []) w) (trace_stop prov) (\<lambda>_. asks_at) (\<lambda>_ _. True)"
proof -
  note to = skip_to [where J = asks_at]
  have asked: "hoare (wk_at (id # u # zs, [])) (block [do_call (Xpb stop (InsertInt isc_spb_trc_id id))])
      (\<lambda>_. wk_at (id # u # zs, [id])) (\<lambda>_. asks_at)" if "u \<noteq> 0" for id stop u zs
    by (rule hoare_block_Cons [OF _ hoare_block_Nil], rule hoare_weaken [OF wk_calls(2)]) (auto intro: asks_asked [OF that])
  have caught: "hoare asks_at (ignore (report st)) (\<lambda>_. asks_at) (\<lambda>_ _. True)" for st
    by (rule keeps_any [OF wk_keeps(5)])
  show ?thesis
    unfolding trace_stop_def seqP_def
    apply (rule hoare_ex, rule hoare_ex, rule hoare_conj_pre)
    apply (rule hoare_try_fb [OF _ caught])
    apply (rule hoare_bindP [OF to [OF wk_stop_keeps(2)]], erule (1) asks_ready)
    apply (rule hoare_bindP [OF to [OF wk_keeps(2)]], erule (1) asks_ready)
    apply (rule hoare_bindP [OF to [OF wk_stop_keeps(3)]], erule (1) asks_ready)
    apply (rule hoare_bindP [OF to [OF wk_stop_keeps(4)]], erule (1) asks_ready)
    apply (rule hoare_bindP [OF wk_calls(1)], rule hoare_bindP [OF asked], assumption)
    apply (rule hoare_weaken [OF to [OF wk_stop_keeps(1)]], erule (1) asks_asked)
      apply (assumption, erule (1) asks_asked, assumption)
    done
qed

lemma wk_worker: "hoare (wk_at ([], [])) (thread (trace_worker prov)) (\<lambda>_. asks_at) (\<lambda>_ _. True)"
proof -
  have "hoare (wk_at ([], [])) (trace_worker prov) (\<lambda>_. asks_at) (\<lambda>_ _. True)"
    unfolding trace_worker_def
    by (rule hoare_block_Cons [OF wk_keeps(3) [THEN skip_keeps]], rule hoare_block_Cons [OF wk_keeps(1) [THEN skip_keeps]],
        rule hoare_block_Cons [OF wk_keeps(3) [THEN skip_keeps]], rule hoare_block_Cons [OF wk_await],
        rule hoare_block_Cons [OF wk_stop hoare_block_Nil])
  then show ?thesis
    unfolding thread_def by (rule hoare_try_fb) (rule hoare_fail, simp)
qed

lemma wk_stores: "keeps (\<lambda>w. stored ''sessionId'' (world.log w) = v) (thread (trace_worker prov))"
  unfolding thread_def trace_worker_def trace_marker_def await_id_def trace_stop_def trace_lines_def nextLine_def
    attachSvc_def spb_attach_def load_def
  by (intro stores.all_rules; simp add: no_store_def)

text \<open>
  C7.  In every execution of \<open>trace.cpp\<close> that ends with exit code 0, however the reader of
  the stream and the worker interleave: the stream announced a session id other than 0, and every id that
  the worker asks the service manager to stop is one that the stream announced.  So without an
  announcement the program does not end, and the worker never stops session 0 because it came too
  early.
\<close>

theorem trace_stops_announced:
  assumes "execution p trace_main trace_threads (Ok 0) G"
  shows "(\<exists>n \<in> set (concat (map (announced_by (p_hdr p)) (of_thread 0 G))). n \<noteq> 0) \<and>
    set (concat (map stopped_by (of_thread 1 G))) \<subseteq> set (concat (map (announced_by (p_hdr p)) (of_thread 0 G)))"
proof -
  let ?M = "of_thread 0 G" and ?W = "of_thread (Suc 0) G" and ?x = "''sessionId''"
  have main: "performs p trace_main ?M (Ok 0)" by (rule executionD(1) [OF assms])
  have "\<exists>w :: answers world. world.log w = ?M \<and>
      (0 = (0 :: int) \<longrightarrow> (\<exists>A prov. tr_at (hdr (replaying (p_hdr p) (p_argv p))) (A @ [0], A, [(0, [int prov], [])]) w))"
    by (rule performs_at [OF main tr_main]) (simp add: tr_view_def)
  then obtain prov A where M: "tr_view (p_hdr p) ?M = (A @ [0], A, [(0, [int prov], [])])"
    by (auto simp: replaying_def)
  then have S: "stored ?x ?M = A @ [0]" and A: "concat (map (announced_by (p_hdr p)) ?M) = A"
    and sp: "spawned ?M = [(0, [int prov], [])]" by (auto simp: tr_view_def)
  have two: "fst ` set G \<subseteq> {0, Suc 0}" by (rule two_threads [OF assms sp])
  have "performs p (trace_threads 0 [int prov] []) ?W (Ok ())"
    by (rule execution_spawned [OF assms]) (simp add: sp)
  then have thr: "performs p (thread (trace_worker prov)) ?W (Ok ())" by (simp add: trace_threads_def)
  have "\<exists>w :: answers world. world.log w = ?W \<and> asks_at w"
    by (rule performs_hoare [OF thr wk_worker]) (simp add: wk_view_def)
  then obtain ys u zs where W: "loaded ?x ?W = ys @ u # zs" "u \<noteq> 0" "set (concat (map stopped_by ?W)) \<subseteq> set ys"
    by (auto simp: asks_def wk_view_def)
  have "\<exists>w :: answers world. world.log w = ?W \<and> stored ?x (world.log w) = []"
    by (rule performs_hoare [OF thr wk_stores [unfolded keeps_def]]) simp
  then have own: "owned ?x {0} G" by (intro owned_main [OF two]) auto
  have "seen ?x ?M ?W" by (rule seen_later [OF executionD(3) [OF assms] own]) (simp_all add: S)
  then have "insert u (set ys) \<subseteq> set A" using W(1,2) S unfolding seen_def by (metis butlast_snoc)
  then show ?thesis using W A by auto
qed

text \<open>
  A run in which the worker's query fails for want of a transaction and the session is number 7.
\<close>

definition session_line :: "byte list" where
  "session_line = 62 # 18 # 0 # bytes_of ''Trace session ID 7''"

definition trace_process :: process where
  "trace_process = \<lparr>p_hdr = demo_headers, p_argv = [''trace''], p_environ = Map.empty,
     p_cells = (\<lambda>_. Map.empty), p_fresh = 0\<rparr>"

definition attach_log :: "nat \<Rightarrow> tlog" where
  "attach_log t = map (told t) [Master GetStatus, Master GetDispatcher, Master (GetXpbBuilder DPB),
     Xpb 0 (InsertString isc_dpb_user_name ''SYSDBA''), Xpb 0 (InsertString isc_dpb_password ''masterkey''),
     Xpb 0 (InsertString isc_dpb_lc_ctype ''UTF8''), Xpb 0 GetBuffer, Prov 0 (AttachDatabase trace_DB []),
     Xpb 0 XpbDispose]"

definition detach_log :: "nat \<Rightarrow> tlog" where
  "detach_log t = map (told t) [Master GetStatus, Att 0 Detach, StatusDispose 0, Prov 0 ProvRelease, StatusDispose 0]"

definition service_log :: "nat \<Rightarrow> tlog" where
  "service_log t = map (told t) [Master (GetXpbBuilder SPB_ATTACH),
     Xpb 0 (InsertString isc_spb_user_name ''SYSDBA''), Xpb 0 (InsertString isc_spb_password ''masterkey''),
     Xpb 0 GetBuffer, Prov 0 (AttachServiceManager ''localhost:service_mgr'' []), Xpb 0 XpbDispose,
     Master (GetXpbBuilder SPB_START)]"

definition main_log :: tlog where
  "main_log = attach_log 0 @ detach_log 0 @ map (told 0) [Master GetStatus, Master GetDispatcher] @ service_log 0
     @ map (told 0) [Xpb 0 (InsertTag isc_action_svc_trace_start), Xpb 0 (InsertString isc_spb_trc_name ''hands-on''),
         Xpb 0 (InsertString isc_spb_trc_cfg TRACE_CFG), Xpb 0 GetBuffer, Svc 0 (SvcStart []), Xpb 0 XpbDispose,
         Os (AtomicStore ''sessionId'' 0)]
     @ [(0, Os (SpawnThread 0 [0] []), None, no_reply\<lparr>r_null := False\<rparr>),
        (0, Svc 0 (SvcQuery [isc_info_svc_line] 4096), None, no_reply\<lparr>r_b := session_line\<rparr>),
        told 0 (Os (AtomicStore ''sessionId'' 7))]"

definition worker_log :: tlog where
  "worker_log = [told 1 (Os (SleepMs 800))] @ attach_log 1 @ [(1, Att 0 (StartTransaction []), Some [1], no_reply)]
     @ detach_log 1 @ map (told 1) [Master (FormatStatus 1024 [1]), Os (SleepMs 1200)]
     @ [(1, Os (AtomicLoad ''sessionId''), None, no_reply\<lparr>r_n := 7\<rparr>), told 1 (Master GetStatus)] @ service_log 1
     @ [told 1 (Xpb 0 (InsertTag isc_action_svc_trace_stop)),
        (1, Os (AtomicLoad ''sessionId''), None, no_reply\<lparr>r_n := 7\<rparr>)]
     @ map (told 1) [Xpb 0 (InsertInt isc_spb_trc_id 7), Xpb 0 GetBuffer, Svc 0 (SvcStart []), Xpb 0 XpbDispose,
        Svc 0 (SvcQuery [isc_info_svc_line] 4096), Svc 0 SvcDetach, StatusDispose 0]"

definition trace_log :: tlog where
  "trace_log = rev (main_log @ worker_log @ map (told 0) [Svc 0 (SvcQuery [isc_info_svc_line] 4096),
     Os (JoinThread 0), Svc 0 SvcDetach, Prov 0 ProvRelease, StatusDispose 0])"

lemmas trace_log_defs = trace_log_def main_log_def worker_log_def attach_log_def detach_log_def service_log_def told_def

lemma session_line_read: "line_of demo_headers (fit 4096 session_line) = Some (Some ''Trace session ID 7'')"
  by (simp add: line_of_def session_line_def demo_headers_def fit_def slice_def le_read_def)

lemma stream_end_read: "line_of demo_headers (fit 4096 []) = Some None"
  by (simp add: line_of_def demo_headers_def fit_def)

lemma session_7: "session_id ''Trace session ID 7'' = Some 7"
  by (simp add: session_id_def c_str_def scan_int_def isspace_def read_dec_def char_digit_def)

lemmas trace_run = performs_def start_world_def replaying_def trace_process_def trace_log_defs no_reply_def
  trace_DB_def with_Db_def Db_new_def Db_destroy_def scoped_def try_fb_def bindP_def seqP_def returning_def
  ignore_def do_void_def do_call_def handle_of_def ask_run run_simps ask_void_def attachSvc_def spb_attach_def
  SRV_def service_start_def thread_defs os_do_def os_int_def trace_lines_def nextLine_def loopP.simps headers_def
  checked_def session_line_read stream_end_read session_7 trace_line_def int_range_def attachOrCreate_def attachDatabase_def
  makeDpb_def defaultUser_def defaultPassword_def report_def formatStatus_def

lemma trace_main_run: "performs trace_process trace_main (of_thread 0 trace_log) (Ok 0)"
  by (simp add: trace_main_def trace_run)

lemma trace_worker_run: "performs trace_process (trace_threads 0 [0] []) (of_thread 1 trace_log) (Ok ())"
  by (simp add: trace_threads_def trace_worker_def trace_marker_def attach_def attach_as_def start_tpb_def att_of_def
      await_id_def trace_stop_def trace_run)

lemma trace_bracketed: "bracketed trace_log"
  by (simp add: trace_log_defs)

lemma trace_coherent: "coherent x 0 (map snd trace_log)"
  by (simp add: trace_log_defs)

lemma trace_reads: "reads_shared (map snd trace_log)"
  by (simp add: trace_log_defs)

lemma trace_spawns:
  "(0, Os (SpawnThread i ns ss), st, r) \<in> set trace_log \<Longrightarrow> i = 0 \<and> ns = [0] \<and> ss = []"
  by (auto simp: trace_log_defs)

lemma trace_execution: "execution trace_process trace_main trace_threads (Ok 0) trace_log"
proof -
  have "performs trace_process (trace_threads i ns ss) (of_thread (Suc i) trace_log) (Ok ())"
    if "(0, ev) \<in> set trace_log" "fst ev = Os (SpawnThread i ns ss)" for ev i ns ss
    using trace_spawns [of i ns ss "fst (snd ev)" "snd (snd ev)"] that trace_worker_run by (cases ev) auto
  then show ?thesis
    unfolding execution_def using trace_main_run trace_bracketed trace_coherent trace_reads by blast
qed

theorem trace_stops_announced_witness:
  "7 \<in> set (concat (map stopped_by (of_thread 1 trace_log))) \<and>
   7 \<in> set (concat (map (announced_by demo_headers) (of_thread 0 trace_log)))"
proof -
  have "7 \<in> set (concat (map stopped_by (of_thread 1 trace_log)))"
    by (simp add: trace_log_defs stopped_by_def)
  moreover have "p_hdr trace_process = demo_headers" by (simp add: trace_process_def)
  ultimately show ?thesis
    using trace_stops_announced [OF trace_execution] by (metis subset_iff)
qed


section \<open>Attachments\<close>

text \<open>
  C9.  In every execution of a sample with threads, however its threads interleave, that runs to the end:
  the attachments opened by all threads together are all given back.
\<close>

theorem threads_detach:
  assumes "(m, T) \<in> set threaded_samples" and "execution p m T (Ok n) G" and "p_cells p KAtt = Map.empty"
  shows "sum_list (map (gain KAtt) (map snd G)) = 0"
  using assms threading.all_detached lock_manager.all_detached sorting.all_detached trace.all_detached
    parallel.all_detached
  unfolding threaded_samples_def by auto

theorem threads_detach_witness:
  "execution trace_process trace_main trace_threads (Ok 0) trace_log \<and>
   gain KAtt (Prov 0 (AttachDatabase trace_DB []), None, no_reply) = 1 \<and>
   sum_list (map (gain KAtt) (map snd trace_log)) = 0"
proof (intro conjI trace_execution)
  show "gain KAtt (Prov 0 (AttachDatabase trace_DB []), None, no_reply) = 1"
    by (simp add: gain_def delta_simps)
  have mem: "(trace_main, trace_threads) \<in> set threaded_samples" by (simp add: threaded_samples_def)
  show "sum_list (map (gain KAtt) (map snd trace_log)) = 0"
    by (rule threads_detach [OF mem trace_execution]) (simp add: trace_process_def)
qed

end
