(* ===== verification/Watch_Claims.thy ===== *)
theory Watch_Claims
  imports Samples_Threads Db_Query
begin

text \<open>
  The watcher of \<open>sorting.cpp\<close>: the peaks that the main thread prints are the maxima of the scans
  that the watcher made, for every execution.
\<close>

section \<open>The scans\<close>

text \<open>
  The running total and number of files of the scan in progress, and the totals and numbers of the
  finished ones: \<open>popen\<close> starts a scan, a converted number counts, \<open>pclose\<close> ends it.
\<close>

fun scans :: "event list \<Rightarrow> (int \<times> int) \<times> (int \<times> int) list" where
  "scans [] = ((0, 0), [])"
| "scans (ev # L) = (case fst ev of
     Os oc \<Rightarrow> (case oc of
         Popen c \<Rightarrow> ((0, 0), snd (scans L))
       | ScanLong p \<Rightarrow> if r_null (snd (snd ev)) then scans L
           else ((fst (fst (scans L)) + r_n (snd (snd ev)), snd (fst (scans L)) + 1), snd (scans L))
       | Pclose p \<Rightarrow> ((0, 0), fst (scans L) # snd (scans L))
       | _ \<Rightarrow> scans L)
   | _ \<Rightarrow> scans L)"

definition samples :: "event list \<Rightarrow> (int \<times> int) list" where
  "samples L = snd (scans L)"

definition peak :: "(int \<times> int \<Rightarrow> int) \<Rightarrow> (int \<times> int) list \<Rightarrow> int" where
  "peak g ss = Max (set (0 # map g ss))"

lemma peak_Nil [simp]: "peak g [] = 0"
  by (simp add: peak_def)

lemma peak_Cons [simp]: "peak g (s # ss) = max (peak g ss) (g s)"
proof (cases "ss = []")
  case False
  have "Max (insert 0 (insert (g s) (g ` set ss))) = max (g s) (Max (insert 0 (g ` set ss)))"
    unfolding insert_commute [of 0] by (rule Max_insert) simp_all
  then show ?thesis by (simp add: peak_def max.commute)
qed (simp add: peak_def max.commute)


section \<open>The watcher alone\<close>

text \<open>The scans, the value of one of the peaks, and whether its reads were coherent.\<close>

definition sc_view :: "string \<Rightarrow> event list \<Rightarrow> ((int \<times> int) \<times> (int \<times> int) list) \<times> int \<times> bool" where
  "sc_view x L = (scans L, atomic x 0 L, coherent x 0 L)"

definition sc_quiet :: "string \<Rightarrow> call \<Rightarrow> bool" where
  "sc_quiet x c \<longleftrightarrow> (case c of Os oc \<Rightarrow> (case oc of Popen s \<Rightarrow> False | ScanLong p \<Rightarrow> False | Pclose p \<Rightarrow> False
     | AtomicStore y u \<Rightarrow> y \<noteq> x | AtomicLoad y \<Rightarrow> y \<noteq> x | _ \<Rightarrow> True) | _ \<Rightarrow> True)"

interpretation sc: os_view "sc_view x" "sc_quiet x" for x
  by unfold_locales (auto simp: sc_quiet_def plain_def sc_view_def split: call.splits os_call.splits)

abbreviation sc_at :: "string \<Rightarrow> _ \<Rightarrow> 's world \<Rightarrow> bool" where
  "sc_at x v \<equiv> \<lambda>w. sc_view x (world.log w) = v"

text \<open>A peak is the maximum of the scans so far, if the reads were coherent.\<close>

definition peaked :: "(int \<times> int \<Rightarrow> int) \<Rightarrow> ((int \<times> int) \<times> (int \<times> int) list) \<times> int \<times> bool \<Rightarrow> bool" where
  "peaked g v \<longleftrightarrow> (snd (snd v) \<longrightarrow> fst (snd v) = peak g (snd (fst v)))"

abbreviation peaked_at :: "string \<Rightarrow> (int \<times> int \<Rightarrow> int) \<Rightarrow> 's world \<Rightarrow> bool" where
  "peaked_at x g \<equiv> \<lambda>w. peaked g (sc_view x (world.log w))"

lemma sc_scan:
  "hoare (sc_at x ((tf, S), a, c)) (ask_void (Os (ScanLong p)))
     (\<lambda>s. sc_at x ((if r_null s then tf else (fst tf + r_n s, snd tf + 1), S), a, c)) E1"
  "hoare (sc_at x ((tf, S), a, c)) (os_do (Pclose p)) (\<lambda>_. sc_at x (((0, 0), tf # S), a, c)) E2"
  "hoare (sc_at x ((tf, S), a, c)) (ask_void (Os (Popen s))) (\<lambda>_. sc_at x (((0, 0), S), a, c)) E3"
  by (rule hoareI, auto simp: sc_view_def os_do_def do_void_def ignore_def bindP_def run_simps split: if_splits)+

lemma sc_raise:
  "hoare (sc_at x (sc, a, c)) (raise_to x v) (\<lambda>_ w. \<exists>a' c'. sc_at x (sc, a', c') w \<and> (c' \<longrightarrow> c \<and> a' = max a v)) E"
  by (rule hoareI) (auto simp: sc_view_def thread_defs os_do_def os_int_def do_void_def ignore_def bindP_def run_simps
      split: if_splits)

lemma sc_sizes:
  "hoare (sc_at x (((0, 0), S), a, c)) (scan_sizes p) (\<lambda>tf. sc_at x ((tf, S), a, c)) (\<lambda>_ _. True)"
proof -
  have step: "hoare (sc_at x ((if r_null s then tf else (fst tf + r_n s, snd tf + 1), S), a, c))
      (if r_null s then ret (Inr tf) else bindP (long_add (fst tf) (r_n s)) (\<lambda>total. ret (Inl (total, snd tf + 1))))
      (\<lambda>y w. case y of Inl tf' \<Rightarrow> sc_at x ((tf', S), a, c) w | Inr tf' \<Rightarrow> sc_at x ((tf', S), a, c) w) (\<lambda>_ _. True)"
    for s tf
    by (rule hoareI) (auto simp: long_add_def checked_def bindP_def ret_def fail_def split: if_splits)
  show ?thesis
    unfolding scan_sizes_def
    by (rule hoare_loopP [where I = "\<lambda>tf. sc_at x ((tf, S), a, c)"], rule hoare_bindP [OF sc_scan(1) step])
qed

lemma sc_other: "y \<noteq> x \<Longrightarrow> keeps (sc_at x v) (raise_to y u)"
  unfolding thread_defs by (intro sc.all_rules; simp add: sc_quiet_def)

lemma sc_recorded:
  "hoare (\<lambda>w. sc_at x ((tf, s # S), a, c) w \<and> peaked g ((tf, S), a, c)) (raise_to x (g s)) (\<lambda>_. peaked_at x g) (\<lambda>_ _. True)"
  unfolding conj_commute [of "sc_view _ _ = _"]
  by (rule hoare_conj_pre, rule hoare_weaken [OF sc_raise]) (auto simp: peaked_def)

definition peak_var :: "string \<Rightarrow> (int \<times> int \<Rightarrow> int) \<Rightarrow> bool" where
  "peak_var x g \<longleftrightarrow> (x, g) \<in> {(''peakScratch'', fst), (''peakFiles'', snd)}"

lemma peak_varE:
  assumes "peak_var x g"
  obtains "x = ''peakScratch''" "g = fst" | "x = ''peakFiles''" "g = snd"
  using assms unfolding peak_var_def by auto

lemma sc_stored:
  assumes "peak_var x g" and "peaked g ((tf', S), a, c)"
  shows "hoare (sc_at x ((tf, S), a, c)) (block [os_do (Pclose p), raise_to ''peakScratch'' (fst tf), raise_to ''peakFiles'' (snd tf)])
    (\<lambda>_. peaked_at x g) (\<lambda>_ _. True)"
proof -
  have rec: "hoare (sc_at x (((0, 0), tf # S), a, c)) (raise_to x (g tf)) (\<lambda>_. peaked_at x g) (\<lambda>_ _. True)"
    by (rule hoare_weaken [OF sc_recorded]) (use assms(2) in \<open>auto simp: peaked_def\<close>)
  have skip: "hoare (peaked_at x g) (raise_to y u) (\<lambda>_. peaked_at x g) (\<lambda>_ _. True)" if "y \<noteq> x" for y u
    by (rule keeps_any [OF sc_other [OF that]])
  have both: "hoare (sc_at x (((0, 0), tf # S), a, c)) (block [raise_to ''peakScratch'' (fst tf), raise_to ''peakFiles'' (snd tf)])
    (\<lambda>_. peaked_at x g) (\<lambda>_ _. True)"
    using assms(1)
  proof (cases rule: peak_varE)
    case 1
    then show ?thesis
      using hoare_block_Cons [OF rec hoare_block_Cons [OF skip [of "''peakFiles''" "snd tf"] hoare_block_Nil]] by simp
  next
    case 2
    then show ?thesis
      using hoare_block_Cons [OF sc_other [of "''peakScratch''" x, THEN skip_keeps] hoare_block_Cons [OF rec hoare_block_Nil],
        of "fst tf"] by simp
  qed
  show ?thesis by (rule hoare_block_Cons [OF sc_scan(2) both])
qed

lemma sc_sample:
  assumes "peak_var x g"
  shows "hoare (peaked_at x g) (sampleScratch pid) (\<lambda>_. peaked_at x g) (\<lambda>_ _. True)"
proof (rule hoareI)
  fix e and w :: "'s world" and r w' assume pk: "peaked_at x g w" and run: "sampleScratch pid e w = Some (r, w')"
  obtain tf S a c where v: "sc_view x (world.log w) = ((tf, S), a, c)" by (metis prod.collapse)
  then have pk: "peaked g ((tf, S), a, c)" using pk by simp
  have null: "hoare (sc_at x (((0, 0), S), a, c)) (ret ()) (\<lambda>_. peaked_at x g) (\<lambda>_ (_ :: 's world). True)"
    by (rule hoare_ret) (use pk in \<open>simp add: peaked_def\<close>)
  have scan: "hoare (sc_at x (((0, 0), S), a, c)) (bindP (scan_sizes p) (\<lambda>tf. block [os_do (Pclose p),
      raise_to ''peakScratch'' (fst tf), raise_to ''peakFiles'' (snd tf)])) (\<lambda>_. peaked_at x g) (\<lambda>_ (_ :: 's world). True)" for p
    by (rule hoare_bindP [OF sc_sizes sc_stored [OF assms pk]])
  have one: "hoare (sc_at x ((tf, S), a, c)) (sampleScratch pid) (\<lambda>_. peaked_at x g) (\<lambda>_ (_ :: 's world). True)"
    unfolding sampleScratch_def
    by (rule hoare_bindP [OF sc_scan(3)], rule hoare_if) (rule null scan)+
  show "post (\<lambda>_. peaked_at x g) (\<lambda>_ _. True) r w'"
    by (rule hoareD [OF one v run])
qed

lemma sc_watch:
  assumes "peak_var x g"
  shows "hoare (peaked_at x g) (watch_loop mon pid) (\<lambda>_. peaked_at x g) (\<lambda>_ _. True)"
proof -
  have x: "x \<noteq> ''running''" "x \<noteq> ''peakMem''" using assms by (auto elim: peak_varE)
  have rest: "hoare (peaked_at x g) (bindP (start mon) (\<lambda>t. bindP (queryValue mon t memSql) (\<lambda>v.
      returning [commit t, raise_to ''peakMem'' (atol (c_str v))] (Inl ())))) (\<lambda>_. peaked_at x g) (\<lambda>_ _. True)"
    by (rule keeps_any) (intro sc_other sc.all_rules; use x in simp)
  have running: "hoare (peaked_at x g) (load ''running'') (\<lambda>_. peaked_at x g) (\<lambda>_ _. True)"
    unfolding load_def by (rule keeps_any) (intro sc.all_rules; use x in \<open>simp add: sc_quiet_def\<close>)
  have body: "hoare (peaked_at x g) (seqP [sampleScratch pid] (bindP (start mon) (\<lambda>t. bindP (queryValue mon t memSql) (\<lambda>v.
      returning [commit t, raise_to ''peakMem'' (atol (c_str v))] (Inl ())))))
      (\<lambda>y w. case y of Inl a' \<Rightarrow> peaked_at x g w | Inr b \<Rightarrow> peaked_at x g w) (\<lambda>_ _. True)"
    unfolding seqP_def
    by (rule hoare_bindP [OF hoare_block_Cons [OF sc_sample [OF assms] hoare_block_Nil]], rule hoare_weaken [OF rest])
      (auto split: sum.splits)
  show ?thesis
    unfolding watch_loop_def
    by (rule hoare_loopP, rule hoare_bindP [OF running], rule hoare_if [OF _ body], rule hoare_ret) simp
qed

lemma sc_watcher:
  assumes "peak_var x g"
  shows "hoare (peaked_at x g) (thread (watcher d pid)) (\<lambda>_. peaked_at x g) (\<lambda>_ _. True)"
proof -
  have k: "hoare (peaked_at x g) (attach mon d) (\<lambda>_. peaked_at x g) (\<lambda>_ _. True)"
    "hoare (peaked_at x g) (detach mon) (\<lambda>_. peaked_at x g) (\<lambda>_ _. True)"
    "hoare (peaked_at x g) (Db_destroy mon) (\<lambda>_. peaked_at x g) (\<lambda>_ _. True)"
    "hoare (peaked_at x g) Db_new (\<lambda>_. peaked_at x g) (\<lambda>_ _. True)" for mon
    by (rule keeps_any, rule sc.all_rules)+
  have "hoare (peaked_at x g) (watcher d pid) (\<lambda>_. peaked_at x g) (\<lambda>_ _. True)"
    unfolding watcher_def with_Db_def
    by (rule hoare_bindP [OF k(4)], rule hoare_scoped [OF hoare_block_Cons
        [OF k(1) hoare_block_Cons [OF sc_watch [OF assms] hoare_block_Cons [OF k(2) hoare_block_Nil]]] k(3) hoare_triv])
  then show ?thesis
    unfolding thread_def by (rule hoare_try_fb) (rule hoare_fail, simp)
qed


section \<open>The main thread alone\<close>

text \<open>What it starts, what it reads from a peak, and where it is with the watcher.\<close>

definition case_view :: "string \<Rightarrow> nat \<Rightarrow> event list \<Rightarrow> (nat \<times> int list \<times> string list) list \<times> int list \<times> (bool \<times> nat \<times> int)" where
  "case_view x i L = (spawned L, loaded x L, stage x i L)"

definition case_quiet :: "string \<Rightarrow> nat \<Rightarrow> call \<Rightarrow> bool" where
  "case_quiet x i c \<longleftrightarrow> idle x i c \<and> (\<forall>j ns ss. c \<noteq> Os (SpawnThread j ns ss))"

interpretation mt: os_view "case_view x i" "case_quiet x i" for x i
  by unfold_locales
    (auto simp: case_quiet_def case_view_def stages.quiet_call idle_def plain_def split: call.splits os_call.splits)

abbreviation mt_at :: "string \<Rightarrow> nat \<Rightarrow> _ \<Rightarrow> 's world \<Rightarrow> bool" where
  "mt_at x i v \<equiv> \<lambda>w. case_view x i (world.log w) = v"

lemma mt_calls:
  "hoare (mt_at x i (P, V, True, 0, 0)) (store y 0) (\<lambda>_. mt_at x i (P, V, True, 0, 0)) E1"
  "hoare (mt_at x i (P, V, True, 0, 0)) (spawn i ns ss) (\<lambda>_. mt_at x i ((i, ns, ss) # P, V, True, 1, 0)) E2"
  "hoare (mt_at x i (P, V, True, 1, 0)) (join i) (\<lambda>_. mt_at x i (P, V, True, 2, 0)) E3"
  "hoare (mt_at x i (P, V, True, 2, 0)) (load y) (\<lambda>v. mt_at x i (P, if y = x then v # V else V, True, 2, 0)) E4"
  by (rule hoareI, auto simp: thread_defs os_do_def os_int_def do_void_def ignore_def bindP_def run_simps
      case_view_def stage_def split: if_splits)+

lemma mt_running: "x \<noteq> ''running'' \<Longrightarrow> keeps (mt_at x i v) (store ''running'' u)"
  unfolding store_def by (intro mt.all_rules) (simp add: case_quiet_def idle_def)

lemma mt_beside:
  assumes "x \<noteq> ''running''"
  shows "hoare (mt_at x i (P, V, True, 1, 0)) (joinable (sorting_beside db i label sql))
     (\<lambda>_. mt_at x i (P, V, True, 2, 0)) (\<lambda>_ _. True)"
proof -
  have k: "keeps (mt_at x i v) (checked t o')" "keeps (mt_at x i v) (block [say m])"
    "keeps (mt_at x i v) (do_call (Stmt st StmtFree))" for v t m st and o' :: "'b option"
    by (intro mt.all_rules; simp add: case_quiet_def idle_def)+
  show ?thesis
    unfolding sorting_beside_def seqP_def returning_def
    by (rule hoare_joinable, rule hoare_bindP [OF mt.keeps_db(3) [THEN skip_keeps]],
        rule hoare_bindP [OF mt.keeps_db(10) [THEN skip_keeps]], rule hoare_bindP [OF mt.keeps_db(11) [THEN skip_keeps]],
        rule hoare_bindP [OF k(1) [THEN skip_keeps]], rule hoare_bindP [OF k(2) [THEN skip_keeps]],
        rule hoare_bindP [OF mt.keeps_db(6) [THEN skip_keeps]],
        rule hoare_bindP [OF hoare_block_Cons [OF mt.keeps_db(7) [THEN skip_keeps] hoare_block_Cons [OF k(3) [THEN skip_keeps]
          hoare_block_Cons [OF mt_running [OF assms, THEN skip_keeps] hoare_block_Cons [OF mt_calls(3) hoare_block_Nil]]]]],
        rule hoare_ret)
qed

lemma mt_case:
  assumes "peak_var x g"
  shows "hoare (mt_at x i ([], [], True, 0, 0)) (sorting_case db database pid memIdle i label sql)
     (\<lambda>_ w. \<exists>v. mt_at x i ([(i, [pid], [database])], [v], True, 2, 0) w) (\<lambda>_ _. True)"
proof -
  have x: "x \<noteq> ''running''" using assms by (auto elim: peak_varE)
  have k: "keeps (mt_at x i v) (block [say m])" "keeps (mt_at x i v) (long_sub a b)" for v m a b
    unfolding long_sub_def by (intro mt.all_rules)+
  have begin': "hoare (mt_at x i ([], [], True, 0, 0)) (block [store ''peakMem'' 0, store ''peakFiles'' 0,
      store ''peakScratch'' 0, store ''running'' 1, spawn i [pid] [database]])
      (\<lambda>_. mt_at x i ([(i, [pid], [database])], [], True, 1, 0)) (\<lambda>_ _. True)"
    by (rule hoare_block_Cons [OF mt_calls(1)] hoare_block_Cons [OF mt_running [OF x, THEN skip_keeps]]
        hoare_block_Cons [OF mt_calls(2)] hoare_block_Nil)+
  have last: "hoare (mt_at x i (P, V, True, 2, 0)) (block [say m]) (\<lambda>_ w. \<exists>v. mt_at x i (P, [v], True, 2, 0) w) (\<lambda>_ _. True)"
    if "\<exists>v. V = [v]" for m P V
    by (rule hoare_weaken [OF k(1) [THEN skip_keeps]]) (use that in auto)
  show ?thesis
    unfolding sorting_case_def seqP_def
    by (rule hoare_bindP [OF begin'], rule hoare_bindP [OF mt_beside [OF x]], rule hoare_bindP [OF k(1) [THEN skip_keeps]],
        rule hoare_bindP [OF mt_calls(4)], rule hoare_bindP [OF mt_calls(4)], rule hoare_bindP [OF k(1) [THEN skip_keeps]],
        rule hoare_bindP [OF mt_calls(4)], rule hoare_bindP [OF mt_calls(4)], rule hoare_bindP [OF k(2) [THEN skip_keeps]], rule last)
      (use assms in \<open>auto elim!: peak_varE\<close>)
qed


section \<open>Both\<close>

lemma case_peak:
  assumes ex: "execution p (sorting_case db database pid memIdle i label sql) sorting_threads (Ok ()) G"
    and x: "peak_var x g"
  shows "loaded x (of_thread 0 G) = [peak g (samples (of_thread (Suc i) G))]"
proof -
  let ?M = "of_thread 0 G" and ?W = "of_thread (Suc i) G"
  have "\<exists>w :: answers world. world.log w = ?M \<and> (\<exists>v. mt_at x i ([(i, [pid], [database])], [v], True, 2, 0) w)"
    by (rule performs_hoare [OF executionD(1) [OF ex] mt_case [OF x]]) (simp add: case_view_def stage_def)
  then obtain v where M: "spawned ?M = [(i, [pid], [database])]" "loaded x ?M = [v]" "tidy x i ?M" "atomic x 0 ?M = 0"
    by (auto simp: case_view_def stage_def)
  have "performs p (thread (watcher database pid)) ?W (Ok ())"
    using execution_spawned [OF ex, of i "[pid]" "[database]"] M(1) by (simp add: sorting_threads_def)
  then have "\<exists>w :: answers world. world.log w = ?W \<and> peaked_at x g w"
    by (rule performs_hoare [OF _ sc_watcher [OF x]]) (simp add: sc_view_def peaked_def)
  then have W: "coherent x 0 ?W \<longrightarrow> atomic x 0 ?W = peak g (samples ?W)"
    by (auto simp: sc_view_def peaked_def samples_def)
  obtain st r where r: "(Os (AtomicLoad x), st, r) \<in> set ?M" "v = r_n r" using loaded_in [of v x ?M] M(2) by auto
  then have ev: "(0, Os (AtomicLoad x), st, r) \<in> set G" by (force simp: of_thread_def)
  have "owned x {0, Suc i} G" by (rule owned_two [OF two_threads [OF ex M(1)]])
  from handover_load [OF ex M(3) this ev] show ?thesis using M(2,4) W r(2) by simp
qed

text \<open>
  C8.  However the watcher of \<open>sorting.cpp\<close> and the sort interleave: the peaks that the main
  thread reads after the join, and prints, are the largest total and the largest number of files over the scans
  that the watcher made of the server's scratch files, or 0 when it made none.
\<close>

theorem peaks_are_maxima:
  assumes "execution p (sorting_case db database pid memIdle i label sql) sorting_threads (Ok ()) G"
  shows "loaded ''peakScratch'' (of_thread 0 G) = [Max (set (0 # map fst (samples (of_thread (Suc i) G))))] \<and>
    loaded ''peakFiles'' (of_thread 0 G) = [Max (set (0 # map snd (samples (of_thread (Suc i) G))))]"
  using case_peak [OF assms, of "''peakScratch''" fst] case_peak [OF assms, of "''peakFiles''" snd]
  unfolding peak_def peak_var_def by simp

text \<open>A run with one scan of two files, of 5 and 7 bytes, before the sort is done.\<close>

definition watch_process :: process where
  "watch_process = \<lparr>p_hdr = demo_headers, p_argv = [], p_environ = Map.empty,
     p_cells = (\<lambda>_. Map.empty)(KAtt := [4 \<mapsto> 1]), p_fresh = 0\<rparr>"

abbreviation watch_db :: Db where
  "watch_db \<equiv> \<lparr>db_att = 4, db_status = 8, db_prov = 9\<rparr>"

definition value_log :: "nat \<Rightarrow> nat \<Rightarrow> string \<Rightarrow> tlog" where
  "value_log t a sql = map (told t) [Att a (Prepare 0 (c_str sql) True), Stmt 0 GetOutputMetadata, Meta 0 GetBuilder, Meta 0 GetCount,
     Meta 0 MetaRelease, Builder 0 BuilderGetMetadata, Builder 0 BuilderRelease, Meta 0 GetMessageLength,
     Stmt 0 (OpenCursor 0 (Some 0)), Curs 0 (FetchNext 0), Curs 0 CursClose, Meta 0 MetaRelease, Stmt 0 StmtFree, Tra 0 Commit]"

definition valued :: "nat \<Rightarrow> call \<Rightarrow> int \<Rightarrow> nat \<times> event" where
  "valued t c n = (t, c, None, no_reply\<lparr>r_n := n, r_null := False\<rparr>)"

definition scan_log :: tlog where
  "scan_log = map (told 1) [Master GetStatus, Master GetDispatcher, Master (GetXpbBuilder DPB),
     Xpb 0 (InsertString isc_dpb_user_name ''SYSDBA''), Xpb 0 (InsertString isc_dpb_password ''masterkey''),
     Xpb 0 (InsertString isc_dpb_lc_ctype ''UTF8''), Xpb 0 GetBuffer, Prov 0 (AttachDatabase ''d'' []), Xpb 0 XpbDispose]
     @ [valued 1 (Os (AtomicLoad ''running'')) 1, valued 1 (Os (Popen (scratch_cmd 42))) 0,
        valued 1 (Os (ScanLong 0)) 5, valued 1 (Os (ScanLong 0)) 7, told 1 (Os (ScanLong 0)), told 1 (Os (Pclose 0)),
        told 1 (Os (AtomicLoad ''peakScratch'')), told 1 (Os (AtomicStore ''peakScratch'' 12)),
        told 1 (Os (AtomicLoad ''peakFiles'')), told 1 (Os (AtomicStore ''peakFiles'' 2)), told 1 (Att 0 (StartTransaction []))]
     @ value_log 1 0 memSql @ [told 1 (Os (AtomicLoad ''peakMem''))]"

definition watch_log :: tlog where
  "watch_log = rev (map (told 0) [Os (AtomicStore ''peakMem'' 0), Os (AtomicStore ''peakFiles'' 0),
       Os (AtomicStore ''peakScratch'' 0), Os (AtomicStore ''running'' 1)]
     @ [valued 0 (Os (SpawnThread 0 [42] [''d''])) 0] @ scan_log
     @ map (told 0) [Att 1 (StartTransaction []), Att 1 (Prepare 0 ''q'' False)]
     @ [(0, Stmt 0 (GetPlan False), None, no_reply\<lparr>r_s := ''-PLAN'', r_null := False\<rparr>)] @ value_log 0 1 ''q''
     @ map (told 0) [Stmt 0 StmtFree, Os (AtomicStore ''running'' 0)]
     @ map (told 1) [Os (AtomicLoad ''running''), Att 0 Detach, Prov 0 ProvRelease, StatusDispose 0]
     @ [told 0 (Os (JoinThread 0)), valued 0 (Os (AtomicLoad ''peakFiles'')) 2,
        valued 0 (Os (AtomicLoad ''peakScratch'')) 12, told 0 (Os (AtomicLoad ''peakMem'')),
        told 0 (Os (AtomicLoad ''peakMem''))])"

lemmas watch_log_defs = watch_log_def scan_log_def value_log_def valued_def told_def no_reply_def

lemma no_rows_atol: "atol (CHR 0x3C # xs) = 0"
  by (simp add: atol_def read_dec_def)

lemmas watch_run = performs_def start_world_def replaying_def watch_process_def watch_log_defs with_Db_def Db_new_def
  Db_destroy_def scoped_def try_fb_def bindP_def seqP_def returning_def ignore_def do_void_def do_call_def handle_of_def
  ask_run run_simps ask_void_def thread_defs os_do_def os_int_def loopP.simps headers_def checked_def attachOrCreate_def
  attachDatabase_def makeDpb_def defaultUser_def defaultPassword_def queryValue_def query_def coerce_columns_def number_of_def
  fetch_all_def cell_at_def commit_def start_tpb_def att_of_def prepare_def getPlan_def attach_def attach_as_def detach_def
  c_str_def no_rows_atol long_sub_def long_add_def

lemma watch_main_run: "performs watch_process (sorting_case watch_db ''d'' 42 0 0 ''l'' ''q'') (of_thread 0 watch_log) (Ok ())"
  by (simp add: sorting_case_def sorting_beside_def watch_run)

lemma watch_thread_run: "performs watch_process (sorting_threads 0 [42] [''d'']) (of_thread 1 watch_log) (Ok ())"
  by (simp add: sorting_threads_def watcher_def watch_loop_def sampleScratch_def scan_sizes_def watch_run)

lemma watch_ordered: "bracketed watch_log" "coherent x 0 (map snd watch_log)" "reads_shared (map snd watch_log)"
  by (auto simp: watch_log_defs)

lemma watch_spawns: "(0, Os (SpawnThread i ns ss), st, r) \<in> set watch_log \<Longrightarrow> i = 0 \<and> ns = [42] \<and> ss = [''d'']"
  by (auto simp: watch_log_defs)

lemma watch_execution:
  "execution watch_process (sorting_case watch_db ''d'' 42 0 0 ''l'' ''q'') sorting_threads (Ok ()) watch_log"
proof -
  have "performs watch_process (sorting_threads i ns ss) (of_thread (Suc i) watch_log) (Ok ())"
    if "(0, ev) \<in> set watch_log" "fst ev = Os (SpawnThread i ns ss)" for ev i ns ss
    using watch_spawns [of i ns ss "fst (snd ev)" "snd (snd ev)"] that watch_thread_run by (cases ev) auto
  then show ?thesis
    unfolding execution_def using watch_main_run watch_ordered by blast
qed

theorem peaks_are_maxima_witness:
  "samples (of_thread 1 watch_log) = [(12, 2)] \<and> loaded ''peakScratch'' (of_thread 0 watch_log) = [12] \<and>
   loaded ''peakFiles'' (of_thread 0 watch_log) = [2]"
proof -
  have "samples (of_thread 1 watch_log) = [(12, 2)]" by (simp add: samples_def watch_log_defs)
  then show ?thesis using peaks_are_maxima [OF watch_execution] by simp
qed

end
