(* ===== verification/Fbcpp_Threads.thy ===== *)
theory Fbcpp_Threads
  imports Fbcpp_Streams Samples_Threads
begin

text \<open>
  The samples of \<open>samples/fb-cpp\<close> with client threads: \<open>threading.cpp\<close>, \<open>lock_manager.cpp\<close>,
  \<open>sorting.cpp\<close>, \<open>trace.cpp\<close> and \<open>parallel_workers.cpp\<close>.  As in \<open>Samples_Threads\<close>, the main thread is
  \<open>fc_<sample>_main\<close> and \<open>fc_<sample>_threads\<close> gives the other threads.  A thread that cannot be started
  is a standard exception, which these mains catch, unless an earlier thread is still to be joined.

  Shown: the main threads respect the lifetimes of their objects, and so does every thread on top
  of the objects it captures.
\<close>


section \<open>Threads and services\<close>

definition fc_spawn :: "nat \<Rightarrow> int list \<Rightarrow> string list \<Rightarrow> ('s, unit) prog" where
  "fc_spawn i ns ss = bindP (ask_void (Os (SpawnThread i ns ss))) (\<lambda>r.
     if r_null r then fail (FbException (std_exception (r_s r))) else ret ())"

text \<open>\<open>Transaction t{att, sql};\<close>\<close>

definition with_TransactionSql :: "nat \<Rightarrow> string \<Rightarrow> (nat \<Rightarrow> ('s, 'a) prog) \<Rightarrow> ('s, 'a) prog" where
  "with_TransactionSql att sql body = fc_scope FTransaction (handle_of (Fc (FcTransactionSql att sql))) body"

definition with_ServiceManager :: "nat \<Rightarrow> fc_opt list \<Rightarrow> (nat \<Rightarrow> ('s, 'a) prog) \<Rightarrow> ('s, 'a) prog" where
  "with_ServiceManager client opts body =
     fc_scope FServiceManager (handle_of (Fc (FcServiceManager client opts))) body"

text \<open>\<open>.value()\<close> throws on an empty optional.\<close>

definition scalar_value_int :: "fc_type \<Rightarrow> nat \<Rightarrow> nat \<Rightarrow> string \<Rightarrow> ('s, int) prog" where
  "scalar_value_int ty att tra sql = bindP (fc_queryInt ty att tra sql) (throwing ''bad optional access'')"


section \<open>threading.cpp\<close>

definition fc_threading_DEFAULT_DB :: string where
  \<open>fc_threading_DEFAULT_DB = ''inet://localhost//tmp/fbhandson/threading_fbcpp.fdb''\<close>

definition fc_threading_countThreads :: "string \<Rightarrow> ('s, nat) prog" where
  \<open>fc_threading_countThreads pid = bindP (ask_void (Os (Opendir (c_str (''/proc/'' @ pid @ ''/task''))))) (\<lambda>d.
      (if r_null d then ret 0
    else (bindP (loopP (\<lambda>n. bindP (ask_void (Os (Readdir (r_h d)))) (\<lambda>e.
      ret (if r_null e then Inr n
          else Inl (if r_s e \<noteq> [] \<and> hd (r_s e) = CHR ''.'' then n else Suc n)))) 0) (\<lambda>n.
      returning
       [os_do (Closedir (r_h d))]
       n))))\<close>

definition fc_threading_printTable :: "nat \<Rightarrow> nat \<Rightarrow> string \<Rightarrow> ('s, unit) prog" where
  \<open>fc_threading_printTable att tra sql = with_Statement att tra sql [] (\<lambda>stmt. bindP (outputDescriptors stmt) (\<lambda>cols.
      let columns = map (\<lambda>d. if d_alias d = [] then d_name d else d_alias d) cols in
      bindP (fetch_rows stmt tra (length cols)) (\<lambda>rs.
      block
       [print \<lparr>names = columns, rows = rs\<rparr>])))\<close>

definition fc_threading_worker :: "string \<Rightarrow> ('s, unit) prog" where
  \<open>fc_threading_worker database = with_Client (\<lambda>c. bindP (fc_defaultOptions) (\<lambda>opts.
      with_Attachment c database opts (\<lambda>w. with_Transaction w [] (\<lambda>wt. block
       [ignore (fc_queryInt FInt64 w wt (''select count(*) from t'')),
        fc_commit wt,
        os_do (SleepMs 2000)]))))\<close>

definition fc_threading_threads :: "nat \<Rightarrow> int list \<Rightarrow> string list \<Rightarrow> ('s, unit) prog" where
  "fc_threading_threads i ns ss = thread (fc_threading_worker (hd ss))"

text \<open>The part of \<open>main\<close> that runs beside the workers, up to the last join.\<close>

definition fc_threading_beside :: "nat \<Rightarrow> string \<Rightarrow> string \<Rightarrow> ('s, unit) prog" where
  \<open>fc_threading_beside att database pid = block
       [for_each [1..<12] (\<lambda>i. fc_spawn i [] [database]),
        os_do (SleepMs 1000),
        with_Transaction att [] (\<lambda>t. bindP (scalar_value_int FInt64 att t (''select count(*) from MON$ATTACHMENTS where MON$SYSTEM_FLAG = 0'')) (\<lambda>users.
      bindP (scalar_value_int FInt64 att t (''select count(distinct MON$SERVER_PID) from MON$ATTACHMENTS'')) (\<lambda>pids.
      seqP
       [fc_commit t] (
      bindP (fc_threading_countThreads pid) (\<lambda>c1.
      block
       [say (''with 12 extra attachments: '' @ show_int (int c1) @ '' threads | '' @
            show_int users @ '' user attachments, '' @ show_int pids @
            '' distinct server pid'' @ nl)]))))),
        for_each [0..<12] (\<lambda>i. join i)]\<close>

definition fc_threading_main :: "('s, int) prog" where
  \<open>fc_threading_main = bindP (fc_argOrDefault 1 fc_threading_DEFAULT_DB) (\<lambda>database.
      try_fb (with_Client (\<lambda>client. with_attachOrCreate client database (\<lambda>att. seqP
       [with_Transaction att [] (\<lambda>t. seqP
       [att_execute att t (''recreate table t (id int primary key, v int)''),
        fc_commit t] (
      with_Transaction att [] (\<lambda>t2. block
       [att_execute att t2 (''update or insert into t values (1, 0) matching (id)''),
        fc_commit t2])))] (
      bindP (with_Transaction att [] (\<lambda>t. bindP (fc_queryString att t ((''select MON$SERVER_PID from MON$ATTACHMENTS '' @
              ''where MON$ATTACHMENT_ID = current_connection''))) (\<lambda>p.
      bindP (throwing ''bad optional access'' p) (\<lambda>pid.
      returning
       [fc_commit t]
       pid)))) (\<lambda>pid.
      bindP (fc_threading_countThreads pid) (\<lambda>c1.
      seqP
       [say (''engine process: pid '' @ (c_str pid) @ '', '' @ show_int (int c1) @
            '' threads (1 attachment open)'' @ nl),
        fc_spawn 0 [] [database],
        joinable (fc_threading_beside att database pid),
        os_do (SleepMs 1000)] (
      bindP (fc_threading_countThreads pid) (\<lambda>c2.
      seqP
       [say (''after they detach:        '' @ show_int (int c2) @
            '' threads (pooled, not destroyed)'' @ nl)] (
      with_Transaction att [] (\<lambda>t. returning
       [fc_threading_printTable att t ((''select MON$ATTACHMENT_ID, MON$SYSTEM_FLAG, trim(MON$USER), '' @
              ''       coalesce(MON$REMOTE_PROCESS, '<internal>') '' @
              ''from MON$ATTACHMENTS order by MON$ATTACHMENT_ID'')),
        fc_commit t]
       0)))))))))) fc_report)\<close>


section \<open>lock_manager.cpp\<close>

definition fc_lock_manager_DEFAULT_DB :: string where
  \<open>fc_lock_manager_DEFAULT_DB = ''inet://localhost//tmp/fbhandson/lock_manager_fbcpp.fdb''\<close>

definition fc_lock_manager_secondsSince :: "int \<Rightarrow> ('s, double) prog" where
  "fc_lock_manager_secondsSince t0 = bindP steady_now (\<lambda>t1. ret (seconds t0 t1))"

definition fc_lock_manager_probe :: "nat \<Rightarrow> string \<Rightarrow> string \<Rightarrow> ('s, unit) prog" where
  \<open>fc_lock_manager_probe att label sql = bindP (steady_now) (\<lambda>t0.
      try_Database (with_TransactionSql att sql (\<lambda>t. bindP (fc_lock_manager_secondsSince t0) (\<lambda>c1.
      block
       [say (ljust 16 label @ '' granted after '' @ fixed 3 c1 @ '' s'' @ nl),
        fc_commit t]))) (\<lambda>e. bindP (fc_lock_manager_secondsSince t0) (\<lambda>c1.
      bindP (what e) (\<lambda>c2.
      block
       [say (ljust 16 label @ '' failed after '' @ fixed 3 c1 @ '' s: '' @ (first_line c2) @ nl)]))))\<close>

definition fc_lock_manager_releaser :: "nat \<Rightarrow> ('s, unit) prog" where
  \<open>fc_lock_manager_releaser hold = block
       [os_do (SleepMs 2000),
        fc_commit hold,
        say (''holder: committed (2 s later) -> lock released'' @ nl)]\<close>

definition fc_lock_manager_crossA :: "nat \<Rightarrow> nat \<Rightarrow> int \<Rightarrow> ('s, unit) prog" where
  \<open>fc_lock_manager_crossA att ta t0 = try_Database (att_execute att ta (''update t1 set v = v + 1 where id = 2'')) (\<lambda>e. bindP (fc_lock_manager_secondsSince t0) (\<lambda>c1.
      bindP (what e) (\<lambda>c2.
      block
       [say (''deadlock: A failed after '' @ fixed 1 c1 @ '' s: '' @ (first_line c2) @ nl),
        store ''aVictim'' 1,
        fc_rollback ta])))\<close>

definition fc_lock_manager_threads :: "nat \<Rightarrow> int list \<Rightarrow> string list \<Rightarrow> ('s, unit) prog" where
  "fc_lock_manager_threads i ns ss = thread
     (if i = 0 then fc_lock_manager_releaser (nat (hd ns))
      else fc_lock_manager_crossA (nat (hd ns)) (nat (ns ! 1)) (ns ! 2))"

definition fc_lock_manager_crossB :: "nat \<Rightarrow> nat \<Rightarrow> int \<Rightarrow> ('s, unit) prog" where
  \<open>fc_lock_manager_crossB att tb t0 = block
       [os_do (SleepMs 300),
        try_Database (seqP
       [att_execute att tb (''update t1 set v = v + 1 where id = 1'')] (
      bindP (fc_lock_manager_secondsSince t0) (\<lambda>c1.
      block
       [say (''deadlock: B's update proceeded after '' @ fixed 1 c1 @ '' s (A was the victim)'' @ nl)]))) (\<lambda>e. bindP (fc_lock_manager_secondsSince t0) (\<lambda>c1.
      bindP (what e) (\<lambda>c2.
      block
       [say (''deadlock: B failed after '' @ fixed 1 c1 @ '' s: '' @ (first_line c2) @ nl),
        store ''bVictim'' 1,
        fc_rollback tb]))),
        join 1]\<close>

definition fc_lock_manager_deadlock :: "nat \<Rightarrow> nat \<Rightarrow> ('s, unit) prog" where
  \<open>fc_lock_manager_deadlock att attb = with_Transaction att [] (\<lambda>ta. with_Transaction attb [] (\<lambda>tb. seqP
       [att_execute att ta (''update t1 set v = v + 1 where id = 1''),
        att_execute attb tb (''update t1 set v = v + 1 where id = 2''),
        store ''aVictim'' 0,
        store ''bVictim'' 0] (
      bindP (steady_now) (\<lambda>t0.
      seqP
       [fc_spawn 1 [int att, int ta, t0] [],
        joinable (fc_lock_manager_crossB attb tb t0)] (
      bindP (load ''aVictim'') (\<lambda>aVictim.
      seqP
       [if aVictim = 0 then fc_rollback ta else ret ()] (
      bindP (load ''bVictim'') (\<lambda>bVictim.
      block
       [if bVictim = 0 then fc_rollback tb else ret (),
        say (''the wait is DeadlockTimeout (10 s default): the cycle sat undetected until the scan.'' @
            nl)]))))))))\<close>

definition fc_lock_manager_main :: "('s, int) prog" where
  \<open>fc_lock_manager_main = bindP (fc_argOrDefault 1 fc_lock_manager_DEFAULT_DB) (\<lambda>database.
      try_fb (with_Client (\<lambda>client. with_attachOrCreate client database (\<lambda>a. bindP (fc_defaultOptions) (\<lambda>opts.
      with_Attachment client database opts (\<lambda>b. seqP
       [with_Transaction a [] (\<lambda>ddl. seqP
       [try_Database (att_execute a ddl (''drop table t1'')) (\<lambda>_. ret ()),
        fc_commit ddl] (
      with_Transaction a [] (\<lambda>ddl2. seqP
       [att_execute a ddl2 (''create table t1 (id int primary key, v int)''),
        fc_commit ddl2] (
      with_Transaction a [] (\<lambda>insT. block
       [att_execute a insT (''insert into t1 values (1, 0)''),
        att_execute a insT (''insert into t1 values (2, 0)''),
        fc_commit insT])))))] (
      with_TransactionSql a (''SET TRANSACTION WAIT RESERVING t1 FOR PROTECTED WRITE'') (\<lambda>hold. returning
       [say (''holder: t1 reserved FOR PROTECTED WRITE (LCK_relation at LCK_EX)'' @ nl),
        fc_lock_manager_probe b (''NO WAIT:'') (''SET TRANSACTION NO WAIT RESERVING t1 FOR PROTECTED WRITE''),
        fc_lock_manager_probe b (''LOCK TIMEOUT 3:'') (''SET TRANSACTION LOCK TIMEOUT 3 RESERVING t1 FOR PROTECTED WRITE''),
        fc_spawn 0 [int hold] [],
        joinable (block
       [fc_lock_manager_probe b (''WAIT:'') (''SET TRANSACTION WAIT RESERVING t1 FOR PROTECTED WRITE''),
        join 0]),
        say (''building deadlock: A updates row 1, B updates row 2, then cross...'' @ nl),
        fc_lock_manager_deadlock a b]
       0))))))) fc_report)\<close>


section \<open>sorting.cpp\<close>

definition fc_sorting_memSql :: string where
  \<open>fc_sorting_memSql = (''select m.mon$memory_allocated from mon$database d '' @
    ''join mon$memory_usage m on m.mon$stat_id = d.mon$stat_id'')\<close>

definition fc_sorting_sampleScratch :: "int \<Rightarrow> ('s, unit) prog" where
  \<open>fc_sorting_sampleScratch pid = bindP (ask_void (Os (Popen (take 255 (''sudo -n find /proc/'' @ show_int pid @
            ''/fd -lname '*fb_sort*' -print0 2>/dev/null | xargs -0 -r sudo -n stat -L -c %s 2>/dev/null''))))) (\<lambda>p.
      (if r_null p then ret ()
    else (bindP (loopP (\<lambda>tf. bindP (ask_void (Os (ScanLong (r_h p)))) (\<lambda>s.
      (if r_null s then ret (Inr tf)
        else (bindP (long_add (fst tf) (r_n s)) (\<lambda>total.
      ret (Inl (total, snd tf + 1))))))) (0, 0)) (\<lambda>tf.
      block
       [os_do (Pclose (r_h p)),
        raise_to ''peakScratch'' (fst tf),
        raise_to ''peakFiles'' (snd tf)]))))\<close>

definition fc_sorting_watch_loop :: "nat \<Rightarrow> int \<Rightarrow> ('s, unit) prog" where
  \<open>fc_sorting_watch_loop att pid = loopP (\<lambda>_. bindP (load ''running'') (\<lambda>run.
      (if run = 0 then ret (Inr ())
    else (seqP
       [fc_sorting_sampleScratch pid] (
      with_Transaction att [] (\<lambda>t. with_Statement att t fc_sorting_memSql [] (\<lambda>stmt. seqP
       [ignore (fc_execute stmt t)] (
      bindP (int_or FInt64 stmt 0 0) (\<lambda>mem.
      returning
       [fc_commit t,
        raise_to ''peakMem'' mem]
       (Inl ())))))))))) ()\<close>

definition fc_sorting_watcher :: "nat \<Rightarrow> string \<Rightarrow> int \<Rightarrow> ('s, unit) prog" where
  \<open>fc_sorting_watcher client database pid = bindP (fc_defaultOptions) (\<lambda>opts.
      with_Attachment client database opts (\<lambda>mon. fc_sorting_watch_loop mon pid))\<close>

definition fc_sorting_threads :: "nat \<Rightarrow> int list \<Rightarrow> string list \<Rightarrow> ('s, unit) prog" where
  "fc_sorting_threads i ns ss = thread (fc_sorting_watcher (nat (hd ns)) (hd ss) (ns ! 1))"

text \<open>One iteration of the loop over the cases; after the join nothing in it throws.\<close>

definition fc_sorting_case :: "nat \<Rightarrow> nat \<Rightarrow> string \<Rightarrow> int \<Rightarrow> int \<Rightarrow> nat \<Rightarrow> string \<Rightarrow> string \<Rightarrow> ('s, unit) prog" where
  \<open>fc_sorting_case client att database pid memIdle i label sql = block
       [store ''peakMem'' 0,
        store ''peakFiles'' 0,
        store ''peakScratch'' 0,
        store ''running'' 1,
        fc_spawn i [int client, pid] [database],
        joinable (with_Transaction att [] (\<lambda>tra. with_Statement att tra sql [SetPrefetchLegacyPlan True] (\<lambda>stmt. bindP (legacyPlan stmt) (\<lambda>plan.
      seqP
       [say (nl @ label @ nl @ ''  '' @ (c_str (strip_newlines plan)) @ nl),
        ignore (fc_execute stmt tra)] (
      bindP (int_or FInt32 stmt 0 (- 1)) (\<lambda>top.
      seqP
       [fc_commit tra,
        store ''running'' 0,
        join i,
        say (''  top row id = '' @ show_int top @ nl)] (
      bindP (load ''peakFiles'') (\<lambda>files.
      bindP (load ''peakScratch'') (\<lambda>scratch.
      seqP
       [say (''  peak fb_sort_* scratch: '' @ show_int files @ '' file(s), '' @
            show_int scratch @ '' bytes'' @ nl)] (
      bindP (load ''peakMem'') (\<lambda>mem.
      bindP (load ''peakMem'') (\<lambda>mem2.
      bindP (long_sub mem2 memIdle) (\<lambda>over.
      block
       [say (''  peak database MON$MEMORY_ALLOCATED: '' @ show_int mem @ '' bytes (+'' @
            show_int over @ '' over idle)'' @ nl)])))))))))))))]\<close>

definition fc_sorting_main :: "('s, int) prog" where
  \<open>fc_sorting_main = bindP (fc_argOrDefault 1 ''inet://localhost//tmp/fbhandson/sorting_fbcpp.fdb'') (\<lambda>database.
      try_fb (with_Client (\<lambda>client. with_attachOrCreate client database (\<lambda>att. seqP
       [with_Transaction att [] (\<lambda>t. block
       [att_execute att t (''recreate table bulk (id integer, pad varchar(400) character set ascii)''),
        fc_commit t]),
        with_Transaction att [] (\<lambda>t. block
       [att_execute att t ((''execute block as declare i integer = 0; begin'' @
                ''  while (i < 200000) do begin'' @
                ''    insert into bulk values (:i, rpad(uuid_to_char(gen_uuid()), 400, 'x'));'' @
                ''    i = i + 1;'' @
                ''  end '' @
                ''end'')),
        fc_commit t]),
        say (''bulk: 200000 rows, 400-byte ASCII key -> ~82 MB of sort data'' @ nl)] (
      bindP (with_Transaction att [] (\<lambda>t. with_Statement att t ((''select mon$server_pid from mon$attachments '' @
              ''where mon$attachment_id = current_connection'')) [] (\<lambda>s1. seqP
       [ignore (fc_execute s1 t)] (
      bindP (int_or FInt32 s1 0 0) (\<lambda>pid.
      with_Statement att t fc_sorting_memSql [] (\<lambda>s2. seqP
       [ignore (fc_execute s2 t)] (
      bindP (int_or FInt64 s2 0 0) (\<lambda>memIdle.
      returning
       [fc_commit t]
       (pid, memIdle))))))))) (\<lambda>pm.
      returning
       [say (''server pid '' @ show_int (fst pm) @
            '', database memory allocated while idle: '' @ show_int (snd pm) @ '' bytes'' @
            nl),
        fc_sorting_case client att database (fst pm) (snd pm) 0 (''big sort (200k rows, ~82 MB)'')
            (''select first 1 id from bulk order by pad desc''),
        fc_sorting_case client att database (fst pm) (snd pm) 1 (''small sort (20k rows, ~8 MB)'')
            (''select first 1 id from bulk where mod(id, 10) = 0 order by pad desc''),
        say (nl @ ''done.'' @ nl)]
       0))))) fc_report)\<close>


section \<open>trace.cpp\<close>

definition fc_trace_DB_PATH :: string where
  \<open>fc_trace_DB_PATH = ''/tmp/fbhandson/trace_fbcpp.fdb''\<close>

definition fc_trace_TRACE_CFG :: string where
  \<open>fc_trace_TRACE_CFG = (''database = /tmp/fbhandson/trace_fbcpp.fdb'' @ nl @
    ''{'' @ nl @
    ''  enabled = true'' @ nl @
    ''  log_connections = true'' @ nl @
    ''  log_transactions = true'' @ nl @
    ''  log_statement_finish = true'' @ nl @
    ''  print_plan = true'' @ nl @
    ''  print_perf = true'' @ nl @
    ''  time_threshold = 0'' @ nl @
    ''}'' @ nl)\<close>

definition fc_trace_svcOptions :: "('s, fc_opt list) prog" where
  \<open>fc_trace_svcOptions = bindP (envOr ''ISC_USER'' (''SYSDBA'')) (\<lambda>u.
      bindP (envOr ''ISC_PASSWORD'' (''masterkey'')) (\<lambda>p.
      ret [SetServer ''localhost'', SetUserName u, SetPassword p]))\<close>

text \<open>A failed query, or another item than a line, ends the stream.\<close>

definition fc_trace_nextLine :: "nat \<Rightarrow> ('s, string option) prog" where
  \<open>fc_trace_nextLine svc = bindP (ask_both (Svc svc (SvcQuery [isc_info_svc_line] 4096))) (\<lambda>r.
      bindP (headers) (\<lambda>h.
      (if fst r \<noteq> None then ret None else checked ''line'' (line_of h (fit 4096 (r_b (snd r)))))))\<close>

definition fc_trace_lines :: "nat \<Rightarrow> (string \<Rightarrow> ('s, unit) prog) \<Rightarrow> ('s, unit) prog" where
  \<open>fc_trace_lines svc f = loopP (\<lambda>_. bindP (fc_trace_nextLine svc) (\<lambda>l.
      (case l of None \<Rightarrow> ret (Inr ()) | Some line \<Rightarrow> (returning
       [f line]
       (Inl ()))))) ()\<close>

text \<open>
  A builder of parameters through a status that is not thrown: each call leaves its own status,
  and a builder that could not be had is a null pointer.
\<close>

definition xpb_checked :: "('s, nat) prog" where
  \<open>xpb_checked = bindP (ask_both (Master (GetXpbBuilder SPB_START))) (\<lambda>r.
      checked ''null builder'' (if fst r = None then Some (r_h (snd r)) else None))\<close>

definition fc_trace_start :: "nat \<Rightarrow> ('s, unit) prog" where
  \<open>fc_trace_start svc = bindP (xpb_checked) (\<lambda>start.
      seqP
       [ignore (ask_check (Xpb start (InsertTag isc_action_svc_trace_start))),
        ignore (ask_check (Xpb start (InsertString isc_spb_trc_name (''hands-on (fb-cpp)'')))),
        ignore (ask_check (Xpb start (InsertString isc_spb_trc_cfg fc_trace_TRACE_CFG)))] (
      bindP (ask_both (Xpb start GetBuffer)) (\<lambda>b.
      bindP (ask_check (Svc svc (SvcStart (r_b (snd b))))) (\<lambda>st.
      block
       [do_void (Xpb start XpbDispose),
        if st \<noteq> None then fail (FbException (fc_exception ''trace_start failed'')) else ret ()]))))\<close>

definition fc_trace_marker :: "('s, unit) prog" where
  \<open>fc_trace_marker = try_fb (with_Client (\<lambda>c. bindP (fc_defaultOptions) (\<lambda>opts.
      with_Attachment c ((''inet://localhost/'') @ fc_trace_DB_PATH) opts (\<lambda>att. with_Transaction att [] (\<lambda>tra. with_Statement att tra (''SELECT COUNT(*) FROM RDB$RELATIONS /* traced! */'') [] (\<lambda>marker. seqP
       [ignore (fc_execute marker tra)] (
      bindP (str_deref marker 0) (\<lambda>c1.
      block
       [say (''[worker] marker query says: '' @ c1 @ nl),
        fc_commit tra])))))))) (\<lambda>e. ignore (fc_report e))\<close>

definition fc_trace_await :: "('s, unit) prog" where
  \<open>fc_trace_await = loopP (\<lambda>_. bindP (load ''sessionId'') (\<lambda>id.
      (if id \<noteq> 0 then ret (Inr ())
    else (returning
       [os_do (SleepMs 50)]
       (Inl ()))))) ()\<close>

definition fc_trace_stop :: "('s, unit) prog" where
  \<open>fc_trace_stop = try_fb (with_Client (\<lambda>c. bindP (fc_trace_svcOptions) (\<lambda>opts.
      with_ServiceManager c opts (\<lambda>svcB. bindP (ask_void (Master GetStatus)) (\<lambda>st2.
      bindP (xpb_checked) (\<lambda>stop.
      seqP
       [ignore (ask_check (Xpb stop (InsertTag isc_action_svc_trace_stop)))] (
      bindP (load ''sessionId'') (\<lambda>id.
      seqP
       [ignore (ask_check (Xpb stop (InsertInt isc_spb_trc_id id)))] (
      bindP (ask_both (Xpb stop GetBuffer)) (\<lambda>b.
      block
       [ignore (ask_check (Svc svcB (SvcStart (r_b (snd b))))),
        do_void (Xpb stop XpbDispose),
        fc_trace_lines svcB (\<lambda>line. block
       [say (''[stop ] '' @ (c_str line) @ nl)]),
        do_void (StatusDispose (r_h st2))])))))))))) (\<lambda>e. ignore (fc_report e))\<close>

definition fc_trace_worker :: "('s, unit) prog" where
  \<open>fc_trace_worker = block
       [os_do (SleepMs 800),
        fc_trace_marker,
        os_do (SleepMs 1200),
        fc_trace_await,
        fc_trace_stop]\<close>

definition fc_trace_threads :: "nat \<Rightarrow> int list \<Rightarrow> string list \<Rightarrow> ('s, unit) prog" where
  "fc_trace_threads i ns ss = thread fc_trace_worker"

definition fc_trace_line :: "string \<Rightarrow> ('s, unit) prog" where
  \<open>fc_trace_line line = seqP
       [say (''[trace] '' @ (c_str line) @ nl)] (
      (case session_id line of None \<Rightarrow> ret () | Some n \<Rightarrow> (bindP (int_range n) (\<lambda>id.
      block
       [store ''sessionId'' id]))))\<close>

definition fc_trace_main :: "('s, int) prog" where
  \<open>fc_trace_main = try_fb (with_Client (\<lambda>client. seqP
       [with_attachOrCreate client ((''inet://localhost/'') @ fc_trace_DB_PATH) (\<lambda>_. ret ())] (
      bindP (fc_trace_svcOptions) (\<lambda>opts.
      with_ServiceManager client opts (\<lambda>svcA. bindP (ask_void (Master GetStatus)) (\<lambda>st.
      returning
       [fc_trace_start svcA,
        store ''sessionId'' 0,
        fc_spawn 0 [] [],
        joinable (block
       [fc_trace_lines svcA fc_trace_line,
        join 0]),
        do_void (StatusDispose (r_h st)),
        say (''done.'' @ nl)]
       0)))))) fc_report\<close>


section \<open>parallel_workers.cpp\<close>

definition fc_parallel_workers_ROOT :: string where
  \<open>fc_parallel_workers_ROOT = ''/tmp/fbhandson/fbroot-parallel-fbcpp''\<close>

definition fc_parallel_workers_makeRoot :: "('s, unit) prog" where
  \<open>fc_parallel_workers_makeRoot = seqP
       [os_do (Mkdir fc_parallel_workers_ROOT),
        for_each [''plugins'', ''intl'', ''firebird.msg'', ''tzdata'', ''plugins.conf'', ''databases.conf'']
      (\<lambda>f. os_do (Symlink (''/opt/firebird/'' @ f) (fc_parallel_workers_ROOT @ ''/'' @ f)))] (
      bindP (ask_void (Os (WriteFile (fc_parallel_workers_ROOT @ ''/firebird.conf'')
      ((''ServerMode = Super'' @ nl @ ''ParallelWorkers = 4'' @ nl @ ''MaxParallelWorkers = 8'' @ nl))))) (\<lambda>r.
      block
       [if r_null r then fail (UB ''fputs to a null FILE'') else ret ()]))\<close>

definition fc_parallel_workers_knob :: "nat \<Rightarrow> nat \<Rightarrow> string \<Rightarrow> ('s, string) prog" where
  \<open>fc_parallel_workers_knob att tra knob = scalar_string_or att tra
    (((''select rdb$config_value from rdb$config where rdb$config_name = '' @ [CHR 0x27])) @ knob @ ([CHR 0x27])) ''?''\<close>

definition fc_parallel_workers_knobs :: "nat \<Rightarrow> nat \<Rightarrow> ('s, string) prog" where
  \<open>fc_parallel_workers_knobs att tra = bindP (fc_parallel_workers_knob att tra ''ParallelWorkers'') (\<lambda>a.
      bindP (fc_parallel_workers_knob att tra ''MaxParallelWorkers'') (\<lambda>b.
      ret (''ParallelWorkers = '' @ a @ '', MaxParallelWorkers = '' @ b)))\<close>

text \<open>\<open>static_cast<int>\<close> of a 64-bit number.\<close>

definition static_int :: "int \<Rightarrow> int" where
  "static_int n = sint (word_of_int n :: 32 word)"

definition fc_parallel_workers_remote :: "nat \<Rightarrow> string \<Rightarrow> ('s, unit) prog" where
  \<open>fc_parallel_workers_remote client remoteDb = seqP
       [with_attachOrCreate client remoteDb (\<lambda>_. ret ())] (
      bindP (fc_defaultOptions) (\<lambda>opts.
      bindP (headers) (\<lambda>h.
      with_Attachment client remoteDb (opts @ [SetDpb [of_nat (xpb_val h isc_dpb_version1),
      of_nat (xpb_val h isc_dpb_parallel_workers), 4, 4, 0, 0, 0]]) (\<lambda>att. seqP
       [say (''[A] server attach, isc_dpb_parallel_workers = 4 via raw DPB'' @ nl)] (
      with_Transaction att [] (\<lambda>tra. bindP (scalar_int_or FInt32 att tra ((''select mon$parallel_workers from mon$attachments '' @
            ''where mon$attachment_id = current_connection'')) (- 1)) (\<lambda>c1.
      seqP
       [say (''    granted: mon$parallel_workers = '' @ show_int c1 @
            '' (fb-cpp discards the isc_bad_par_workers warning)'' @ nl)] (
      bindP (fc_parallel_workers_knobs att tra) (\<lambda>c2.
      block
       [say (''    server config: '' @ (c_str c2) @ '' -> request clamped, 0 extra workers'' @ nl @ nl),
        fc_commit tra])))))))))\<close>

text \<open>The widest moment so far: the roster is written anew.\<close>

definition fc_parallel_workers_roster :: "nat \<Rightarrow> nat \<Rightarrow> ('s, unit) prog" where
  \<open>fc_parallel_workers_roster att t = seqP
       [os_do (SharedWrite ''roster'' [])] (
      with_Statement att t ((''select trim(mon$user), mon$system_flag '' @
      ''from mon$attachments order by mon$attachment_id'')) [] (\<lambda>allS. block
       [for_rows allS t (bindP (string_or allS 0 ''?'') (\<lambda>u.
      bindP (int_or FInt32 allS 1 (- 1)) (\<lambda>f.
      block
       [os_do (SharedAppend ''roster'' (''        '' @ u @ ''  (system_flag '' @ show_int f @ ('')'' @ nl)))])))]))\<close>

definition fc_parallel_workers_poll_loop :: "nat \<Rightarrow> ('s, unit) prog" where
  \<open>fc_parallel_workers_poll_loop att = loopP (\<lambda>_. bindP (load ''stop'') (\<lambda>stop.
      (if stop \<noteq> 0 then ret (Inr ())
    else (with_Transaction att [] (\<lambda>t. bindP (fc_queryInt FInt64 att t ((''select count(*) from mon$attachments '' @
          ''where mon$user = '<Worker>'' @ [CHR 0x27]))) (\<lambda>v.
      bindP (checked ''optional'' (map_option static_int v)) (\<lambda>n.
      bindP (load ''maxSeen'') (\<lambda>seen.
      returning
       [(if n > seen then (block
       [store ''maxSeen'' n,
        fc_parallel_workers_roster att t]) else ret ()),
        fc_commit t,
        os_do (SleepMs 20)]
       (Inl ()))))))))) ()\<close>

definition fc_parallel_workers_poller :: "nat \<Rightarrow> string \<Rightarrow> ('s, unit) prog" where
  \<open>fc_parallel_workers_poller client embeddedDb = try_FbCpp (bindP (fc_defaultOptions) (\<lambda>opts.
      with_Attachment client embeddedDb opts fc_parallel_workers_poll_loop)) (\<lambda>_. ret ())\<close>

definition fc_parallel_workers_threads :: "nat \<Rightarrow> int list \<Rightarrow> string list \<Rightarrow> ('s, unit) prog" where
  "fc_parallel_workers_threads i ns ss = thread (fc_parallel_workers_poller (nat (hd ns)) (hd ss))"

definition fc_parallel_workers_build :: "nat \<Rightarrow> nat \<Rightarrow> nat \<Rightarrow> string \<Rightarrow> ('s, unit) prog" where
  \<open>fc_parallel_workers_build client att tra embeddedDb = seqP
       [store ''maxSeen'' 0,
        store ''stop'' 0,
        os_do (SharedWrite ''roster'' []),
        fc_spawn 0 [int client] [embeddedDb]] (
      bindP (joinable (bindP (steady_now) (\<lambda>t0.
      seqP
       [att_execute att tra (''create index ix_parade on parade (val)''),
        fc_commitRetaining tra] (
      bindP (since t0) (\<lambda>ms.
      returning
       [store ''stop'' 1,
        join 0]
       ms))))) (\<lambda>ms.
      bindP (load ''maxSeen'') (\<lambda>seen.
      seqP
       [say (''    create index: '' @ fixed 0 ms @ '' ms; max '<Worker>' attachments seen: '' @
            show_int seen @ nl)] (
      bindP (ask_void (Os (SharedRead ''roster''))) (\<lambda>roster.
      block
       [say (''    MON$ATTACHMENTS at the widest moment:'' @ nl @ (c_str (r_s roster)))])))))\<close>

definition fc_parallel_workers_main :: "('s, int) prog" where
  \<open>fc_parallel_workers_main = seqP
       [setenv ''FIREBIRD'' fc_parallel_workers_ROOT True,
        fc_parallel_workers_makeRoot] (
      bindP (fc_argOrDefault 1 ''inet://localhost//tmp/fbhandson/parallel_fbcpp.fdb'') (\<lambda>remoteDb.
      bindP (fc_argOrDefault 2 ''/tmp/fbhandson/par_embedded_fbcpp.fdb'') (\<lambda>embeddedDb.
      try_fb (with_Client (\<lambda>client. seqP
       [fc_parallel_workers_remote client remoteDb] (
      with_attachOrCreate client embeddedDb (\<lambda>att. with_Transaction att [] (\<lambda>tra. seqP
       [say (''[B] embedded attach, FIREBIRD='' @ fc_parallel_workers_ROOT @ nl)] (
      bindP (fc_parallel_workers_knobs att tra) (\<lambda>c1.
      seqP
       [say (''    engine config: '' @ (c_str c1) @ nl),
        try_Database (att_execute att tra (''drop table parade'')) (\<lambda>_. ret ()),
        att_execute att tra (''create table parade (id int, val varchar(200))''),
        fc_commitRetaining tra,
        att_execute att tra ((''execute block as declare n int = 0; begin '' @
              ''  while (n < 200000) do begin '' @
              ''    insert into parade values (:n, '' @
              ''      uuid_to_char(gen_uuid()) || uuid_to_char(gen_uuid()) || '' @
              ''      uuid_to_char(gen_uuid()) || uuid_to_char(gen_uuid()) || '' @
              ''      uuid_to_char(gen_uuid())); '' @
              ''    n = n + 1; '' @
              ''  end end'')),
        fc_commitRetaining tra] (
      bindP (scalar_int_or FInt64 att tra ((''select count(*) from rdb$pages p join rdb$relations r '' @
                ''  on p.rdb$relation_id = r.rdb$relation_id '' @
                ''where r.rdb$relation_name = 'PARADE' and p.rdb$page_type = 4'')) 0) (\<lambda>c2.
      seqP
       [say (''    parade table: 200000 rows of 180 incompressible bytes, '' @ show_int c2 @
            '' pointer pages'' @ nl),
        fc_parallel_workers_build client att tra embeddedDb] (
      bindP (scalar_int_or FInt64 att tra ((''select count(*) from mon$attachments '' @
                ''where mon$user = '<Worker>'' @ [CHR 0x27])) 0) (\<lambda>c3.
      returning
       [say (''    after build: workers stay pooled (idle timeout 60 s): '' @ show_int c3 @ nl),
        fc_commit tra,
        say (''done.'' @ nl)]
       0))))))))))) fc_report)))\<close>


section \<open>Lifetimes and reports\<close>

text \<open>The twins sample the scratch files and count the threads with the code of their originals.\<close>

lemma fc_sampleScratch_eq: "fc_sorting_sampleScratch = sampleScratch"
  by (intro ext) (simp only: fc_sorting_sampleScratch_def sampleScratch_def scan_sizes_def scratch_cmd_def)

lemma fc_countThreads_eq: "fc_threading_countThreads = countThreads"
  by (intro ext) (simp only: fc_threading_countThreads_def countThreads_def)

lemma tame_xpb [simp]: "tame (Xpb h x) s"
  by (simp add: tame_def live_step_def)

lemma live_ask_check [live_rules]: "tame c s \<Longrightarrow> keeps (lives s) (ask_check c)"
  by (rule keepsI) (auto simp: ask_check_def lives_def tame_def split: prod.splits)

lemma live_joinable [live_rules]: "keeps (lives s) m \<Longrightarrow> keeps (lives s) (joinable m)"
  unfolding joinable_def by (intro keeps_rules)

lemma live_thread [live_rules]: "keeps (lives s) m \<Longrightarrow> keeps (lives s) (thread m)"
  unfolding thread_def by (intro keeps_rules)

lemma live_thread_calls [live_rules]:
  "keeps (lives s) (fc_spawn i ns ss)" "keeps (lives s) (join i)" "keeps (lives s) (load x)"
  "keeps (lives s) (store x v)" "keeps (lives s) (raise_to x v)" "keeps (lives s) steady_now"
  "keeps (lives s) (since t0)" "keeps (lives s) (long_add a b)" "keeps (lives s) (long_sub a b)"
  "keeps (lives s) (int_range v)" "keeps (lives s) (envOr y d)" "keeps (lives s) (countThreads pid)"
  "keeps (lives s) (sampleScratch n)" "keeps (lives s) fc_trace_svcOptions" "keeps (lives s) xpb_checked"
  "keeps (lives s) (fc_trace_nextLine svc)" "keeps (lives s) fc_trace_await"
  unfolding fc_spawn_def thread_defs steady_now_def since_def long_add_def long_sub_def int_range_def envOr_def
    countThreads_def sampleScratch_def scan_sizes_def fc_trace_svcOptions_def xpb_checked_def fc_trace_nextLine_def
    fc_trace_await_def
  by (intro keeps_rules live_rules; simp)+

lemma live_thread_scopes [live_rules]:
  "(FAttachment, a) \<in> set s \<Longrightarrow> (\<And>h. keeps (lives ((FTransaction, h) # s)) (b1 h))
     \<Longrightarrow> keeps (lives s) (with_TransactionSql a sql b1)"
  "(FClient, cl) \<in> set s \<Longrightarrow> (\<And>h. keeps (lives ((FServiceManager, h) # s)) (b2 h))
     \<Longrightarrow> keeps (lives s) (with_ServiceManager cl o2 b2)"
  unfolding with_TransactionSql_def with_ServiceManager_def
  by (rule live_fc_scope, rule makes_ctor; simp add: constructs_def uses_def)+

lemma live_scalar_value [live_rules]:
  "(FAttachment, a) \<in> set s \<Longrightarrow> (FTransaction, t) \<in> set s \<Longrightarrow> keeps (lives s) (scalar_value_int ty a t sql)"
  unfolding scalar_value_int_def by (intro keeps_rules live_rules)

lemma live_trace_lines [live_rules]:
  "(\<And>l. keeps (lives s) (f l)) \<Longrightarrow> keeps (lives s) (fc_trace_lines svc f)"
  "keeps (lives s) (fc_trace_line l)" "keeps (lives s) (fc_trace_start svc)"
  unfolding fc_trace_lines_def fc_trace_line_def fc_trace_start_def
  by (intro keeps_rules live_rules; simp)+

lemma live_threading [live_rules]:
  "(FAttachment, a) \<in> set s \<Longrightarrow> (FTransaction, t) \<in> set s \<Longrightarrow> keeps (lives s) (fc_threading_printTable a t sql)"
  "(FAttachment, a) \<in> set s \<Longrightarrow> keeps (lives s) (fc_threading_beside a d pid)"
  unfolding fc_threading_printTable_def fc_threading_beside_def fc_countThreads_eq
  by (intro keeps_rules live_rules; simp)+

lemma live_lock_manager [live_rules]:
  "keeps (lives s) (fc_lock_manager_secondsSince t0)"
  "(FAttachment, a) \<in> set s \<Longrightarrow> keeps (lives s) (fc_lock_manager_probe a l sql)"
  "(FAttachment, a) \<in> set s \<Longrightarrow> (FTransaction, t) \<in> set s \<Longrightarrow> keeps (lives s) (fc_lock_manager_crossB a t t0)"
  "(FAttachment, a) \<in> set s \<Longrightarrow> (FAttachment, b) \<in> set s \<Longrightarrow> keeps (lives s) (fc_lock_manager_deadlock a b)"
  unfolding fc_lock_manager_deadlock_def fc_lock_manager_probe_def fc_lock_manager_crossB_def
    fc_lock_manager_secondsSince_def
  by (intro keeps_rules live_rules; simp)+

lemma live_sorting [live_rules]:
  "(FAttachment, a) \<in> set s \<Longrightarrow> keeps (lives s) (fc_sorting_watch_loop a pid)"
  "(FAttachment, a) \<in> set s \<Longrightarrow> keeps (lives s) (fc_sorting_case cl a d pid mi i l sql)"
  unfolding fc_sorting_watch_loop_def fc_sorting_case_def fc_sampleScratch_eq
  by (intro keeps_rules live_rules; simp)+

lemma live_parallel [live_rules]:
  "keeps (lives s) fc_parallel_workers_makeRoot"
  "(FAttachment, a) \<in> set s \<Longrightarrow> (FTransaction, t) \<in> set s \<Longrightarrow> keeps (lives s) (fc_parallel_workers_knobs a t)"
  "(FClient, cl) \<in> set s \<Longrightarrow> keeps (lives s) (fc_parallel_workers_remote cl d)"
  "(FAttachment, a) \<in> set s \<Longrightarrow> (FTransaction, t) \<in> set s \<Longrightarrow> keeps (lives s) (fc_parallel_workers_roster a t)"
  "(FAttachment, a) \<in> set s \<Longrightarrow> keeps (lives s) (fc_parallel_workers_poll_loop a)"
  "(FAttachment, a) \<in> set s \<Longrightarrow> (FTransaction, t) \<in> set s \<Longrightarrow> keeps (lives s) (fc_parallel_workers_build cl a t d)"
  unfolding fc_parallel_workers_build_def fc_parallel_workers_makeRoot_def fc_parallel_workers_remote_def
    fc_parallel_workers_knobs_def fc_parallel_workers_knob_def fc_parallel_workers_roster_def
    fc_parallel_workers_poll_loop_def
  by (intro keeps_rules live_rules; simp)+

text \<open>Every thread, on top of the objects it captures.\<close>

lemma live_fc_bodies [live_rules]:
  "keeps (lives s) (fc_threading_worker d)"
  "(FTransaction, t) \<in> set s \<Longrightarrow> keeps (lives s) (fc_lock_manager_releaser t)"
  "(FAttachment, a) \<in> set s \<Longrightarrow> (FTransaction, t) \<in> set s \<Longrightarrow> keeps (lives s) (fc_lock_manager_crossA a t t0)"
  "(FClient, cl) \<in> set s \<Longrightarrow> keeps (lives s) (fc_sorting_watcher cl d pid)"
  "keeps (lives s) fc_trace_marker" "keeps (lives s) fc_trace_stop"
  "(FClient, cl) \<in> set s \<Longrightarrow> keeps (lives s) (fc_parallel_workers_poller cl d)"
  unfolding fc_threading_worker_def fc_lock_manager_releaser_def fc_lock_manager_crossA_def fc_sorting_watcher_def
    fc_trace_marker_def fc_trace_stop_def fc_parallel_workers_poller_def
  by (intro keeps_rules live_rules; simp)+

lemma live_fc_threads:
  "keeps (lives s) (fc_threading_threads i ns ss)"
  "(FTransaction, nat (hd ns)) \<in> set s \<Longrightarrow> keeps (lives s) (fc_lock_manager_threads 0 ns ss)"
  "(FAttachment, nat (hd ns)) \<in> set s \<Longrightarrow> (FTransaction, nat (ns ! 1)) \<in> set s
     \<Longrightarrow> keeps (lives s) (fc_lock_manager_threads 1 ns ss)"
  "(FClient, nat (hd ns)) \<in> set s \<Longrightarrow> keeps (lives s) (fc_sorting_threads i ns ss)"
  "keeps (lives s) (fc_trace_threads i ns ss)"
  "(FClient, nat (hd ns)) \<in> set s \<Longrightarrow> keeps (lives s) (fc_parallel_workers_threads i ns ss)"
  unfolding fc_threading_threads_def fc_lock_manager_threads_def fc_sorting_threads_def fc_trace_threads_def
    fc_trace_worker_def fc_parallel_workers_threads_def
  by (auto intro!: keeps_rules live_rules simp del: block.simps)

definition fcthread_mains :: "('s, int) prog list" where
  "fcthread_mains = [fc_threading_main, fc_lock_manager_main, fc_sorting_main, fc_trace_main, fc_parallel_workers_main]"

lemmas fcthread_defs = fc_threading_main_def fc_lock_manager_main_def fc_sorting_main_def fc_trace_main_def
  fc_parallel_workers_main_def

lemma fcthread_lives: "\<forall>m \<in> set fcthread_mains. keeps (lives s) m"
  unfolding fcthread_mains_def fcthread_defs list.set ball_simps fc_countThreads_eq
  by (intro conjI TrueI keeps_rules live_rules; simp)

lemma returns_ok_fc_threads [returns_rules]:
  "(\<And>h. returns_ok (body h)) \<Longrightarrow> returns_ok (with_TransactionSql a sql body)"
  "(\<And>h. returns_ok (body h)) \<Longrightarrow> returns_ok (with_ServiceManager cl o1 body)"
  unfolding with_TransactionSql_def with_ServiceManager_def by (rule returns_ok_fc_scope; assumption)+

lemma fc_makeRoot_eq: "fc_parallel_workers_makeRoot = makeRoot fc_parallel_workers_ROOT"
  by (simp only: fc_parallel_workers_makeRoot_def makeRoot_def)

lemma nothrow_fc_root: "nothrow fc_parallel_workers_makeRoot"
  unfolding fc_makeRoot_eq by (rule nothrow_root)

lemma fcthread_reports: "\<forall>m \<in> set fcthread_mains. reports m"
  unfolding fcthread_mains_def fcthread_defs list.set ball_simps
  by (intro conjI reports_seqP nothrow_rules nothrow_root nothrow_fc_root reports_fc_arg reports_fc returns_rules TrueI)

end
